(* ===== verification/IG_Prelude.thy ===== *)
theory IG_Prelude
  imports Complex_Main "HOL-Library.Char_ord" "HOL-Library.List_Lexorder"
begin

text \<open>
  Shared vocabulary of the development: the exceptions of the Python code as values, the
  validators of its data classes, strings and their prefixes and suffixes, the values a
  dictionary of the code can hold, and the named collections the component theories add to.

  Conventions. A Python \<open>str\<close> is a \<open>string\<close> whose characters are the code points below 256.
  A timezone-aware \<open>datetime\<close> is the \<open>int\<close> of its microseconds since the epoch. A \<open>UUID\<close> is a
  \<open>nat\<close>, its 128-bit value. A Python \<open>float\<close> is the rational number it stands for.
\<close>

named_theorems contract_defs \<open>the validators of the data classes\<close>
named_theorems store_defs \<open>the operations of the durable store\<close>
named_theorems node_defs \<open>the nodes of the workflow graph\<close>
named_theorems adapter_defs \<open>the adapters of the runtime\<close>
named_theorems recovery_defs \<open>the recovery predicates\<close>

section \<open>Exceptions and validators\<close>

type_synonym instant = int
type_synonym uuid = nat

text \<open>
  The exceptions of the modelled code. \<open>ApprovalDenied\<close> carries its message, the durable
  reason and the kernel stage, as the class of \<open>lab/errors.py\<close> does.
\<close>

datatype refusal_stage =
    ARGUMENTS | IDENTITY_BINDING | REPLAY_DIVERGENCE | AUTHORIZATION
  | EVIDENCE | FIXTURE_ABSENT | PRECONDITION

datatype py_exn =
    ValueError string
  | ValueErrorOf string "string list"
  | TypeError string
  | KeyError string
  | PermissionDenied string
  | ApprovalDenied string "string option" "refusal_stage option"
  | ApprovalConflict string
  | ResponseLost string
  | ProposalError string
  | IntegrityError string
  | RuntimeError string
  | UnsupportedOperation string

type_synonym 'a result = "py_exn + 'a"

definition ret :: "'a \<Rightarrow> 'a result" where
  "ret x = Inr x"

definition raise_exn :: "py_exn \<Rightarrow> 'a result" where
  "raise_exn e = Inl e"

definition bind_res :: "'a result \<Rightarrow> ('a \<Rightarrow> 'b result) \<Rightarrow> 'b result" where
  "bind_res m f = (case m of Inl e \<Rightarrow> Inl e | Inr x \<Rightarrow> f x)"

lemma bind_res_Inl [simp]: "bind_res (Inl e) f = Inl e"
  by (simp add: bind_res_def)

lemma bind_res_Inr [simp]: "bind_res (Inr x) f = f x"
  by (simp add: bind_res_def)

lemma ret_eq [simp]: "ret x = Inr x"
  by (simp add: ret_def)

lemma raise_exn_eq [simp]: "raise_exn e = Inl e"
  by (simp add: raise_exn_def)

lemma bind_res_eq_Inr: "bind_res m f = Inr y \<longleftrightarrow> (\<exists>x. m = Inr x \<and> f x = Inr y)"
  by (cases m) auto

lemma bind_res_eq_Inl: "bind_res m f = Inl e \<longleftrightarrow> m = Inl e \<or> (\<exists>x. m = Inr x \<and> f x = Inl e)"
  by (cases m) auto

text \<open>
  A validator of a data class is a sequence of checks, each raising its error when its
  condition holds; the first that holds is the one raised.
\<close>

fun first_failure :: "(bool \<times> py_exn) list \<Rightarrow> py_exn option" where
  "first_failure [] = None"
| "first_failure ((bad, e) # checks) = (if bad then Some e else first_failure checks)"

definition validated :: "(bool \<times> py_exn) list \<Rightarrow> 'a \<Rightarrow> 'a result" where
  "validated checks x = (case first_failure checks of None \<Rightarrow> Inr x | Some e \<Rightarrow> Inl e)"

lemma first_failure_None: "first_failure checks = None \<longleftrightarrow> (\<forall>c \<in> set checks. \<not> fst c)"
proof (induction checks)
  case (Cons c checks)
  then show ?case by (cases c) simp
qed simp

lemma first_failure_append:
  "first_failure (xs @ ys) = (case first_failure xs of None \<Rightarrow> first_failure ys | Some e \<Rightarrow> Some e)"
proof (induction xs)
  case (Cons c xs)
  then show ?case by (cases c) simp
qed simp

lemma first_failure_Some: "first_failure checks = Some e \<Longrightarrow> (True, e) \<in> set checks"
proof (induction checks)
  case (Cons c checks)
  show ?case
  proof (cases "fst c")
    case True
    with Cons.prems show ?thesis by (cases c) simp
  next
    case False
    with Cons show ?thesis by (cases c) simp
  qed
qed simp

lemma validated_Inr: "validated checks x = Inr y \<longleftrightarrow> y = x \<and> first_failure checks = None"
  by (auto simp: validated_def split: option.splits)

section \<open>Strings\<close>

fun starts_with :: "string \<Rightarrow> string \<Rightarrow> bool" where
  "starts_with [] s = True"
| "starts_with (p # ps) [] = False"
| "starts_with (p # ps) (c # cs) = (p = c \<and> starts_with ps cs)"

definition ends_with :: "string \<Rightarrow> string \<Rightarrow> bool" where
  "ends_with suf s = starts_with (rev suf) (rev s)"

definition removesuffix :: "string \<Rightarrow> string \<Rightarrow> string" where
  "removesuffix suf s = (if ends_with suf s then take (length s - length suf) s else s)"

lemma starts_with_iff: "starts_with p s \<longleftrightarrow> (\<exists>r. s = p @ r)"
  by (induction p s rule: starts_with.induct) auto

lemma starts_with_append [simp]: "starts_with p (p @ s)"
  by (auto simp: starts_with_iff)

lemma ends_with_iff: "ends_with suf s \<longleftrightarrow> (\<exists>r. s = r @ suf)"
  unfolding ends_with_def starts_with_iff
  by (metis rev_append rev_rev_ident)

lemma removesuffix_append [simp]: "removesuffix suf (s @ suf) = s"
  by (simp add: removesuffix_def ends_with_iff)

definition code_point :: "char \<Rightarrow> nat" where
  "code_point c = of_char c"

definition is_lower :: "char \<Rightarrow> bool" where
  "is_lower c = (97 \<le> code_point c \<and> code_point c \<le> 122)"

definition is_upper :: "char \<Rightarrow> bool" where
  "is_upper c = (65 \<le> code_point c \<and> code_point c \<le> 90)"

definition is_digit :: "char \<Rightarrow> bool" where
  "is_digit c = (48 \<le> code_point c \<and> code_point c \<le> 57)"

definition is_alnum :: "char \<Rightarrow> bool" where
  "is_alnum c = (is_lower c \<or> is_upper c \<or> is_digit c)"

lemmas char_class_defs = is_lower_def is_upper_def is_digit_def is_alnum_def code_point_def

text \<open>The pattern \<open>^[a-f0-9]{64}$\<close> of every digest field.\<close>

definition is_hex64 :: "string \<Rightarrow> bool" where
  "is_hex64 s = (length s = 64 \<and>
     list_all (\<lambda>c. is_digit c \<or> (97 \<le> code_point c \<and> code_point c \<le> 102)) s)"

text \<open>\<open>sorted(set(xs))\<close> and \<open>separator.join(xs)\<close>.\<close>

definition sorted_set :: "'a::linorder list \<Rightarrow> 'a list" where
  "sorted_set xs = sort (remdups xs)"

lemma sorted_set_simps [simp]:
  "set (sorted_set xs) = set xs" "sorted (sorted_set xs)" "distinct (sorted_set xs)"
  by (simp_all add: sorted_set_def)

lemma sorted_set_eq_Nil [simp]: "sorted_set xs = [] \<longleftrightarrow> xs = []"
  by (metis set_empty sorted_set_simps(1))

lemma sorted_set_cong: "set xs = set ys \<Longrightarrow> sorted_set xs = sorted_set ys"
  by (metis sorted_distinct_set_unique sorted_set_simps)

lemma sorted_set_id: "sorted xs \<Longrightarrow> distinct xs \<Longrightarrow> sorted_set xs = xs"
  by (simp add: sorted_set_def distinct_remdups_id sort_key_id_if_sorted)

fun join :: "string \<Rightarrow> string list \<Rightarrow> string" where
  "join sep [] = []"
| "join sep [x] = x"
| "join sep (x # y # xs) = x @ sep @ join sep (y # xs)"

text \<open>The decimal notation of a number, as \<open>str(n)\<close> prints it.\<close>

definition digit_char :: "nat \<Rightarrow> char" where
  "digit_char d = char_of (48 + d)"

fun dec_nat :: "nat \<Rightarrow> string" where
  "dec_nat n = (if n < 10 then [digit_char n] else dec_nat (n div 10) @ [digit_char (n mod 10)])"

declare dec_nat.simps [simp del]

definition dec_int :: "int \<Rightarrow> string" where
  "dec_int i = (if i < 0 then CHR ''-'' # dec_nat (nat (- i)) else dec_nat (nat i))"

section \<open>Dictionary values\<close>

text \<open>
  The values the code keeps in dictionaries, rows and result payloads. \<open>PList\<close> is a list,
  \<open>PTuple\<close> a tuple, \<open>PDict\<close> a dictionary in insertion order.
\<close>

datatype py =
    PNone
  | PBool bool
  | PInt int
  | PFloat rat
  | PStr string
  | PTime instant
  | PUuid uuid
  | PList "py list"
  | PTuple "py list"
  | PDict "(string \<times> py) list"

text \<open>\<open>d.get(key)\<close> and \<open>d.get(key, default)\<close>; a dictionary has each key once.\<close>

definition dict_get :: "(string \<times> 'v) list \<Rightarrow> string \<Rightarrow> 'v option" where
  "dict_get d k = map_of d k"

text \<open>
  Python's \<open>==\<close> on these values. A \<open>bool\<close> is an \<open>int\<close>, and numbers compare by value;
  dictionaries compare as mappings; a list never equals a tuple.
\<close>

fun py_num :: "py \<Rightarrow> rat option" where
  "py_num (PBool b) = Some (if b then 1 else 0)"
| "py_num (PInt i) = Some (of_int i)"
| "py_num (PFloat r) = Some r"
| "py_num _ = None"

definition num_eq :: "rat \<Rightarrow> py \<Rightarrow> bool" where
  "num_eq r v = (py_num v = Some r)"

fun py_eq :: "py \<Rightarrow> py \<Rightarrow> bool"
  and py_eq_list :: "py list \<Rightarrow> py list \<Rightarrow> bool"
  and py_eq_sub :: "(string \<times> py) list \<Rightarrow> (string \<times> py) list \<Rightarrow> bool" where
  "py_eq PNone v = (v = PNone)"
| "py_eq (PBool b) v = num_eq (if b then 1 else 0) v"
| "py_eq (PInt i) v = num_eq (of_int i) v"
| "py_eq (PFloat r) v = num_eq r v"
| "py_eq (PStr s) v = (v = PStr s)"
| "py_eq (PTime t) v = (v = PTime t)"
| "py_eq (PUuid u) v = (v = PUuid u)"
| "py_eq (PList xs) v = (case v of PList ys \<Rightarrow> py_eq_list xs ys | _ \<Rightarrow> False)"
| "py_eq (PTuple xs) v = (case v of PTuple ys \<Rightarrow> py_eq_list xs ys | _ \<Rightarrow> False)"
| "py_eq (PDict d) v = (case v of PDict e \<Rightarrow> length d = length e \<and> py_eq_sub d e | _ \<Rightarrow> False)"
| "py_eq_list [] ys = (ys = [])"
| "py_eq_list (x # xs) ys = (case ys of [] \<Rightarrow> False | y # ys' \<Rightarrow> py_eq x y \<and> py_eq_list xs ys')"
| "py_eq_sub [] e = True"
| "py_eq_sub ((k, x) # d) e =
     ((case map_of e k of None \<Rightarrow> False | Some y \<Rightarrow> py_eq x y) \<and> py_eq_sub d e)"

text \<open>The class of a value, as \<open>type(x)\<close> compares it.\<close>

datatype py_type = TNone | TBool | TInt | TFloat | TStr | TTime | TUuid | TList | TTuple | TDict

fun type_of :: "py \<Rightarrow> py_type" where
  "type_of PNone = TNone"
| "type_of (PBool _) = TBool"
| "type_of (PInt _) = TInt"
| "type_of (PFloat _) = TFloat"
| "type_of (PStr _) = TStr"
| "type_of (PTime _) = TTime"
| "type_of (PUuid _) = TUuid"
| "type_of (PList _) = TList"
| "type_of (PTuple _) = TTuple"
| "type_of (PDict _) = TDict"

text \<open>The truth value of a value, as \<open>bool(x)\<close> and \<open>if x\<close> read it.\<close>

fun truthy :: "py \<Rightarrow> bool" where
  "truthy PNone = False"
| "truthy (PBool b) = b"
| "truthy (PInt i) = (i \<noteq> 0)"
| "truthy (PFloat r) = (r \<noteq> 0)"
| "truthy (PStr s) = (s \<noteq> [])"
| "truthy (PTime _) = True"
| "truthy (PUuid _) = True"
| "truthy (PList xs) = (xs \<noteq> [])"
| "truthy (PTuple xs) = (xs \<noteq> [])"
| "truthy (PDict d) = (d \<noteq> [])"

lemma py_eq_str_right [simp]: "py_eq v (PStr s) \<longleftrightarrow> v = PStr s"
  by (cases v) (auto simp: num_eq_def)

lemma py_eq_none_right [simp]: "py_eq v PNone \<longleftrightarrow> v = PNone"
  by (cases v) (auto simp: num_eq_def)

lemma py_eq_str_list: "py_eq_list (map PStr xs) (map PStr ys) \<longleftrightarrow> xs = ys"
proof (induction xs arbitrary: ys)
  case (Cons x xs)
  then show ?case by (cases ys) auto
qed auto

end
