(* ===== verification/Canonical_Json.thy ===== *)
theory Canonical_Json
  imports IG_Prelude
begin

text \<open>
  The canonical JSON text of \<open>json.dumps(body, sort_keys=True, separators=(",", ":"),
  ensure_ascii=True)\<close>, which every digest of the repository hashes. \<open>json_norm\<close> orders the keys
  of each object, \<open>json_emit\<close> writes the text, \<open>dumps\<close> is their composition. The main lemma,
  \<open>dumps_inject\<close>, says that two values with the same text are the same value up to the order
  in which their keys were inserted.
\<close>

section \<open>Values and their text\<close>

datatype json =
    JNull
  | JBool bool
  | JInt int
  | JStr string
  | JArr "json list"
  | JObj "(string \<times> json) list"

text \<open>The escapes of \<open>ensure_ascii\<close>: \<open>json.encoder.ESCAPE_DCT\<close> and \<open>\u00xx\<close> for the rest.\<close>

definition hex_digit :: "nat \<Rightarrow> char" where
  "hex_digit d = (if d < 10 then char_of (48 + d) else char_of (87 + d))"

definition plain_char :: "char \<Rightarrow> bool" where
  "plain_char c = (32 \<le> code_point c \<and> code_point c \<le> 126 \<and> c \<noteq> CHR 0x22 \<and> c \<noteq> CHR 0x5C)"

definition esc_char :: "char \<Rightarrow> string" where
  "esc_char c =
     (if plain_char c then [c]
      else if c = CHR 0x22 then [CHR 0x5C, CHR 0x22]
      else if c = CHR 0x5C then [CHR 0x5C, CHR 0x5C]
      else if c = CHR 0x0A then [CHR 0x5C, CHR ''n'']
      else if c = CHR 0x0D then [CHR 0x5C, CHR ''r'']
      else if c = CHR 0x09 then [CHR 0x5C, CHR ''t'']
      else if c = CHR 0x0C then [CHR 0x5C, CHR ''f'']
      else if c = CHR 0x08 then [CHR 0x5C, CHR ''b'']
      else [CHR 0x5C, CHR ''u'', CHR ''0'', CHR ''0'',
            hex_digit (code_point c div 16), hex_digit (code_point c mod 16)])"

definition json_quote :: "string \<Rightarrow> string" where
  "json_quote s = CHR 0x22 # concat (map esc_char s) @ [CHR 0x22]"

fun json_emit :: "json \<Rightarrow> string"
  and json_items :: "json list \<Rightarrow> string"
  and json_members :: "(string \<times> json) list \<Rightarrow> string" where
  "json_emit JNull = ''null''"
| "json_emit (JBool b) = (if b then ''true'' else ''false'')"
| "json_emit (JInt i) = dec_int i"
| "json_emit (JStr s) = json_quote s"
| "json_emit (JArr xs) = CHR ''['' # json_items xs @ '']''"
| "json_emit (JObj ms) = CHR ''{'' # json_members ms @ ''}''"
| "json_items [] = []"
| "json_items (x # xs) = json_emit x @ (if xs = [] then [] else CHR '','' # json_items xs)"
| "json_members [] = []"
| "json_members ((k, x) # ms) =
     json_quote k @ CHR '':'' # json_emit x @ (if ms = [] then [] else CHR '','' # json_members ms)"

fun json_norm :: "json \<Rightarrow> json" where
  "json_norm (JArr xs) = JArr (map json_norm xs)"
| "json_norm (JObj ms) = JObj (sort_key fst (map (\<lambda>(k, x). (k, json_norm x)) ms))"
| "json_norm j = j"

definition dumps :: "json \<Rightarrow> string" where
  "dumps j = json_emit (json_norm j)"

section \<open>Decimal numbers\<close>

lemma code_point_char_of: "n < 256 \<Longrightarrow> code_point (char_of n) = n"
  by (simp add: code_point_def)

lemma char_of_code_point [simp]: "char_of (code_point c) = c"
  by (simp add: code_point_def)

lemma code_point_less: "code_point c < 256"
  by (simp add: code_point_def)

lemma code_point_inject: "code_point c = code_point d \<longleftrightarrow> c = d"
  by (metis char_of_code_point)

lemma is_digit_digit_char: "d < 10 \<Longrightarrow> is_digit (digit_char d)"
  by (simp add: is_digit_def digit_char_def code_point_char_of)

fun undec :: "nat \<Rightarrow> string \<Rightarrow> nat" where
  "undec n [] = n"
| "undec n (c # cs) = undec (10 * n + (code_point c - 48)) cs"

lemma undec_append: "undec n (xs @ ys) = undec (undec n xs) ys"
  by (induction n xs rule: undec.induct) auto

lemma undec_dec_nat: "undec 0 (dec_nat n) = n"
proof (induction n rule: dec_nat.induct)
  case (1 n)
  show ?case
  proof (cases "n < 10")
    case True
    then show ?thesis
      by (subst dec_nat.simps) (simp add: digit_char_def code_point_char_of)
  next
    case False
    then show ?thesis
      using 1 by (subst dec_nat.simps) (simp add: undec_append digit_char_def code_point_char_of)
  qed
qed

lemma dec_nat_inject: "dec_nat m = dec_nat n \<longleftrightarrow> m = n"
  by (metis undec_dec_nat)

lemma dec_nat_digits: "c \<in> set (dec_nat n) \<Longrightarrow> is_digit c"
proof (induction n rule: dec_nat.induct)
  case (1 n)
  then show ?case
    by (subst (asm) (2) dec_nat.simps) (auto simp: is_digit_digit_char split: if_splits)
qed

lemma dec_nat_not_Nil: "dec_nat n \<noteq> []"
  by (subst dec_nat.simps) simp

text \<open>What may follow a value: nothing, or one of the separators.\<close>

definition json_stop :: "string \<Rightarrow> bool" where
  "json_stop r = (r = [] \<or> hd r \<in> {CHR '','', CHR '']'', CHR ''}''})"

lemma json_stop_simps [simp]:
  "json_stop []" "json_stop (CHR '','' # r)" "json_stop (CHR '']'' # r)" "json_stop (CHR ''}'' # r)"
  by (simp_all add: json_stop_def)

lemma digits_append_inject:
  assumes "\<forall>c \<in> set xs. is_digit c" "\<forall>c \<in> set ys. is_digit c" "json_stop r" "json_stop s"
    and "xs @ r = ys @ s"
  shows "xs = ys \<and> r = s"
proof -
  have nd: "json_stop t \<Longrightarrow> takeWhile is_digit t = []" for t
    by (cases t) (auto simp: json_stop_def is_digit_def code_point_def)
  have "takeWhile is_digit (xs @ r) = xs"
    using assms(1) nd[OF assms(3)] by simp
  moreover have "takeWhile is_digit (ys @ s) = ys"
    using assms(2) nd[OF assms(4)] by simp
  ultimately have "xs = ys" using assms(5) by simp
  then show ?thesis using assms(5) by simp
qed

lemma not_digit_minus: "\<not> is_digit CHR ''-''"
  by (simp add: is_digit_def code_point_def)

lemma dec_int_append_inject:
  assumes "dec_int i @ r = dec_int j @ s" "json_stop r" "json_stop s"
  shows "i = j \<and> r = s"
proof -
  have hd_ne: "hd (dec_nat n @ t) \<noteq> CHR ''-''" for n t
    using dec_nat_digits[of "hd (dec_nat n)" n] dec_nat_not_Nil[of n] not_digit_minus
    by (metis hd_append2 hd_in_set)
  have same: "dec_nat m @ r = dec_nat n @ s \<Longrightarrow> m = n \<and> r = s" for m n
    using digits_append_inject[of "dec_nat m" "dec_nat n" r s] dec_nat_digits assms(2,3)
      dec_nat_inject by blast
  show ?thesis
  proof (cases "i < 0")
    case True
    note i = True
    show ?thesis
    proof (cases "j < 0")
      case True
      with i assms(1) same[of "nat (- i)" "nat (- j)"] show ?thesis
        by (auto simp: dec_int_def)
    next
      case False
      with i assms(1) have "CHR ''-'' # dec_nat (nat (- i)) @ r = dec_nat (nat j) @ s"
        by (simp add: dec_int_def)
      then show ?thesis using hd_ne[of "nat j" s] by (metis list.sel(1))
    qed
  next
    case False
    note i = False
    show ?thesis
    proof (cases "j < 0")
      case True
      with i assms(1) have "dec_nat (nat i) @ r = CHR ''-'' # dec_nat (nat (- j)) @ s"
        by (simp add: dec_int_def)
      then show ?thesis using hd_ne[of "nat i" r] by (metis list.sel(1))
    next
      case False
      with i assms(1) same[of "nat i" "nat j"] show ?thesis
        by (auto simp: dec_int_def)
    qed
  qed
qed

section \<open>Quoted strings\<close>

definition hex_val :: "char \<Rightarrow> nat" where
  "hex_val c = (if code_point c < 58 then code_point c - 48 else code_point c - 87)"

lemma hex_val_digit: "d < 16 \<Longrightarrow> hex_val (hex_digit d) = d"
  by (auto simp: hex_val_def hex_digit_def code_point_char_of)

definition unesc :: "string \<Rightarrow> char \<times> string" where
  "unesc s =
     (case s of
        c # d # r \<Rightarrow>
          if c \<noteq> CHR 0x5C then (c, d # r)
          else if d = CHR ''u'' then (char_of (16 * hex_val (r ! 2) + hex_val (r ! 3)), drop 4 r)
          else ((if d = CHR ''n'' then CHR 0x0A else if d = CHR ''r'' then CHR 0x0D
                 else if d = CHR ''t'' then CHR 0x09 else if d = CHR ''f'' then CHR 0x0C
                 else if d = CHR ''b'' then CHR 0x08 else d), r)
      | _ \<Rightarrow> (hd s, []))"

lemma unesc_esc: "unesc (esc_char c @ r) = (c, r)"
proof (cases "plain_char c")
  case True
  then show ?thesis
    by (cases r) (auto simp: esc_char_def unesc_def plain_char_def)
next
  case False
  have "char_of (16 * hex_val (hex_digit (code_point c div 16)) +
          hex_val (hex_digit (code_point c mod 16))) = c"
  proof -
    have "code_point c div 16 < 16" "code_point c mod 16 < 16"
      using code_point_less[of c] by simp_all
    then show ?thesis by (simp add: hex_val_digit)
  qed
  with False show ?thesis
    by (simp add: esc_char_def unesc_def numeral_2_eq_2 numeral_3_eq_3)
qed

lemma esc_not_quote: "hd (esc_char c) \<noteq> CHR 0x22" "esc_char c \<noteq> []"
  by (auto simp: esc_char_def plain_char_def)

lemma esc_append_inject: "esc_char c @ r = esc_char d @ s \<longleftrightarrow> c = d \<and> r = s"
  by (metis Pair_inject unesc_esc)

lemma esc_hd_not_quote: "esc_char c @ r \<noteq> CHR 0x22 # s"
  by (metis esc_not_quote hd_append2 list.sel(1))

lemma esc_string_inject:
  "concat (map esc_char xs) @ CHR 0x22 # r = concat (map esc_char ys) @ CHR 0x22 # s \<longleftrightarrow> xs = ys \<and> r = s"
proof (induction xs arbitrary: ys)
  case Nil
  show ?case
  proof (cases ys)
    case (Cons y ys')
    then show ?thesis by (simp add: esc_hd_not_quote[symmetric])
  qed simp
next
  case (Cons x xs)
  show ?case
  proof (cases ys)
    case Nil
    then show ?thesis using esc_hd_not_quote[of x] by simp
  next
    case (Cons y ys')
    then show ?thesis by (simp add: esc_append_inject Cons.IH)
  qed
qed

lemma json_quote_inject [simp]: "json_quote xs @ r = json_quote ys @ s \<longleftrightarrow> xs = ys \<and> r = s"
  by (simp add: json_quote_def esc_string_inject)

section \<open>The text determines the value\<close>

lemma dec_int_hd: "\<exists>c cs. dec_int i = c # cs \<and> (is_digit c \<or> c = CHR ''-'')"
proof (cases "i < 0")
  case False
  obtain c cs where "dec_nat (nat i) = c # cs"
    using dec_nat_not_Nil[of "nat i"] by (cases "dec_nat (nat i)") auto
  with False show ?thesis
    using dec_nat_digits[of c "nat i"] by (simp add: dec_int_def)
qed (simp add: dec_int_def)

text \<open>The first character tells the constructor.\<close>

definition json_head :: "json \<Rightarrow> nat" where
  "json_head j = (case j of JNull \<Rightarrow> 0 | JBool b \<Rightarrow> if b then 1 else 2 | JInt _ \<Rightarrow> 3 | JStr _ \<Rightarrow> 4
     | JArr _ \<Rightarrow> 5 | JObj _ \<Rightarrow> 6)"

definition char_head :: "char \<Rightarrow> nat" where
  "char_head c = (if c = CHR ''n'' then 0 else if c = CHR ''t'' then 1 else if c = CHR ''f'' then 2
     else if c = CHR 0x22 then 4 else if c = CHR ''['' then 5 else if c = CHR ''{'' then 6
     else if is_digit c \<or> c = CHR ''-'' then 3 else 7)"

lemma json_emit_head: "\<exists>c cs. json_emit j = c # cs \<and> char_head c = json_head j"
proof (cases j)
  case (JInt i)
  obtain c cs where c: "dec_int i = c # cs" "is_digit c \<or> c = CHR ''-''"
    using dec_int_hd by blast
  then have "char_head c = 3"
    by (auto simp: char_head_def is_digit_def code_point_def)
  with c(1) JInt show ?thesis by (simp add: json_head_def)
qed (auto simp: json_head_def char_head_def json_quote_def)

lemma json_head_eq:
  assumes "json_emit j @ r = json_emit k @ s"
  shows "json_head j = json_head k"
proof -
  obtain c cs where "json_emit j = c # cs" "char_head c = json_head j"
    using json_emit_head[of j] by blast
  moreover obtain d ds where "json_emit k = d # ds" "char_head d = json_head k"
    using json_emit_head[of k] by blast
  ultimately show ?thesis using assms by simp
qed

lemma json_head_cases:
  assumes "json_head j = json_head k"
  shows "(j = JNull \<and> k = JNull) \<or> (\<exists>b. j = JBool b \<and> k = JBool b) \<or> (\<exists>x y. j = JInt x \<and> k = JInt y) \<or>
    (\<exists>x y. j = JStr x \<and> k = JStr y) \<or> (\<exists>x y. j = JArr x \<and> k = JArr y) \<or> (\<exists>x y. j = JObj x \<and> k = JObj y)"
  using assms by (cases j; cases k) (auto simp: json_head_def split: if_splits)

lemma char_head_bracket: "char_head CHR '']'' = 7" "char_head CHR ''}'' = 7"
  by (simp_all add: char_head_def is_digit_def code_point_def)

lemma json_emit_not_bracket: "json_emit j @ r \<noteq> CHR '']'' # s"
  using json_emit_head[of j] char_head_bracket by (auto simp: json_head_def split: json.splits if_splits)

lemma json_emit_inject:
  "json_emit j @ r = json_emit k @ s \<Longrightarrow> json_stop r \<Longrightarrow> json_stop s \<Longrightarrow> j = k \<and> r = s"
  "json_items xs @ CHR '']'' # r = json_items ys @ CHR '']'' # s \<Longrightarrow> xs = ys \<and> r = s"
  "json_members ms @ CHR ''}'' # r = json_members ns @ CHR ''}'' # s \<Longrightarrow> ms = ns \<and> r = s"
proof (induction j and xs and ms arbitrary: k r s and ys r s and ns r s
    rule: json_emit_json_items_json_members.induct)
  case 1
  with json_head_cases[OF json_head_eq[OF 1(1)]] show ?case by auto
next
  case (2 b)
  with json_head_cases[OF json_head_eq[OF 2(1)]] show ?case by auto
next
  case (4 t)
  with json_head_cases[OF json_head_eq[OF 4(1)]] show ?case by auto
next
  case (3 i)
  with json_head_cases[OF json_head_eq[OF 3(1)]] show ?case
    using dec_int_append_inject by auto
next
  case (5 xs)
  from json_head_cases[OF json_head_eq[OF 5(2)]] obtain ys where k: "k = JArr ys" by auto
  with 5(2) have "json_items xs @ CHR '']'' # r = json_items ys @ CHR '']'' # s" by simp
  from 5(1)[OF this] k show ?case by simp
next
  case (6 ms)
  from json_head_cases[OF json_head_eq[OF 6(2)]] obtain ns where k: "k = JObj ns" by auto
  with 6(2) have "json_members ms @ CHR ''}'' # r = json_members ns @ CHR ''}'' # s" by simp
  from 6(1)[OF this] k show ?case by simp
next
  case 7
  then show ?case
    by (cases ys) (auto simp: json_emit_not_bracket[symmetric])
next
  case (8 x xs)
  show ?case
  proof (cases ys)
    case Nil
    with 8(3) show ?thesis by (simp add: json_emit_not_bracket)
  next
    case (Cons y ys')
    let ?r = "(if xs = [] then [] else CHR '','' # json_items xs) @ CHR '']'' # r"
    let ?s = "(if ys' = [] then [] else CHR '','' # json_items ys') @ CHR '']'' # s"
    have "x = y \<and> ?r = ?s"
      using 8(1)[of ?r y ?s] 8(3) Cons by simp
    then show ?thesis
      using 8(2)[of r ys' s] Cons by (auto split: if_splits)
  qed
next
  case 9
  then show ?case
    by (cases ns) (auto simp: json_quote_def)
next
  case (10 k x ms)
  show ?case
  proof (cases ns)
    case Nil
    with 10(3) show ?thesis by (simp add: json_quote_def)
  next
    case (Cons n ns')
    obtain l y where n: "n = (l, y)" by (cases n)
    let ?r = "(if ms = [] then [] else CHR '','' # json_members ms) @ CHR ''}'' # r"
    let ?s = "(if ns' = [] then [] else CHR '','' # json_members ns') @ CHR ''}'' # s"
    have kl: "k = l" and "json_emit x @ ?r = json_emit y @ ?s"
      using 10(3) Cons n by simp_all
    then have "x = y \<and> ?r = ?s" using 10(1)[of ?r y ?s] by simp
    then show ?thesis
      using 10(2)[of r ns' s] Cons n kl by (auto split: if_splits)
  qed
qed

lemma dumps_inject: "dumps j = dumps k \<longleftrightarrow> json_norm j = json_norm k"
  unfolding dumps_def using json_emit_inject(1)[of "json_norm j" "[]" "json_norm k" "[]"] by auto

end
