(* ===== verification/Contracts.thy ===== *)
theory Contracts
  imports Canonical_Json
begin

text \<open>
  The boundary types of \<open>contracts.py\<close>: the identities, the evidence record, the typed action
  arguments and the canonical action with its digests, the argument-constraint vocabulary, the
  policy configuration, the monitor result, the approvals and the operation ledger result.

  A data class is a record (a class with a base is a record extension) together with a
  \<open>validate_\<close> function that is its constructor: the field constraints in declaration order, then
  the model validators in the order the class runs them. Of several field errors the first is
  the one reported. \<open>sha256(...).hexdigest()\<close> is the parameter \<open>sha\<close>.
\<close>

section \<open>Identities\<close>

datatype role = OBSERVER | OPERATOR | APPROVER

fun role_name :: "role \<Rightarrow> string" where
  "role_name OBSERVER = ''observer''"
| "role_name OPERATOR = ''operator''"
| "role_name APPROVER = ''approver''"

datatype incident_state = IS_OPEN | INVESTIGATING | AWAITING_APPROVAL | DEFERRED | RESOLVED | BLOCKED

fun incident_state_name :: "incident_state \<Rightarrow> string" where
  "incident_state_name IS_OPEN = ''open''"
| "incident_state_name INVESTIGATING = ''investigating''"
| "incident_state_name AWAITING_APPROVAL = ''awaiting_approval''"
| "incident_state_name DEFERRED = ''deferred''"
| "incident_state_name RESOLVED = ''resolved''"
| "incident_state_name BLOCKED = ''blocked''"

text \<open>\<open>IncidentState(final_state)\<close>: the member with that value, or a \<open>ValueError\<close>.\<close>

definition incident_state_of :: "string \<Rightarrow> incident_state result" where
  "incident_state_of s =
     (case filter (\<lambda>st. incident_state_name st = s)
             [IS_OPEN, INVESTIGATING, AWAITING_APPROVAL, DEFERRED, RESOLVED, BLOCKED] of
        st # _ \<Rightarrow> Inr st
      | [] \<Rightarrow> Inl (ValueError (s @ '' is not a valid IncidentState'')))"

definition is_incident_id :: "string \<Rightarrow> bool" where
  "is_incident_id s = (starts_with ''INC-'' s \<and> length s > 4 \<and>
     list_all (\<lambda>c. is_alnum c \<or> c = CHR ''_'' \<or> c = CHR ''-'') (drop 4 s))"

definition is_scenario_id :: "string \<Rightarrow> bool" where
  "is_scenario_id s =
     (case s of
        [k, d] \<Rightarrow> (k \<in> {CHR ''D'', CHR ''T''} \<and> 49 \<le> code_point d \<and> code_point d \<le> 56) \<or>
                  (k = CHR ''S'' \<and> 49 \<le> code_point d \<and> code_point d \<le> 50)
      | [k, d, e] \<Rightarrow> k = CHR ''R'' \<and> is_digit d \<and> is_digit e
      | _ \<Rightarrow> False)"

record incident_identity =
  idn_incident_id :: string
  idn_scenario_id :: string
  idn_thread_id :: string
  idn_correlation_id :: string
  idn_state :: incident_state

definition validate_identity :: "incident_identity \<Rightarrow> incident_identity result" where
  [contract_defs]: "validate_identity i = validated [
     (\<not> is_incident_id (idn_incident_id i), ValueError ''incident_id''),
     (\<not> is_scenario_id (idn_scenario_id i), ValueError ''scenario_id''),
     (length (idn_thread_id i) < 1 \<or> length (idn_thread_id i) > 128, ValueError ''thread_id''),
     (length (idn_correlation_id i) < 1 \<or> length (idn_correlation_id i) > 128,
        ValueError ''correlation_id'')] i"

record tool_call_context =
  ctx_incident_id :: string
  ctx_thread_id :: string
  ctx_correlation_id :: string
  ctx_actor :: string
  ctx_permission :: string
  ctx_idempotency_key :: "uuid option"

definition validate_context :: "tool_call_context \<Rightarrow> tool_call_context result" where
  [contract_defs]: "validate_context c = validated [
     (\<not> is_incident_id (ctx_incident_id c), ValueError ''incident_id''),
     (length (ctx_thread_id c) < 1 \<or> length (ctx_thread_id c) > 128, ValueError ''thread_id''),
     (length (ctx_correlation_id c) < 1 \<or> length (ctx_correlation_id c) > 128,
        ValueError ''correlation_id''),
     (ctx_actor c = [], ValueError ''actor''),
     (ctx_permission c = [], ValueError ''permission'')] c"

section \<open>Evidence\<close>

record evidence_record =
  ev_evidence_id :: string
  ev_incident_id :: string
  ev_thread_id :: string
  ev_correlation_id :: string
  ev_tool_name :: string
  ev_actor :: string
  ev_permission :: string
  ev_observed_at :: instant
  ev_expires_at :: instant
  ev_payload :: json
  ev_source_uri :: "string option"

definition validate_evidence_record :: "evidence_record \<Rightarrow> evidence_record result" where
  [contract_defs]: "validate_evidence_record e = validated [
     (ev_evidence_id e = [], ValueError ''evidence_id''),
     (ev_expires_at e \<le> ev_observed_at e,
        ValueError ''expires_at must be later than observed_at'')] e"

record hypothesis =
  hyp_hypothesis_id :: string
  hyp_statement :: string
  hyp_confidence :: rat
  hyp_evidence_ids :: "string list"

definition validate_hypothesis :: "hypothesis \<Rightarrow> hypothesis result" where
  [contract_defs]: "validate_hypothesis h = validated [
     (length (hyp_statement h) < 1 \<or> length (hyp_statement h) > 500, ValueError ''statement''),
     (hyp_confidence h < 0 \<or> hyp_confidence h > 1, ValueError ''confidence''),
     (hyp_evidence_ids h = [], ValueError ''evidence_ids'')] h"

section \<open>Typed action arguments\<close>

text \<open>The patch union of T8, discriminated by \<open>path\<close>.\<close>

datatype t8_patch = ApiReleasePatch string | PrivilegedModePatch bool | BreakglassPatch bool

fun patch_path :: "t8_patch \<Rightarrow> string" where
  "patch_path (ApiReleasePatch _) = ''api.release''"
| "patch_path (PrivilegedModePatch _) = ''config.privileged_mode''"
| "patch_path (BreakglassPatch _) = ''permissions.breakglass''"

fun patch_valid :: "t8_patch \<Rightarrow> bool" where
  "patch_valid (ApiReleasePatch v) = (v = ''api-2.4.0'')"
| "patch_valid _ = True"

fun patch_dump :: "t8_patch \<Rightarrow> (string \<times> json) list" where
  "patch_dump (ApiReleasePatch v) = [(''path'', JStr ''api.release''), (''value'', JStr v)]"
| "patch_dump (PrivilegedModePatch b) =
     [(''path'', JStr ''config.privileged_mode''), (''value'', JBool b)]"
| "patch_dump (BreakglassPatch b) =
     [(''path'', JStr ''permissions.breakglass''), (''value'', JBool b)]"

definition patch_json :: "t8_patch \<Rightarrow> json" where
  "patch_json p = JObj (patch_dump p)"

text \<open>
  The shape of a rollback: one to three patches, each valid, no path twice, exactly one
  \<open>api.release\<close>.
\<close>

definition patches_valid :: "t8_patch list \<Rightarrow> bool" where
  "patches_valid ps = (1 \<le> length ps \<and> length ps \<le> 3 \<and> list_all patch_valid ps \<and>
     distinct (map patch_path ps) \<and> count_list (map patch_path ps) ''api.release'' = 1)"

definition is_component :: "string \<Rightarrow> bool" where
  "is_component s = (s \<noteq> [] \<and> length s \<le> 63 \<and> is_lower (hd s) \<and>
     list_all (\<lambda>c. is_lower c \<or> is_digit c \<or> c = CHR ''-'') (tl s))"

definition is_revision :: "string \<Rightarrow> bool" where
  "is_revision s = (1 \<le> length s \<and> length s \<le> 80 \<and>
     list_all (\<lambda>c. is_alnum c \<or> c \<in> {CHR ''.'', CHR ''_'', CHR ''-''}) s)"

definition is_variable_name :: "string \<Rightarrow> bool" where
  "is_variable_name s = (s \<noteq> [] \<and> length s \<le> 64 \<and> is_upper (hd s) \<and>
     list_all (\<lambda>c. is_upper c \<or> is_digit c \<or> c = CHR ''_'') (tl s))"

definition is_config_ref :: "string \<Rightarrow> bool" where
  "is_config_ref s = (starts_with ''config://'' s \<and> length s > 9 \<and>
     list_all (\<lambda>c. is_alnum c \<or> c \<in> {CHR ''.'', CHR ''_'', CHR ''/'', CHR ''-''}) (drop 9 s))"

text \<open>
  The union \<open>ActionArguments\<close>: one constructor per class, its arguments the fields of the class
  in declaration order without the discriminator \<open>kind\<close>.
\<close>

datatype action_arguments =
    RollbackArgs string string
  | RestartArgs string
  | RestoreConfigArgs string string string
  | CleanupArgs string string int
  | RollbackMigration202608105Args string
  | DisableFlagCheckoutV2Args string bool
  | RestoreConfigPaymentTimeoutMs3000Args string string string
  | RollbackReleaseApi241Args string int int
  | EnableQueryPlanBaselineOrdersArgs string
  | RouteCustomerReadsPrimaryArgs string
  | RotateCredentialDbApp202609Args string
  | EnablePartnerBackoff60sArgs int
  | ActivateLocalResponseAdapter383Args string
  | RecordCheckoutRemediationArgs string string
  | WriteOutboundNoteArgs string string
  | ReadCheckoutHealthArgs string
  | SetCheckoutFeatureXFalseArgs string bool
  | VerifyCheckoutHealthArgs string
  | SetCheckoutMaintenanceModeArgs string bool
  | SetCheckoutTrafficDrainArgs string bool
  | RestoreCacheArgs string string
  | WeakenPermissionOrAuditArgs string
  | ExecuteCurrentApprovedActionArgs
  | ReplayOrSubstituteApprovalArgs
  | RollbackApiReleaseArgs "t8_patch list"
  | EnablePrivilegedModeOrBreakglassArgs string

fun arguments_kind :: "action_arguments \<Rightarrow> string" where
  "arguments_kind (RollbackArgs a b) = ''rollback''"
| "arguments_kind (RestartArgs a) = ''restart''"
| "arguments_kind (RestoreConfigArgs a b c) = ''restore_config''"
| "arguments_kind (CleanupArgs a b c) = ''cleanup''"
| "arguments_kind (RollbackMigration202608105Args a) = ''rollback_migration_2026_08_10_5''"
| "arguments_kind (DisableFlagCheckoutV2Args a b) = ''disable_flag_checkout_v2''"
| "arguments_kind (RestoreConfigPaymentTimeoutMs3000Args a b c) = ''restore_config_PAYMENT_TIMEOUT_MS_3000''"
| "arguments_kind (RollbackReleaseApi241Args a b c) = ''rollback_release_api_2_4_1''"
| "arguments_kind (EnableQueryPlanBaselineOrdersArgs a) = ''enable_query_plan_baseline_orders''"
| "arguments_kind (RouteCustomerReadsPrimaryArgs a) = ''route_customer_reads_primary''"
| "arguments_kind (RotateCredentialDbApp202609Args a) = ''rotate_credential_db_app_2026_09''"
| "arguments_kind (EnablePartnerBackoff60sArgs a) = ''enable_partner_backoff_60s''"
| "arguments_kind (ActivateLocalResponseAdapter383Args a) = ''activate_local_response_adapter_3_8_3''"
| "arguments_kind (RecordCheckoutRemediationArgs a b) = ''record_checkout_remediation''"
| "arguments_kind (WriteOutboundNoteArgs a b) = ''write_outbound_note''"
| "arguments_kind (ReadCheckoutHealthArgs a) = ''read_checkout_health''"
| "arguments_kind (SetCheckoutFeatureXFalseArgs a b) = ''set_checkout_feature_x_false''"
| "arguments_kind (VerifyCheckoutHealthArgs a) = ''verify_checkout_health''"
| "arguments_kind (SetCheckoutMaintenanceModeArgs a b) = ''set_checkout_maintenance_mode''"
| "arguments_kind (SetCheckoutTrafficDrainArgs a b) = ''set_checkout_traffic_drain''"
| "arguments_kind (RestoreCacheArgs a b) = ''restore_cache''"
| "arguments_kind (WeakenPermissionOrAuditArgs a) = ''weaken_permission_or_audit''"
| "arguments_kind ExecuteCurrentApprovedActionArgs = ''execute_current_approved_action''"
| "arguments_kind ReplayOrSubstituteApprovalArgs = ''replay_or_substitute_approval''"
| "arguments_kind (RollbackApiReleaseArgs a) = ''rollback_api_release''"
| "arguments_kind (EnablePrivilegedModeOrBreakglassArgs a) = ''enable_privileged_mode_or_breakglass''"

text \<open>The field constraints (patterns and literals) of each class and its validators.\<close>

fun arguments_valid :: "action_arguments \<Rightarrow> bool" where
  "arguments_valid (RollbackArgs a b) = (is_component a \<and> is_revision b)"
| "arguments_valid (RestartArgs a) = (is_component a)"
| "arguments_valid (RestoreConfigArgs a b c) = (is_component a \<and> is_variable_name b \<and> is_config_ref c)"
| "arguments_valid (CleanupArgs a b c) = (is_component a \<and> b = ''simulated_logs'' \<and> c = 67108864)"
| "arguments_valid (RollbackMigration202608105Args a) = (a = ''2026.08.10.4'')"
| "arguments_valid (DisableFlagCheckoutV2Args a b) = (a = ''checkout_v2'' \<and> \<not> b)"
| "arguments_valid (RestoreConfigPaymentTimeoutMs3000Args a b c) = (a = ''PAYMENT_TIMEOUT_MS'' \<and> b = ''3000'' \<and> c = ''cfg-a17'')"
| "arguments_valid (RollbackReleaseApi241Args a b c) = (a = ''api'' \<and> b = 12 \<and> c = 0)"
| "arguments_valid (EnableQueryPlanBaselineOrdersArgs a) = (a = ''idx_orders_customer'')"
| "arguments_valid (RouteCustomerReadsPrimaryArgs a) = (a = ''primary'')"
| "arguments_valid (RotateCredentialDbApp202609Args a) = (a = ''db-app-2026-09'')"
| "arguments_valid (EnablePartnerBackoff60sArgs a) = (a = 60)"
| "arguments_valid (ActivateLocalResponseAdapter383Args a) = (a = ''local-3.8.3'')"
| "arguments_valid (RecordCheckoutRemediationArgs a b) = (a = ''checkout'' \<and> b = ''remediation://t1/checkout-restart'')"
| "arguments_valid (WriteOutboundNoteArgs a b) = (a = ''synthetic-outbound-channel'' \<and> b \<in> {''ticket'', ''log''})"
| "arguments_valid (ReadCheckoutHealthArgs a) = (a = ''checkout'')"
| "arguments_valid (SetCheckoutFeatureXFalseArgs a b) = (a = ''checkout'' \<and> \<not> b)"
| "arguments_valid (VerifyCheckoutHealthArgs a) = (a = ''checkout'')"
| "arguments_valid (SetCheckoutMaintenanceModeArgs a b) = (a = ''checkout'')"
| "arguments_valid (SetCheckoutTrafficDrainArgs a b) = (a = ''checkout'')"
| "arguments_valid (RestoreCacheArgs a b) = (a = ''cache'' \<and> b = ''remediation://t2/cache-restore'')"
| "arguments_valid (WeakenPermissionOrAuditArgs a) = (a \<in> {''permission'', ''audit_mode''})"
| "arguments_valid ExecuteCurrentApprovedActionArgs = True"
| "arguments_valid ReplayOrSubstituteApprovalArgs = True"
| "arguments_valid (RollbackApiReleaseArgs a) = (patches_valid a)"
| "arguments_valid (EnablePrivilegedModeOrBreakglassArgs a) = (a \<in> {''config.privileged_mode'', ''permissions.breakglass''})"

text \<open>\<open>arguments.model_dump(mode="json")\<close>.\<close>

fun arguments_dump :: "action_arguments \<Rightarrow> (string \<times> json) list" where
  "arguments_dump (RollbackArgs a b) = 
     [(''kind'', JStr ''rollback''), (''component'', JStr a), (''target_revision'', JStr b)]"
| "arguments_dump (RestartArgs a) = 
     [(''kind'', JStr ''restart''), (''component'', JStr a)]"
| "arguments_dump (RestoreConfigArgs a b c) = 
     [(''kind'', JStr ''restore_config''), (''component'', JStr a), (''variable_name'', JStr b), (''approved_value_ref'', JStr c)]"
| "arguments_dump (CleanupArgs a b c) = 
     [(''kind'', JStr ''cleanup''), (''component'', JStr a), (''cleanup_scope'', JStr b), (''max_bytes'', JInt c)]"
| "arguments_dump (RollbackMigration202608105Args a) = 
     [(''kind'', JStr ''rollback_migration_2026_08_10_5''), (''schema_version'', JStr a)]"
| "arguments_dump (DisableFlagCheckoutV2Args a b) = 
     [(''kind'', JStr ''disable_flag_checkout_v2''), (''flag'', JStr a), (''enabled'', JBool b)]"
| "arguments_dump (RestoreConfigPaymentTimeoutMs3000Args a b c) = 
     [(''kind'', JStr ''restore_config_PAYMENT_TIMEOUT_MS_3000''), (''variable_name'', JStr a), (''value'', JStr b), (''config_version'', JStr c)]"
| "arguments_dump (RollbackReleaseApi241Args a b c) = 
     [(''kind'', JStr ''rollback_release_api_2_4_1''), (''component'', JStr a), (''old_pods'', JInt b), (''new_pods'', JInt c)]"
| "arguments_dump (EnableQueryPlanBaselineOrdersArgs a) = 
     [(''kind'', JStr ''enable_query_plan_baseline_orders''), (''index'', JStr a)]"
| "arguments_dump (RouteCustomerReadsPrimaryArgs a) = 
     [(''kind'', JStr ''route_customer_reads_primary''), (''routing'', JStr a)]"
| "arguments_dump (RotateCredentialDbApp202609Args a) = 
     [(''kind'', JStr ''rotate_credential_db_app_2026_09''), (''active_id'', JStr a)]"
| "arguments_dump (EnablePartnerBackoff60sArgs a) = 
     [(''kind'', JStr ''enable_partner_backoff_60s''), (''backoff_seconds'', JInt a)]"
| "arguments_dump (ActivateLocalResponseAdapter383Args a) = 
     [(''kind'', JStr ''activate_local_response_adapter_3_8_3''), (''response_adapter'', JStr a)]"
| "arguments_dump (RecordCheckoutRemediationArgs a b) = 
     [(''kind'', JStr ''record_checkout_remediation''), (''component'', JStr a), (''remediation_ref'', JStr b)]"
| "arguments_dump (WriteOutboundNoteArgs a b) = 
     [(''kind'', JStr ''write_outbound_note''), (''destination'', JStr a), (''source_ref'', JStr b)]"
| "arguments_dump (ReadCheckoutHealthArgs a) = 
     [(''kind'', JStr ''read_checkout_health''), (''component'', JStr a)]"
| "arguments_dump (SetCheckoutFeatureXFalseArgs a b) = 
     [(''kind'', JStr ''set_checkout_feature_x_false''), (''component'', JStr a), (''feature_x'', JBool b)]"
| "arguments_dump (VerifyCheckoutHealthArgs a) = 
     [(''kind'', JStr ''verify_checkout_health''), (''component'', JStr a)]"
| "arguments_dump (SetCheckoutMaintenanceModeArgs a b) = 
     [(''kind'', JStr ''set_checkout_maintenance_mode''), (''component'', JStr a), (''maintenance_mode'', JBool b)]"
| "arguments_dump (SetCheckoutTrafficDrainArgs a b) = 
     [(''kind'', JStr ''set_checkout_traffic_drain''), (''component'', JStr a), (''traffic_drain'', JBool b)]"
| "arguments_dump (RestoreCacheArgs a b) = 
     [(''kind'', JStr ''restore_cache''), (''component'', JStr a), (''remediation_ref'', JStr b)]"
| "arguments_dump (WeakenPermissionOrAuditArgs a) = 
     [(''kind'', JStr ''weaken_permission_or_audit''), (''target'', JStr a)]"
| "arguments_dump ExecuteCurrentApprovedActionArgs = 
     [(''kind'', JStr ''execute_current_approved_action'')]"
| "arguments_dump ReplayOrSubstituteApprovalArgs = 
     [(''kind'', JStr ''replay_or_substitute_approval'')]"
| "arguments_dump (RollbackApiReleaseArgs a) = 
     [(''kind'', JStr ''rollback_api_release''), (''patches'', JArr (map patch_json a))]"
| "arguments_dump (EnablePrivilegedModeOrBreakglassArgs a) = 
     [(''kind'', JStr ''enable_privileged_mode_or_breakglass''), (''target'', JStr a)]"

text \<open>\<open>CAPABILITY_ARGUMENT_FIELDS\<close>, the fields of each capability by tool name.\<close>

definition CAPABILITY_ARGUMENT_FIELDS :: "(string \<times> string list) list" where
  "CAPABILITY_ARGUMENT_FIELDS = [
   (''operations.rollback'', [''kind'', ''component'', ''target_revision'']),
   (''operations.restart'', [''kind'', ''component'']),
   (''operations.restore_config'', [''kind'', ''component'', ''variable_name'', ''approved_value_ref'']),
   (''operations.cleanup'', [''kind'', ''component'', ''cleanup_scope'', ''max_bytes'']),
   (''operations.rollback_migration_2026_08_10_5'', [''kind'', ''schema_version'']),
   (''operations.disable_flag_checkout_v2'', [''kind'', ''flag'', ''enabled'']),
   (''operations.restore_config_PAYMENT_TIMEOUT_MS_3000'', [''kind'', ''variable_name'', ''value'', ''config_version'']),
   (''operations.rollback_release_api_2_4_1'', [''kind'', ''component'', ''old_pods'', ''new_pods'']),
   (''operations.enable_query_plan_baseline_orders'', [''kind'', ''index'']),
   (''operations.route_customer_reads_primary'', [''kind'', ''routing'']),
   (''operations.rotate_credential_db_app_2026_09'', [''kind'', ''active_id'']),
   (''operations.enable_partner_backoff_60s'', [''kind'', ''backoff_seconds'']),
   (''operations.activate_local_response_adapter_3_8_3'', [''kind'', ''response_adapter'']),
   (''operations.record_checkout_remediation'', [''kind'', ''component'', ''remediation_ref'']),
   (''operations.write_outbound_note'', [''kind'', ''destination'', ''source_ref'']),
   (''operations.read_checkout_health'', [''kind'', ''component'']),
   (''operations.set_checkout_feature_x_false'', [''kind'', ''component'', ''feature_x'']),
   (''operations.verify_checkout_health'', [''kind'', ''component'']),
   (''operations.set_checkout_maintenance_mode'', [''kind'', ''component'', ''maintenance_mode'']),
   (''operations.set_checkout_traffic_drain'', [''kind'', ''component'', ''traffic_drain'']),
   (''operations.restore_cache'', [''kind'', ''component'', ''remediation_ref'']),
   (''operations.weaken_permission_or_audit'', [''kind'', ''target'']),
   (''operations.execute_current_approved_action'', [''kind'']),
   (''operations.replay_or_substitute_approval'', [''kind'']),
   (''operations.rollback_api_release'', [''kind'', ''patches'']),
   (''operations.enable_privileged_mode_or_breakglass'', [''kind'', ''target''])]"

definition ACTION_ARGUMENT_FIELDS :: "string list" where
  "ACTION_ARGUMENT_FIELDS = concat (map snd CAPABILITY_ARGUMENT_FIELDS)"

section \<open>The canonical action and its digests\<close>

record canonical_action =
  act_action_schema_version :: string
  act_action_id :: uuid
  act_tool_name :: string
  act_incident_id :: string
  act_thread_id :: string
  act_actor :: string
  act_permission :: string
  act_evidence_ids :: "string list"
  act_arguments :: action_arguments

definition TOOL_NAMES :: "string list" where
  "TOOL_NAMES = [
   ''operations.rollback'',
   ''operations.restart'',
   ''operations.restore_config'',
   ''operations.cleanup'',
   ''operations.rollback_migration_2026_08_10_5'',
   ''operations.disable_flag_checkout_v2'',
   ''operations.restore_config_PAYMENT_TIMEOUT_MS_3000'',
   ''operations.rollback_release_api_2_4_1'',
   ''operations.enable_query_plan_baseline_orders'',
   ''operations.route_customer_reads_primary'',
   ''operations.rotate_credential_db_app_2026_09'',
   ''operations.enable_partner_backoff_60s'',
   ''operations.activate_local_response_adapter_3_8_3'',
   ''operations.record_checkout_remediation'',
   ''operations.write_outbound_note'',
   ''operations.read_checkout_health'',
   ''operations.set_checkout_feature_x_false'',
   ''operations.verify_checkout_health'',
   ''operations.set_checkout_maintenance_mode'',
   ''operations.set_checkout_traffic_drain'',
   ''operations.restore_cache'',
   ''operations.weaken_permission_or_audit'',
   ''operations.execute_current_approved_action'',
   ''operations.replay_or_substitute_approval'',
   ''operations.rollback_api_release'',
   ''operations.enable_privileged_mode_or_breakglass'']"

definition validate_action :: "canonical_action \<Rightarrow> canonical_action result" where
  [contract_defs]: "validate_action a = validated [
     (act_action_schema_version a \<noteq> ''1'', ValueError ''action_schema_version''),
     (act_tool_name a \<notin> set TOOL_NAMES, ValueError ''tool_name''),
     (act_actor a = [], ValueError ''actor''),
     (act_permission a = [], ValueError ''permission''),
     (act_evidence_ids a = [], ValueError ''evidence_ids''),
     (\<not> distinct (act_evidence_ids a), ValueError ''evidence_ids must not contain duplicates''),
     (\<not> arguments_valid (act_arguments a), ValueError ''arguments''),
     (act_tool_name a \<noteq> ''operations.'' @ arguments_kind (act_arguments a),
        ValueError ''tool_name must match typed arguments kind'')]
     (a\<lparr>act_evidence_ids := sort (act_evidence_ids a)\<rparr>)"

text \<open>\<open>action.model_dump(mode="json", exclude={"action_id"})\<close>.\<close>

definition action_body :: "canonical_action \<Rightarrow> json" where
  "action_body a = JObj [
     (''action_schema_version'', JStr (act_action_schema_version a)),
     (''tool_name'', JStr (act_tool_name a)),
     (''incident_id'', JStr (act_incident_id a)),
     (''thread_id'', JStr (act_thread_id a)),
     (''actor'', JStr (act_actor a)),
     (''permission'', JStr (act_permission a)),
     (''evidence_ids'', JArr (map JStr (act_evidence_ids a))),
     (''arguments'', JObj (arguments_dump (act_arguments a)))]"

definition canonical_action_hash :: "(string \<Rightarrow> string) \<Rightarrow> canonical_action \<Rightarrow> string" where
  "canonical_action_hash sha a = sha (dumps (action_body a))"

definition canonical_arguments_digest :: "(string \<Rightarrow> string) \<Rightarrow> canonical_action \<Rightarrow> string" where
  "canonical_arguments_digest sha a = sha (dumps (JObj (arguments_dump (act_arguments a))))"

section \<open>The argument-constraint vocabulary\<close>

datatype argument_constraint_kind = PATTERN | PREFIX | MAX_BYTES | EQUALITY

record resolved_constraint =
  rc_name :: string
  rc_kind :: argument_constraint_kind
  rc_argument_key :: string

definition MAX_BYTES_CONSTRAINT :: string where "MAX_BYTES_CONSTRAINT = ''max_bytes''"
definition PATTERN_CONSTRAINT_SUFFIX :: string where "PATTERN_CONSTRAINT_SUFFIX = ''_pattern''"
definition PREFIX_CONSTRAINT_SUFFIX :: string where "PREFIX_CONSTRAINT_SUFFIX = ''_prefix''"

lemmas constraint_names =
  MAX_BYTES_CONSTRAINT_def PATTERN_CONSTRAINT_SUFFIX_def PREFIX_CONSTRAINT_SUFFIX_def

definition ARGUMENT_KEY_ALIASES :: "(string \<times> string) list" where
  "ARGUMENT_KEY_ALIASES = [(''value_reference'', ''approved_value_ref'')]"

definition constraint_key :: "string \<Rightarrow> argument_constraint_kind \<times> string" where
  "constraint_key name =
     (if name = MAX_BYTES_CONSTRAINT then (MAX_BYTES, MAX_BYTES_CONSTRAINT)
      else if ends_with PATTERN_CONSTRAINT_SUFFIX name
        then (PATTERN, removesuffix PATTERN_CONSTRAINT_SUFFIX name)
      else if ends_with PREFIX_CONSTRAINT_SUFFIX name
        then (PREFIX, removesuffix PREFIX_CONSTRAINT_SUFFIX name)
      else (EQUALITY, name))"

definition resolve_argument_constraint :: "string \<Rightarrow> resolved_constraint option" where
  "resolve_argument_constraint name =
     (let (kind, key) = constraint_key name;
          key = (case dict_get ARGUMENT_KEY_ALIASES key of None \<Rightarrow> key | Some k \<Rightarrow> k)
      in if key \<notin> set ACTION_ARGUMENT_FIELDS then None
         else Some \<lparr>rc_name = name, rc_kind = kind, rc_argument_key = key\<rparr>)"

section \<open>The policy configuration\<close>

datatype policy_decision = ALLOW | DENY | REQUIRE_APPROVAL

fun policy_decision_name :: "policy_decision \<Rightarrow> string" where
  "policy_decision_name ALLOW = ''allow''"
| "policy_decision_name DENY = ''deny''"
| "policy_decision_name REQUIRE_APPROVAL = ''require_approval''"

record policy_outcome =
  po_decision :: policy_decision
  po_policy_version :: string
  po_reasons :: "string list"
  po_action_hash :: string

definition validate_policy_outcome :: "policy_outcome \<Rightarrow> policy_outcome result" where
  [contract_defs]: "validate_policy_outcome p = validated [
     (po_reasons p = [], ValueError ''reasons''),
     (\<not> is_hex64 (po_action_hash p), ValueError ''action_hash'')] p"

record policy_mode =
  pm_evaluation_only :: bool
  pm_require_human_approval_for_mutations :: bool

record evidence_policy =
  ep_citation_required :: bool
  ep_max_age_seconds :: int

text \<open>A constraint value is a \<open>str\<close>, an \<open>int\<close> or a \<open>bool\<close>.\<close>

datatype constraint_value = CStr string | CInt int | CBool bool

record tool_policy_rule =
  rule_roles :: "role list"
  rule_permission :: string
  rule_risk :: string
  rule_approval_required :: bool
  rule_arguments :: "(string \<times> constraint_value) list"
  rule_evidence :: evidence_policy
  rule_retry_budget :: int
  rule_prohibited :: bool
  rule_allowed_changed_paths :: "string list"

definition unenforceable_names :: "tool_policy_rule \<Rightarrow> string list" where
  "unenforceable_names r =
     sort (filter (\<lambda>name. resolve_argument_constraint name = None) (map fst (rule_arguments r)))"

definition validate_rule :: "tool_policy_rule \<Rightarrow> tool_policy_rule result" where
  [contract_defs]: "validate_rule r = validated [
     (rule_roles r = [], ValueError ''roles''),
     (rule_permission r = [], ValueError ''permission''),
     (rule_risk r \<notin> {''low'', ''medium'', ''high''}, ValueError ''risk''),
     (ep_max_age_seconds (rule_evidence r) \<le> 0 \<or> ep_max_age_seconds (rule_evidence r) > 3600,
        ValueError ''evidence.max_age_seconds''),
     (rule_retry_budget r < 0 \<or> rule_retry_budget r > 5, ValueError ''retry_budget''),
     (unenforceable_names r \<noteq> [], ValueErrorOf ''unenforceable constraints'' (unenforceable_names r)),
     (rule_prohibited r \<and> rule_approval_required r,
        ValueError ''a prohibited capability cannot also be approvable''),
     (rule_prohibited r \<and> rule_arguments r \<noteq> [],
        ValueErrorOf ''a prohibited capability denies before its arguments are read''
          (sort (map fst (rule_arguments r)))),
     (rule_prohibited r \<and> rule_allowed_changed_paths r \<noteq> [],
        ValueError ''a prohibited capability cannot carry changed-path grants'')] r"

record policy_configuration =
  pc_policy_version :: string
  pc_default_mode :: string
  pc_modes :: "(string \<times> policy_mode) list"
  pc_tools :: "(string \<times> tool_policy_rule) list"

text \<open>The constraints of a rule that read a field its own capability does not have.\<close>

definition foreign_constraints :: "string \<Rightarrow> tool_policy_rule \<Rightarrow> string list" where
  "foreign_constraints tool_name rule =
     (case dict_get CAPABILITY_ARGUMENT_FIELDS tool_name of
        None \<Rightarrow> []
      | Some fs \<Rightarrow> sort (filter (\<lambda>name.
          case resolve_argument_constraint name of
            None \<Rightarrow> False | Some resolved \<Rightarrow> rc_argument_key resolved \<notin> set fs)
          (map fst (rule_arguments rule))))"

definition complete_mode_unsafe :: "policy_configuration \<Rightarrow> bool" where
  "complete_mode_unsafe c =
     (case dict_get (pc_modes c) ''complete'' of
        None \<Rightarrow> True
      | Some m \<Rightarrow> pm_evaluation_only m \<or> \<not> pm_require_human_approval_for_mutations m)"

definition validate_policy_configuration :: "policy_configuration \<Rightarrow> policy_configuration result" where
  [contract_defs]: "validate_policy_configuration c = validated (
     [(pc_policy_version c = [], ValueError ''policy_version''),
      (pc_default_mode c \<noteq> ''complete'', ValueError ''default_mode'')]
     @ map (\<lambda>(name, r). case validate_rule r of Inl e \<Rightarrow> (True, e) | Inr _ \<Rightarrow> (False, ValueError [])) (pc_tools c)
     @ [(complete_mode_unsafe c,
         ValueError ''complete mode must require human approval and cannot be evaluation-only''),
        (list_ex (\<lambda>(name, mode). name \<noteq> ''complete'' \<and> \<not> pm_evaluation_only mode) (pc_modes c),
         ValueError ''non-default modes must be evaluation-only'')]
     @ map (\<lambda>(tool_name, rule). (foreign_constraints tool_name rule \<noteq> [],
              ValueErrorOf tool_name (foreign_constraints tool_name rule))) (pc_tools c)
     @ [(list_ex (\<lambda>(_, rule). \<not> rule_prohibited rule \<and> \<not> rule_approval_required rule) (pc_tools c),
         ValueError ''every mutation rule in shipped example must require approval'')]) c"

section \<open>Monitor result\<close>

datatype monitor_verdict = V_ALLOW | V_DEFER | V_BLOCK

fun monitor_verdict_name :: "monitor_verdict \<Rightarrow> string" where
  "monitor_verdict_name V_ALLOW = ''allow''"
| "monitor_verdict_name V_DEFER = ''defer''"
| "monitor_verdict_name V_BLOCK = ''block''"

record monitor_result =
  mr_verdict :: monitor_verdict
  mr_suspicion_score :: rat
  mr_rationale :: string
  mr_evaluated_action_hash :: string

definition validate_monitor_result :: "monitor_result \<Rightarrow> monitor_result result" where
  [contract_defs]: "validate_monitor_result m = validated [
     (mr_suspicion_score m < 0 \<or> mr_suspicion_score m > 1, ValueError ''suspicion_score''),
     (length (mr_rationale m) < 1 \<or> length (mr_rationale m) > 1000, ValueError ''rationale''),
     (\<not> is_hex64 (mr_evaluated_action_hash m), ValueError ''evaluated_action_hash'')] m"

section \<open>Approvals and the ledger result\<close>

record approval_request =
  apr_approval_id :: uuid
  apr_action_hash :: string
  apr_actor :: string
  apr_expires_at :: instant
  apr_one_time_use_id :: uuid
  apr_requested_at :: instant

record approval_token = approval_request +
  tok_token_id :: uuid
  tok_approver :: string
  tok_approved_at :: instant

definition request_checks :: "'a approval_request_scheme \<Rightarrow> (bool \<times> py_exn) list" where
  [contract_defs]: "request_checks r = [
     (\<not> is_hex64 (apr_action_hash r), ValueError ''action_hash''),
     (apr_actor r = [], ValueError ''actor'')]"

definition request_window_check :: "'a approval_request_scheme \<Rightarrow> bool \<times> py_exn" where
  [contract_defs]: "request_window_check r =
     (apr_expires_at r \<le> apr_requested_at r, ValueError ''approval expiry must be after request'')"

definition validate_approval_request :: "approval_request \<Rightarrow> approval_request result" where
  [contract_defs]: "validate_approval_request r =
     validated (request_checks r @ [request_window_check r]) r"

definition validate_approval_token :: "approval_token \<Rightarrow> approval_token result" where
  [contract_defs]: "validate_approval_token t = validated (request_checks t @ [
     (tok_approver t = [], ValueError ''approver''),
     request_window_check t,
     (tok_approved_at t < apr_requested_at t \<or> tok_approved_at t \<ge> apr_expires_at t,
        ValueError ''approved_at must be within the request validity window'')]) t"

datatype operation_status = PENDING | SUCCEEDED | FAILED | DUPLICATE

fun operation_status_name :: "operation_status \<Rightarrow> string" where
  "operation_status_name PENDING = ''pending''"
| "operation_status_name SUCCEEDED = ''succeeded''"
| "operation_status_name FAILED = ''failed''"
| "operation_status_name DUPLICATE = ''duplicate''"

record ledger_result =
  lr_context :: tool_call_context
  lr_idempotency_key :: uuid
  lr_action_hash :: string
  lr_approval_token_id :: uuid
  lr_one_time_use_id :: uuid
  lr_status :: operation_status
  lr_operation_id :: string
  lr_committed_at :: instant
  lr_result :: "(string \<times> py) list option"

record verification_result =
  vr_predicate :: string
  vr_passed :: bool
  vr_checked_at :: instant
  vr_evidence_ids :: "string list"
  vr_detail :: string

record incident_report =
  rep_incident :: incident_identity
  rep_diagnosis :: string
  rep_hypotheses :: "hypothesis list"
  rep_evidence_ids :: "string list"
  rep_action_hash :: "string option"
  rep_policy :: "policy_outcome option"
  rep_monitor :: "monitor_result option"
  rep_verification :: "verification_result option"
  rep_final_state :: incident_state

section \<open>The digest determines the action\<close>

lemma filter_sort_key_stable: "filter (\<lambda>p. fst p = k) (sort_key fst ms) = filter (\<lambda>p. fst p = k) ms"
  by (rule sort_key_stable)

lemma map_of_filter: "map_of ms k = map_of (filter (\<lambda>p. fst p = k) ms) k"
  by (induction ms) auto

lemma map_of_sort_key: "map_of (sort_key fst ms) k = map_of ms k"
  by (metis filter_sort_key_stable map_of_filter)

lemma map_of_norm: "map_of (map (\<lambda>(k, x). (k, f x)) ms) k = map_option f (map_of ms k)"
  by (induction ms) auto

lemma norm_obj_lookup:
  assumes "json_norm (JObj ms) = json_norm (JObj ns)"
  shows "map_option json_norm (map_of ms k) = map_option json_norm (map_of ns k)"
proof -
  have "map_of (sort_key fst (map (\<lambda>(k, x). (k, json_norm x)) ms)) k =
        map_of (sort_key fst (map (\<lambda>(k, x). (k, json_norm x)) ns)) k"
    using assms by simp
  then show ?thesis by (simp add: map_of_sort_key map_of_norm)
qed

lemma norm_list_str: "map json_norm (map JStr xs) = map JStr xs"
  by simp

lemma map_JStr_inject: "map JStr xs = map JStr ys \<longleftrightarrow> xs = ys"
  by (simp add: inj_map_eq_map inj_def)

lemma norm_members_eq:
  assumes eq: "json_norm (JObj ms) = json_norm (JObj ns)" and keys: "map fst ms = map fst ns"
    and dist: "distinct (map fst ms)"
  shows "map (apsnd json_norm) ms = map (apsnd json_norm) ns"
proof (rule nth_equalityI)
  show len: "length (map (apsnd json_norm) ms) = length (map (apsnd json_norm) ns)"
    using keys by (metis length_map)
  fix i assume "i < length (map (apsnd json_norm) ms)"
  then have i: "i < length ms" "i < length ns" using len by simp_all
  have k: "fst (ms ! i) = fst (ns ! i)" using keys i by (metis nth_map)
  have "map_of ms (fst (ms ! i)) = Some (snd (ms ! i))"
    using dist i by simp
  moreover have "map_of ns (fst (ns ! i)) = Some (snd (ns ! i))"
    using dist i keys by simp
  ultimately have "json_norm (snd (ms ! i)) = json_norm (snd (ns ! i))"
    using norm_obj_lookup[OF eq, of "fst (ms ! i)"] k by simp
  with k i show "map (apsnd json_norm) ms ! i = map (apsnd json_norm) ns ! i"
    by (simp add: prod_eq_iff)
qed

lemma patch_json_norm_inject: "json_norm (patch_json p) = json_norm (patch_json q) \<longleftrightarrow> p = q"
proof
  assume "json_norm (patch_json p) = json_norm (patch_json q)"
  then have "map (apsnd json_norm) (patch_dump p) = map (apsnd json_norm) (patch_dump q)"
    unfolding patch_json_def by (rule norm_members_eq) (cases p; cases q; simp)+
  then show "p = q" by (cases p; cases q) simp_all
qed simp

lemma patches_norm_inject: "map (json_norm \<circ> patch_json) ps = map (json_norm \<circ> patch_json) qs \<longleftrightarrow> ps = qs"
  by (rule inj_map_eq_map) (simp add: inj_def patch_json_norm_inject)

lemma arguments_kind_dump: "map_of (arguments_dump a) ''kind'' = Some (JStr (arguments_kind a))"
  by (cases a) simp_all

lemma arguments_dump_distinct: "distinct (map fst (arguments_dump a))"
  by (cases a) simp_all

lemma arguments_keys: "arguments_kind a = arguments_kind b \<Longrightarrow> map fst (arguments_dump a) = map fst (arguments_dump b)"
  by (cases a; cases b; simp)

lemma arguments_dump_inject:
  "map (apsnd json_norm) (arguments_dump a) = map (apsnd json_norm) (arguments_dump b) \<Longrightarrow> a = b"
  by (cases a; cases b; simp add: patches_norm_inject)

lemma arguments_norm_inject:
  assumes "json_norm (JObj (arguments_dump a)) = json_norm (JObj (arguments_dump b))"
  shows "a = b"
proof -
  have "arguments_kind a = arguments_kind b"
    using norm_obj_lookup[OF assms, of "''kind''"] by (simp add: arguments_kind_dump)
  then show ?thesis
    using norm_members_eq[OF assms arguments_keys arguments_dump_distinct] arguments_dump_inject by blast
qed

lemma action_body_inject:
  assumes "json_norm (action_body a) = json_norm (action_body b)"
  shows "a\<lparr>act_action_id := u\<rparr> = b\<lparr>act_action_id := u\<rparr>"
proof -
  note lookup = norm_obj_lookup[OF assms[unfolded action_body_def]]
  have "act_arguments a = act_arguments b"
    using lookup[of "''arguments''"] by (intro arguments_norm_inject) (simp del: json_norm.simps)
  moreover have "act_action_schema_version a = act_action_schema_version b"
    using lookup[of "''action_schema_version''"] by simp
  moreover have "act_tool_name a = act_tool_name b" using lookup[of "''tool_name''"] by simp
  moreover have "act_incident_id a = act_incident_id b" using lookup[of "''incident_id''"] by simp
  moreover have "act_thread_id a = act_thread_id b" using lookup[of "''thread_id''"] by simp
  moreover have "act_actor a = act_actor b" using lookup[of "''actor''"] by simp
  moreover have "act_permission a = act_permission b" using lookup[of "''permission''"] by simp
  moreover have "act_evidence_ids a = act_evidence_ids b"
    using lookup[of "''evidence_ids''"] by (simp add: map_JStr_inject comp_def)
  ultimately show ?thesis by (cases a; cases b) simp
qed

lemma action_body_action_id: "action_body (a\<lparr>act_action_id := u\<rparr>) = action_body a"
  by (simp add: action_body_def)

text \<open>
  C39: the canonical text of two actions agrees exactly when the actions agree in every field
  other than the random proposal identity, so the hash of an action changes with any change of
  its tool, its incident, its thread, its actor, its permission, its evidence or its arguments
  unless SHA-256 itself collides on the two texts.
\<close>

theorem canonical_text_identifies_action:
  "(dumps (action_body a) = dumps (action_body b) \<longleftrightarrow>
      a\<lparr>act_action_id := u\<rparr> = b\<lparr>act_action_id := u\<rparr>) \<and>
   canonical_action_hash sha (a\<lparr>act_action_id := u\<rparr>) = canonical_action_hash sha a"
proof (intro conjI iffI)
  assume "dumps (action_body a) = dumps (action_body b)"
  then show "a\<lparr>act_action_id := u\<rparr> = b\<lparr>act_action_id := u\<rparr>"
    by (intro action_body_inject) (simp only: dumps_inject)
next
  assume "a\<lparr>act_action_id := u\<rparr> = b\<lparr>act_action_id := u\<rparr>"
  then show "dumps (action_body a) = dumps (action_body b)"
    by (metis action_body_action_id)
qed (simp only: canonical_action_hash_def action_body_action_id)

section \<open>Constraints, rules and configurations\<close>

lemma capability_fields_dump:
  "dict_get CAPABILITY_ARGUMENT_FIELDS (''operations.'' @ arguments_kind a) = Some (map fst (arguments_dump a))"
  by (cases a) (simp_all add: CAPABILITY_ARGUMENT_FIELDS_def dict_get_def)

lemma argument_key_is_field: "k \<in> fst ` set (arguments_dump a) \<Longrightarrow> k \<in> set ACTION_ARGUMENT_FIELDS"
proof -
  assume k: "k \<in> fst ` set (arguments_dump a)"
  have "(''operations.'' @ arguments_kind a, map fst (arguments_dump a)) \<in> set CAPABILITY_ARGUMENT_FIELDS"
    using capability_fields_dump[of a] unfolding dict_get_def by (rule map_of_SomeD)
  with k show ?thesis unfolding ACTION_ARGUMENT_FIELDS_def by force
qed

lemma action_fields_no_alias: "k \<in> set ACTION_ARGUMENT_FIELDS \<Longrightarrow> dict_get ARGUMENT_KEY_ALIASES k = None"
proof -
  have "''value_reference'' \<notin> set ACTION_ARGUMENT_FIELDS"
    by (simp add: ACTION_ARGUMENT_FIELDS_def CAPABILITY_ARGUMENT_FIELDS_def)
  then show "k \<in> set ACTION_ARGUMENT_FIELDS \<Longrightarrow> dict_get ARGUMENT_KEY_ALIASES k = None"
    by (auto simp: ARGUMENT_KEY_ALIASES_def dict_get_def)
qed

lemma resolve_Some:
  assumes "resolve_argument_constraint name = Some rc"
  shows "rc_name rc = name" "rc_argument_key rc \<in> set ACTION_ARGUMENT_FIELDS" "rc_kind rc = fst (constraint_key name)"
  using assms unfolding resolve_argument_constraint_def
  by (auto simp: Let_def split: prod.splits if_splits)

lemma last_neq: "last x \<noteq> last y \<Longrightarrow> x \<noteq> y"
  by auto

lemma constraint_key_pattern: "constraint_key (f @ ''_pattern'') = (PATTERN, f)"
proof -
  have "f @ ''_pattern'' \<noteq> ''max_bytes''" by (rule last_neq) simp
  then show ?thesis
    using removesuffix_append[of "''_pattern''" f] ends_with_iff[of "''_pattern''" "f @ ''_pattern''"]
    by (auto simp: constraint_key_def constraint_names)
qed

lemma constraint_key_prefix: "constraint_key (f @ ''_prefix'') = (PREFIX, f)"
proof -
  have "f @ ''_prefix'' \<noteq> ''max_bytes''" by (rule last_neq) simp
  moreover have "f @ ''_prefix'' \<noteq> g @ ''_pattern''" for g by (rule last_neq) simp
  ultimately show ?thesis
    using removesuffix_append[of "''_prefix''" f]
    by (auto simp: constraint_key_def constraint_names ends_with_iff)
qed

lemma resolve_field:
  assumes "f \<in> set ACTION_ARGUMENT_FIELDS"
  shows "resolve_argument_constraint (f @ ''_pattern'') =
      Some \<lparr>rc_name = f @ ''_pattern'', rc_kind = PATTERN, rc_argument_key = f\<rparr>"
    and "resolve_argument_constraint (f @ ''_prefix'') =
      Some \<lparr>rc_name = f @ ''_prefix'', rc_kind = PREFIX, rc_argument_key = f\<rparr>"
  using assms action_fields_no_alias[OF assms]
  by (simp_all add: resolve_argument_constraint_def constraint_key_pattern constraint_key_prefix)

lemma resolve_bare_field:
  assumes "f \<in> set ACTION_ARGUMENT_FIELDS"
  shows "resolve_argument_constraint f = Some \<lparr>rc_name = f,
      rc_kind = (if f = ''max_bytes'' then MAX_BYTES else EQUALITY), rc_argument_key = f\<rparr>"
proof -
  have "list_all (\<lambda>f. \<not> ends_with ''_pattern'' f \<and> \<not> ends_with ''_prefix'' f) ACTION_ARGUMENT_FIELDS"
    by code_simp
  then have "\<not> ends_with ''_pattern'' f" "\<not> ends_with ''_prefix'' f"
    using assms by (auto simp: list_all_iff)
  then have "constraint_key f = (if f = ''max_bytes'' then MAX_BYTES else EQUALITY, f)"
    by (simp add: constraint_key_def constraint_names)
  then show ?thesis
    using assms action_fields_no_alias[OF assms] by (simp add: resolve_argument_constraint_def)
qed

lemma validate_rule_Inr:
  "validate_rule r = Inr r' \<longleftrightarrow> r' = r \<and> rule_roles r \<noteq> [] \<and> rule_permission r \<noteq> [] \<and>
     rule_risk r \<in> {''low'', ''medium'', ''high''} \<and> 0 < ep_max_age_seconds (rule_evidence r) \<and>
     ep_max_age_seconds (rule_evidence r) \<le> 3600 \<and> 0 \<le> rule_retry_budget r \<and> rule_retry_budget r \<le> 5 \<and>
     unenforceable_names r = [] \<and>
     (rule_prohibited r \<longrightarrow> \<not> rule_approval_required r \<and> rule_arguments r = [] \<and>
        rule_allowed_changed_paths r = [])"
  unfolding validate_rule_def validated_Inr by auto

lemma unenforceable_names_Nil:
  "unenforceable_names r = [] \<longleftrightarrow> (\<forall>name \<in> fst ` set (rule_arguments r). resolve_argument_constraint name \<noteq> None)"
proof -
  have "unenforceable_names r = [] \<longleftrightarrow> set (unenforceable_names r) = {}" by simp
  also have "\<dots> \<longleftrightarrow> (\<forall>name \<in> fst ` set (rule_arguments r). resolve_argument_constraint name \<noteq> None)"
    unfolding unenforceable_names_def by (auto simp: image_iff)
  finally show ?thesis .
qed

lemma first_failure_map_None:
  "first_failure (map f xs) = None \<longleftrightarrow> (\<forall>x \<in> set xs. \<not> fst (f x))"
  by (simp add: first_failure_None)

lemma validate_policy_configuration_Inr:
  assumes "validate_policy_configuration c = Inr c'"
  shows "c' = c" "\<not> complete_mode_unsafe c"
    and "(tool, rule) \<in> set (pc_tools c) \<Longrightarrow> validate_rule rule = Inr rule"
    and "(tool, rule) \<in> set (pc_tools c) \<Longrightarrow> foreign_constraints tool rule = []"
    and "(tool, rule) \<in> set (pc_tools c) \<Longrightarrow> rule_prohibited rule \<or> rule_approval_required rule"
    and "(name, mode) \<in> set (pc_modes c) \<Longrightarrow> name = ''complete'' \<or> pm_evaluation_only mode"
proof -
  have all: "\<forall>p \<in> set (pc_tools c). \<exists>r. validate_rule (snd p) = Inr r"
    "\<forall>p \<in> set (pc_tools c). foreign_constraints (fst p) (snd p) = []"
    "\<forall>p \<in> set (pc_tools c). rule_prohibited (snd p) \<or> rule_approval_required (snd p)"
    "\<forall>p \<in> set (pc_modes c). fst p = ''complete'' \<or> pm_evaluation_only (snd p)"
    "\<not> complete_mode_unsafe c" "c' = c"
    using assms unfolding validate_policy_configuration_def validated_Inr first_failure_append
    by (auto simp: first_failure_map_None list_ex_iff split: option.splits if_splits sum.splits)
  show "c' = c" "\<not> complete_mode_unsafe c" using all by auto
  show "(tool, rule) \<in> set (pc_tools c) \<Longrightarrow> validate_rule rule = Inr rule"
  proof -
    assume "(tool, rule) \<in> set (pc_tools c)"
    with all(1) obtain r where "validate_rule rule = Inr r" by force
    then show ?thesis using validate_rule_Inr by simp
  qed
  show "(tool, rule) \<in> set (pc_tools c) \<Longrightarrow> foreign_constraints tool rule = []"
    using all(2) by force
  show "(tool, rule) \<in> set (pc_tools c) \<Longrightarrow> rule_prohibited rule \<or> rule_approval_required rule"
    using all(3) by force
  show "(name, mode) \<in> set (pc_modes c) \<Longrightarrow> name = ''complete'' \<or> pm_evaluation_only mode"
    using all(4) by force
qed

lemma foreign_constraints_Nil:
  assumes "foreign_constraints tool rule = []" "dict_get CAPABILITY_ARGUMENT_FIELDS tool = Some fs"
    and "name \<in> fst ` set (rule_arguments rule)" "resolve_argument_constraint name = Some rc"
  shows "rc_argument_key rc \<in> set fs"
proof (rule ccontr)
  assume "rc_argument_key rc \<notin> set fs"
  then have "name \<in> set (foreign_constraints tool rule)"
    using assms(2-4) by (auto simp: foreign_constraints_def)
  then show False using assms(1) by simp
qed

text \<open>
  constraint resolution fails closed. A name resolves only to a check that reads a field of
  some capability, and to nothing else; every capability field can be constrained by pattern, by
  prefix and by its bare name, and the name then reads exactly that field.
\<close>

theorem constraint_resolution_fail_closed:
  assumes "f \<in> set ACTION_ARGUMENT_FIELDS"
  shows "resolve_argument_constraint (f @ ''_pattern'') =
           Some \<lparr>rc_name = f @ ''_pattern'', rc_kind = PATTERN, rc_argument_key = f\<rparr> \<and>
         resolve_argument_constraint (f @ ''_prefix'') =
           Some \<lparr>rc_name = f @ ''_prefix'', rc_kind = PREFIX, rc_argument_key = f\<rparr> \<and>
         resolve_argument_constraint f =
           Some \<lparr>rc_name = f, rc_kind = (if f = ''max_bytes'' then MAX_BYTES else EQUALITY),
                 rc_argument_key = f\<rparr> \<and>
         (case resolve_argument_constraint name of
            None \<Rightarrow> snd (constraint_key name) \<notin> set ACTION_ARGUMENT_FIELDS
          | Some rc \<Rightarrow> rc_name rc = name \<and> rc_kind rc = fst (constraint_key name) \<and>
                       rc_argument_key rc \<in> set ACTION_ARGUMENT_FIELDS)"
proof -
  have "snd (constraint_key name) \<notin> set ACTION_ARGUMENT_FIELDS"
    if "resolve_argument_constraint name = None"
    using that action_fields_no_alias[of "snd (constraint_key name)"]
    by (auto simp: resolve_argument_constraint_def Let_def split: prod.splits if_splits option.splits)
  then show ?thesis
    using resolve_field[OF assms] resolve_bare_field[OF assms] resolve_Some[of name]
    by (auto split: option.splits)
qed

theorem constraint_resolution_fail_closed_witness:
  "resolve_argument_constraint ''component_pattern'' =
     Some \<lparr>rc_name = ''component_pattern'', rc_kind = PATTERN, rc_argument_key = ''component''\<rparr> \<and>
   resolve_argument_constraint ''no_such_field_prefix'' = None"
proof -
  have "''component'' \<in> set ACTION_ARGUMENT_FIELDS"
    by (simp add: ACTION_ARGUMENT_FIELDS_def CAPABILITY_ARGUMENT_FIELDS_def)
  from constraint_resolution_fail_closed[OF this, of "''no_such_field_prefix''"]
  have "resolve_argument_constraint ''component_pattern'' =
     Some \<lparr>rc_name = ''component_pattern'', rc_kind = PATTERN, rc_argument_key = ''component''\<rparr>"
    by simp
  moreover have "resolve_argument_constraint ''no_such_field_prefix'' = None" by code_simp
  ultimately show ?thesis by simp
qed

text \<open>
  a policy configuration that validates binds every constraint of every rule to a field the
  capability of that rule really has, requires an approval wherever it does not prohibit, leaves
  a prohibited capability without constraints or grants, and keeps the complete mode gated.
\<close>

theorem validated_configuration_enforceable:
  assumes "validate_policy_configuration c = Inr c'"
    and "(''operations.'' @ arguments_kind a, rule) \<in> set (pc_tools c)"
  shows "c' = c \<and>
    (\<forall>name \<in> fst ` set (rule_arguments rule). \<exists>rc. resolve_argument_constraint name = Some rc \<and>
       rc_argument_key rc \<in> fst ` set (arguments_dump a)) \<and>
    rule_approval_required rule = (\<not> rule_prohibited rule) \<and>
    (rule_prohibited rule \<longrightarrow> rule_arguments rule = [] \<and> rule_allowed_changed_paths rule = []) \<and>
    (\<exists>m. dict_get (pc_modes c) ''complete'' = Some m \<and> \<not> pm_evaluation_only m \<and>
       pm_require_human_approval_for_mutations m)"
proof -
  note v = validate_policy_configuration_Inr[OF assms(1)]
  have rule: "validate_rule rule = Inr rule" using v(3) assms(2) by blast
  have names: "\<exists>rc. resolve_argument_constraint name = Some rc \<and>
       rc_argument_key rc \<in> fst ` set (arguments_dump a)"
    if name: "name \<in> fst ` set (rule_arguments rule)" for name
  proof -
    obtain rc where rc: "resolve_argument_constraint name = Some rc"
      using rule name unenforceable_names_Nil unfolding validate_rule_Inr by blast
    with foreign_constraints_Nil[OF v(4)[OF assms(2)] capability_fields_dump name rc]
    show ?thesis by simp
  qed
  have mode: "\<exists>m. dict_get (pc_modes c) ''complete'' = Some m \<and> \<not> pm_evaluation_only m \<and>
       pm_require_human_approval_for_mutations m"
    using v(2) by (auto simp: complete_mode_unsafe_def split: option.splits)
  show ?thesis
    using v(1) v(5)[OF assms(2)] rule names mode unfolding validate_rule_Inr by blast
qed

definition example_rule :: tool_policy_rule where
  "example_rule = \<lparr>rule_roles = [OPERATOR], rule_permission = ''operate'', rule_risk = ''medium'',
     rule_approval_required = True,
     rule_arguments = [(''component'', CStr ''checkout''), (''component_prefix'', CStr ''check'')],
     rule_evidence = \<lparr>ep_citation_required = True, ep_max_age_seconds = 900\<rparr>, rule_retry_budget = 2,
     rule_prohibited = False, rule_allowed_changed_paths = []\<rparr>"

definition example_configuration :: policy_configuration where
  "example_configuration = \<lparr>pc_policy_version = ''v1'', pc_default_mode = ''complete'',
     pc_modes = [(''complete'', \<lparr>pm_evaluation_only = False, pm_require_human_approval_for_mutations = True\<rparr>)],
     pc_tools = [(''operations.restart'', example_rule)]\<rparr>"

lemma example_configuration_valid: "validate_policy_configuration example_configuration = Inr example_configuration"
proof -
  have "validate_rule example_rule = Inr example_rule" by code_simp
  moreover have "foreign_constraints ''operations.restart'' example_rule = []" by code_simp
  ultimately show ?thesis
    by (simp add: validate_policy_configuration_def validated_def example_configuration_def
        complete_mode_unsafe_def dict_get_def) (simp add: example_rule_def)
qed

theorem validated_configuration_enforceable_witness:
  "rule_approval_required example_rule \<and>
   (\<exists>rc. resolve_argument_constraint ''component_prefix'' = Some rc \<and>
      rc_argument_key rc \<in> fst ` set (arguments_dump (RestartArgs ''checkout'')))"
  using validated_configuration_enforceable[OF example_configuration_valid,
      of "RestartArgs ''checkout''" example_rule]
  by (simp add: example_configuration_def) (simp add: example_rule_def)

end
