(* ===== verification/Reasons.thy ===== *)
theory Reasons
  imports IG_Prelude
begin

text \<open>
  The frozen reason vocabulary of \<open>reasons.py\<close>: every static reason, every token-validation
  cause, the parameterized families with their constructors, and the predicate
  \<open>is_known_reason\<close> that the comparison boundaries apply. The lemmas show that the families
  are decodable: a string is a member of at most one family, with one suffix, and is never at
  the same time a static reason.
\<close>

named_theorems reason_defs \<open>the reason constants\<close>

section \<open>Static reasons, token causes and audit-position reasons\<close>

definition COLLECTION_CONTEXT_MISMATCH :: string where [reason_defs]: "COLLECTION_CONTEXT_MISMATCH = ''collection_context_mismatch''"
definition THREAD_CONTEXT_MISMATCH :: string where [reason_defs]: "THREAD_CONTEXT_MISMATCH = ''thread_context_mismatch''"
definition INCIDENT_CONTEXT_MISMATCH :: string where [reason_defs]: "INCIDENT_CONTEXT_MISMATCH = ''incident_context_mismatch''"
definition CALLER_ACTOR_MISMATCH :: string where [reason_defs]: "CALLER_ACTOR_MISMATCH = ''caller_actor_mismatch''"
definition NO_ACTION_EVIDENCE_VALIDATION_FAILED :: string where [reason_defs]: "NO_ACTION_EVIDENCE_VALIDATION_FAILED = ''no_action_evidence_validation_failed''"
definition POLICY_VALID :: string where [reason_defs]: "POLICY_VALID = ''policy_valid''"
definition UNKNOWN_TOOL :: string where [reason_defs]: "UNKNOWN_TOOL = ''unknown_tool''"
definition CALLER_ROLE_DENIED :: string where [reason_defs]: "CALLER_ROLE_DENIED = ''caller_role_denied''"
definition CALLER_PERMISSION_DENIED :: string where [reason_defs]: "CALLER_PERMISSION_DENIED = ''caller_permission_denied''"
definition CAPABILITY_PROHIBITED :: string where [reason_defs]: "CAPABILITY_PROHIBITED = ''capability_prohibited''"
definition EVIDENCE_VALID :: string where [reason_defs]: "EVIDENCE_VALID = ''evidence_valid''"
definition CITATIONS_REQUIRED :: string where [reason_defs]: "CITATIONS_REQUIRED = ''citations_required''"
definition MONITOR_BLOCK :: string where [reason_defs]: "MONITOR_BLOCK = ''monitor_block''"
definition MONITOR_ACTION_HASH_MISMATCH :: string where [reason_defs]: "MONITOR_ACTION_HASH_MISMATCH = ''monitor_action_hash_mismatch''"
definition MONITOR_ERROR :: string where [reason_defs]: "MONITOR_ERROR = ''monitor_error''"
definition HUMAN_REJECTED :: string where [reason_defs]: "HUMAN_REJECTED = ''human_rejected''"
definition DEFER_REASON_REQUIRED :: string where [reason_defs]: "DEFER_REASON_REQUIRED = ''defer_reason_required''"
definition APPROVAL_TOKEN_REQUIRED :: string where [reason_defs]: "APPROVAL_TOKEN_REQUIRED = ''approval_token_required''"
definition IDEMPOTENCY_KEY_REBOUND :: string where [reason_defs]: "IDEMPOTENCY_KEY_REBOUND = ''idempotency_key_rebound''"
definition RECOVERY_VERIFIED :: string where [reason_defs]: "RECOVERY_VERIFIED = ''recovery_verified''"
definition RECOVERY_FAILED :: string where [reason_defs]: "RECOVERY_FAILED = ''recovery_failed''"
definition PROPOSAL_CONTEXT_MISMATCH :: string where [reason_defs]: "PROPOSAL_CONTEXT_MISMATCH = ''proposal_context_mismatch''"
definition PROPOSAL_MISSING_REQUIRED_EVIDENCE :: string where [reason_defs]: "PROPOSAL_MISSING_REQUIRED_EVIDENCE = ''proposal_missing_required_evidence''"
definition PROPOSAL_AMBIGUOUS_EVIDENCE :: string where [reason_defs]: "PROPOSAL_AMBIGUOUS_EVIDENCE = ''proposal_ambiguous_evidence''"
definition PROPOSAL_NO_D1_FAULT :: string where [reason_defs]: "PROPOSAL_NO_D1_FAULT = ''proposal_no_d1_fault''"
definition PROPOSAL_WRONG_REVISION_DIFF :: string where [reason_defs]: "PROPOSAL_WRONG_REVISION_DIFF = ''proposal_wrong_revision_diff''"
definition PROPOSAL_WRONG_STATE :: string where [reason_defs]: "PROPOSAL_WRONG_STATE = ''proposal_wrong_state''"
definition PROPOSAL_WRONG_CONFIG :: string where [reason_defs]: "PROPOSAL_WRONG_CONFIG = ''proposal_wrong_config''"
definition PROPOSAL_BELOW_THRESHOLD :: string where [reason_defs]: "PROPOSAL_BELOW_THRESHOLD = ''proposal_below_threshold''"
definition PROPOSAL_WRONG_RELIABILITY_FIXTURE :: string where [reason_defs]: "PROPOSAL_WRONG_RELIABILITY_FIXTURE = ''proposal_wrong_reliability_fixture''"
definition PROPOSAL_MODEL_OUTPUT_TRUNCATED :: string where [reason_defs]: "PROPOSAL_MODEL_OUTPUT_TRUNCATED = ''proposal_model_output_truncated''"
definition PROPOSAL_MODEL_OUTPUT_INVALID :: string where [reason_defs]: "PROPOSAL_MODEL_OUTPUT_INVALID = ''proposal_model_output_invalid''"
definition PROPOSAL_MODEL_UNAVAILABLE :: string where [reason_defs]: "PROPOSAL_MODEL_UNAVAILABLE = ''proposal_model_unavailable''"
definition PROPOSAL_UNCITED_EVIDENCE :: string where [reason_defs]: "PROPOSAL_UNCITED_EVIDENCE = ''proposal_uncited_evidence''"
definition PROPOSAL_EVIDENCE_UNRENDERABLE :: string where [reason_defs]: "PROPOSAL_EVIDENCE_UNRENDERABLE = ''proposal_evidence_unrenderable''"
definition PROPOSAL_REQUEST_TOO_LARGE :: string where [reason_defs]: "PROPOSAL_REQUEST_TOO_LARGE = ''proposal_request_too_large''"
definition RETRY_BUDGET_EXHAUSTED :: string where [reason_defs]: "RETRY_BUDGET_EXHAUSTED = ''retry_budget_exhausted''"
definition TIME_BUDGET_EXHAUSTED :: string where [reason_defs]: "TIME_BUDGET_EXHAUSTED = ''time_budget_exhausted''"
definition UPSTREAM_TIMEOUT :: string where [reason_defs]: "UPSTREAM_TIMEOUT = ''upstream_timeout''"
definition OBSERVABILITY_TOOL_TIMEOUT :: string where [reason_defs]: "OBSERVABILITY_TOOL_TIMEOUT = ''observability_tool_timeout''"
definition LOCK_AUTO_RELEASE_OBSERVED_NO_ACTION :: string where [reason_defs]: "LOCK_AUTO_RELEASE_OBSERVED_NO_ACTION = ''lock_auto_release_observed_no_action''"
definition DNS_NXDOMAIN_NETWORK_OWNER_REQUIRED :: string where [reason_defs]: "DNS_NXDOMAIN_NETWORK_OWNER_REQUIRED = ''dns_nxdomain_network_owner_required''"
definition UNEXPECTED_CERTIFICATE_NETWORK_OWNER_REQUIRED :: string where [reason_defs]: "UNEXPECTED_CERTIFICATE_NETWORK_OWNER_REQUIRED = ''unexpected_certificate_network_owner_required''"
definition STALE_EVIDENCE_RECHECKED_NO_ACTION :: string where [reason_defs]: "STALE_EVIDENCE_RECHECKED_NO_ACTION = ''stale_evidence_rechecked_no_action''"
definition UNTRUSTED_INSTRUCTION_RECORDED :: string where [reason_defs]: "UNTRUSTED_INSTRUCTION_RECORDED = ''untrusted_instruction_recorded''"
definition AMBIGUOUS_EVIDENCE_HUMAN_REVIEW_RECOMMENDED :: string where [reason_defs]: "AMBIGUOUS_EVIDENCE_HUMAN_REVIEW_RECOMMENDED = ''ambiguous_evidence_human_review_recommended''"
definition TOKEN_MISSING :: string where [reason_defs]: "TOKEN_MISSING = ''missing''"
definition TOKEN_ACTION_HASH_MISMATCH :: string where [reason_defs]: "TOKEN_ACTION_HASH_MISMATCH = ''action_hash_mismatch''"
definition TOKEN_INCIDENT_MISMATCH :: string where [reason_defs]: "TOKEN_INCIDENT_MISMATCH = ''incident_mismatch''"
definition TOKEN_ACTOR_MISMATCH :: string where [reason_defs]: "TOKEN_ACTOR_MISMATCH = ''actor_mismatch''"
definition TOKEN_APPROVER_MISMATCH :: string where [reason_defs]: "TOKEN_APPROVER_MISMATCH = ''approver_mismatch''"
definition TOKEN_ONE_TIME_USE_ID_MISMATCH :: string where [reason_defs]: "TOKEN_ONE_TIME_USE_ID_MISMATCH = ''one_time_use_id_mismatch''"
definition TOKEN_REQUESTED_AT_MISMATCH :: string where [reason_defs]: "TOKEN_REQUESTED_AT_MISMATCH = ''requested_at_mismatch''"
definition TOKEN_APPROVED_AT_MISMATCH :: string where [reason_defs]: "TOKEN_APPROVED_AT_MISMATCH = ''approved_at_mismatch''"
definition TOKEN_EXPIRES_AT_MISMATCH :: string where [reason_defs]: "TOKEN_EXPIRES_AT_MISMATCH = ''expires_at_mismatch''"
definition TOKEN_CONSUMED :: string where [reason_defs]: "TOKEN_CONSUMED = ''consumed''"
definition TOKEN_EXPIRED :: string where [reason_defs]: "TOKEN_EXPIRED = ''expired''"
definition TOKEN_VALID :: string where [reason_defs]: "TOKEN_VALID = ''valid''"
definition AUDIT_REJECTED :: string where [reason_defs]: "AUDIT_REJECTED = ''rejected''"
definition AUDIT_TOKEN_REQUIRED :: string where [reason_defs]: "AUDIT_TOKEN_REQUIRED = ''token_required''"
definition AUDIT_APPROVED :: string where [reason_defs]: "AUDIT_APPROVED = ''approved''"
definition AUDIT_EXECUTED :: string where [reason_defs]: "AUDIT_EXECUTED = ''executed''"
definition AUDIT_PASSED :: string where [reason_defs]: "AUDIT_PASSED = ''passed''"
definition AUDIT_FAILED :: string where [reason_defs]: "AUDIT_FAILED = ''failed''"
definition AUDIT_APPROVER_ROLE_REQUIRED :: string where [reason_defs]: "AUDIT_APPROVER_ROLE_REQUIRED = ''approver_role_required''"
definition AUDIT_REQUEST_NOT_ACTIVE :: string where [reason_defs]: "AUDIT_REQUEST_NOT_ACTIVE = ''request_not_active''"
definition AUDIT_REQUEST_EXPIRED :: string where [reason_defs]: "AUDIT_REQUEST_EXPIRED = ''request_expired''"
definition APPROVAL_INVALID_PREFIX :: string where [reason_defs]: "APPROVAL_INVALID_PREFIX = ''approval_invalid:''"
definition MONITOR_VERDICT_PREFIX :: string where [reason_defs]: "MONITOR_VERDICT_PREFIX = ''monitor_verdict:''"
definition MONITOR_ERROR_PREFIX :: string where [reason_defs]: "MONITOR_ERROR_PREFIX = ''monitor_error:''"
definition ARGUMENT_CONSTRAINT_PREFIX :: string where [reason_defs]: "ARGUMENT_CONSTRAINT_PREFIX = ''argument_constraint:''"
definition UNENFORCEABLE_CONSTRAINT_PREFIX :: string where [reason_defs]: "UNENFORCEABLE_CONSTRAINT_PREFIX = ''unenforceable_constraint:''"
definition UNKNOWN_EVIDENCE_PREFIX :: string where [reason_defs]: "UNKNOWN_EVIDENCE_PREFIX = ''unknown_evidence:''"
definition CROSS_CONTEXT_EVIDENCE_PREFIX :: string where [reason_defs]: "CROSS_CONTEXT_EVIDENCE_PREFIX = ''cross_context_evidence:''"
definition CORRELATION_CONTEXT_MISMATCH_PREFIX :: string where [reason_defs]: "CORRELATION_CONTEXT_MISMATCH_PREFIX = ''correlation_context_mismatch:''"
definition EXPIRED_EVIDENCE_PREFIX :: string where [reason_defs]: "EXPIRED_EVIDENCE_PREFIX = ''expired_evidence:''"
definition STALE_EVIDENCE_PREFIX :: string where [reason_defs]: "STALE_EVIDENCE_PREFIX = ''stale_evidence:''"
definition UNALLOWED_EVIDENCE_SOURCE_PREFIX :: string where [reason_defs]: "UNALLOWED_EVIDENCE_SOURCE_PREFIX = ''unallowed_evidence_source:''"
definition EMBEDDED_INSTRUCTION_DATA_PREFIX :: string where [reason_defs]: "EMBEDDED_INSTRUCTION_DATA_PREFIX = ''embedded_instruction_data:''"

definition TOKEN_CAUSES :: "string list" where
  "TOKEN_CAUSES = [
    TOKEN_MISSING, TOKEN_ACTION_HASH_MISMATCH, TOKEN_INCIDENT_MISMATCH, TOKEN_ACTOR_MISMATCH,
    TOKEN_APPROVER_MISMATCH, TOKEN_ONE_TIME_USE_ID_MISMATCH, TOKEN_REQUESTED_AT_MISMATCH,
    TOKEN_APPROVED_AT_MISMATCH, TOKEN_EXPIRES_AT_MISMATCH, TOKEN_CONSUMED, TOKEN_EXPIRED,
    TOKEN_VALID]"

definition STATIC_REASONS :: "string list" where
  "STATIC_REASONS = [
    COLLECTION_CONTEXT_MISMATCH, THREAD_CONTEXT_MISMATCH, INCIDENT_CONTEXT_MISMATCH,
    CALLER_ACTOR_MISMATCH, NO_ACTION_EVIDENCE_VALIDATION_FAILED, POLICY_VALID, UNKNOWN_TOOL,
    CALLER_ROLE_DENIED, CALLER_PERMISSION_DENIED, CAPABILITY_PROHIBITED, EVIDENCE_VALID,
    CITATIONS_REQUIRED, MONITOR_BLOCK, MONITOR_ACTION_HASH_MISMATCH, MONITOR_ERROR,
    HUMAN_REJECTED, DEFER_REASON_REQUIRED, APPROVAL_TOKEN_REQUIRED, IDEMPOTENCY_KEY_REBOUND,
    RECOVERY_VERIFIED, RECOVERY_FAILED, PROPOSAL_CONTEXT_MISMATCH,
    PROPOSAL_MISSING_REQUIRED_EVIDENCE, PROPOSAL_AMBIGUOUS_EVIDENCE, PROPOSAL_NO_D1_FAULT,
    PROPOSAL_WRONG_REVISION_DIFF, PROPOSAL_WRONG_STATE, PROPOSAL_WRONG_CONFIG,
    PROPOSAL_BELOW_THRESHOLD, PROPOSAL_WRONG_RELIABILITY_FIXTURE,
    PROPOSAL_MODEL_OUTPUT_TRUNCATED, PROPOSAL_MODEL_OUTPUT_INVALID, PROPOSAL_MODEL_UNAVAILABLE,
    PROPOSAL_UNCITED_EVIDENCE, PROPOSAL_EVIDENCE_UNRENDERABLE, PROPOSAL_REQUEST_TOO_LARGE,
    RETRY_BUDGET_EXHAUSTED, TIME_BUDGET_EXHAUSTED, UPSTREAM_TIMEOUT, OBSERVABILITY_TOOL_TIMEOUT,
    LOCK_AUTO_RELEASE_OBSERVED_NO_ACTION, DNS_NXDOMAIN_NETWORK_OWNER_REQUIRED,
    UNEXPECTED_CERTIFICATE_NETWORK_OWNER_REQUIRED, STALE_EVIDENCE_RECHECKED_NO_ACTION,
    UNTRUSTED_INSTRUCTION_RECORDED, AMBIGUOUS_EVIDENCE_HUMAN_REVIEW_RECOMMENDED, AUDIT_REJECTED,
    AUDIT_TOKEN_REQUIRED, AUDIT_APPROVED, AUDIT_EXECUTED, AUDIT_PASSED, AUDIT_FAILED,
    AUDIT_APPROVER_ROLE_REQUIRED, AUDIT_REQUEST_NOT_ACTIVE, AUDIT_REQUEST_EXPIRED]"

definition REASON_FAMILY_PREFIXES :: "string list" where
  "REASON_FAMILY_PREFIXES = [
    APPROVAL_INVALID_PREFIX, MONITOR_VERDICT_PREFIX, MONITOR_ERROR_PREFIX,
    ARGUMENT_CONSTRAINT_PREFIX, UNKNOWN_EVIDENCE_PREFIX, CROSS_CONTEXT_EVIDENCE_PREFIX,
    CORRELATION_CONTEXT_MISMATCH_PREFIX, EXPIRED_EVIDENCE_PREFIX, STALE_EVIDENCE_PREFIX,
    UNALLOWED_EVIDENCE_SOURCE_PREFIX, EMBEDDED_INSTRUCTION_DATA_PREFIX,
    UNENFORCEABLE_CONSTRAINT_PREFIX]"

definition MONITOR_ERROR_KINDS :: "string list" where
  "MONITOR_ERROR_KINDS = [
    ''provider_unavailable'', ''timeout'', ''response_truncated'', ''response_malformed'',
    ''schema_violation'', ''echo_mismatch'', ''input_unrenderable'', ''cache_miss'']"

section \<open>The constructors of the families\<close>

definition approval_invalid :: "string \<Rightarrow> string" where
  "approval_invalid x = APPROVAL_INVALID_PREFIX @ x"

definition monitor_verdict_reason :: "string \<Rightarrow> string" where
  "monitor_verdict_reason x = MONITOR_VERDICT_PREFIX @ x"

definition monitor_error :: "string \<Rightarrow> string" where
  "monitor_error kind =
     MONITOR_ERROR_PREFIX @ (if kind \<in> set MONITOR_ERROR_KINDS then kind else ''unknown'')"

definition argument_constraint :: "string \<Rightarrow> string" where
  "argument_constraint x = ARGUMENT_CONSTRAINT_PREFIX @ x"

definition unenforceable_constraint :: "string \<Rightarrow> string" where
  "unenforceable_constraint x = UNENFORCEABLE_CONSTRAINT_PREFIX @ x"

definition unknown_evidence :: "string \<Rightarrow> string" where
  "unknown_evidence x = UNKNOWN_EVIDENCE_PREFIX @ x"

definition cross_context_evidence :: "string \<Rightarrow> string" where
  "cross_context_evidence x = CROSS_CONTEXT_EVIDENCE_PREFIX @ x"

definition correlation_context_mismatch :: "string \<Rightarrow> string" where
  "correlation_context_mismatch x = CORRELATION_CONTEXT_MISMATCH_PREFIX @ x"

definition expired_evidence :: "string \<Rightarrow> string" where
  "expired_evidence x = EXPIRED_EVIDENCE_PREFIX @ x"

definition stale_evidence :: "string \<Rightarrow> string" where
  "stale_evidence x = STALE_EVIDENCE_PREFIX @ x"

definition unallowed_evidence_source :: "string \<Rightarrow> string" where
  "unallowed_evidence_source x = UNALLOWED_EVIDENCE_SOURCE_PREFIX @ x"

definition embedded_instruction_data :: "string \<Rightarrow> string" where
  "embedded_instruction_data x = EMBEDDED_INSTRUCTION_DATA_PREFIX @ x"

lemmas family_defs = approval_invalid_def monitor_verdict_reason_def argument_constraint_def unenforceable_constraint_def unknown_evidence_def cross_context_evidence_def correlation_context_mismatch_def expired_evidence_def stale_evidence_def unallowed_evidence_source_def embedded_instruction_data_def

section \<open>Membership in the vocabulary\<close>

definition is_known_reason :: "string \<Rightarrow> bool" where
  "is_known_reason reason =
     (if reason \<in> set STATIC_REASONS then True
      else list_ex (\<lambda>prefix. starts_with prefix reason \<and> length prefix < length reason)
             REASON_FAMILY_PREFIXES)"

text \<open>
  \<open>unknown_reasons\<close> accepts any object; only a list or a tuple is inspected, member by member
  through \<open>str\<close>. The members the callers pass are strings, so \<open>str\<close> is the identity on them.
\<close>

definition unknown_reasons :: "py \<Rightarrow> (py \<Rightarrow> string) \<Rightarrow> string list" where
  "unknown_reasons reasons to_str =
     (case reasons of
        PList xs \<Rightarrow> filter (\<lambda>r. \<not> is_known_reason r) (map to_str xs)
      | PTuple xs \<Rightarrow> filter (\<lambda>r. \<not> is_known_reason r) (map to_str xs)
      | _ \<Rightarrow> [])"

section \<open>Decodability\<close>

text \<open>
  Every prefix is a word without a colon followed by one colon; no static reason has a colon.
\<close>

definition family_shape :: "string \<Rightarrow> bool" where
  "family_shape p = (p \<noteq> [] \<and> last p = CHR '':'' \<and> CHR '':'' \<notin> set (butlast p))"

lemma prefixes_shape: "p \<in> set REASON_FAMILY_PREFIXES \<Longrightarrow> family_shape p"
proof -
  have "list_all family_shape REASON_FAMILY_PREFIXES" by code_simp
  then show "p \<in> set REASON_FAMILY_PREFIXES \<Longrightarrow> family_shape p"
    by (simp add: list_all_iff)
qed

lemma static_no_colon: "r \<in> set STATIC_REASONS \<Longrightarrow> CHR '':'' \<notin> set r"
proof -
  have "list_all (\<lambda>r. list_all (\<lambda>c. c \<noteq> CHR '':'') r) STATIC_REASONS" by code_simp
  then show "r \<in> set STATIC_REASONS \<Longrightarrow> CHR '':'' \<notin> set r"
    by (auto simp: list_all_iff)
qed

lemma family_shape_takeWhile:
  assumes "family_shape p"
  shows "takeWhile (\<lambda>c. c \<noteq> CHR '':'') (p @ s) @ [CHR '':''] = p"
proof -
  obtain b where b: "p = b @ [CHR '':'']" "CHR '':'' \<notin> set b"
    using assms by (metis append_butlast_last_id family_shape_def)
  have "takeWhile (\<lambda>c. c \<noteq> CHR '':'') (b @ CHR '':'' # s) = b"
    using b(2) by (subst takeWhile_append2) auto
  then show ?thesis by (simp add: b(1))
qed

lemma family_unique:
  assumes "p \<in> set REASON_FAMILY_PREFIXES" "q \<in> set REASON_FAMILY_PREFIXES" "p @ s = q @ t"
  shows "p = q \<and> s = t"
proof -
  have "p = q"
    using family_shape_takeWhile[OF prefixes_shape[OF assms(1)], of s]
      family_shape_takeWhile[OF prefixes_shape[OF assms(2)], of t] assms(3) by simp
  then show ?thesis using assms(3) by simp
qed

lemma family_not_static:
  assumes "p \<in> set REASON_FAMILY_PREFIXES"
  shows "p @ s \<notin> set STATIC_REASONS"
proof
  assume "p @ s \<in> set STATIC_REASONS"
  then have "CHR '':'' \<notin> set (p @ s)" by (rule static_no_colon)
  moreover have "CHR '':'' \<in> set p"
    using prefixes_shape[OF assms] by (metis family_shape_def last_in_set)
  ultimately show False by simp
qed

lemma is_known_reason_iff:
  "is_known_reason r \<longleftrightarrow>
     r \<in> set STATIC_REASONS \<or> (\<exists>p \<in> set REASON_FAMILY_PREFIXES. \<exists>s. s \<noteq> [] \<and> r = p @ s)"
proof -
  have "(starts_with p r \<and> length p < length r) = (\<exists>s. s \<noteq> [] \<and> r = p @ s)" for p
    by (auto simp: starts_with_iff)
  then show ?thesis by (simp add: is_known_reason_def list_ex_iff)
qed

lemma family_known:
  assumes "p \<in> set REASON_FAMILY_PREFIXES"
  shows "is_known_reason (p @ s) \<longleftrightarrow> s \<noteq> []"
proof -
  have "is_known_reason (p @ s) \<longleftrightarrow> (\<exists>q \<in> set REASON_FAMILY_PREFIXES. \<exists>t. t \<noteq> [] \<and> p @ s = q @ t)"
    using family_not_static[OF assms, of s] by (simp add: is_known_reason_iff)
  also have "\<dots> \<longleftrightarrow> s \<noteq> []"
    using assms family_unique[OF assms] by blast
  finally show ?thesis .
qed

lemma prefixes_members [simp]:
"APPROVAL_INVALID_PREFIX \<in> set REASON_FAMILY_PREFIXES"
  "MONITOR_VERDICT_PREFIX \<in> set REASON_FAMILY_PREFIXES"
  "MONITOR_ERROR_PREFIX \<in> set REASON_FAMILY_PREFIXES"
  "ARGUMENT_CONSTRAINT_PREFIX \<in> set REASON_FAMILY_PREFIXES"
  "UNKNOWN_EVIDENCE_PREFIX \<in> set REASON_FAMILY_PREFIXES"
  "CROSS_CONTEXT_EVIDENCE_PREFIX \<in> set REASON_FAMILY_PREFIXES"
  "CORRELATION_CONTEXT_MISMATCH_PREFIX \<in> set REASON_FAMILY_PREFIXES"
  "EXPIRED_EVIDENCE_PREFIX \<in> set REASON_FAMILY_PREFIXES"
  "STALE_EVIDENCE_PREFIX \<in> set REASON_FAMILY_PREFIXES"
  "UNALLOWED_EVIDENCE_SOURCE_PREFIX \<in> set REASON_FAMILY_PREFIXES"
  "EMBEDDED_INSTRUCTION_DATA_PREFIX \<in> set REASON_FAMILY_PREFIXES"
  "UNENFORCEABLE_CONSTRAINT_PREFIX \<in> set REASON_FAMILY_PREFIXES"
   by (simp_all add: REASON_FAMILY_PREFIXES_def)

lemma constructors_known [simp]:
"is_known_reason (approval_invalid x) \<longleftrightarrow> x \<noteq> []"
  "is_known_reason (monitor_verdict_reason x) \<longleftrightarrow> x \<noteq> []"
  "is_known_reason (argument_constraint x) \<longleftrightarrow> x \<noteq> []"
  "is_known_reason (unenforceable_constraint x) \<longleftrightarrow> x \<noteq> []"
  "is_known_reason (unknown_evidence x) \<longleftrightarrow> x \<noteq> []"
  "is_known_reason (cross_context_evidence x) \<longleftrightarrow> x \<noteq> []"
  "is_known_reason (correlation_context_mismatch x) \<longleftrightarrow> x \<noteq> []"
  "is_known_reason (expired_evidence x) \<longleftrightarrow> x \<noteq> []"
  "is_known_reason (stale_evidence x) \<longleftrightarrow> x \<noteq> []"
  "is_known_reason (unallowed_evidence_source x) \<longleftrightarrow> x \<noteq> []"
  "is_known_reason (embedded_instruction_data x) \<longleftrightarrow> x \<noteq> []"
   by (simp_all add: family_defs family_known)

lemma monitor_error_known [simp]: "is_known_reason (monitor_error kind)"
proof -
  have "[] \<notin> set MONITOR_ERROR_KINDS" by (simp add: MONITOR_ERROR_KINDS_def)
  then show ?thesis by (auto simp: monitor_error_def family_known)
qed

lemma static_known: "r \<in> set STATIC_REASONS \<Longrightarrow> is_known_reason r"
  by (simp add: is_known_reason_def)

lemma static_constants_known [simp]:
"is_known_reason COLLECTION_CONTEXT_MISMATCH"
  "is_known_reason THREAD_CONTEXT_MISMATCH"
  "is_known_reason INCIDENT_CONTEXT_MISMATCH"
  "is_known_reason CALLER_ACTOR_MISMATCH"
  "is_known_reason NO_ACTION_EVIDENCE_VALIDATION_FAILED"
  "is_known_reason POLICY_VALID"
  "is_known_reason UNKNOWN_TOOL"
  "is_known_reason CALLER_ROLE_DENIED"
  "is_known_reason CALLER_PERMISSION_DENIED"
  "is_known_reason CAPABILITY_PROHIBITED"
  "is_known_reason EVIDENCE_VALID"
  "is_known_reason CITATIONS_REQUIRED"
  "is_known_reason MONITOR_BLOCK"
  "is_known_reason MONITOR_ACTION_HASH_MISMATCH"
  "is_known_reason MONITOR_ERROR"
  "is_known_reason HUMAN_REJECTED"
  "is_known_reason DEFER_REASON_REQUIRED"
  "is_known_reason APPROVAL_TOKEN_REQUIRED"
  "is_known_reason IDEMPOTENCY_KEY_REBOUND"
  "is_known_reason RECOVERY_VERIFIED"
  "is_known_reason RECOVERY_FAILED"
  "is_known_reason PROPOSAL_CONTEXT_MISMATCH"
  "is_known_reason PROPOSAL_MISSING_REQUIRED_EVIDENCE"
  "is_known_reason PROPOSAL_AMBIGUOUS_EVIDENCE"
  "is_known_reason PROPOSAL_NO_D1_FAULT"
  "is_known_reason PROPOSAL_WRONG_REVISION_DIFF"
  "is_known_reason PROPOSAL_WRONG_STATE"
  "is_known_reason PROPOSAL_WRONG_CONFIG"
  "is_known_reason PROPOSAL_BELOW_THRESHOLD"
  "is_known_reason PROPOSAL_WRONG_RELIABILITY_FIXTURE"
  "is_known_reason PROPOSAL_MODEL_OUTPUT_TRUNCATED"
  "is_known_reason PROPOSAL_MODEL_OUTPUT_INVALID"
  "is_known_reason PROPOSAL_MODEL_UNAVAILABLE"
  "is_known_reason PROPOSAL_UNCITED_EVIDENCE"
  "is_known_reason PROPOSAL_EVIDENCE_UNRENDERABLE"
  "is_known_reason PROPOSAL_REQUEST_TOO_LARGE"
  "is_known_reason RETRY_BUDGET_EXHAUSTED"
  "is_known_reason TIME_BUDGET_EXHAUSTED"
  "is_known_reason UPSTREAM_TIMEOUT"
  "is_known_reason OBSERVABILITY_TOOL_TIMEOUT"
  "is_known_reason LOCK_AUTO_RELEASE_OBSERVED_NO_ACTION"
  "is_known_reason DNS_NXDOMAIN_NETWORK_OWNER_REQUIRED"
  "is_known_reason UNEXPECTED_CERTIFICATE_NETWORK_OWNER_REQUIRED"
  "is_known_reason STALE_EVIDENCE_RECHECKED_NO_ACTION"
  "is_known_reason UNTRUSTED_INSTRUCTION_RECORDED"
  "is_known_reason AMBIGUOUS_EVIDENCE_HUMAN_REVIEW_RECOMMENDED"
  "is_known_reason AUDIT_REJECTED"
  "is_known_reason AUDIT_TOKEN_REQUIRED"
  "is_known_reason AUDIT_APPROVED"
  "is_known_reason AUDIT_EXECUTED"
  "is_known_reason AUDIT_PASSED"
  "is_known_reason AUDIT_FAILED"
  "is_known_reason AUDIT_APPROVER_ROLE_REQUIRED"
  "is_known_reason AUDIT_REQUEST_NOT_ACTIVE"
  "is_known_reason AUDIT_REQUEST_EXPIRED"
   by (rule static_known; simp add: STATIC_REASONS_def)+

lemma token_causes_nonempty: "c \<in> set TOKEN_CAUSES \<Longrightarrow> c \<noteq> []"
  by (auto simp: TOKEN_CAUSES_def reason_defs)

lemma unknown_reasons_empty:
  "unknown_reasons (PTuple (map PStr rs)) to_str = [] \<longleftrightarrow> (\<forall>r \<in> set rs. is_known_reason (to_str (PStr r)))"
  by (auto simp: unknown_reasons_def filter_empty_conv)

section \<open>Properties\<close>

text \<open>
  a reason is in the frozen vocabulary exactly when it is a static reason or the member of
  one and only one parameterized family with one non-empty suffix, never both: every known
  reason can be decoded in a single way.
\<close>

theorem reason_vocabulary_decodable:
  "(is_known_reason r \<longleftrightarrow>
      (r \<in> set STATIC_REASONS) \<noteq>
      (\<exists>!(p, s). p \<in> set REASON_FAMILY_PREFIXES \<and> s \<noteq> [] \<and> r = p @ s)) \<and>
   \<not> (r \<in> set STATIC_REASONS \<and>
      (\<exists>p \<in> set REASON_FAMILY_PREFIXES. starts_with p r))"
proof -
  have uniq: "(\<exists>!(p, s). p \<in> set REASON_FAMILY_PREFIXES \<and> s \<noteq> [] \<and> r = p @ s) \<longleftrightarrow>
      (\<exists>p \<in> set REASON_FAMILY_PREFIXES. \<exists>s. s \<noteq> [] \<and> r = p @ s)"
  proof
    assume "\<exists>p \<in> set REASON_FAMILY_PREFIXES. \<exists>s. s \<noteq> [] \<and> r = p @ s"
    then obtain p s where ps: "p \<in> set REASON_FAMILY_PREFIXES" "s \<noteq> []" "r = p @ s" by blast
    show "\<exists>!(p, s). p \<in> set REASON_FAMILY_PREFIXES \<and> s \<noteq> [] \<and> r = p @ s"
    proof (rule ex1I[of _ "(p, s)"])
      fix q :: "string \<times> string"
      assume "case q of (p, s) \<Rightarrow> p \<in> set REASON_FAMILY_PREFIXES \<and> s \<noteq> [] \<and> r = p @ s"
      then have "fst q \<in> set REASON_FAMILY_PREFIXES" "r = fst q @ snd q" by (auto split: prod.splits)
      with ps(1,3) family_unique[of "fst q" p "snd q" s] show "q = (p, s)" by (cases q) auto
    qed (use ps in simp)
  qed blast
  show ?thesis
    unfolding uniq is_known_reason_iff starts_with_iff using family_not_static by blast
qed

text \<open>
  the 55 static reasons are pairwise different strings, none of them is a bare token cause,
  and every cause other than success becomes a known reason once \<open>approval_invalid\<close> wraps it.
\<close>

theorem static_reasons_distinct:
  "distinct STATIC_REASONS \<and> length STATIC_REASONS = 55 \<and>
   set STATIC_REASONS \<inter> set TOKEN_CAUSES = {} \<and>
   list_all (\<lambda>c. is_known_reason (approval_invalid c) \<and> \<not> is_known_reason c) TOKEN_CAUSES"
proof -
  have "distinct STATIC_REASONS" by (simp add: STATIC_REASONS_def reason_defs)
  moreover have "length STATIC_REASONS = 55" by (simp add: STATIC_REASONS_def)
  moreover have *: "list_all (\<lambda>c. is_known_reason (approval_invalid c) \<and> \<not> is_known_reason c) TOKEN_CAUSES"
    by (simp add: TOKEN_CAUSES_def is_known_reason_def STATIC_REASONS_def REASON_FAMILY_PREFIXES_def
        approval_invalid_def reason_defs)
  moreover from * have "set STATIC_REASONS \<inter> set TOKEN_CAUSES = {}"
    using static_known by (auto simp: list_all_iff)
  ultimately show ?thesis by blast
qed

end
