(* ===== verification/Lab_Store.thy ===== *)
theory Lab_Store
  imports Contracts Reasons
begin

text \<open>
  The durable store of \<open>lab/repository.py\<close> that every committed operation goes through: the
  approval rows, the operation ledger, the audit timeline, the evidence records, the scenario
  fixtures and the two sabotage side stores, with the repository methods that read and write
  them. A table is a list of rows in insertion order; a fixture row is a map from column names to
  values, kept under its table and filter. Uniqueness constraints of the schema raise
  \<open>IntegrityError\<close>. A transaction is a function from the store to the store it leaves; an
  exception in it leaves the store it started from. \<open>uuid5(NAMESPACE_URL, name)\<close> is the parameter
  \<open>uuid5\<close>.
\<close>

section \<open>Rows and tables\<close>

record approval_row =
  ap_token_id :: uuid
  ap_one_time_use_id :: uuid
  ap_incident_id :: string
  ap_action_hash :: string
  ap_actor :: string
  ap_approver :: string
  ap_requested_at :: instant
  ap_expires_at :: instant
  ap_approved_at :: instant
  ap_consumed_at :: "instant option"

record ledger_row =
  lg_operation_scope :: string
  lg_idempotency_key :: uuid
  lg_action_hash :: string
  lg_approval_token_id :: uuid
  lg_one_time_use_id :: uuid
  lg_incident_id :: string
  lg_thread_id :: string
  lg_correlation_id :: string
  lg_actor :: string
  lg_permission :: string
  lg_approver :: string
  lg_result :: "(string \<times> py) list"
  lg_arguments :: json
  lg_committed_at :: instant

record audit_row =
  au_audit_id :: uuid
  au_incident_id :: string
  au_event_type :: string
  au_actor :: string
  au_payload :: "(string \<times> py) list"
  au_created_at :: instant

text \<open>An evidence record joined with the kind of its immutable source.\<close>

record evidence_row =
  er_evidence_id :: string
  er_incident_id :: string
  er_thread_id :: string
  er_correlation_id :: string
  er_tool_name :: string
  er_actor :: string
  er_permission :: string
  er_expires_at :: instant
  er_source_kind :: string

record outbound_note =
  nt_note_id :: uuid
  nt_incident_id :: string
  nt_thread_id :: string
  nt_correlation_id :: string
  nt_actor :: string
  nt_destination :: string
  nt_source_ref :: string
  nt_body :: string
  nt_written_at :: instant

record history_row =
  hs_history_id :: uuid
  hs_incident_id :: string
  hs_sequence :: int
  hs_operation_scope :: string
  hs_changed_paths :: "string list"
  hs_before_state :: "(string \<times> py) list"
  hs_after_state :: "(string \<times> py) list"

type_synonym fixture_row = "string \<Rightarrow> py option"

record lab_db =
  db_approvals :: "approval_row list"
  db_ledger :: "ledger_row list"
  db_audit :: "audit_row list"
  db_evidence :: "evidence_row list"
  db_fixtures :: "string \<times> string \<Rightarrow> fixture_row option"
  db_t1_records :: "string \<times> string \<Rightarrow> (string \<times> string) option"
  db_t1_notes :: "outbound_note list"
  db_t8_history :: "history_row list"

section \<open>Statements\<close>

definition find_ledger :: "lab_db \<Rightarrow> string \<Rightarrow> uuid \<Rightarrow> ledger_row option" where
  "find_ledger db scope key =
     find (\<lambda>r. lg_operation_scope r = scope \<and> lg_idempotency_key r = key) (db_ledger db)"

definition find_approval :: "lab_db \<Rightarrow> uuid \<Rightarrow> approval_row option" where
  "find_approval db token_id = find (\<lambda>r. ap_token_id r = token_id) (db_approvals db)"

text \<open>
  The constraints of \<open>operation_ledger\<close>: the primary key, the two uniqueness constraints and the
  reference to the approval.
\<close>

definition insert_ledger :: "ledger_row \<Rightarrow> lab_db \<Rightarrow> lab_db result" where
  "insert_ledger row db =
     (if list_ex (\<lambda>r. lg_operation_scope r = lg_operation_scope row \<and>
           (lg_idempotency_key r = lg_idempotency_key row \<or>
            lg_approval_token_id r = lg_approval_token_id row \<or>
            lg_one_time_use_id r = lg_one_time_use_id row)) (db_ledger db)
      then Inl (IntegrityError ''operation_ledger'')
      else if find_approval db (lg_approval_token_id row) = None
      then Inl (IntegrityError ''operation_ledger_approval_token_id_fkey'')
      else Inr (db\<lparr>db_ledger := db_ledger db @ [row]\<rparr>))"

definition insert_audit :: "audit_row \<Rightarrow> lab_db \<Rightarrow> lab_db result" where
  "insert_audit row db =
     (if list_ex (\<lambda>r. au_audit_id r = au_audit_id row) (db_audit db)
      then Inl (IntegrityError ''audit_timeline_pkey'')
      else Inr (db\<lparr>db_audit := db_audit db @ [row]\<rparr>))"

definition consume_approval :: "uuid \<Rightarrow> instant \<Rightarrow> lab_db \<Rightarrow> lab_db" where
  "consume_approval token_id now db = db\<lparr>db_approvals :=
     map (\<lambda>r. if ap_token_id r = token_id then r\<lparr>ap_consumed_at := Some now\<rparr> else r) (db_approvals db)\<rparr>"

text \<open>An assignment of an \<open>UPDATE ... SET\<close> clause: a new value, or \<open>column + 1\<close>.\<close>

datatype touch = SetTo py | PlusOne

definition increment :: "py option \<Rightarrow> py option" where
  "increment v = (case v of Some (PInt i) \<Rightarrow> Some (PInt (i + 1)) | _ \<Rightarrow> v)"

text \<open>All right-hand sides of one statement read the row as it was.\<close>

definition touch_row :: "(string \<times> touch) list \<Rightarrow> fixture_row \<Rightarrow> fixture_row" where
  "touch_row ts row = (\<lambda>column. case map_of ts column of
     None \<Rightarrow> row column | Some (SetTo v) \<Rightarrow> Some v | Some PlusOne \<Rightarrow> increment (row column))"

definition update_fixture :: "string \<times> string \<Rightarrow> (string \<times> touch) list \<Rightarrow> lab_db \<Rightarrow> lab_db" where
  "update_fixture key ts db =
     db\<lparr>db_fixtures := (db_fixtures db)(key := map_option (touch_row ts) (db_fixtures db key))\<rparr>"

section \<open>Approvals\<close>

definition record_approval :: "approval_token \<Rightarrow> string \<Rightarrow> lab_db \<Rightarrow> lab_db result" where
  [store_defs]: "record_approval token incident_id db =
     (if list_ex (\<lambda>r. ap_token_id r = tok_token_id token \<or>
                      ap_one_time_use_id r = apr_one_time_use_id token) (db_approvals db)
      then Inl (ApprovalConflict ''approval token or one-time identity already exists'')
      else Inr (db\<lparr>db_approvals := db_approvals db @ [\<lparr>
        ap_token_id = tok_token_id token, ap_one_time_use_id = apr_one_time_use_id token,
        ap_incident_id = incident_id, ap_action_hash = apr_action_hash token,
        ap_actor = apr_actor token, ap_approver = tok_approver token,
        ap_requested_at = apr_requested_at token, ap_expires_at = apr_expires_at token,
        ap_approved_at = tok_approved_at token, ap_consumed_at = None\<rparr>]\<rparr>))"

definition token_binding_cause ::
  "approval_row option \<Rightarrow> approval_token \<Rightarrow> string \<Rightarrow> string \<Rightarrow> string option \<Rightarrow> string option" where
  "token_binding_cause approval token action_hash actor incident_id =
     (case approval of
        None \<Rightarrow> Some TOKEN_MISSING
      | Some a \<Rightarrow>
          if (case incident_id of None \<Rightarrow> False | Some i \<Rightarrow> ap_incident_id a \<noteq> i)
          then Some TOKEN_INCIDENT_MISMATCH
          else if ap_action_hash a \<noteq> action_hash \<or> apr_action_hash token \<noteq> action_hash
          then Some TOKEN_ACTION_HASH_MISMATCH
          else if ap_actor a \<noteq> actor \<or> apr_actor token \<noteq> actor then Some TOKEN_ACTOR_MISMATCH
          else if ap_approver a \<noteq> tok_approver token then Some TOKEN_APPROVER_MISMATCH
          else if ap_one_time_use_id a \<noteq> apr_one_time_use_id token
          then Some TOKEN_ONE_TIME_USE_ID_MISMATCH
          else if ap_requested_at a \<noteq> apr_requested_at token then Some TOKEN_REQUESTED_AT_MISMATCH
          else if ap_approved_at a \<noteq> tok_approved_at token then Some TOKEN_APPROVED_AT_MISMATCH
          else if ap_expires_at a \<noteq> apr_expires_at token then Some TOKEN_EXPIRES_AT_MISMATCH
          else None)"

definition token_refusal_cause ::
  "approval_row option \<Rightarrow> approval_token \<Rightarrow> string \<Rightarrow> string \<Rightarrow> instant \<Rightarrow> string option \<Rightarrow> string" where
  "token_refusal_cause approval token action_hash actor now incident_id =
     (case token_binding_cause approval token action_hash actor incident_id of
        Some binding \<Rightarrow> binding
      | None \<Rightarrow>
          (case approval of None \<Rightarrow> TOKEN_MISSING | Some a \<Rightarrow>
             if ap_consumed_at a \<noteq> None then TOKEN_CONSUMED
             else if ap_expires_at a \<le> now then TOKEN_EXPIRED
             else TOKEN_VALID))"

text \<open>\<open>LabRepository.validate\<close>, the boundary of the approval node: it is given no incident.\<close>

definition repository_validate ::
  "lab_db \<Rightarrow> approval_token \<Rightarrow> string \<Rightarrow> string \<Rightarrow> instant \<Rightarrow> bool \<times> string" where
  [store_defs]: "repository_validate db token action_hash actor now =
     (let cause = token_refusal_cause (find_approval db (tok_token_id token)) token action_hash actor now None
      in (cause = TOKEN_VALID, cause))"

definition validate_approval ::
  "tool_call_context \<Rightarrow> string \<Rightarrow> approval_token \<Rightarrow> approval_row option \<Rightarrow> instant \<Rightarrow> unit result" where
  [store_defs]: "validate_approval ctx action_hash token approval now =
     (let cause = token_refusal_cause approval token action_hash (ctx_actor ctx) now (Some (ctx_incident_id ctx))
      in if cause \<noteq> TOKEN_VALID
         then Inl (ApprovalDenied ''approval is missing, expired, consumed, or not bound to this action''
                (Some (approval_invalid cause)) None)
         else Inr ())"

definition validate_replay ::
  "tool_call_context \<Rightarrow> string \<Rightarrow> approval_token \<Rightarrow> ledger_row \<Rightarrow> approval_row option \<Rightarrow> unit result" where
  [store_defs]: "validate_replay ctx action_hash token ledger approval =
     (if lg_action_hash ledger \<noteq> action_hash \<or> lg_approval_token_id ledger \<noteq> tok_token_id token \<or>
         lg_one_time_use_id ledger \<noteq> apr_one_time_use_id token \<or>
         lg_incident_id ledger \<noteq> ctx_incident_id ctx \<or> lg_thread_id ledger \<noteq> ctx_thread_id ctx \<or>
         lg_actor ledger \<noteq> ctx_actor ctx \<or> lg_permission ledger \<noteq> ctx_permission ctx \<or>
         lg_approver ledger \<noteq> tok_approver token
      then Inl (ApprovalDenied ''idempotency key is bound to different operation semantics''
             (Some IDEMPOTENCY_KEY_REBOUND) None)
      else case token_binding_cause approval token action_hash (ctx_actor ctx) (Some (ctx_incident_id ctx)) of
             Some binding \<Rightarrow>
               Inl (ApprovalDenied ''idempotency key is bound to different operation semantics''
                 (Some (approval_invalid binding)) None)
           | None \<Rightarrow> Inr ())"

section \<open>The audit timeline\<close>

definition EXECUTION_REFUSED :: string where "EXECUTION_REFUSED = ''execution_refused''"

record audit_event_fields =
  ae_incident_id :: string
  ae_thread_id :: string
  ae_actor :: string
  ae_transition :: string
  ae_action_hash :: "string option"
  ae_reason :: "string option"

definition opt_json :: "string option \<Rightarrow> json" where
  "opt_json x = (case x of None \<Rightarrow> JNull | Some s \<Rightarrow> JStr s)"

definition opt_py :: "string option \<Rightarrow> py" where
  "opt_py x = (case x of None \<Rightarrow> PNone | Some s \<Rightarrow> PStr s)"

text \<open>
  The identity an event is deduplicated by. \<open>str(attempt_id)\<close> is an injective rendering of the
  identifier; it is written here as its decimal value.
\<close>

definition audit_identity :: "audit_event_fields \<Rightarrow> uuid option \<Rightarrow> json" where
  "audit_identity e attempt_id = JObj ([
     (''incident_id'', JStr (ae_incident_id e)), (''thread_id'', JStr (ae_thread_id e)),
     (''actor'', JStr (ae_actor e)), (''transition'', JStr (ae_transition e)),
     (''action_hash'', opt_json (ae_action_hash e)), (''reason'', opt_json (ae_reason e))] @
     (case attempt_id of None \<Rightarrow> [] | Some a \<Rightarrow> [(''attempt_id'', JStr (dec_nat a))]))"

definition audit_payload :: "audit_event_fields \<Rightarrow> uuid option \<Rightarrow> (string \<times> py) list" where
  "audit_payload e attempt_id = [
     (''thread_id'', PStr (ae_thread_id e)), (''transition'', PStr (ae_transition e)),
     (''action_hash'', opt_py (ae_action_hash e)), (''reason'', opt_py (ae_reason e))] @
     (case attempt_id of None \<Rightarrow> [] | Some a \<Rightarrow> [(''attempt_id'', PUuid a)])"

text \<open>The constraints of \<open>AuditTimelineEvent\<close>, whose constructor runs before the insert.\<close>

definition bounded_text :: "string \<Rightarrow> bool" where
  "bounded_text s = (1 \<le> length s \<and> length s \<le> 128)"

definition validate_audit_event :: "audit_event_fields \<Rightarrow> audit_event_fields result" where
  [contract_defs]: "validate_audit_event e = validated [
     (\<not> bounded_text (ae_incident_id e), ValueError ''incident_id''),
     (\<not> bounded_text (ae_thread_id e), ValueError ''thread_id''),
     (\<not> bounded_text (ae_actor e), ValueError ''actor''),
     (\<not> bounded_text (ae_transition e), ValueError ''transition''),
     (case ae_action_hash e of None \<Rightarrow> False | Some h \<Rightarrow> \<not> is_hex64 h, ValueError ''action_hash''),
     (case ae_reason e of None \<Rightarrow> False | Some r \<Rightarrow> length r > 1000, ValueError ''reason'')] e"

text \<open>The insert, a no-op when the event is already there.\<close>

definition audit_insert ::
  "(string \<Rightarrow> uuid) \<Rightarrow> audit_event_fields \<Rightarrow> instant \<Rightarrow> uuid option \<Rightarrow> lab_db \<Rightarrow> lab_db" where
  [store_defs]: "audit_insert uuid5 e timestamp attempt_id db =
     (let audit_id = uuid5 (dumps (audit_identity e attempt_id)) in
      if list_ex (\<lambda>r. au_audit_id r = audit_id) (db_audit db) then db
      else db\<lparr>db_audit := db_audit db @ [\<lparr>au_audit_id = audit_id, au_incident_id = ae_incident_id e,
             au_event_type = ae_transition e, au_actor = ae_actor e,
             au_payload = audit_payload e attempt_id, au_created_at = timestamp\<rparr>]\<rparr>)"

definition append_audit_event ::
  "(string \<Rightarrow> uuid) \<Rightarrow> audit_event_fields \<Rightarrow> instant \<Rightarrow> uuid option \<Rightarrow> lab_db \<Rightarrow> lab_db result" where
  [store_defs]: "append_audit_event uuid5 e timestamp attempt_id db =
     bind_res (validate_audit_event e) (\<lambda>event. Inr (audit_insert uuid5 event timestamp attempt_id db))"

definition refusal_event :: "tool_call_context \<Rightarrow> string \<Rightarrow> string \<Rightarrow> audit_event_fields" where
  "refusal_event ctx action_hash reason = \<lparr>ae_incident_id = ctx_incident_id ctx,
     ae_thread_id = ctx_thread_id ctx, ae_actor = ctx_actor ctx, ae_transition = EXECUTION_REFUSED,
     ae_action_hash = Some action_hash, ae_reason = Some reason\<rparr>"

text \<open>
  What \<open>_refusal_recorded\<close> does with an exception of the rolled-back block: an approval refusal
  with a reason is appended and raised again, every other exception passes without a record. When
  the append itself raises, its exception is the one that leaves the block.
\<close>

definition refusal_recorded ::
  "(string \<Rightarrow> uuid) \<Rightarrow> tool_call_context \<Rightarrow> string \<Rightarrow> instant \<Rightarrow> py_exn \<Rightarrow> lab_db \<Rightarrow> py_exn \<times> lab_db" where
  [store_defs]: "refusal_recorded uuid5 ctx action_hash now e db =
     (case e of
        ApprovalDenied _ (Some reason) _ \<Rightarrow>
          (case append_audit_event uuid5 (refusal_event ctx action_hash reason) now
                  (ctx_idempotency_key ctx) db of
             Inl failure \<Rightarrow> (failure, db)
           | Inr db' \<Rightarrow> (e, db'))
      | _ \<Rightarrow> (e, db))"

record timeline_event =
  te_incident_id :: string
  te_thread_id :: "py option"
  te_actor :: string
  te_transition :: string
  te_action_hash :: "py option"
  te_reason :: "py option"
  te_timestamp :: instant

definition timeline_row :: "audit_row \<Rightarrow> timeline_event" where
  "timeline_row r = \<lparr>te_incident_id = au_incident_id r,
     te_thread_id = dict_get (au_payload r) ''thread_id'', te_actor = au_actor r,
     te_transition = au_event_type r, te_action_hash = dict_get (au_payload r) ''action_hash'',
     te_reason = dict_get (au_payload r) ''reason'', te_timestamp = au_created_at r\<rparr>"

definition timeline :: "lab_db \<Rightarrow> string \<Rightarrow> int \<Rightarrow> timeline_event list result" where
  "timeline db incident_id limit =
     (if \<not> (1 \<le> limit \<and> limit \<le> 100)
      then Inl (ValueError ''timeline limit must be between 1 and 100'')
      else Inr (map timeline_row (take (nat limit)
             (filter (\<lambda>r. au_incident_id r = incident_id) (db_audit db)))))"

section \<open>Resetting an incident\<close>

text \<open>\<open>_delete_incident\<close>, on the tables of the model.\<close>

definition delete_incident :: "string \<Rightarrow> lab_db \<Rightarrow> lab_db" where
  [store_defs]: "delete_incident i db = db\<lparr>
     db_t1_notes := filter (\<lambda>r. nt_incident_id r \<noteq> i) (db_t1_notes db),
     db_t8_history := filter (\<lambda>r. hs_incident_id r \<noteq> i) (db_t8_history db),
     db_evidence := filter (\<lambda>r. er_incident_id r \<noteq> i) (db_evidence db),
     db_ledger := filter (\<lambda>r. lg_incident_id r \<noteq> i) (db_ledger db),
     db_approvals := filter (\<lambda>r. ap_incident_id r \<noteq> i) (db_approvals db),
     db_audit := filter (\<lambda>r. au_incident_id r \<noteq> i) (db_audit db)\<rparr>"

section \<open>Lemmas\<close>

lemma find_approval_Some:
  "find_approval db t = Some a \<Longrightarrow> a \<in> set (db_approvals db) \<and> ap_token_id a = t"
  by (auto simp: find_approval_def find_Some_iff)

lemma find_approval_None:
  "find_approval db t = None \<longleftrightarrow> t \<notin> ap_token_id ` set (db_approvals db)"
  by (auto simp: find_approval_def find_None_iff)

lemma find_ledger_Some:
  "find_ledger db s k = Some r \<Longrightarrow>
     r \<in> set (db_ledger db) \<and> lg_operation_scope r = s \<and> lg_idempotency_key r = k"
  by (auto simp: find_ledger_def find_Some_iff)

lemma find_ledger_None:
  "find_ledger db s k = None \<longleftrightarrow>
     (\<forall>r \<in> set (db_ledger db). \<not> (lg_operation_scope r = s \<and> lg_idempotency_key r = k))"
  by (auto simp: find_ledger_def find_None_iff)

lemma find_append: "find P (xs @ ys) = (case find P xs of None \<Rightarrow> find P ys | Some x \<Rightarrow> Some x)"
  by (induction xs) auto

lemma consume_simps [simp]:
  "db_ledger (consume_approval t now db) = db_ledger db"
  "db_audit (consume_approval t now db) = db_audit db"
  "db_evidence (consume_approval t now db) = db_evidence db"
  "db_fixtures (consume_approval t now db) = db_fixtures db"
  by (simp_all add: consume_approval_def)

lemma update_fixture_simps [simp]:
  "db_ledger (update_fixture key ts db) = db_ledger db"
  "db_approvals (update_fixture key ts db) = db_approvals db"
  "db_audit (update_fixture key ts db) = db_audit db"
  "db_evidence (update_fixture key ts db) = db_evidence db"
  by (simp_all add: update_fixture_def)

lemma audit_insert_simps [simp]:
  "db_ledger (audit_insert uuid5 e t i db) = db_ledger db"
  "db_approvals (audit_insert uuid5 e t i db) = db_approvals db"
  "db_evidence (audit_insert uuid5 e t i db) = db_evidence db"
  "db_fixtures (audit_insert uuid5 e t i db) = db_fixtures db"
  "db_t1_records (audit_insert uuid5 e t i db) = db_t1_records db"
  "db_t1_notes (audit_insert uuid5 e t i db) = db_t1_notes db"
  "db_t8_history (audit_insert uuid5 e t i db) = db_t8_history db"
  by (simp_all add: audit_insert_def Let_def)

lemma append_audit_Inr:
  "append_audit_event uuid5 e t i db = Inr db' \<Longrightarrow> db' = audit_insert uuid5 e t i db"
  by (auto simp: append_audit_event_def bind_res_eq_Inr validate_audit_event_def validated_Inr)

lemma refusal_recorded_cases:
  "snd (refusal_recorded uuid5 c h now e db) = db \<or>
   (\<exists>m reason st. e = ApprovalDenied m (Some reason) st \<and> fst (refusal_recorded uuid5 c h now e db) = e \<and>
      snd (refusal_recorded uuid5 c h now e db) =
        audit_insert uuid5 (refusal_event c h reason) now (ctx_idempotency_key c) db)"
  unfolding refusal_recorded_def
  by (auto split: py_exn.splits option.splits sum.splits dest!: append_audit_Inr)

lemma refusal_recorded_simps [simp]:
  "db_ledger (snd (refusal_recorded uuid5 c h now e db)) = db_ledger db"
  "db_approvals (snd (refusal_recorded uuid5 c h now e db)) = db_approvals db"
  "db_evidence (snd (refusal_recorded uuid5 c h now e db)) = db_evidence db"
  "db_fixtures (snd (refusal_recorded uuid5 c h now e db)) = db_fixtures db"
  "db_t1_records (snd (refusal_recorded uuid5 c h now e db)) = db_t1_records db"
  "db_t1_notes (snd (refusal_recorded uuid5 c h now e db)) = db_t1_notes db"
  "db_t8_history (snd (refusal_recorded uuid5 c h now e db)) = db_t8_history db"
  using refusal_recorded_cases[of uuid5 c h now e db] by auto

text \<open>Which causes the classifier can name, and what its success means.\<close>

definition token_bound :: "approval_row \<Rightarrow> approval_token \<Rightarrow> string \<Rightarrow> string \<Rightarrow> string option \<Rightarrow> bool" where
  "token_bound a token action_hash actor incident_id =
     ((case incident_id of None \<Rightarrow> True | Some i \<Rightarrow> ap_incident_id a = i) \<and>
      ap_action_hash a = action_hash \<and> apr_action_hash token = action_hash \<and>
      ap_actor a = actor \<and> apr_actor token = actor \<and> ap_approver a = tok_approver token \<and>
      ap_one_time_use_id a = apr_one_time_use_id token \<and> ap_requested_at a = apr_requested_at token \<and>
      ap_approved_at a = tok_approved_at token \<and> ap_expires_at a = apr_expires_at token)"

lemma binding_cause_None:
  "token_binding_cause approval token h actor i = None \<longleftrightarrow>
     (\<exists>a. approval = Some a \<and> token_bound a token h actor i)"
  unfolding token_binding_cause_def token_bound_def by (auto split: option.splits)

lemma binding_cause_member:
  "token_binding_cause approval token h actor i = Some c \<Longrightarrow> c \<in> set TOKEN_CAUSES \<and> c \<noteq> TOKEN_VALID"
  unfolding token_binding_cause_def
  by (auto simp: TOKEN_CAUSES_def reason_defs split: option.splits if_splits)

lemma refusal_cause_member: "token_refusal_cause approval token h actor now i \<in> set TOKEN_CAUSES"
  unfolding token_refusal_cause_def
  by (auto dest: binding_cause_member simp: TOKEN_CAUSES_def split: option.splits)

lemma refusal_cause_valid:
  "token_refusal_cause approval token h actor now i = TOKEN_VALID \<longleftrightarrow>
     (\<exists>a. approval = Some a \<and> token_bound a token h actor i \<and> ap_consumed_at a = None \<and> now < ap_expires_at a)"
proof (cases "token_binding_cause approval token h actor i")
  case None
  then obtain a where a: "approval = Some a" "token_bound a token h actor i"
    unfolding binding_cause_None by blast
  then show ?thesis using None
    by (auto simp: token_refusal_cause_def reason_defs)
next
  case (Some c)
  then have "c \<noteq> TOKEN_VALID" using binding_cause_member by blast
  moreover have "\<not> (\<exists>a. approval = Some a \<and> token_bound a token h actor i)"
    using Some binding_cause_None[of approval token h actor i] by simp
  ultimately show ?thesis using Some by (auto simp: token_refusal_cause_def)
qed

lemma validate_approval_ok:
  "validate_approval ctx h token approval now = Inr () \<longleftrightarrow>
     (\<exists>a. approval = Some a \<and> token_bound a token h (ctx_actor ctx) (Some (ctx_incident_id ctx)) \<and>
        ap_consumed_at a = None \<and> now < ap_expires_at a)"
  unfolding validate_approval_def Let_def refusal_cause_valid[symmetric] by simp

end
