(* ===== verification/Kernel.thy ===== *)
theory Kernel
  imports Lab_Store
begin

text \<open>
  \<open>lab/kernel.py\<close>: the one transaction protocol every scenario mutation runs inside. A capability
  is an \<open>operation_spec\<close>; \<open>commit_transaction\<close> is the body of the \<open>with\<close> block (steps 1 to 7) as a
  function from the store to the committed store, an exception meaning a rollback; \<open>commit\<close> adds
  step 0, the durable record of a refusal and the lost response of step 8.

  The readings of the clock and the draws of \<open>uuid4\<close> one call makes are the fields of a
  \<open>call_env\<close>. Concurrent commits are modelled as already serialized: every transaction locks the
  rows it decides on.

  The locale \<open>capability_registry\<close> is the contract between the kernel and the capabilities: what a
  registered mutation may not touch. The correctness of the protocol is proved once inside it.
\<close>

section \<open>Capabilities as data\<close>

record call_env =
  ce_now :: instant
  ce_refused_at :: instant
  ce_mutation_uuid :: uuid
  ce_audit_uuid :: uuid

record locked_transaction =
  lt_uuid4 :: uuid
  lt_now :: instant
  lt_context :: tool_call_context
  lt_action :: canonical_action
  lt_action_hash :: string
  lt_fixture :: fixture_row

record mutation_outcome =
  mu_result :: "(string \<times> py) list"
  mu_mutating :: bool
  mu_fixture_touch :: "(string \<times> touch) list"

type_synonym scenario_mutation = "locked_transaction \<Rightarrow> lab_db \<Rightarrow> (mutation_outcome \<times> lab_db) result"

definition unconditional :: "fixture_row \<Rightarrow> bool" where
  "unconditional row = True"

record operation_spec =
  op_scenario_id :: string
  op_operation_scope :: string
  op_incident_id :: string
  op_tool_name :: string
  op_required_permission :: string
  op_validate_arguments :: "canonical_action \<Rightarrow> py_exn option"
  op_fixture_key :: "string \<times> string"
  op_fixture_present :: "fixture_row \<Rightarrow> bool"
  op_precondition :: "fixture_row \<Rightarrow> bool"
  op_mutation :: scenario_mutation
  op_commit_transition :: "string option"
  op_stamps_updated_at :: bool
  op_binding_message :: string
  op_missing_key_message :: "string option"
  op_fixture_absent_message :: string
  op_precondition_message :: string
  op_response_loss_message :: string
  op_binds_arguments :: "action_arguments \<Rightarrow> bool"

section \<open>The protocol\<close>

text \<open>Step 0: arguments, identity binding, idempotency key.\<close>

definition identity_bound :: "operation_spec \<Rightarrow> tool_call_context \<Rightarrow> canonical_action \<Rightarrow> bool" where
  "identity_bound spec ctx action =
     ((ctx_incident_id ctx, act_incident_id action, act_thread_id action, act_actor action,
       act_permission action, act_tool_name action, ctx_permission ctx, act_permission action) =
      (op_incident_id spec, op_incident_id spec, ctx_thread_id ctx, ctx_actor ctx,
       ctx_permission ctx, op_tool_name spec, op_required_permission spec, op_required_permission spec))"

definition kernel_step0 :: "operation_spec \<Rightarrow> tool_call_context \<Rightarrow> canonical_action \<Rightarrow> uuid result" where
  "kernel_step0 spec ctx action =
     (case op_validate_arguments spec action of
        Some e \<Rightarrow> Inl e
      | None \<Rightarrow>
          if \<not> identity_bound spec ctx action \<or> \<not> op_binds_arguments spec (act_arguments action)
          then Inl (ApprovalDenied (op_binding_message spec) None (Some IDENTITY_BINDING))
          else case ctx_idempotency_key ctx of
                 None \<Rightarrow> Inl (ApprovalDenied
                   (case op_missing_key_message spec of
                      None \<Rightarrow> op_binding_message spec
                    | Some m \<Rightarrow> if m = [] then op_binding_message spec else m)
                   None (Some IDENTITY_BINDING))
               | Some key \<Rightarrow> Inr key)"

text \<open>\<open>validate_evidence\<close>: the cited records in scope are counted and must be all of them.\<close>

definition evidence_matches :: "tool_call_context \<Rightarrow> string list \<Rightarrow> instant \<Rightarrow> evidence_row \<Rightarrow> bool" where
  "evidence_matches ctx evidence_ids now r =
     (er_evidence_id r \<in> set evidence_ids \<and> er_incident_id r = ctx_incident_id ctx \<and>
      er_thread_id r = ctx_thread_id ctx \<and> er_correlation_id r = ctx_correlation_id ctx \<and>
      er_actor r = ctx_actor ctx \<and> er_expires_at r > now \<and> er_permission r = ''observability:read'' \<and>
      er_tool_name r = (if er_source_kind r = ''db_pool_metrics'' then ''metrics.db_pool''
                        else ''observability.'' @ er_source_kind r))"

definition validate_evidence :: "lab_db \<Rightarrow> tool_call_context \<Rightarrow> string list \<Rightarrow> instant \<Rightarrow> unit result" where
  "validate_evidence db ctx evidence_ids now =
     (if length (filter (evidence_matches ctx evidence_ids now) (db_evidence db)) \<noteq> length evidence_ids
      then Inl (ApprovalDenied ''action evidence is missing, out of scope, or stale'' None None)
      else Inr ())"

definition new_ledger_row ::
  "operation_spec \<Rightarrow> tool_call_context \<Rightarrow> canonical_action \<Rightarrow> approval_token \<Rightarrow> string \<Rightarrow> uuid \<Rightarrow>
   (string \<times> py) list \<Rightarrow> instant \<Rightarrow> ledger_row" where
  "new_ledger_row spec ctx action token action_hash key result now =
     \<lparr>lg_operation_scope = op_operation_scope spec, lg_idempotency_key = key,
      lg_action_hash = action_hash, lg_approval_token_id = tok_token_id token,
      lg_one_time_use_id = apr_one_time_use_id token, lg_incident_id = ctx_incident_id ctx,
      lg_thread_id = ctx_thread_id ctx, lg_correlation_id = ctx_correlation_id ctx,
      lg_actor = ctx_actor ctx, lg_permission = ctx_permission ctx, lg_approver = tok_approver token,
      lg_result = result, lg_arguments = JObj (arguments_dump (act_arguments action)),
      lg_committed_at = now\<rparr>"

text \<open>The mutation-counter statement of step 6.\<close>

definition counter_touches :: "operation_spec \<Rightarrow> mutation_outcome \<Rightarrow> instant \<Rightarrow> (string \<times> touch) list" where
  "counter_touches spec outcome now =
     mu_fixture_touch outcome @ [(''mutation_count'', PlusOne)] @
     (if op_stamps_updated_at spec then [(''updated_at'', SetTo (PTime now))] else [])"

definition commit_audit_row ::
  "tool_call_context \<Rightarrow> string \<Rightarrow> uuid \<Rightarrow> (string \<times> py) list \<Rightarrow> instant \<Rightarrow> audit_row" where
  "commit_audit_row ctx transition audit_id result now =
     \<lparr>au_audit_id = audit_id, au_incident_id = ctx_incident_id ctx, au_event_type = transition,
      au_actor = ctx_actor ctx, au_payload = result, au_created_at = now\<rparr>"

text \<open>Steps 3 and 4: authorization, evidence, the locked fixture and its precondition.\<close>

definition authorize ::
  "operation_spec \<Rightarrow> instant \<Rightarrow> tool_call_context \<Rightarrow> canonical_action \<Rightarrow> approval_token \<Rightarrow> string \<Rightarrow>
   lab_db \<Rightarrow> fixture_row result" where
  "authorize spec now ctx action token action_hash db =
     bind_res (validate_approval ctx action_hash token (find_approval db (tok_token_id token)) now) (\<lambda>_.
     bind_res (validate_evidence db ctx (act_evidence_ids action) now) (\<lambda>_.
     (case db_fixtures db (op_fixture_key spec) of
        None \<Rightarrow> Inl (ApprovalDenied (op_fixture_absent_message spec) None (Some FIXTURE_ABSENT))
      | Some fixture \<Rightarrow>
          if \<not> op_fixture_present spec fixture
          then Inl (ApprovalDenied (op_fixture_absent_message spec) None (Some FIXTURE_ABSENT))
          else if \<not> op_precondition spec fixture
          then Inl (ApprovalDenied (op_precondition_message spec) None (Some PRECONDITION))
          else Inr fixture)))"

text \<open>Steps 5 to 7: the change, the ledger row, the counter, the audit fact, the consumption.\<close>

definition apply_operation ::
  "operation_spec \<Rightarrow> call_env \<Rightarrow> tool_call_context \<Rightarrow> canonical_action \<Rightarrow> approval_token \<Rightarrow> string \<Rightarrow> uuid \<Rightarrow>
   fixture_row \<Rightarrow> lab_db \<Rightarrow> (ledger_row \<times> lab_db) result" where
  "apply_operation spec env ctx action token action_hash key fixture db =
     bind_res (op_mutation spec \<lparr>lt_uuid4 = ce_mutation_uuid env, lt_now = ce_now env, lt_context = ctx,
         lt_action = action, lt_action_hash = action_hash, lt_fixture = fixture\<rparr> db) (\<lambda>(outcome, db1).
     let row = new_ledger_row spec ctx action token action_hash key (mu_result outcome) (ce_now env) in
     bind_res (insert_ledger row db1) (\<lambda>db2.
     let db3 = (if mu_mutating outcome
                then update_fixture (op_fixture_key spec) (counter_touches spec outcome (ce_now env)) db2
                else db2) in
     bind_res (case op_commit_transition spec of
                 None \<Rightarrow> Inr db3
               | Some transition \<Rightarrow> insert_audit (commit_audit_row ctx transition (ce_audit_uuid env)
                   (mu_result outcome) (ce_now env)) db3) (\<lambda>db4.
     Inr (row, consume_approval (tok_token_id token) (ce_now env) db4))))"

definition commit_transaction ::
  "operation_spec \<Rightarrow> call_env \<Rightarrow> tool_call_context \<Rightarrow> canonical_action \<Rightarrow> approval_token \<Rightarrow> string \<Rightarrow> uuid \<Rightarrow>
   lab_db \<Rightarrow> (operation_status \<times> ledger_row \<times> lab_db) result" where
  "commit_transaction spec env ctx action token action_hash key db =
     (case find_ledger db (op_operation_scope spec) key of
        Some existing \<Rightarrow>
          bind_res (validate_replay ctx action_hash token existing (find_approval db (tok_token_id token)))
            (\<lambda>_. Inr (DUPLICATE, existing, db))
      | None \<Rightarrow>
          bind_res (authorize spec (ce_now env) ctx action token action_hash db) (\<lambda>fixture.
          bind_res (apply_operation spec env ctx action token action_hash key fixture db) (\<lambda>(row, db').
          Inr (SUCCEEDED, row, db'))))"

definition ledger_result_of :: "ledger_row \<Rightarrow> operation_status \<Rightarrow> string \<Rightarrow> ledger_result" where
  "ledger_result_of row status scope =
     \<lparr>lr_context = \<lparr>ctx_incident_id = lg_incident_id row, ctx_thread_id = lg_thread_id row,
        ctx_correlation_id = lg_correlation_id row, ctx_actor = lg_actor row,
        ctx_permission = lg_permission row, ctx_idempotency_key = Some (lg_idempotency_key row)\<rparr>,
      lr_idempotency_key = lg_idempotency_key row, lr_action_hash = lg_action_hash row,
      lr_approval_token_id = lg_approval_token_id row, lr_one_time_use_id = lg_one_time_use_id row,
      lr_status = status, lr_operation_id = scope @ '':'' @ dec_nat (lg_idempotency_key row),
      lr_committed_at = lg_committed_at row, lr_result = Some (lg_result row)\<rparr>"

definition commit ::
  "(string \<Rightarrow> string) \<Rightarrow> (string \<Rightarrow> uuid) \<Rightarrow> operation_spec \<Rightarrow> call_env \<Rightarrow> tool_call_context \<Rightarrow>
   canonical_action \<Rightarrow> approval_token \<Rightarrow> bool \<Rightarrow> lab_db \<Rightarrow> ledger_result result \<times> lab_db" where
  "commit sha uuid5 spec env ctx action token response_loss db =
     (case kernel_step0 spec ctx action of
        Inl e \<Rightarrow> (Inl e, db)
      | Inr key \<Rightarrow>
          let action_hash = canonical_action_hash sha action in
          case commit_transaction spec env ctx action token action_hash key db of
            Inl e \<Rightarrow>
              let (e', db') = refusal_recorded uuid5 ctx action_hash (ce_refused_at env) e db
              in (Inl e', db')
          | Inr (status, row, db') \<Rightarrow>
              if status = DUPLICATE
              then (Inr (ledger_result_of row DUPLICATE (op_operation_scope spec)), db')
              else if response_loss then (Inl (ResponseLost (op_response_loss_message spec)), db')
              else (Inr (ledger_result_of row SUCCEEDED (op_operation_scope spec)), db'))"

text \<open>\<open>LabRepository._commit\<close>: the capability of a scope, through the kernel.\<close>

definition repository_commit ::
  "(string \<Rightarrow> string) \<Rightarrow> (string \<Rightarrow> uuid) \<Rightarrow> (string \<Rightarrow> operation_spec option) \<Rightarrow> string \<Rightarrow> call_env \<Rightarrow>
   tool_call_context \<Rightarrow> canonical_action \<Rightarrow> approval_token \<Rightarrow> bool \<Rightarrow> lab_db \<Rightarrow>
   ledger_result result \<times> lab_db" where
  "repository_commit sha uuid5 registry scope env ctx action token response_loss db =
     (case registry scope of
        None \<Rightarrow> (Inl (KeyError scope), db)
      | Some spec \<Rightarrow> commit sha uuid5 spec env ctx action token response_loss db)"

section \<open>The invariant of the store\<close>

definition approvals_unique :: "lab_db \<Rightarrow> bool" where
  "approvals_unique db = (distinct (map ap_token_id (db_approvals db)) \<and>
     distinct (map ap_one_time_use_id (db_approvals db)))"

definition ledger_unique :: "lab_db \<Rightarrow> bool" where
  "ledger_unique db = (distinct (map (\<lambda>r. (lg_operation_scope r, lg_idempotency_key r)) (db_ledger db)) \<and>
     distinct (map lg_approval_token_id (db_ledger db)))"

text \<open>A ledger row and the approval it consumed.\<close>

definition row_authorized :: "approval_row \<Rightarrow> ledger_row \<Rightarrow> bool" where
  "row_authorized a r =
     (ap_token_id a = lg_approval_token_id r \<and> ap_one_time_use_id a = lg_one_time_use_id r \<and>
      ap_incident_id a = lg_incident_id r \<and> ap_action_hash a = lg_action_hash r \<and>
      ap_actor a = lg_actor r \<and> ap_approver a = lg_approver r \<and>
      ap_consumed_at a = Some (lg_committed_at r) \<and> lg_committed_at r < ap_expires_at a)"

definition ledger_authorized :: "lab_db \<Rightarrow> bool" where
  "ledger_authorized db = (\<forall>r \<in> set (db_ledger db). \<exists>a \<in> set (db_approvals db). row_authorized a r)"

definition consumption_recorded :: "lab_db \<Rightarrow> bool" where
  "consumption_recorded db = (\<forall>a \<in> set (db_approvals db). ap_consumed_at a \<noteq> None \<longrightarrow>
     (\<exists>r \<in> set (db_ledger db). lg_approval_token_id r = ap_token_id a))"

definition store_invariant :: "lab_db \<Rightarrow> bool" where
  "store_invariant db = (approvals_unique db \<and> ledger_unique db \<and> ledger_authorized db \<and>
     consumption_recorded db)"

lemmas store_invariant_defs = store_invariant_def approvals_unique_def ledger_unique_def
  ledger_authorized_def consumption_recorded_def

lemma distinct_map_eq: "distinct (map f xs) \<Longrightarrow> x \<in> set xs \<Longrightarrow> y \<in> set xs \<Longrightarrow> f x = f y \<Longrightarrow> x = y"
  by (simp add: distinct_map inj_on_def)

lemma find_approval_unique:
  assumes "approvals_unique db" "a \<in> set (db_approvals db)"
  shows "find_approval db (ap_token_id a) = Some a"
proof -
  obtain b where "find_approval db (ap_token_id a) = Some b"
    using assms(2) find_approval_None[of db "ap_token_id a"] by (cases "find_approval db (ap_token_id a)") auto
  then show ?thesis
    using find_approval_Some[of db "ap_token_id a" b] assms
      distinct_map_eq[of ap_token_id "db_approvals db" b a] by (auto simp: approvals_unique_def)
qed

section \<open>The contract of a capability\<close>

definition framed :: "lab_db \<Rightarrow> lab_db \<Rightarrow> bool" where
  "framed db db' = (db_approvals db' = db_approvals db \<and> db_ledger db' = db_ledger db \<and>
     db_audit db' = db_audit db \<and> db_evidence db' = db_evidence db \<and>
     db_t1_records db' = db_t1_records db)"

lemma step0_Inr:
  "kernel_step0 spec ctx action = Inr key \<longleftrightarrow>
     op_validate_arguments spec action = None \<and> identity_bound spec ctx action \<and>
     op_binds_arguments spec (act_arguments action) \<and> ctx_idempotency_key ctx = Some key"
  unfolding kernel_step0_def by (auto split: option.splits)

lemma authorize_Inr:
  "authorize spec now ctx action token h db = Inr fixture \<longleftrightarrow>
     (\<exists>a. find_approval db (tok_token_id token) = Some a \<and>
        token_bound a token h (ctx_actor ctx) (Some (ctx_incident_id ctx)) \<and>
        ap_consumed_at a = None \<and> now < ap_expires_at a) \<and>
     validate_evidence db ctx (act_evidence_ids action) now = Inr () \<and>
     db_fixtures db (op_fixture_key spec) = Some fixture \<and>
     op_fixture_present spec fixture \<and> op_precondition spec fixture"
  unfolding authorize_def bind_res_eq_Inr
  by (auto simp: validate_approval_ok split: option.splits)

locale capability_registry =
  fixes registry :: "string \<Rightarrow> operation_spec option"
  assumes scope_of: "registry scope = Some spec \<Longrightarrow> op_operation_scope spec = scope"
    and mutation_frame: "registry scope = Some spec \<Longrightarrow>
      op_mutation spec lt db = Inr (outcome, db') \<Longrightarrow> framed db db'"
    and mutation_refusal: "registry scope = Some spec \<Longrightarrow> op_mutation spec lt db = Inl e \<Longrightarrow>
      (\<forall>m. e \<noteq> ResponseLost m) \<and> (\<forall>m r st. e \<noteq> ApprovalDenied m (Some r) st)"
    and argument_refusal: "registry scope = Some spec \<Longrightarrow> op_validate_arguments spec action = Some e \<Longrightarrow>
      \<exists>m st. e = ApprovalDenied m None st"
begin

text \<open>What a committed application did to the four protected tables.\<close>

lemma apply_effects:
  assumes "registry scope = Some spec"
    and "apply_operation spec env ctx action token h key fixture db = Inr (row, db')"
  shows "db_ledger db' = db_ledger db @ [row]"
    and "db_approvals db' = db_approvals (consume_approval (tok_token_id token) (ce_now env) db)"
    and "db_evidence db' = db_evidence db"
    and "\<exists>result. row = new_ledger_row spec ctx action token h key result (ce_now env)"
    and "\<exists>rows. db_audit db' = db_audit db @ rows \<and> length rows = (if op_commit_transition spec = None then 0 else 1) \<and>
           (\<forall>r \<in> set rows. au_incident_id r = ctx_incident_id ctx)"
    and "\<not> list_ex (\<lambda>r. lg_operation_scope r = lg_operation_scope row \<and>
           (lg_idempotency_key r = lg_idempotency_key row \<or> lg_approval_token_id r = lg_approval_token_id row \<or>
            lg_one_time_use_id r = lg_one_time_use_id row)) (db_ledger db)"
proof -
  obtain outcome db1 db2 db3 db4 where
    mu: "op_mutation spec \<lparr>lt_uuid4 = ce_mutation_uuid env, lt_now = ce_now env, lt_context = ctx,
         lt_action = action, lt_action_hash = h, lt_fixture = fixture\<rparr> db = Inr (outcome, db1)" and
    row: "row = new_ledger_row spec ctx action token h key (mu_result outcome) (ce_now env)" and
    ins: "insert_ledger row db1 = Inr db2" and
    db3: "db3 = (if mu_mutating outcome
                then update_fixture (op_fixture_key spec) (counter_touches spec outcome (ce_now env)) db2
                else db2)" and
    aud: "(case op_commit_transition spec of
                 None \<Rightarrow> Inr db3
               | Some transition \<Rightarrow> insert_audit (commit_audit_row ctx transition (ce_audit_uuid env)
                   (mu_result outcome) (ce_now env)) db3) = Inr db4" and
    db': "db' = consume_approval (tok_token_id token) (ce_now env) db4"
    using assms(2) unfolding apply_operation_def Let_def
    by (auto simp: bind_res_eq_Inr)
  have fr: "framed db db1" using mutation_frame[OF assms(1) mu] .
  have l2: "db_ledger db2 = db_ledger db1 @ [row]" "db_approvals db2 = db_approvals db1"
      "db_audit db2 = db_audit db1" "db_evidence db2 = db_evidence db1"
      "\<not> list_ex (\<lambda>r. lg_operation_scope r = lg_operation_scope row \<and>
           (lg_idempotency_key r = lg_idempotency_key row \<or> lg_approval_token_id r = lg_approval_token_id row \<or>
            lg_one_time_use_id r = lg_one_time_use_id row)) (db_ledger db1)"
    using ins by (auto simp: insert_ledger_def split: if_splits)
  have l3: "db_ledger db3 = db_ledger db2" "db_approvals db3 = db_approvals db2"
      "db_audit db3 = db_audit db2" "db_evidence db3 = db_evidence db2"
    using db3 by simp_all
  have l4: "db_ledger db4 = db_ledger db3" "db_approvals db4 = db_approvals db3"
      "db_evidence db4 = db_evidence db3"
      "\<exists>rows. db_audit db4 = db_audit db3 @ rows \<and> length rows = (if op_commit_transition spec = None then 0 else 1) \<and>
           (\<forall>r \<in> set rows. au_incident_id r = ctx_incident_id ctx)"
    using aud by (auto simp: insert_audit_def commit_audit_row_def split: option.splits if_splits)
  show "db_ledger db' = db_ledger db @ [row]"
    using fr l2 l3 l4 db' by (simp add: framed_def)
  show "db_approvals db' = db_approvals (consume_approval (tok_token_id token) (ce_now env) db)"
    using fr l2 l3 l4 db' by (simp add: framed_def consume_approval_def)
  show "db_evidence db' = db_evidence db"
    using fr l2 l3 l4 db' by (simp add: framed_def)
  show "\<exists>result. row = new_ledger_row spec ctx action token h key result (ce_now env)"
    using row by blast
  show "\<exists>rows. db_audit db' = db_audit db @ rows \<and> length rows = (if op_commit_transition spec = None then 0 else 1) \<and>
           (\<forall>r \<in> set rows. au_incident_id r = ctx_incident_id ctx)"
    using fr l2 l3 l4 db' by (simp add: framed_def)
  show "\<not> list_ex (\<lambda>r. lg_operation_scope r = lg_operation_scope row \<and>
           (lg_idempotency_key r = lg_idempotency_key row \<or> lg_approval_token_id r = lg_approval_token_id row \<or>
            lg_one_time_use_id r = lg_one_time_use_id row)) (db_ledger db)"
    using fr l2(5) by (simp add: framed_def)
qed

lemma consume_approvals_distinct:
  "approvals_unique (consume_approval t now db) = approvals_unique db"
proof -
  have "map ap_token_id (db_approvals (consume_approval t now db)) = map ap_token_id (db_approvals db)"
    "map ap_one_time_use_id (db_approvals (consume_approval t now db)) = map ap_one_time_use_id (db_approvals db)"
    by (auto simp: consume_approval_def)
  then show ?thesis by (simp add: approvals_unique_def)
qed

lemma unconsumed_not_in_ledger:
  assumes "store_invariant db" "find_approval db t = Some a" "ap_consumed_at a = None" "r \<in> set (db_ledger db)"
  shows "lg_approval_token_id r \<noteq> t \<and> lg_one_time_use_id r \<noteq> ap_one_time_use_id a"
proof -
  obtain b where b: "b \<in> set (db_approvals db)" "row_authorized b r"
    using assms(1,4) unfolding store_invariant_def ledger_authorized_def by blast
  have a: "a \<in> set (db_approvals db)" "ap_token_id a = t"
    using find_approval_Some[OF assms(2)] by simp_all
  have u: "approvals_unique db" using assms(1) by (simp add: store_invariant_def)
  have "b \<noteq> a" using b(2) assms(3) by (auto simp: row_authorized_def)
  then have "ap_token_id b \<noteq> ap_token_id a" "ap_one_time_use_id b \<noteq> ap_one_time_use_id a"
    using u a b(1) distinct_map_eq[of ap_token_id "db_approvals db"] distinct_map_eq[of ap_one_time_use_id "db_approvals db"]
    unfolding approvals_unique_def by blast+
  with a b(2) show ?thesis by (simp add: row_authorized_def)
qed

lemma apply_preserves:
  assumes reg: "registry scope = Some spec"
    and inv: "store_invariant db"
    and auth: "authorize spec (ce_now env) ctx action token h db = Inr fixture"
    and new: "find_ledger db (op_operation_scope spec) key = None"
    and app: "apply_operation spec env ctx action token h key fixture db = Inr (row, db')"
  shows "store_invariant db'"
proof -
  note eff = apply_effects[OF reg app]
  let ?now = "ce_now env" and ?t = "tok_token_id token"
  obtain a where a: "find_approval db ?t = Some a" "token_bound a token h (ctx_actor ctx) (Some (ctx_incident_id ctx))"
      "ap_consumed_at a = None" "?now < ap_expires_at a"
    using auth unfolding authorize_Inr by blast
  have am: "a \<in> set (db_approvals db)" "ap_token_id a = ?t" using find_approval_Some[OF a(1)] by simp_all
  obtain res where row: "row = new_ledger_row spec ctx action token h key res ?now" using eff(4) by blast
  let ?upd = "\<lambda>r. if ap_token_id r = ?t then r\<lparr>ap_consumed_at := Some ?now\<rparr> else r"
  have ap': "set (db_approvals db') = ?upd ` set (db_approvals db)"
    unfolding eff(2) by (simp add: consume_approval_def)
  have au: "approvals_unique db" using inv by (simp add: store_invariant_def)
  have au': "approvals_unique db'"
    using au consume_approvals_distinct[of ?t ?now db] unfolding approvals_unique_def eff(2) by simp
  have lu': "ledger_unique db'"
  proof -
    have "?t \<notin> lg_approval_token_id ` set (db_ledger db)"
      by (auto dest: unconsumed_not_in_ledger[OF inv a(1,3)])
    moreover have "(op_operation_scope spec, key) \<notin>
        (\<lambda>r. (lg_operation_scope r, lg_idempotency_key r)) ` set (db_ledger db)"
      using new unfolding find_ledger_None by auto
    ultimately show ?thesis
      using inv row by (simp add: store_invariant_def ledger_unique_def eff(1) new_ledger_row_def)
  qed
  have "\<exists>b \<in> set (db_approvals db'). row_authorized b r" if r: "r \<in> set (db_ledger db')" for r
  proof (cases "r = row")
    case True
    have "row_authorized (?upd a) row"
      using a am row by (simp add: row_authorized_def token_bound_def new_ledger_row_def)
    then show ?thesis using am True unfolding ap' by blast
  next
    case False
    with r have r: "r \<in> set (db_ledger db)" by (simp add: eff(1))
    then obtain b where b: "b \<in> set (db_approvals db)" "row_authorized b r"
      using inv unfolding store_invariant_def ledger_authorized_def by blast
    then have "ap_token_id b \<noteq> ?t"
      using unconsumed_not_in_ledger[OF inv a(1,3) r] by (simp add: row_authorized_def)
    then have "?upd b = b" by simp
    then have "b \<in> set (db_approvals db')" unfolding ap' using b(1) by force
    then show ?thesis using b(2) by blast
  qed
  moreover have "\<exists>r \<in> set (db_ledger db'). lg_approval_token_id r = ap_token_id c"
    if c: "c \<in> set (db_approvals db')" "ap_consumed_at c \<noteq> None" for c
  proof -
    obtain b where b: "b \<in> set (db_approvals db)" "c = ?upd b" using c(1) unfolding ap' by blast
    show ?thesis
    proof (cases "ap_token_id b = ?t")
      case True
      then show ?thesis using b(2) row by (simp add: eff(1) new_ledger_row_def)
    next
      case False
      then have "\<exists>r \<in> set (db_ledger db). lg_approval_token_id r = ap_token_id b"
        using b c(2) inv unfolding store_invariant_def consumption_recorded_def by simp
      then show ?thesis using b(2) False by (auto simp: eff(1))
    qed
  qed
  ultimately show ?thesis
    using au' lu' unfolding store_invariant_def ledger_authorized_def consumption_recorded_def by blast
qed

text \<open>The three ways a transaction ends.\<close>

lemma transaction_cases:
  assumes "commit_transaction spec env ctx action token h key db = Inr (status, row, db')"
  obtains (duplicate) "status = DUPLICATE" "db' = db" "find_ledger db (op_operation_scope spec) key = Some row"
      "validate_replay ctx h token row (find_approval db (tok_token_id token)) = Inr ()"
  | (fresh) fixture where "status = SUCCEEDED" "find_ledger db (op_operation_scope spec) key = None"
      "authorize spec (ce_now env) ctx action token h db = Inr fixture"
      "apply_operation spec env ctx action token h key fixture db = Inr (row, db')"
  using assms unfolding commit_transaction_def
  by (auto simp: bind_res_eq_Inr split: option.splits)

lemma transaction_preserves:
  assumes "registry scope = Some spec" "store_invariant db"
    and "commit_transaction spec env ctx action token h key db = Inr (status, row, db')"
  shows "store_invariant db'"
  using assms(3)
proof (cases rule: transaction_cases)
  case (fresh fixture)
  then show ?thesis using apply_preserves[OF assms(1,2)] by blast
qed (use assms(2) in simp)

lemma audit_insert_invariant [simp]: "store_invariant (audit_insert uuid5 e t i db) = store_invariant db"
  by (simp add: store_invariant_defs)

lemma refusal_invariant: "store_invariant (snd (refusal_recorded uuid5 c h now e db)) = store_invariant db"
  using refusal_recorded_cases[of uuid5 c h now e db] by auto

lemma commit_cases:
  assumes "commit sha uuid5 spec env ctx action token loss db = (res, db')"
  obtains (argument) e where "kernel_step0 spec ctx action = Inl e" "res = Inl e" "db' = db"
  | (refused) key e where "kernel_step0 spec ctx action = Inr key"
      "commit_transaction spec env ctx action token (canonical_action_hash sha action) key db = Inl e"
      "(case refusal_recorded uuid5 ctx (canonical_action_hash sha action) (ce_refused_at env) e db of
          (e', d) \<Rightarrow> res = Inl e' \<and> db' = d)"
  | (committed) key status row where "kernel_step0 spec ctx action = Inr key"
      "commit_transaction spec env ctx action token (canonical_action_hash sha action) key db =
         Inr (status, row, db')"
      "res = (if status \<noteq> DUPLICATE \<and> loss then Inl (ResponseLost (op_response_loss_message spec))
              else Inr (ledger_result_of row (if status = DUPLICATE then DUPLICATE else SUCCEEDED)
                     (op_operation_scope spec)))"
  using assms unfolding commit_def Let_def
  by (auto split: sum.splits prod.splits if_splits)

lemma commit_preserves:
  assumes "registry scope = Some spec" "store_invariant db"
    and "commit sha uuid5 spec env ctx action token loss db = (res, db')"
  shows "store_invariant db'"
  using assms(3)
proof (cases rule: commit_cases)
  case (refused key e)
  then show ?thesis
    using assms(2) refusal_invariant[of uuid5 ctx "canonical_action_hash sha action" "ce_refused_at env" e db]
    by (auto split: prod.splits)
next
  case (committed key status row)
  then show ?thesis using transaction_preserves[OF assms(1,2)] by blast
qed (use assms(2) in simp)

text \<open>A transaction never raises the lost response; only step 8 does.\<close>

lemma transaction_error:
  assumes "registry scope = Some spec" "commit_transaction spec env ctx action token h key db = Inl e"
  shows "e \<noteq> ResponseLost m"
    and "e = ApprovalDenied msg (Some reason) st \<Longrightarrow> is_known_reason reason"
proof -
  have app: "e' \<noteq> ResponseLost m \<and> (\<forall>msg r st. e' \<noteq> ApprovalDenied msg (Some r) st)"
    if "apply_operation spec env ctx action token h key fixture db = Inl e'" for fixture e'
    using that mutation_refusal[OF assms(1)] unfolding apply_operation_def Let_def bind_res_eq_Inl
    by (auto simp: insert_ledger_def insert_audit_def split: if_splits option.splits)
  have known: "is_known_reason (approval_invalid c)" if "c \<in> set TOKEN_CAUSES" for c
    using token_causes_nonempty[OF that] by simp
  have "e \<noteq> ResponseLost m \<and> (\<forall>msg reason st. e = ApprovalDenied msg (Some reason) st \<longrightarrow> is_known_reason reason)"
  proof (cases "find_ledger db (op_operation_scope spec) key")
    case None
    then consider (auth) "authorize spec (ce_now env) ctx action token h db = Inl e"
      | (app) fixture where "apply_operation spec env ctx action token h key fixture db = Inl e"
      using assms(2) by (auto simp: commit_transaction_def bind_res_eq_Inl)
    then show ?thesis
    proof cases
      case auth
      then show ?thesis
        using known[OF refusal_cause_member]
        by (auto simp: authorize_def bind_res_eq_Inl validate_approval_def validate_evidence_def Let_def
            split: if_splits option.splits)
    qed (use app in auto)
  next
    case (Some row)
    then have "validate_replay ctx h token row (find_approval db (tok_token_id token)) = Inl e"
      using assms(2) by (auto simp: commit_transaction_def bind_res_eq_Inl)
    then show ?thesis
      using known binding_cause_member
      by (auto simp: validate_replay_def split: if_splits option.splits)
  qed
  then show "e \<noteq> ResponseLost m" "e = ApprovalDenied msg (Some reason) st \<Longrightarrow> is_known_reason reason"
    by blast+
qed

lemma refusal_recorded_exn:
  "fst (refusal_recorded uuid5 c h now e db) = e \<or> (\<exists>m. fst (refusal_recorded uuid5 c h now e db) = ValueError m)"
  unfolding refusal_recorded_def append_audit_event_def validate_audit_event_def validated_def bind_res_def
  by (simp split: py_exn.splits option.splits sum.splits if_splits)

lemma commit_error_cases:
  assumes reg: "registry scope = Some spec"
    and c: "commit sha uuid5 spec env ctx action token loss db = (Inl e, db')"
  obtains (lost) key status row m where "e = ResponseLost m" "kernel_step0 spec ctx action = Inr key"
      "commit_transaction spec env ctx action token (canonical_action_hash sha action) key db =
         Inr (status, row, db')"
  | (unrecorded) "db' = db" "\<forall>m r st. e \<noteq> ApprovalDenied m (Some r) st" "\<forall>m. e \<noteq> ResponseLost m"
  | (recorded) m reason st where "e = ApprovalDenied m (Some reason) st" "is_known_reason reason"
      "db' = audit_insert uuid5 (refusal_event ctx (canonical_action_hash sha action) reason)
         (ce_refused_at env) (ctx_idempotency_key ctx) db"
  using c
proof (cases rule: commit_cases)
  case (argument e')
  then have "\<forall>m r st. e \<noteq> ApprovalDenied m (Some r) st" "\<forall>m. e \<noteq> ResponseLost m"
    using argument_refusal[OF reg]
    by (auto simp: kernel_step0_def split: option.splits if_splits)
  then show ?thesis using argument unrecorded by blast
next
  case (refused key e')
  let ?h = "canonical_action_hash sha action"
  have e: "e = fst (refusal_recorded uuid5 ctx ?h (ce_refused_at env) e' db)"
    "db' = snd (refusal_recorded uuid5 ctx ?h (ce_refused_at env) e' db)"
    using refused(3) by (auto split: prod.splits)
  note err = transaction_error[OF reg refused(2)]
  have "\<forall>m. e \<noteq> ResponseLost m"
    using refusal_recorded_exn[of uuid5 ctx ?h "ce_refused_at env" e' db] err(1) e(1) by auto
  show ?thesis
  proof (cases "\<exists>m reason st. e' = ApprovalDenied m (Some reason) st")
    case True
    then obtain m reason st where e': "e' = ApprovalDenied m (Some reason) st" by blast
    show ?thesis
    proof (cases "append_audit_event uuid5 (refusal_event ctx ?h reason) (ce_refused_at env)
                  (ctx_idempotency_key ctx) db")
      case (Inl x)
      then have "db' = db" "e = x" "\<exists>m. x = ValueError m"
        using e e' by (auto simp: refusal_recorded_def append_audit_event_def validate_audit_event_def
            validated_def bind_res_def split: option.splits sum.splits if_splits)
      then show ?thesis using unrecorded by blast
    next
      case (Inr d)
      then have "e = e'" "db' = d" using e e' by (auto simp: refusal_recorded_def)
      then show ?thesis using recorded e' err(2)[OF e'] append_audit_Inr[OF Inr] by blast
    qed
  next
    case False
    then have "e = e'" "db' = db"
      using e by (auto simp: refusal_recorded_def split: py_exn.splits option.splits)
    then show ?thesis using False unrecorded \<open>\<forall>m. e \<noteq> ResponseLost m\<close> by blast
  qed
next
  case (committed key status row)
  then have "e = ResponseLost (op_response_loss_message spec)" by (auto split: if_splits)
  then show ?thesis using lost committed by blast
qed

lemma find_map_id: "(\<And>x. P (f x) = P x) \<Longrightarrow> find P (map f xs) = map_option f (find P xs)"
  by (induction xs) auto

lemma find_approval_consume:
  "find_approval (consume_approval t now db) t =
     map_option (\<lambda>a. a\<lparr>ap_consumed_at := Some now\<rparr>) (find_approval db t)"
proof -
  have "find_approval (consume_approval t now db) t =
      map_option (\<lambda>r. if ap_token_id r = t then r\<lparr>ap_consumed_at := Some now\<rparr> else r) (find_approval db t)"
    unfolding find_approval_def consume_approval_def by (simp add: find_map_id)
  also have "\<dots> = map_option (\<lambda>a. a\<lparr>ap_consumed_at := Some now\<rparr>) (find_approval db t)"
    using find_approval_Some[of db t] by (cases "find_approval db t") auto
  finally show ?thesis .
qed

lemma find_approval_cong: "db_approvals d = db_approvals d' \<Longrightarrow> find_approval d t = find_approval d' t"
  by (simp add: find_approval_def)

text \<open>After a committed transaction the same call, under any correlation, is a replay of it.\<close>

lemma committed_then_replay:
  assumes reg: "registry scope = Some spec"
    and c: "commit_transaction spec env ctx action token h key db = Inr (status, row, db')"
  shows "find_ledger db' (op_operation_scope spec) key = Some row \<and>
    validate_replay (ctx\<lparr>ctx_correlation_id := corr\<rparr>) h token row (find_approval db' (tok_token_id token)) = Inr ()"
  using c
proof (cases rule: transaction_cases)
  case duplicate
  have "validate_replay (ctx\<lparr>ctx_correlation_id := corr\<rparr>) = validate_replay ctx"
    by (intro ext) (simp add: validate_replay_def)
  with duplicate show ?thesis by simp
next
  case (fresh fixture)
  note eff = apply_effects[OF reg fresh(4)]
  obtain a where a: "find_approval db (tok_token_id token) = Some a"
      "token_bound a token h (ctx_actor ctx) (Some (ctx_incident_id ctx))"
    using fresh(3) unfolding authorize_Inr by blast
  obtain res where row: "row = new_ledger_row spec ctx action token h key res (ce_now env)" using eff(4) by blast
  have "find_approval db' (tok_token_id token) = Some (a\<lparr>ap_consumed_at := Some (ce_now env)\<rparr>)"
    using find_approval_consume[of "tok_token_id token" "ce_now env" db] a(1) find_approval_cong[OF eff(2)] by simp
  moreover have "token_bound (a\<lparr>ap_consumed_at := Some (ce_now env)\<rparr>) token h (ctx_actor ctx) (Some (ctx_incident_id ctx))"
    using a(2) by (simp add: token_bound_def)
  moreover have "find_ledger db' (op_operation_scope spec) key = Some row"
    using fresh(2) row by (simp add: find_ledger_def eff(1) find_append new_ledger_row_def)
  ultimately show ?thesis
    using row binding_cause_None[of "find_approval db' (tok_token_id token)" token h "ctx_actor ctx" "Some (ctx_incident_id ctx)"]
    by (simp add: validate_replay_def new_ledger_row_def)
qed

lemma replay_is_duplicate:
  assumes reg: "registry scope = Some spec"
    and c: "commit sha uuid5 spec env ctx action token loss db = (res, db')"
    and fin: "(\<exists>r. res = Inr r) \<or> (\<exists>m. res = Inl (ResponseLost m))"
  shows "\<exists>row. commit sha uuid5 spec env' (ctx\<lparr>ctx_correlation_id := corr\<rparr>) action token loss' db' =
      (Inr (ledger_result_of row DUPLICATE scope), db') \<and> row \<in> set (db_ledger db') \<and>
    (\<forall>r. res = Inr r \<longrightarrow> ledger_result_of row DUPLICATE scope = r\<lparr>lr_status := DUPLICATE\<rparr>)"
proof -
  let ?h = "canonical_action_hash sha action"
  obtain key status row where k: "kernel_step0 spec ctx action = Inr key"
    and t: "commit_transaction spec env ctx action token ?h key db = Inr (status, row, db')"
    and r: "\<forall>r. res = Inr r \<longrightarrow> ledger_result_of row DUPLICATE scope = r\<lparr>lr_status := DUPLICATE\<rparr>"
  proof (cases res)
    case (Inl e)
    then obtain m where "e = ResponseLost m" using fin by auto
    with Inl have "commit sha uuid5 spec env ctx action token loss db = (Inl (ResponseLost m), db')"
      using c by simp
    from reg this show ?thesis
    proof (cases rule: commit_error_cases)
      case (lost key status row)
      then show ?thesis using that Inl by blast
    qed simp_all
  next
    case (Inr r)
    from c show ?thesis
    proof (cases rule: commit_cases)
      case (committed key status row)
      then show ?thesis
        using that Inr scope_of[OF reg] by (auto simp: ledger_result_of_def split: if_splits)
    qed (use Inr in \<open>auto split: prod.splits\<close>)
  qed
  have k': "kernel_step0 spec (ctx\<lparr>ctx_correlation_id := corr\<rparr>) action = Inr key"
    using k unfolding step0_Inr by (simp add: identity_bound_def)
  from committed_then_replay[OF reg t] have "commit_transaction spec env' (ctx\<lparr>ctx_correlation_id := corr\<rparr>)
      action token ?h key db' = Inr (DUPLICATE, row, db')"
    by (simp add: commit_transaction_def)
  moreover have "row \<in> set (db_ledger db')"
    using committed_then_replay[OF reg t] find_ledger_Some by blast
  ultimately show ?thesis
    using k' r scope_of[OF reg] by (intro exI[of _ row]) (simp add: commit_def Let_def)
qed

end

section \<open>Resets and preparations keep the invariant\<close>

lemma distinct_map_filter_keep: "distinct (map f xs) \<Longrightarrow> distinct (map f (filter P xs))"
  by (rule distinct_map_filter)

lemma delete_incident_invariant:
  assumes "store_invariant db"
  shows "store_invariant (delete_incident i db)"
proof -
  let ?d = "delete_incident i db"
  have sets: "set (db_approvals ?d) = {a \<in> set (db_approvals db). ap_incident_id a \<noteq> i}"
    "set (db_ledger ?d) = {r \<in> set (db_ledger db). lg_incident_id r \<noteq> i}"
    by (auto simp: delete_incident_def)
  have u: "approvals_unique ?d" "ledger_unique ?d"
    using assms unfolding store_invariant_def approvals_unique_def ledger_unique_def delete_incident_def
    by (simp_all add: distinct_map_filter)
  have "\<exists>a \<in> set (db_approvals ?d). row_authorized a r" if "r \<in> set (db_ledger ?d)" for r
  proof -
    from that sets(2) assms obtain a where "a \<in> set (db_approvals db)" "row_authorized a r" "lg_incident_id r \<noteq> i"
      unfolding store_invariant_def ledger_authorized_def by blast
    then show ?thesis using sets(1) by (auto simp: row_authorized_def)
  qed
  moreover have "\<exists>r \<in> set (db_ledger ?d). lg_approval_token_id r = ap_token_id a"
    if a: "a \<in> set (db_approvals ?d)" "ap_consumed_at a \<noteq> None" for a
  proof -
    from a sets(1) have am: "a \<in> set (db_approvals db)" "ap_incident_id a \<noteq> i" by auto
    then obtain r where r: "r \<in> set (db_ledger db)" "lg_approval_token_id r = ap_token_id a"
      using assms a(2) unfolding store_invariant_def consumption_recorded_def by blast
    then obtain b where b: "b \<in> set (db_approvals db)" "row_authorized b r"
      using assms unfolding store_invariant_def ledger_authorized_def by blast
    then have "b = a"
      using assms am(1) r(2) distinct_map_eq[of ap_token_id "db_approvals db" b a]
      unfolding store_invariant_def approvals_unique_def row_authorized_def by simp
    then show ?thesis using b(2) am r sets(2) by (auto simp: row_authorized_def)
  qed
  ultimately show ?thesis
    using u unfolding store_invariant_def ledger_authorized_def consumption_recorded_def by blast
qed

lemma record_approval_invariant:
  assumes "store_invariant db" "record_approval token i db = Inr db'"
  shows "store_invariant db'"
proof -
  obtain a where db': "db' = db\<lparr>db_approvals := db_approvals db @ [a]\<rparr>" and a: "ap_consumed_at a = None"
      "ap_token_id a \<notin> ap_token_id ` set (db_approvals db)"
      "ap_one_time_use_id a \<notin> ap_one_time_use_id ` set (db_approvals db)"
    using assms(2) unfolding record_approval_def by (force simp: list_ex_iff split: if_splits)
  have "approvals_unique db'" "ledger_unique db'"
    using assms(1) a by (simp_all add: db' store_invariant_def approvals_unique_def ledger_unique_def)
  moreover have "ledger_authorized db'"
    using assms(1) by (auto simp: db' store_invariant_def ledger_authorized_def)
  moreover have "consumption_recorded db'"
    using assms(1) a(1) by (auto simp: db' store_invariant_def consumption_recorded_def)
  ultimately show ?thesis by (simp add: store_invariant_def)
qed

lemma framed_invariant:
  assumes "store_invariant db" "db_approvals db' = db_approvals db" "db_ledger db' = db_ledger db"
  shows "store_invariant db'"
  using assms unfolding store_invariant_defs by simp

end
