(* ===== verification/Approval.thy ===== *)
theory Approval
  imports Lab_Store
begin

text \<open>
  \<open>lab/approval.py\<close> and \<open>lab/auth.py\<close>: the service that issues durable approval tokens to
  authenticated approvers, and the checks of a caller's context. The locale \<open>token_validator\<close> is
  the boundary the control plane relies on (\<open>ApprovalTokenValidator\<close> of \<open>control/ports.py\<close>); the
  repository's \<open>validate\<close> provides it.
\<close>

section \<open>Principals and contexts\<close>

record principal =
  pr_actor :: string
  pr_role :: role

definition require_context :: "tool_call_context \<Rightarrow> principal \<Rightarrow> string \<Rightarrow> unit result" where
  "require_context c p permission =
     (if ctx_actor c \<noteq> pr_actor p \<or> ctx_permission c \<noteq> permission
      then Inl (PermissionDenied ''context actor or permission does not match authenticated principal'')
      else if ctx_incident_id c = [] \<or> ctx_thread_id c = [] \<or> ctx_correlation_id c = []
      then Inl (PermissionDenied ''incident, thread, and correlation context are required'')
      else Inr ())"

definition require_read :: "tool_call_context \<Rightarrow> principal \<Rightarrow> unit result" where
  "require_read c p = bind_res (require_context c p ''observability:read'') (\<lambda>_.
     if pr_role p \<notin> {OBSERVER, OPERATOR, APPROVER}
     then Inl (PermissionDenied ''principal cannot read evidence'') else Inr ())"

definition require_operation :: "tool_call_context \<Rightarrow> principal \<Rightarrow> unit result" where
  "require_operation c p = bind_res (require_context c p ''operations:write'') (\<lambda>_.
     if pr_role p \<noteq> OPERATOR \<or> ctx_idempotency_key c = None
     then Inl (PermissionDenied ''operator role and idempotency key are required'') else Inr ())"

section \<open>The service\<close>

record approval_service =
  as_incident_id :: string
  as_thread_id :: string

text \<open>The clock readings and the drawn token identity of one call.\<close>

record approval_env =
  av_now :: instant
  av_denied_at :: instant
  av_token_id :: uuid

definition approval_event :: "approval_service \<Rightarrow> approval_request \<Rightarrow> principal \<Rightarrow> string \<Rightarrow> string \<Rightarrow> audit_event_fields" where
  "approval_event svc request p transition reason = \<lparr>ae_incident_id = as_incident_id svc,
     ae_thread_id = as_thread_id svc, ae_actor = pr_actor p, ae_transition = transition,
     ae_action_hash = Some (apr_action_hash request), ae_reason = Some reason\<rparr>"

definition deny_approval ::
  "(string \<Rightarrow> uuid) \<Rightarrow> approval_service \<Rightarrow> approval_env \<Rightarrow> approval_request \<Rightarrow> principal \<Rightarrow> string \<Rightarrow> string \<Rightarrow>
   lab_db \<Rightarrow> approval_token result \<times> lab_db" where
  "deny_approval uuid5 svc env request p reason message db =
     (case append_audit_event uuid5 (approval_event svc request p ''approval_denied'' reason)
             (av_denied_at env) None db of
        Inl e \<Rightarrow> (Inl e, db)
      | Inr db' \<Rightarrow> (Inl (ApprovalDenied message None None), db'))"

definition token_for :: "approval_env \<Rightarrow> approval_request \<Rightarrow> principal \<Rightarrow> approval_token" where
  "token_for env request p = \<lparr>apr_approval_id = apr_approval_id request,
     apr_action_hash = apr_action_hash request, apr_actor = apr_actor request,
     apr_expires_at = apr_expires_at request, apr_one_time_use_id = apr_one_time_use_id request,
     apr_requested_at = apr_requested_at request, tok_token_id = av_token_id env,
     tok_approver = pr_actor p, tok_approved_at = av_now env\<rparr>"

definition approve ::
  "(string \<Rightarrow> uuid) \<Rightarrow> approval_service \<Rightarrow> approval_env \<Rightarrow> approval_request \<Rightarrow> principal \<Rightarrow> lab_db \<Rightarrow>
   approval_token result \<times> lab_db" where
  "approve uuid5 svc env request p db =
     (if pr_role p \<noteq> APPROVER then
        deny_approval uuid5 svc env request p AUDIT_APPROVER_ROLE_REQUIRED
          ''approver role is required to issue approval tokens'' db
      else if av_now env < apr_requested_at request then
        deny_approval uuid5 svc env request p AUDIT_REQUEST_NOT_ACTIVE ''approval request is not active'' db
      else if av_now env \<ge> apr_expires_at request then
        deny_approval uuid5 svc env request p AUDIT_REQUEST_EXPIRED ''approval request is expired'' db
      else case validate_approval_token (token_for env request p) of
        Inl e \<Rightarrow> (Inl e, db)
      | Inr token \<Rightarrow>
          (case record_approval token (as_incident_id svc) db of
             Inl e \<Rightarrow> (Inl e, db)
           | Inr db1 \<Rightarrow>
               (case append_audit_event uuid5 (approval_event svc request p ''approval_issued'' AUDIT_APPROVED)
                       (av_now env) None db1 of
                  Inl e \<Rightarrow> (Inl e, db1)
                | Inr db2 \<Rightarrow> (Inr token, db2))))"

section \<open>The validator interface\<close>

locale token_validator =
  fixes validate :: "approval_token \<Rightarrow> string \<Rightarrow> string \<Rightarrow> instant \<Rightarrow> bool \<times> string"
  assumes accept_cause: "fst (validate token h actor now) = (snd (validate token h actor now) = TOKEN_VALID)"
    and cause_known: "snd (validate token h actor now) \<in> set TOKEN_CAUSES"
    and accept_binds: "fst (validate token h actor now) \<Longrightarrow>
      apr_action_hash token = h \<and> apr_actor token = actor \<and> now < apr_expires_at token"
begin

lemma refusal_reason_known: "is_known_reason (approval_invalid (snd (validate token h actor now)))"
  using token_causes_nonempty[OF cause_known] by simp

lemma accepts_one_action:
  assumes "fst (validate token h actor now)" "fst (validate token h' actor' now')"
  shows "h = h' \<and> actor = actor'"
  using accept_binds[OF assms(1)] accept_binds[OF assms(2)] by simp

end

interpretation repository: token_validator "repository_validate db" for db
proof
  fix token h actor now
  show "fst (repository_validate db token h actor now) = (snd (repository_validate db token h actor now) = TOKEN_VALID)"
    by (simp add: repository_validate_def Let_def)
  show "snd (repository_validate db token h actor now) \<in> set TOKEN_CAUSES"
    by (simp add: repository_validate_def Let_def refusal_cause_member)
  show "fst (repository_validate db token h actor now) \<Longrightarrow>
      apr_action_hash token = h \<and> apr_actor token = actor \<and> now < apr_expires_at token"
    by (auto simp: repository_validate_def Let_def refusal_cause_valid token_bound_def)
qed

section \<open>Lemmas\<close>

lemma deny_approvals [simp]:
  "db_approvals (snd (deny_approval uuid5 svc env request p reason message db)) = db_approvals db"
  "db_ledger (snd (deny_approval uuid5 svc env request p reason message db)) = db_ledger db"
  by (auto simp: deny_approval_def split: sum.splits dest!: append_audit_Inr)

lemma deny_Inl [simp]: "fst (deny_approval uuid5 svc env request p reason message db) \<noteq> Inr t"
  by (simp add: deny_approval_def split: sum.splits)

lemma validate_token_Inr: "validate_approval_token t = Inr t' \<Longrightarrow> t' = t"
  by (simp add: validate_approval_token_def validated_Inr)

lemma approve_approvals:
  "db_approvals (snd (approve uuid5 svc env request p db)) = db_approvals db \<or>
   (pr_role p = APPROVER \<and> apr_requested_at request \<le> av_now env \<and> av_now env < apr_expires_at request \<and>
    (\<exists>db1. record_approval (token_for env request p) (as_incident_id svc) db = Inr db1 \<and>
       db_approvals (snd (approve uuid5 svc env request p db)) = db_approvals db1))"
  unfolding approve_def
  by (auto split: sum.splits if_splits dest!: append_audit_Inr validate_token_Inr)

lemma approve_ledger: "db_ledger (snd (approve uuid5 svc env request p db)) = db_ledger db"
  unfolding approve_def
  by (auto simp: record_approval_def split: sum.splits if_splits dest!: append_audit_Inr)

lemma approve_Inr:
  assumes "approve uuid5 svc env request p db = (Inr token, db')"
  shows "pr_role p = APPROVER" "apr_requested_at request \<le> av_now env" "av_now env < apr_expires_at request"
    "token = token_for env request p"
    "\<exists>db1. record_approval token (as_incident_id svc) db = Inr db1 \<and>
       db' = audit_insert uuid5 (approval_event svc request p ''approval_issued'' AUDIT_APPROVED) (av_now env) None db1"
proof -
  have nd: "(Inr token, db') \<noteq> deny_approval uuid5 svc env request p r m db" for r m
    using deny_Inl[of uuid5 svc env request p r m db token] by (metis fst_conv)
  show g: "pr_role p = APPROVER" "apr_requested_at request \<le> av_now env" "av_now env < apr_expires_at request"
    using assms nd unfolding approve_def by (metis linorder_not_le)+
  then have v: "validate_approval_token (token_for env request p) = Inr token"
    using assms validate_token_Inr unfolding approve_def by (auto split: sum.splits)
  then show t: "token = token_for env request p" using validate_token_Inr by simp
  show "\<exists>db1. record_approval token (as_incident_id svc) db = Inr db1 \<and>
       db' = audit_insert uuid5 (approval_event svc request p ''approval_issued'' AUDIT_APPROVED) (av_now env) None db1"
    using assms g v unfolding approve_def by (auto split: sum.splits dest!: append_audit_Inr)
qed

lemma record_approval_Inr:
  assumes "record_approval token i db = Inr db1"
  shows "find_approval db1 (tok_token_id token) = Some \<lparr>
        ap_token_id = tok_token_id token, ap_one_time_use_id = apr_one_time_use_id token,
        ap_incident_id = i, ap_action_hash = apr_action_hash token,
        ap_actor = apr_actor token, ap_approver = tok_approver token,
        ap_requested_at = apr_requested_at token, ap_expires_at = apr_expires_at token,
        ap_approved_at = tok_approved_at token, ap_consumed_at = None\<rparr>"
    and "length (db_approvals db1) = length (db_approvals db) + 1"
proof -
  have "find_approval db (tok_token_id token) = None"
    using assms unfolding record_approval_def find_approval_None by (auto simp: list_ex_iff split: if_splits)
  then show "find_approval db1 (tok_token_id token) = Some \<lparr>
        ap_token_id = tok_token_id token, ap_one_time_use_id = apr_one_time_use_id token,
        ap_incident_id = i, ap_action_hash = apr_action_hash token,
        ap_actor = apr_actor token, ap_approver = tok_approver token,
        ap_requested_at = apr_requested_at token, ap_expires_at = apr_expires_at token,
        ap_approved_at = tok_approved_at token, ap_consumed_at = None\<rparr>"
    using assms unfolding record_approval_def find_approval_def
    by (auto simp: find_append split: if_splits)
  show "length (db_approvals db1) = length (db_approvals db) + 1"
    using assms unfolding record_approval_def by (auto split: if_splits)
qed

lemma audit_insert_find [simp]: "find_approval (audit_insert uuid5 e t i db) = find_approval db"
  by (rule ext) (simp add: find_approval_def)


definition empty_db :: lab_db where
  "empty_db = \<lparr>db_approvals = [], db_ledger = [], db_audit = [], db_evidence = [],
     db_fixtures = (\<lambda>_. None), db_t1_records = (\<lambda>_. None), db_t1_notes = [], db_t8_history = []\<rparr>"

definition example_hash :: string where "example_hash = replicate 64 (CHR ''a'')"

definition example_request :: approval_request where
  "example_request = \<lparr>apr_approval_id = 1, apr_action_hash = example_hash, apr_actor = ''op'',
     apr_expires_at = 100, apr_one_time_use_id = 2, apr_requested_at = 0\<rparr>"

definition example_service :: approval_service where
  "example_service = \<lparr>as_incident_id = ''INC-1'', as_thread_id = ''approval''\<rparr>"

definition example_approver :: principal where
  "example_approver = \<lparr>pr_actor = ''lead'', pr_role = APPROVER\<rparr>"

definition example_env :: approval_env where
  "example_env = \<lparr>av_now = 5, av_denied_at = 6, av_token_id = 3\<rparr>"


end

