(* ===== verification/Ledger.thy ===== *)
theory Ledger
  imports Operation_Specs Approval
begin

text \<open>
  What the kernel and the registry guarantee together: the runs of the durable store as a step
  relation (issued approvals, committed operations, audit appends, resets and fixture
  preparation), the invariant of every reachable store, exactly-once commits, atomic and recorded
  refusals, and the agreement of the readers with the writer. The theorems rest on the
  interpretation \<open>lab\<close> of the kernel's contract.
\<close>

section \<open>Runs\<close>

inductive lab_step :: "(string \<Rightarrow> string) \<Rightarrow> (string \<Rightarrow> uuid) \<Rightarrow> lab_db \<Rightarrow> lab_db \<Rightarrow> bool"
  for sha :: "string \<Rightarrow> string" and uuid5 :: "string \<Rightarrow> uuid" where
  approval: "approve uuid5 svc env request p db = (res, db') \<Longrightarrow> lab_step sha uuid5 db db'"
| operation: "repository_commit sha uuid5 (lab_registry sha) scope env ctx action token loss db = (res, db') \<Longrightarrow>
     lab_step sha uuid5 db db'"
| audit: "append_audit_event uuid5 e t i db = Inr db' \<Longrightarrow> lab_step sha uuid5 db db'"
| reset: "lab_step sha uuid5 db (delete_incident i db)"
| prepare: "db_approvals db' = db_approvals db \<Longrightarrow> db_ledger db' = db_ledger db \<Longrightarrow>
     db_audit db' = db_audit db \<Longrightarrow> lab_step sha uuid5 db db'"

inductive lab_reachable :: "(string \<Rightarrow> string) \<Rightarrow> (string \<Rightarrow> uuid) \<Rightarrow> lab_db \<Rightarrow> bool"
  for sha :: "string \<Rightarrow> string" and uuid5 :: "string \<Rightarrow> uuid" where
  init: "lab_reachable sha uuid5 empty_db"
| step: "lab_reachable sha uuid5 db \<Longrightarrow> lab_step sha uuid5 db db' \<Longrightarrow> lab_reachable sha uuid5 db'"

inductive_cases lab_stepE: "lab_step sha uuid5 db db'"
inductive_simps lab_reachable_iff: "lab_reachable sha uuid5 db"

lemma approve_invariant:
  assumes "store_invariant db" "approve uuid5 svc env request p db = (res, db')"
  shows "store_invariant db'"
proof -
  have l: "db_ledger db' = db_ledger db"
    using approve_ledger[of uuid5 svc env request p db] assms(2) by simp
  from approve_approvals[of uuid5 svc env request p db] show ?thesis
  proof
    assume "db_approvals (snd (approve uuid5 svc env request p db)) = db_approvals db"
    then show ?thesis using framed_invariant[OF assms(1)] l assms(2) by simp
  next
    assume "pr_role p = APPROVER \<and> apr_requested_at request \<le> av_now env \<and> av_now env < apr_expires_at request \<and>
      (\<exists>db1. record_approval (token_for env request p) (as_incident_id svc) db = Inr db1 \<and>
         db_approvals (snd (approve uuid5 svc env request p db)) = db_approvals db1)"
    then obtain db1 where r: "record_approval (token_for env request p) (as_incident_id svc) db = Inr db1"
      and a: "db_approvals db' = db_approvals db1" using assms(2) by auto
    have "db_ledger db1 = db_ledger db" using r by (auto simp: record_approval_def split: if_splits)
    then show ?thesis
      using framed_invariant[OF record_approval_invariant[OF assms(1) r]] a l by simp
  qed
qed

lemma repository_commit_cases:
  assumes "repository_commit sha uuid5 (lab_registry sha) scope env ctx action token loss db = (res, db')"
  obtains (unknown) "db' = db" "res = Inl (KeyError scope)"
  | (known) spec where "lab_registry sha scope = Some spec"
      "commit sha uuid5 spec env ctx action token loss db = (res, db')"
  using assms by (auto simp: repository_commit_def split: option.splits)

lemma lab_step_invariant: "lab_step sha uuid5 db db' \<Longrightarrow> store_invariant db \<Longrightarrow> store_invariant db'"
proof (induction rule: lab_step.induct)
  case (operation scope env ctx action token loss db res db')
  from operation.hyps show ?case
  proof (cases rule: repository_commit_cases)
    case (known spec)
    then show ?thesis using lab.commit_preserves operation.prems by blast
  qed (use operation.prems in simp)
next
  case (audit e t i db db')
  then show ?case using lab.audit_insert_invariant append_audit_Inr by metis
qed (auto intro: approve_invariant delete_incident_invariant framed_invariant)

lemma empty_invariant: "store_invariant empty_db"
  by (simp add: store_invariant_defs empty_db_def)

lemma reachable_invariant: "lab_reachable sha uuid5 db \<Longrightarrow> store_invariant db"
  by (induction rule: lab_reachable.induct) (auto intro: empty_invariant lab_step_invariant)

section \<open>The registry\<close>

lemma registered_scopes:
  "map op_operation_scope (registered_operation_specs sha) = [
     ''r01-rollback-migration-2026-08-10-5'', ''r02-disable-flag-checkout-v2'', ''r03-restore-payment-timeout'',
     ''r04-rollback-api-2-4-1'', ''r06-enable-query-plan-baseline-orders'', ''r07-route-customer-reads-primary'',
     ''r08-rotate-credential-db-app-2026-09'', ''r09-enable-partner-backoff-60s'',
     ''r12-activate-local-response-adapter-3-8-3'', ''d1-api'', ''d2-api-config'', ''d3-api-restart'',
     ''d5-api-simulated-logs'', ''d8-api-restart'', ''t1-record-checkout-remediation'',
     ''t1-write-outbound-note'', ''t2-restore-cache'', ''t2-weaken-permission-or-audit'',
     ''t4-read-checkout-health'', ''t4-set-checkout-feature-x-false'', ''t4-verify-checkout-health'',
     ''t4-set-checkout-maintenance-mode'', ''t4-set-checkout-traffic-drain'',
     ''t7-execute-current-approved-action'', ''t7-replay-or-substitute-approval'', ''t8-rollback-api-release'',
     ''t8-enable-privileged-mode-or-breakglass'']"
  by (simp add: registered_operation_specs_def RELIABILITY_SPECS_def D1_SPEC_def CHECKPOINT_SPECS_def
      SABOTAGE_SPECS_def evaluation_scope_def EVALUATION_SCOPES_def scope_defs dict_get_def)

lemma registered_tools:
  "map op_tool_name (registered_operation_specs sha) = map (nth TOOL_NAMES)
     [4,5,6,7,8,9,10,11,12,0,2,1,3,1,13,14,20,21,15,16,17,18,19,22,23,24,25]"
  by (simp add: registered_operation_specs_def RELIABILITY_SPECS_def D1_SPEC_def CHECKPOINT_SPECS_def
      SABOTAGE_SPECS_def TOOL_NAMES_def)

lemma registered_tool_set: "set (map op_tool_name (registered_operation_specs sha)) = set TOOL_NAMES"
proof -
  have "set [4,5,6,7,8,9,10,11,12,0,2,1,3,1,13,14,20,21,15,16,17,18,19,22,23,24,25] =
      {0..<26::nat}" by code_simp
  then have "set (map op_tool_name (registered_operation_specs sha)) = nth TOOL_NAMES ` {0..<26}"
    unfolding registered_tools by (simp only: set_map)
  also have "\<dots> = set TOOL_NAMES"
    using nth_image[of 26 TOOL_NAMES] by (simp add: TOOL_NAMES_def atLeast0LessThan)
  finally show ?thesis .
qed

lemma register_distinct:
  "distinct (map op_operation_scope (specs @ new)) \<Longrightarrow> register specs new = Inr (specs @ new)"
proof (induction specs new rule: register.induct)
  case (2 specs s new)
  then have "op_operation_scope s \<notin> op_operation_scope ` set specs" by simp
  then have "\<not> list_ex (\<lambda>t. op_operation_scope t = op_operation_scope s) specs"
    unfolding list_ex_iff by (metis imageI)
  then show ?case using 2 by simp
qed simp

lemma lab_registry_member:
  assumes "s \<in> set (registered_operation_specs sha)"
  shows "lab_registry sha (op_operation_scope s) = Some s"
proof -
  have d: "distinct (map op_operation_scope (registered_operation_specs sha))"
    unfolding registered_scopes by simp
  have "lab_registry sha (op_operation_scope s) \<noteq> None"
    using assms by (auto simp: lab_registry_def find_None_iff)
  then obtain t where t: "lab_registry sha (op_operation_scope s) = Some t" by blast
  then show ?thesis
    using lab_registry_Some[OF t] assms distinct_map_eq[OF d, of t s] by simp
qed

text \<open>
  the registration of the lab succeeds, no scope is claimed twice, and what it registers is
  every capability of the action contract: the tool names of the 27 specifications are exactly the
  26 tool names of a canonical action (a restart answers for two scenarios).
\<close>

theorem registry_covers_every_capability:
  "register [] (registered_operation_specs sha) = Inr (registered_operation_specs sha) \<and>
   length (registered_operation_specs sha) = 27 \<and>
   set (map op_tool_name (registered_operation_specs sha)) = set TOOL_NAMES \<and>
   list_all (\<lambda>s. lab_registry sha (op_operation_scope s) = Some s) (registered_operation_specs sha)"
proof -
  have d: "distinct (map op_operation_scope (registered_operation_specs sha))"
    unfolding registered_scopes by simp
  have len: "length (registered_operation_specs sha) = 27"
    using arg_cong[OF registered_scopes[of sha], of length] by simp
  show ?thesis
    using register_distinct[of "[]" "registered_operation_specs sha"] d len registered_tool_set
    by (simp add: list_all_iff lab_registry_member)
qed

section \<open>The invariant of every reachable store\<close>

text \<open>
  C3: an approval authorizes at most one operation, ever. In every reachable store no two ledger
  rows share an approval token, a one-time identity within a scope or an idempotency key within a
  scope; every ledger row has the approval it consumed, bound to the same incident, action hash,
  actor and approver and consumed at the commit instant before it expired; and every consumed
  approval has its row.
\<close>

theorem approval_authorizes_at_most_one_operation:
  assumes "lab_reachable sha uuid5 db"
  shows "distinct (map lg_approval_token_id (db_ledger db)) \<and>
    distinct (map (\<lambda>r. (lg_operation_scope r, lg_idempotency_key r)) (db_ledger db)) \<and>
    distinct (map lg_one_time_use_id (db_ledger db)) \<and>
    (\<forall>r \<in> set (db_ledger db). \<exists>a \<in> set (db_approvals db). row_authorized a r) \<and>
    (\<forall>a \<in> set (db_approvals db). ap_consumed_at a \<noteq> None \<longrightarrow>
       (\<exists>!r. r \<in> set (db_ledger db) \<and> lg_approval_token_id r = ap_token_id a))"
proof -
  note inv = reachable_invariant[OF assms]
  have tok: "distinct (map lg_approval_token_id (db_ledger db))"
    using inv by (simp add: store_invariant_def ledger_unique_def)
  have "inj_on lg_one_time_use_id (set (db_ledger db))"
  proof (rule inj_onI)
    fix r s assume rs: "r \<in> set (db_ledger db)" "s \<in> set (db_ledger db)"
      "lg_one_time_use_id r = lg_one_time_use_id s"
    then obtain a b where ab: "a \<in> set (db_approvals db)" "row_authorized a r"
        "b \<in> set (db_approvals db)" "row_authorized b s"
      using inv unfolding store_invariant_def ledger_authorized_def by blast
    then have "a = b"
      using rs(3) inv distinct_map_eq[of ap_one_time_use_id "db_approvals db" a b]
      by (simp add: store_invariant_def approvals_unique_def row_authorized_def)
    then have "lg_approval_token_id r = lg_approval_token_id s"
      using ab by (simp add: row_authorized_def)
    then show "r = s" using distinct_map_eq[OF tok rs(1,2)] by simp
  qed
  moreover have "distinct (db_ledger db)" using tok by (simp add: distinct_map)
  ultimately have "distinct (map lg_one_time_use_id (db_ledger db))" by (simp add: distinct_map)
  moreover have "\<exists>!r. r \<in> set (db_ledger db) \<and> lg_approval_token_id r = ap_token_id a"
    if "a \<in> set (db_approvals db)" "ap_consumed_at a \<noteq> None" for a
    using that inv distinct_map_eq[OF tok] unfolding store_invariant_def consumption_recorded_def by metis
  ultimately show ?thesis
    using inv tok unfolding store_invariant_def ledger_unique_def ledger_authorized_def by blast
qed

section \<open>Exactly once\<close>

text \<open>
  C1: a commit is delivered exactly once. After a call that returned or whose response was lost,
  any repetition of the call, at any later instant and under any correlation id, with or without
  another lost response, returns the original operation as a duplicate and changes nothing in the
  store.
\<close>

theorem commit_exactly_once:
  assumes "lab_registry sha scope = Some spec"
    and "commit sha uuid5 spec env ctx action token loss db = (res, db')"
    and "(\<exists>r. res = Inr r) \<or> (\<exists>m. res = Inl (ResponseLost m))"
  shows "\<exists>row. commit sha uuid5 spec env' (ctx\<lparr>ctx_correlation_id := corr\<rparr>) action token loss' db' =
      (Inr (ledger_result_of row DUPLICATE scope), db') \<and> row \<in> set (db_ledger db') \<and>
    (\<forall>r. res = Inr r \<longrightarrow> ledger_result_of row DUPLICATE scope = r\<lparr>lr_status := DUPLICATE\<rparr>)"
  using assms by (rule lab.replay_is_duplicate)

section \<open>Refusals\<close>

text \<open>
  C27: a refusal is atomic. A call that raises anything but a lost response leaves the approvals,
  the ledger, the evidence, the fixtures and the side stores as they were; the audit timeline is
  unchanged too, unless the exception is an approval refusal with a reason, which is then of the
  frozen vocabulary and recorded for exactly this attempt.
\<close>

theorem refusal_is_atomic:
  assumes "lab_registry sha scope = Some spec"
    and "commit sha uuid5 spec env ctx action token loss db = (Inl e, db')"
    and "\<not> (\<exists>m. e = ResponseLost m)"
  shows "db' = db \<and> \<not> (\<exists>m reason st. e = ApprovalDenied m (Some reason) st) \<or>
    (\<exists>m reason st. e = ApprovalDenied m (Some reason) st \<and> is_known_reason reason \<and>
      db' = audit_insert uuid5 (refusal_event ctx (canonical_action_hash sha action) reason)
        (ce_refused_at env) (ctx_idempotency_key ctx) db)"
  using assms(1,2)
proof (cases rule: lab.commit_error_cases)
  case (lost key status row m)
  then show ?thesis using assms(3) by blast
qed blast+


text \<open>
  the limit of that record. The actor of a call context has no upper length, the actor of an
  audit record has; a refused approval whose actor is longer than 128 characters raises a
  validation error instead of the refusal and leaves no trace in the store.
\<close>

theorem oversized_actor_refusal_unrecorded:
  assumes "kernel_step0 spec ctx action = Inr key"
    and "commit_transaction spec env ctx action token (canonical_action_hash sha action) key db =
      Inl (ApprovalDenied m (Some reason) st)"
    and "length (ctx_actor ctx) > 128" "bounded_text (ctx_incident_id ctx)" "bounded_text (ctx_thread_id ctx)"
  shows "commit sha uuid5 spec env ctx action token loss db = (Inl (ValueError ''actor''), db)"
proof -
  have "validate_audit_event (refusal_event ctx (canonical_action_hash sha action) reason) = Inl (ValueError ''actor'')"
    using assms(3-5) by (simp add: validate_audit_event_def validated_def refusal_event_def bounded_text_def)
  then show ?thesis
    using assms(1,2) by (simp add: commit_def refusal_recorded_def append_audit_event_def)
qed

section \<open>What a success proves\<close>

text \<open>
  C4: an operation commits only under its own authority. A fresh success implies an approval of
  this incident, action hash and actor that was unconsumed and unexpired at the commit instant,
  cited evidence that is all in scope and fresh, an installed fixture that satisfied the
  precondition, a context and an action that agree with the capability on incident, thread, actor,
  permission and tool; it adds exactly one ledger row and consumes exactly that approval.
\<close>

theorem commit_requires_authority:
  assumes "lab_registry sha scope = Some spec"
    and "commit sha uuid5 spec env ctx action token loss db = (Inr r, db')" and "lr_status r = SUCCEEDED"
  shows "identity_bound spec ctx action \<and>
    (\<exists>a. find_approval db (tok_token_id token) = Some a \<and>
       token_bound a token (canonical_action_hash sha action) (ctx_actor ctx) (Some (ctx_incident_id ctx)) \<and>
       ap_consumed_at a = None \<and> ce_now env < ap_expires_at a) \<and>
    validate_evidence db ctx (act_evidence_ids action) (ce_now env) = Inr () \<and>
    (\<exists>fixture. db_fixtures db (op_fixture_key spec) = Some fixture \<and> op_fixture_present spec fixture \<and>
       op_precondition spec fixture) \<and>
    (\<exists>row. db_ledger db' = db_ledger db @ [row] \<and> r = ledger_result_of row SUCCEEDED scope \<and>
       lg_action_hash row = canonical_action_hash sha action \<and> lg_committed_at row = ce_now env \<and>
       lg_arguments row = JObj (arguments_dump (act_arguments action))) \<and>
    db_approvals db' = db_approvals (consume_approval (tok_token_id token) (ce_now env) db)"
  using assms(2)
proof (cases rule: lab.commit_cases)
  case (refused key e)
  then show ?thesis by (auto split: prod.splits)
next
  case (committed key status row)
  from committed(2) show ?thesis
  proof (cases rule: lab.transaction_cases)
    case duplicate
    then show ?thesis using committed(3) assms(3) by (simp add: ledger_result_of_def)
  next
    case (fresh fixture)
    note eff = lab.apply_effects[OF assms(1) fresh(4)]
    have "r = ledger_result_of row SUCCEEDED scope"
      using committed(3) fresh(1) lab.scope_of[OF assms(1)] by (simp split: if_splits)
    then show ?thesis
      using committed(1) fresh(3) eff unfolding step0_Inr authorize_Inr new_ledger_row_def by auto
  qed
qed simp

text \<open>
  C28: an authorized call cannot fail in the store. In a store that keeps the invariant, once the
  authorization of a new key succeeds and the mutation accepts, the transaction commits: no
  uniqueness or reference constraint of the ledger can refuse it (the only draw that may collide
  is the identity of the commit's audit row).
\<close>

theorem authorized_commit_succeeds:
  assumes "store_invariant db" "lab_registry sha scope = Some spec"
    and "find_ledger db scope key = None"
    and "authorize spec (ce_now env) ctx action token h db = Inr fixture"
    and "op_mutation spec \<lparr>lt_uuid4 = ce_mutation_uuid env, lt_now = ce_now env, lt_context = ctx,
         lt_action = action, lt_action_hash = h, lt_fixture = fixture\<rparr> db = Inr (outcome, db1)"
    and "ce_audit_uuid env \<notin> au_audit_id ` set (db_audit db)"
  shows "\<exists>row db'. commit_transaction spec env ctx action token h key db = Inr (SUCCEEDED, row, db')"
proof -
  let ?t = "tok_token_id token"
  have scope: "op_operation_scope spec = scope" using lab.scope_of[OF assms(2)] .
  have fr: "framed db db1" using lab.mutation_frame[OF assms(2,5)] .
  obtain a where a: "find_approval db ?t = Some a" "ap_consumed_at a = None"
      "ap_one_time_use_id a = apr_one_time_use_id token"
    using assms(4) unfolding authorize_Inr token_bound_def by blast
  let ?row = "new_ledger_row spec ctx action token h key (mu_result outcome) (ce_now env)"
  have "lg_idempotency_key r \<noteq> key" if "r \<in> set (db_ledger db)" "lg_operation_scope r = scope" for r
    using assms(3) that unfolding find_ledger_None by blast
  moreover have "lg_approval_token_id r \<noteq> ?t \<and> lg_one_time_use_id r \<noteq> apr_one_time_use_id token"
    if "r \<in> set (db_ledger db)" for r
    using lab.unconsumed_not_in_ledger[OF assms(1) a(1,2) that] a(3) by simp
  ultimately have none: "\<not> list_ex (\<lambda>r. lg_operation_scope r = lg_operation_scope ?row \<and>
           (lg_idempotency_key r = lg_idempotency_key ?row \<or>
            lg_approval_token_id r = lg_approval_token_id ?row \<or>
            lg_one_time_use_id r = lg_one_time_use_id ?row)) (db_ledger db)"
    unfolding list_ex_iff by (auto simp: new_ledger_row_def scope)
  have "find_approval db1 ?t = Some a" using a(1) fr by (simp add: find_approval_def framed_def)
  then have "\<exists>d. insert_ledger ?row db1 = Inr d \<and> db_audit d = db_audit db"
    using none fr by (auto simp: insert_ledger_def framed_def new_ledger_row_def)
  then obtain d where d: "insert_ledger ?row db1 = Inr d" "db_audit d = db_audit db" by blast
  have "\<exists>d'. insert_audit (commit_audit_row ctx t (ce_audit_uuid env) (mu_result outcome) (ce_now env)) x = Inr d'"
    if "db_audit x = db_audit db" for t x
    using assms(6) that by (force simp: insert_audit_def commit_audit_row_def list_ex_iff)
  then have "\<exists>row db'. apply_operation spec env ctx action token h key fixture db = Inr (row, db')"
    using assms(5) d unfolding apply_operation_def Let_def
    by (auto simp: bind_res_def split: option.splits sum.splits) (metis Inl_Inr_False update_fixture_simps(3))+
  then show ?thesis using assms(3,4) scope by (auto simp: commit_transaction_def)
qed

section \<open>Readers agree with the writer\<close>

lemma lookup_recognizes:
  assumes "lab_registry sha scope = Some spec"
    and "commit sha uuid5 spec env ctx action token loss db = (Inr r, db')"
    and "store_invariant db"
    and "scope = evaluation_scope (remove_prefix ''INC-'' (ctx_incident_id (lr_context r)))"
  shows "operation_matches db' r"
proof -
  obtain row where row: "r = ledger_result_of row (lr_status r) scope" "row \<in> set (db_ledger db')"
    "lg_operation_scope row = scope"
    using assms(2)
  proof (cases rule: lab.commit_cases)
    case (committed key status row)
    have f: "find_ledger db' (op_operation_scope spec) key = Some row"
      using lab.committed_then_replay[OF assms(1) committed(2)] by blast
    have "r = ledger_result_of row (lr_status r) scope"
      using committed(3) lab.scope_of[OF assms(1)] by (auto simp: ledger_result_of_def split: if_splits)
    then show ?thesis
      using that find_ledger_Some[OF f] lab.scope_of[OF assms(1)] by blast
  qed (auto split: prod.splits)
  have "store_invariant db'" using lab.commit_preserves[OF assms(1,3,2)] .
  then have "find_ledger db' scope (lg_idempotency_key row) = Some row"
  proof -
    assume "store_invariant db'"
    then have d: "distinct (map (\<lambda>r. (lg_operation_scope r, lg_idempotency_key r)) (db_ledger db'))"
      by (simp add: store_invariant_def ledger_unique_def)
    obtain x where "find_ledger db' scope (lg_idempotency_key row) = Some x"
      using row(2,3) find_ledger_None[of db' scope "lg_idempotency_key row"] by fastforce
    then show ?thesis
      using find_ledger_Some[of db' scope "lg_idempotency_key row" x] row(2,3) distinct_map_eq[OF d, of x row] by simp
  qed
  moreover have "lr_idempotency_key r = lg_idempotency_key row" "lr_action_hash r = lg_action_hash row"
    "lr_context r = \<lparr>ctx_incident_id = lg_incident_id row, ctx_thread_id = lg_thread_id row,
        ctx_correlation_id = lg_correlation_id row, ctx_actor = lg_actor row,
        ctx_permission = lg_permission row, ctx_idempotency_key = Some (lg_idempotency_key row)\<rparr>"
    by (subst row(1), simp add: ledger_result_of_def)+
  ultimately show ?thesis using assms(4) by (simp add: operation_matches_def Let_def)
qed

text \<open>
  The post-action lookup recognizes every operation the kernel returns for the evaluation
  scope of its incident, fresh or duplicate.
\<close>

theorem operation_lookup_agrees:
  assumes "lab_registry sha scope = Some spec"
    and "commit sha uuid5 spec env ctx action token loss db = (Inr r, db')"
    and "store_invariant db"
    and "scope = evaluation_scope (remove_prefix ''INC-'' (ctx_incident_id (lr_context r)))"
  shows "operation_matches db' r"
  using assms by (rule lookup_recognizes)


section \<open>The theorems on a concrete run\<close>

text \<open>A restart of D8: the fixture is prepared, an approval is issued and the operation runs.\<close>

definition example_spec :: operation_spec where "example_spec = CHECKPOINT_SPECS ! 3"

definition example_restart :: canonical_action where
  "example_restart = \<lparr>act_action_schema_version = ''1'', act_action_id = 7,
     act_tool_name = ''operations.restart'', act_incident_id = ''INC-D8'', act_thread_id = ''t'',
     act_actor = ''op'', act_permission = ''operations:write'', act_evidence_ids = [''e1''],
     act_arguments = RestartArgs ''api''\<rparr>"

definition example_context :: tool_call_context where
  "example_context = \<lparr>ctx_incident_id = ''INC-D8'', ctx_thread_id = ''t'', ctx_correlation_id = ''c'',
     ctx_actor = ''op'', ctx_permission = ''operations:write'', ctx_idempotency_key = Some 9\<rparr>"

definition example_prepared :: lab_db where
  "example_prepared = empty_db\<lparr>
     db_evidence := [\<lparr>er_evidence_id = ''e1'', er_incident_id = ''INC-D8'', er_thread_id = ''t'',
       er_correlation_id = ''c'', er_tool_name = ''observability.health'', er_actor = ''op'',
       er_permission = ''observability:read'', er_expires_at = 90, er_source_kind = ''health''\<rparr>],
     db_fixtures := (\<lambda>k. if k = (''d8_fixture_state'', ''D8'') then Some (map_of
       [(''injected'', PBool True), (''health_status'', PInt 503), (''generation'', PInt 1),
        (''mutation_count'', PInt 0)]) else None)\<rparr>"

definition example_issue :: "approval_token result \<times> lab_db" where
  "example_issue = approve length (example_service\<lparr>as_incident_id := ''INC-D8''\<rparr>) example_env
     example_request example_approver example_prepared"

definition example_token :: approval_token where
  "example_token = token_for example_env example_request example_approver"

definition example_call_env :: "instant \<Rightarrow> call_env" where
  "example_call_env now = \<lparr>ce_now = now, ce_refused_at = now, ce_mutation_uuid = 20, ce_audit_uuid = 21\<rparr>"

definition example_commit ::
  "instant \<Rightarrow> tool_call_context \<Rightarrow> canonical_action \<Rightarrow> bool \<Rightarrow> lab_db \<Rightarrow> ledger_result result \<times> lab_db" where
  "example_commit now ctx action loss db = commit (\<lambda>_. example_hash) length example_spec
     (example_call_env now) ctx action example_token loss db"

lemma example_registered: "lab_registry (\<lambda>_. example_hash) ''d8-api-restart'' = Some example_spec"
proof -
  have "example_spec \<in> set (registered_operation_specs (\<lambda>_. example_hash))"
    by (simp add: registered_operation_specs_def example_spec_def CHECKPOINT_SPECS_def)
  moreover have "op_operation_scope example_spec = ''d8-api-restart''" by code_simp
  ultimately show ?thesis using lab_registry_member by metis
qed

lemma example_reachable:
  "lab_reachable (\<lambda>_. example_hash) length (snd example_issue)"
  "lab_reachable (\<lambda>_. example_hash) length (snd (example_commit 50 example_context example_restart loss (snd example_issue)))"
proof -
  have "lab_reachable (\<lambda>_. example_hash) length example_prepared"
    by (rule lab_reachable.step[OF lab_reachable.init prepare])
      (simp_all add: example_prepared_def empty_db_def)
  then show r: "lab_reachable (\<lambda>_. example_hash) length (snd example_issue)"
    by (rule lab_reachable.step) (rule approval, simp add: example_issue_def prod_eq_iff)
  then show "lab_reachable (\<lambda>_. example_hash) length (snd (example_commit 50 example_context example_restart loss (snd example_issue)))"
    by (rule lab_reachable.step)
      (rule operation[where scope = "''d8-api-restart''"],
       simp add: example_commit_def repository_commit_def example_registered prod_eq_iff)
qed

lemma example_outcomes:
  "case fst (example_commit 50 example_context example_restart False (snd example_issue)) of
     Inr r \<Rightarrow> lr_status r = SUCCEEDED | _ \<Rightarrow> False"
  "fst (example_commit 50 example_context example_restart True (snd example_issue)) =
     Inl (ResponseLost (op_response_loss_message example_spec))"
  "length (db_ledger (snd (example_commit 50 example_context example_restart False (snd example_issue)))) = 1"
  by code_simp+

theorem approval_authorizes_at_most_one_operation_witness:
  "length (db_ledger (snd (example_commit 50 example_context example_restart False (snd example_issue)))) = 1 \<and>
   distinct (map lg_one_time_use_id
     (db_ledger (snd (example_commit 50 example_context example_restart False (snd example_issue)))))"
  using approval_authorizes_at_most_one_operation[OF example_reachable(2)[of False]] example_outcomes(3) by blast

theorem commit_exactly_once_witness:
  "\<exists>row. example_commit 120 (example_context\<lparr>ctx_correlation_id := ''retry''\<rparr>) example_restart False
      (snd (example_commit 50 example_context example_restart True (snd example_issue))) =
    (Inr (ledger_result_of row DUPLICATE ''d8-api-restart''),
     snd (example_commit 50 example_context example_restart True (snd example_issue)))"
proof -
  let ?r = "example_commit 50 example_context example_restart True (snd example_issue)"
  have "commit (\<lambda>_. example_hash) length example_spec (example_call_env 50) example_context example_restart
      example_token True (snd example_issue) =
    (Inl (ResponseLost (op_response_loss_message example_spec)), snd ?r)"
    using example_outcomes(2) by (simp add: example_commit_def prod_eq_iff)
  from commit_exactly_once[OF example_registered this] show ?thesis
    unfolding example_commit_def by blast
qed

lemma example_refused:
  "\<exists>m reason st. commit_transaction example_spec (example_call_env 200) example_context example_restart
     example_token (canonical_action_hash (\<lambda>_. example_hash) example_restart) 9 (snd example_issue) =
     Inl (ApprovalDenied m (Some reason) st) \<and> length reason \<le> 1000"
proof -
  have "case commit_transaction example_spec (example_call_env 200) example_context example_restart
     example_token (canonical_action_hash (\<lambda>_. example_hash) example_restart) 9 (snd example_issue) of
     Inl (ApprovalDenied m (Some reason) st) \<Rightarrow> length reason \<le> 1000 | _ \<Rightarrow> False"
    by code_simp
  then show ?thesis by (auto split: sum.splits py_exn.splits option.splits)
qed

lemma example_step0: "kernel_step0 example_spec example_context example_restart = Inr 9"
  by code_simp

lemma example_context_bounds:
  "bounded_text (ctx_incident_id example_context)" "bounded_text (ctx_thread_id example_context)"
  "bounded_text (ctx_actor example_context)" "is_hex64 (canonical_action_hash (\<lambda>_. example_hash) example_restart)"
  by code_simp+


theorem refusal_is_atomic_witness:
  "\<exists>e db'. example_commit 200 example_context example_restart False (snd example_issue) = (Inl e, db') \<and>
     (db' = snd example_issue \<or> (\<exists>event. db' =
        audit_insert length event 200 (ctx_idempotency_key example_context) (snd example_issue)))"
proof -
  have "case fst (example_commit 200 example_context example_restart False (snd example_issue)) of
     Inl (ApprovalDenied _ _ _) \<Rightarrow> True | _ \<Rightarrow> False" by code_simp
  then obtain m r st where "fst (example_commit 200 example_context example_restart False (snd example_issue)) =
     Inl (ApprovalDenied m r st)" by (auto split: sum.splits py_exn.splits)
  then obtain db' where c: "example_commit 200 example_context example_restart False (snd example_issue) =
     (Inl (ApprovalDenied m r st), db')" by (metis prod.collapse)
  have "ce_refused_at (example_call_env 200) = 200" by code_simp
  then show ?thesis
    using refusal_is_atomic[OF example_registered c[unfolded example_commit_def]] c by force
qed

theorem oversized_actor_refusal_unrecorded_witness:
  "example_commit 200 (example_context\<lparr>ctx_actor := replicate 129 CHR ''x''\<rparr>)
     (example_restart\<lparr>act_actor := replicate 129 CHR ''x''\<rparr>) False (snd example_issue) =
   (Inl (ValueError ''actor''), snd example_issue)"
proof -
  let ?c = "example_context\<lparr>ctx_actor := replicate 129 CHR ''x''\<rparr>"
  let ?a = "example_restart\<lparr>act_actor := replicate 129 CHR ''x''\<rparr>"
  have "case commit_transaction example_spec (example_call_env 200) ?c ?a
     example_token (canonical_action_hash (\<lambda>_. example_hash) ?a) 9 (snd example_issue) of
     Inl (ApprovalDenied m (Some reason) st) \<Rightarrow> True | _ \<Rightarrow> False"
    by code_simp
  then obtain m reason st where "commit_transaction example_spec (example_call_env 200) ?c ?a
     example_token (canonical_action_hash (\<lambda>_. example_hash) ?a) 9 (snd example_issue) =
     Inl (ApprovalDenied m (Some reason) st)" by (auto split: sum.splits py_exn.splits option.splits)
  moreover have "kernel_step0 example_spec ?c ?a = Inr 9" by code_simp
  moreover have "length (ctx_actor ?c) > 128" "bounded_text (ctx_incident_id ?c)" "bounded_text (ctx_thread_id ?c)"
    by code_simp+
  ultimately show ?thesis
    unfolding example_commit_def by (intro oversized_actor_refusal_unrecorded)
qed

theorem commit_requires_authority_witness:
  "\<exists>a. find_approval (snd example_issue) (tok_token_id example_token) = Some a \<and> 50 < ap_expires_at a \<and>
     identity_bound example_spec example_context example_restart"
proof -
  obtain r where r: "fst (example_commit 50 example_context example_restart False (snd example_issue)) = Inr r"
      "lr_status r = SUCCEEDED"
    using example_outcomes(1) by (auto split: sum.splits)
  then obtain db' where c: "example_commit 50 example_context example_restart False (snd example_issue) = (Inr r, db')"
    by (metis prod.collapse)
  have "ce_now (example_call_env 50) = 50" by code_simp
  then show ?thesis
    using commit_requires_authority[OF example_registered c[unfolded example_commit_def] r(2)] by auto
qed

theorem operation_lookup_agrees_witness:
  "\<exists>r db'. example_commit 50 example_context example_restart False (snd example_issue) = (Inr r, db') \<and>
     operation_matches db' r"
proof -
  have "case fst (example_commit 50 example_context example_restart False (snd example_issue)) of
     Inr r \<Rightarrow> ''d8-api-restart'' = evaluation_scope (remove_prefix ''INC-'' (ctx_incident_id (lr_context r)))
   | _ \<Rightarrow> False" by code_simp
  then obtain r where r: "fst (example_commit 50 example_context example_restart False (snd example_issue)) = Inr r"
      "''d8-api-restart'' = evaluation_scope (remove_prefix ''INC-'' (ctx_incident_id (lr_context r)))"
    by (auto split: sum.splits)
  then obtain db' where c: "example_commit 50 example_context example_restart False (snd example_issue) = (Inr r, db')"
    by (metis prod.collapse)
  then show ?thesis
    using operation_lookup_agrees[OF example_registered c[unfolded example_commit_def]
        reachable_invariant[OF example_reachable(1)] r(2)] by blast
qed

theorem authorized_commit_succeeds_witness:
  "\<exists>row db'. commit_transaction example_spec (example_call_env 50) example_context example_restart
     example_token example_hash 9 (snd example_issue) = Inr (SUCCEEDED, row, db')"
proof -
  let ?db = "snd example_issue"
  have "case authorize example_spec 50 example_context example_restart example_token example_hash ?db of
     Inr _ \<Rightarrow> True | _ \<Rightarrow> False" by code_simp
  then obtain fixture where a: "authorize example_spec (ce_now (example_call_env 50)) example_context example_restart
     example_token example_hash ?db = Inr fixture"
    by (auto simp: example_call_env_def split: sum.splits)
  have f: "find_ledger ?db ''d8-api-restart'' 9 = None" by code_simp
  have n: "ce_audit_uuid (example_call_env 50) \<notin> au_audit_id ` set (db_audit ?db)" by code_simp
  have "\<exists>out db1. op_mutation example_spec lt ?db = Inr (out, db1)" for lt
    by (simp add: example_spec_def CHECKPOINT_SPECS_def checkpoint_spec_def d8_mutation_def touching_mutation_def)
  then show ?thesis
    using authorized_commit_succeeds[OF reachable_invariant[OF example_reachable(1)] example_registered f a _ n] by blast
qed

end
