(* ===== verification/Evidence.thy ===== *)
theory Evidence
  imports Contracts Reasons
begin

text \<open>
  \<open>control/evidence.py\<close>: the checks a cited evidence record passes before it supports an action.
  \<open>embedded_instruction\<close> is the search of the regular expression of the source, written out over
  the characters; \<open>evidence_validate\<close> is \<open>EvidenceValidator.validate\<close>.
\<close>

datatype evidence_state = VALID | INVALID

record digest_entry =
  dig_evidence_id :: string
  dig_tool_name :: string
  dig_observed_at :: instant

record evidence_validation =
  evv_state :: evidence_state
  evv_reasons :: "string list"
  evv_evidence_ids :: "string list"
  evv_digest :: "digest_entry list"

section \<open>Instruction-shaped text\<close>

text \<open>\<open>\w\<close> on the first 256 code points: the characters of \<open>str.isalnum\<close> and the underscore.\<close>

definition is_word_char :: "char \<Rightarrow> bool" where
  "is_word_char c = (is_alnum c \<or> c = CHR ''_'' \<or>
     (let n = code_point c in
      n \<in> {170, 178, 179, 181, 185, 186, 188, 189, 190} \<or> (192 \<le> n \<and> n \<noteq> 215 \<and> n \<noteq> 247)))"

definition word_at :: "string \<Rightarrow> nat \<Rightarrow> bool" where
  "word_at s i = (i < length s \<and> is_word_char (s ! i))"

text \<open>\<open>\b\<close> before position \<open>i\<close>.\<close>

definition word_boundary :: "string \<Rightarrow> nat \<Rightarrow> bool" where
  "word_boundary s i = ((i > 0 \<and> word_at s (i - 1)) \<noteq> word_at s i)"

definition to_lower :: "char \<Rightarrow> char" where
  "to_lower c = (if is_upper c then char_of (code_point c + 32) else c)"

text \<open>The ends of the alternatives of a group that match, ignoring case, at position \<open>i\<close>.\<close>

definition keyword_ends :: "string list \<Rightarrow> string \<Rightarrow> nat \<Rightarrow> nat list" where
  "keyword_ends ks s i =
     map (\<lambda>k. i + length k) (filter (\<lambda>k. starts_with k (map to_lower (drop i s))) ks)"

text \<open>\<open>\b(...)\b\<close> matches at \<open>i\<close> and ends at \<open>j\<close>.\<close>

definition bounded_keyword :: "string list \<Rightarrow> string \<Rightarrow> nat \<Rightarrow> nat list" where
  "bounded_keyword ks s i =
     (if word_boundary s i then filter (word_boundary s) (keyword_ends ks s i) else [])"

definition embedded_instruction :: "string \<Rightarrow> bool" where
  "embedded_instruction s =
     list_ex (\<lambda>i. list_ex (\<lambda>j. list_ex (\<lambda>gap.
         CHR 0x0A \<notin> set (take gap (drop j s)) \<and> j + gap \<le> length s \<and>
         bounded_keyword [''policy'', ''approval'', ''instruction''] s (j + gap) \<noteq> [])
       [0..<81])
       (bounded_keyword [''ignore'', ''bypass'', ''override''] s i))
     [0..<Suc (length s)]"

fun contains_embedded_instruction :: "json \<Rightarrow> bool" where
  "contains_embedded_instruction (JObj ms) = list_ex (\<lambda>(_, v). contains_embedded_instruction v) ms"
| "contains_embedded_instruction (JArr xs) = list_ex contains_embedded_instruction xs"
| "contains_embedded_instruction (JStr s) = embedded_instruction s"
| "contains_embedded_instruction _ = False"

section \<open>The validator\<close>

text \<open>\<open>{record.evidence_id: record for record in records}\<close>: the last record of an id counts.\<close>

definition by_id :: "evidence_record list \<Rightarrow> string \<Rightarrow> evidence_record option" where
  "by_id records = map_of (rev (map (\<lambda>r. (ev_evidence_id r, r)) records))"

definition record_reasons ::
  "string list \<Rightarrow> instant \<Rightarrow> tool_policy_rule \<Rightarrow> canonical_action \<Rightarrow> tool_call_context option \<Rightarrow>
   string \<Rightarrow> evidence_record \<Rightarrow> string list" where
  "record_reasons allowed_sources now rule action ctx evidence_id record =
     (if ev_incident_id record \<noteq> act_incident_id action \<or> ev_thread_id record \<noteq> act_thread_id action
      then [cross_context_evidence evidence_id] else []) @
     (case ctx of None \<Rightarrow> []
      | Some c \<Rightarrow> if ev_correlation_id record \<noteq> ctx_correlation_id c
                  then [correlation_context_mismatch evidence_id] else []) @
     (if ev_expires_at record \<le> now then [expired_evidence evidence_id]
      else if now - ev_observed_at record > ep_max_age_seconds (rule_evidence rule) * 1000000
        then [stale_evidence evidence_id] else []) @
     (if ev_tool_name record \<notin> set allowed_sources then [unallowed_evidence_source evidence_id] else []) @
     (if contains_embedded_instruction (ev_payload record)
      then [embedded_instruction_data evidence_id] else [])"

definition record_digest :: "evidence_record \<Rightarrow> digest_entry" where
  "record_digest r = \<lparr>dig_evidence_id = ev_evidence_id r, dig_tool_name = ev_tool_name r,
     dig_observed_at = ev_observed_at r\<rparr>"

text \<open>The body of the loop over the cited ids: the reasons and the digest entries of one id.\<close>

definition cite ::
  "string list \<Rightarrow> instant \<Rightarrow> tool_policy_rule \<Rightarrow> canonical_action \<Rightarrow> tool_call_context option \<Rightarrow>
   evidence_record list \<Rightarrow> string \<Rightarrow> string list \<times> digest_entry list" where
  "cite allowed_sources now rule action ctx records evidence_id =
     (case by_id records evidence_id of
        None \<Rightarrow> ([unknown_evidence evidence_id], [])
      | Some record \<Rightarrow>
          (record_reasons allowed_sources now rule action ctx evidence_id record, [record_digest record]))"

definition collected_reasons ::
  "string list \<Rightarrow> instant \<Rightarrow> tool_policy_rule \<Rightarrow> canonical_action \<Rightarrow> tool_call_context option \<Rightarrow>
   evidence_record list \<Rightarrow> string list" where
  "collected_reasons allowed_sources now rule action ctx records =
     concat (map (\<lambda>i. fst (cite allowed_sources now rule action ctx records i)) (act_evidence_ids action)) @
     (if ep_citation_required (rule_evidence rule) \<and> act_evidence_ids action = []
      then [CITATIONS_REQUIRED] else [])"

definition evidence_validate ::
  "policy_configuration \<Rightarrow> string list \<Rightarrow> instant \<Rightarrow> canonical_action \<Rightarrow> evidence_record list \<Rightarrow>
   tool_call_context option \<Rightarrow> evidence_validation" where
  "evidence_validate policy allowed_sources now action records ctx =
     (case dict_get (pc_tools policy) (act_tool_name action) of
        None \<Rightarrow> \<lparr>evv_state = INVALID, evv_reasons = [UNKNOWN_TOOL], evv_evidence_ids = [], evv_digest = []\<rparr>
      | Some rule \<Rightarrow>
          let reasons = collected_reasons allowed_sources now rule action ctx records
          in \<lparr>evv_state = (if reasons \<noteq> [] then INVALID else VALID),
              evv_reasons = (if reasons \<noteq> [] then reasons else [EVIDENCE_VALID]),
              evv_evidence_ids = act_evidence_ids action,
              evv_digest = concat (map (\<lambda>i. snd (cite allowed_sources now rule action ctx records i))
                (act_evidence_ids action))\<rparr>)"

section \<open>What a valid citation is\<close>

text \<open>The declarative reading: the record exists and every binding and bound holds.\<close>

definition citable ::
  "string list \<Rightarrow> instant \<Rightarrow> tool_policy_rule \<Rightarrow> canonical_action \<Rightarrow> tool_call_context option \<Rightarrow>
   evidence_record \<Rightarrow> bool" where
  "citable allowed_sources now rule action ctx r =
     (ev_incident_id r = act_incident_id action \<and> ev_thread_id r = act_thread_id action \<and>
      (case ctx of None \<Rightarrow> True | Some c \<Rightarrow> ev_correlation_id r = ctx_correlation_id c) \<and>
      now < ev_expires_at r \<and>
      now \<le> ev_observed_at r + ep_max_age_seconds (rule_evidence rule) * 1000000 \<and>
      ev_tool_name r \<in> set allowed_sources \<and> \<not> contains_embedded_instruction (ev_payload r))"

lemma record_reasons_Nil:
  "record_reasons allowed_sources now rule action ctx i r = [] \<longleftrightarrow>
     citable allowed_sources now rule action ctx r"
  unfolding record_reasons_def citable_def by (auto split: option.splits)

lemma cite_ok:
  "fst (cite allowed_sources now rule action ctx records i) = [] \<longleftrightarrow>
     (\<exists>r. by_id records i = Some r \<and> citable allowed_sources now rule action ctx r)"
  by (auto simp: cite_def record_reasons_Nil split: option.splits)

lemma record_reasons_known:
  assumes "i \<noteq> []" "x \<in> set (record_reasons allowed_sources now rule action ctx i r)"
  shows "is_known_reason x"
  using assms unfolding record_reasons_def by (auto split: if_splits option.splits)

lemma cite_known:
  assumes "i \<noteq> []" "x \<in> set (fst (cite allowed_sources now rule action ctx records i))"
  shows "is_known_reason x"
  using assms record_reasons_known[OF assms(1)] unfolding cite_def by (auto split: option.splits)

lemma collected_reasons_Nil:
  "collected_reasons allowed_sources now rule action ctx records = [] \<longleftrightarrow>
     (\<forall>i \<in> set (act_evidence_ids action). \<exists>r. by_id records i = Some r \<and>
        citable allowed_sources now rule action ctx r) \<and>
     (ep_citation_required (rule_evidence rule) \<longrightarrow> act_evidence_ids action \<noteq> [])"
  unfolding collected_reasons_def by (simp add: cite_ok)

lemma collected_reasons_known:
  assumes "[] \<notin> set (act_evidence_ids action)"
    and "x \<in> set (collected_reasons allowed_sources now rule action ctx records)"
  shows "is_known_reason x"
proof -
  from assms(2) consider i where "i \<in> set (act_evidence_ids action)"
      "x \<in> set (fst (cite allowed_sources now rule action ctx records i))" | "x = CITATIONS_REQUIRED"
    unfolding collected_reasons_def by (auto split: if_splits)
  then show ?thesis
  proof cases
    case 1
    with assms(1) have "i \<noteq> []" by blast
    from cite_known[OF this 1(2)] show ?thesis .
  qed simp
qed

lemma evidence_valid_not_collected:
  "EVIDENCE_VALID \<notin> set (collected_reasons allowed_sources now rule action ctx records)"
proof -
  have "EVIDENCE_VALID \<notin> set (record_reasons allowed_sources now rule action ctx i r)" for i r
    unfolding record_reasons_def by (simp add: family_defs reason_defs split: option.splits)
  then have "EVIDENCE_VALID \<notin> set (fst (cite allowed_sources now rule action ctx records i))" for i
    unfolding cite_def by (simp add: family_defs reason_defs split: option.splits)
  then show ?thesis
    unfolding collected_reasons_def by (simp add: reason_defs)
qed

lemma evidence_state_collected:
  "evv_state (evidence_validate policy allowed_sources now action records ctx) = VALID \<longleftrightarrow>
     (\<exists>rule. dict_get (pc_tools policy) (act_tool_name action) = Some rule \<and>
        collected_reasons allowed_sources now rule action ctx records = [])"
  unfolding evidence_validate_def by (simp add: Let_def split: option.splits)

lemmas evidence_state_valid = evidence_state_collected[unfolded collected_reasons_Nil]

lemma evidence_state_reasons:
  "evv_state (evidence_validate policy allowed_sources now action records ctx) = VALID \<longleftrightarrow>
     evv_reasons (evidence_validate policy allowed_sources now action records ctx) = [EVIDENCE_VALID]"
proof (cases "dict_get (pc_tools policy) (act_tool_name action)")
  case None
  then show ?thesis by (simp add: evidence_validate_def reason_defs)
next
  case (Some rule)
  show ?thesis
  proof (cases "collected_reasons allowed_sources now rule action ctx records = []")
    case False
    then have "collected_reasons allowed_sources now rule action ctx records \<noteq> [EVIDENCE_VALID]"
      using evidence_valid_not_collected[of allowed_sources now rule action ctx records] by auto
    with Some False show ?thesis by (simp add: evidence_validate_def)
  qed (use Some in \<open>simp add: evidence_validate_def\<close>)
qed

lemma evidence_reasons_known:
  assumes "[] \<notin> set (act_evidence_ids action)"
  shows "list_all is_known_reason (evv_reasons (evidence_validate policy allowed_sources now action records ctx))"
proof (cases "dict_get (pc_tools policy) (act_tool_name action)")
  case (Some rule)
  then show ?thesis
    using collected_reasons_known[OF assms] by (auto simp: evidence_validate_def Let_def list_all_iff)
qed (simp add: evidence_validate_def)

lemma digest_of_citations:
  assumes "\<forall>i \<in> set ids. \<exists>r. by_id records i = Some r"
  shows "concat (map (\<lambda>i. snd (cite allowed_sources now rule action ctx records i)) ids) =
    map (record_digest \<circ> the \<circ> by_id records) ids"
  using assms by (induction ids) (auto simp: cite_def)


definition example_action :: canonical_action where
  "example_action = \<lparr>act_action_schema_version = ''1'', act_action_id = 7,
     act_tool_name = ''operations.restart'', act_incident_id = ''INC-1'', act_thread_id = ''t'',
     act_actor = ''op'', act_permission = ''operate'', act_evidence_ids = [''e1''],
     act_arguments = RestartArgs ''checkout''\<rparr>"

definition example_record :: "string \<Rightarrow> evidence_record" where
  "example_record note = \<lparr>ev_evidence_id = ''e1'', ev_incident_id = ''INC-1'', ev_thread_id = ''t'',
     ev_correlation_id = ''c'', ev_tool_name = ''metrics'', ev_actor = ''a'', ev_permission = ''read'',
     ev_observed_at = 0, ev_expires_at = 1000000000,
     ev_payload = JObj [(''note'', JArr [JStr note, JInt 3])], ev_source_uri = None\<rparr>"


end
