(* ===== verification/Policy.thy ===== *)
theory Policy
  imports Evidence
begin

text \<open>
  \<open>control/policy.py\<close>: the deterministic, deny-first evaluation of a proposed action.
  \<open>fullmatch\<close> stands for \<open>re.fullmatch(pattern, text) is not None\<close>, a parameter. Every other
  check is computed: the typed comparisons of constraint values, \<open>str\<close> and \<open>int\<close> conversions
  with the exceptions they raise, the changed-path grant and the ordering of the reasons.
\<close>

section \<open>Conversions of argument values\<close>

text \<open>\<open>type(arguments[name]) is type(constraint)\<close>.\<close>

fun same_type :: "json \<Rightarrow> constraint_value \<Rightarrow> bool" where
  "same_type (JStr _) (CStr _) = True"
| "same_type (JInt _) (CInt _) = True"
| "same_type (JBool _) (CBool _) = True"
| "same_type _ _ = False"

text \<open>\<open>arguments.get(key) == constraint\<close>; an absent argument is \<open>None\<close> and equals nothing.\<close>

fun eq_constraint :: "json \<Rightarrow> constraint_value \<Rightarrow> bool" where
  "eq_constraint (JStr s) (CStr t) = (s = t)"
| "eq_constraint (JInt i) (CInt j) = (i = j)"
| "eq_constraint (JInt i) (CBool b) = (i = (if b then 1 else 0))"
| "eq_constraint (JBool b) (CInt j) = ((if b then 1 else 0) = j)"
| "eq_constraint (JBool b) (CBool c) = (b = c)"
| "eq_constraint _ _ = False"

definition bool_str :: "bool \<Rightarrow> string" where
  "bool_str b = (if b then ''True'' else ''False'')"

text \<open>
  \<open>str\<close> of an argument value. The only compound value is the tuple of patches; the strings in it
  are literals of the contract, without quotes or backslashes.
\<close>

fun py_repr :: "json \<Rightarrow> string" where
  "py_repr JNull = ''None''"
| "py_repr (JBool b) = bool_str b"
| "py_repr (JInt i) = dec_int i"
| "py_repr (JStr s) = [CHR 0x27] @ s @ [CHR 0x27]"
| "py_repr (JArr xs) = ''('' @ join '', '' (map py_repr xs) @ (if length xs = 1 then '','' else []) @ '')''"
| "py_repr (JObj ms) = ''{'' @ join '', '' (map (\<lambda>(k, v). [CHR 0x27] @ k @ [CHR 0x27] @ '': '' @ py_repr v) ms) @ ''}''"

definition py_str :: "json \<Rightarrow> string" where
  "py_str v = (case v of JStr s \<Rightarrow> s | _ \<Rightarrow> py_repr v)"

definition constraint_str :: "constraint_value \<Rightarrow> string" where
  "constraint_str c = (case c of CStr s \<Rightarrow> s | CInt i \<Rightarrow> dec_int i | CBool b \<Rightarrow> bool_str b)"

text \<open>
  \<open>int(text)\<close>: optional surrounding white space, an optional sign, then digits with single
  underscores between them.
\<close>

definition is_space :: "char \<Rightarrow> bool" where
  "is_space c = (let n = code_point c in (9 \<le> n \<and> n \<le> 13) \<or> (28 \<le> n \<and> n \<le> 32) \<or> n = 133 \<or> n = 160)"

definition strip :: "string \<Rightarrow> string" where
  "strip s = rev (dropWhile is_space (rev (dropWhile is_space s)))"

fun parse_digits :: "int \<Rightarrow> string \<Rightarrow> int option" where
  "parse_digits n [] = Some n"
| "parse_digits n [c] =
     (if is_digit c then Some (10 * n + (int (code_point c) - 48)) else None)"
| "parse_digits n (c # d # r) =
     (if is_digit c then parse_digits (10 * n + (int (code_point c) - 48)) (d # r)
      else if c = CHR ''_'' \<and> is_digit d then parse_digits (10 * n + (int (code_point d) - 48)) r
      else None)"

definition parse_unsigned :: "string \<Rightarrow> int option" where
  "parse_unsigned s = (case s of [] \<Rightarrow> None | c # _ \<Rightarrow> if is_digit c then parse_digits 0 s else None)"

definition int_of_text :: "string \<Rightarrow> int result" where
  "int_of_text s =
     (let t = strip s;
          v = (case t of
                 CHR ''-'' # r \<Rightarrow> map_option uminus (parse_unsigned r)
               | CHR ''+'' # r \<Rightarrow> parse_unsigned r
               | _ \<Rightarrow> parse_unsigned t)
      in case v of None \<Rightarrow> Inl (ValueError ''invalid literal for int()'') | Some i \<Rightarrow> Inr i)"

fun int_of_argument :: "json \<Rightarrow> int result" where
  "int_of_argument (JInt i) = Inr i"
| "int_of_argument (JBool b) = Inr (if b then 1 else 0)"
| "int_of_argument (JStr s) = int_of_text s"
| "int_of_argument _ = Inl (TypeError ''int() argument'')"

fun int_of_constraint :: "constraint_value \<Rightarrow> int result" where
  "int_of_constraint (CInt i) = Inr i"
| "int_of_constraint (CBool b) = Inr (if b then 1 else 0)"
| "int_of_constraint (CStr s) = int_of_text s"

section \<open>The constraints of a rule\<close>

text \<open>The \<open>match\<close> over the constraint kinds.\<close>

definition constraint_satisfied ::
  "(string \<Rightarrow> string \<Rightarrow> bool) \<Rightarrow> (string \<times> json) list \<Rightarrow> resolved_constraint \<Rightarrow> constraint_value \<Rightarrow> bool result" where
  "constraint_satisfied fullmatch arguments resolved constraint =
     (let v = dict_get arguments (rc_argument_key resolved);
          text = (case v of None \<Rightarrow> [] | Some x \<Rightarrow> py_str x)
      in case rc_kind resolved of
           PATTERN \<Rightarrow> Inr (fullmatch (constraint_str constraint) text)
         | PREFIX \<Rightarrow> Inr (starts_with (constraint_str constraint) text)
         | MAX_BYTES \<Rightarrow>
             bind_res (case v of None \<Rightarrow> Inr (- 1) | Some x \<Rightarrow> int_of_argument x) (\<lambda>i.
             bind_res (int_of_constraint constraint) (\<lambda>j. Inr (i = j)))
         | EQUALITY \<Rightarrow> Inr (case v of None \<Rightarrow> False | Some x \<Rightarrow> eq_constraint x constraint))"

text \<open>One pass of the loop over \<open>rule.arguments\<close>.\<close>

definition constraint_reason ::
  "(string \<Rightarrow> string \<Rightarrow> bool) \<Rightarrow> (string \<times> json) list \<Rightarrow> string \<Rightarrow> constraint_value \<Rightarrow> string list result" where
  "constraint_reason fullmatch arguments name constraint =
     (case resolve_argument_constraint name of
        None \<Rightarrow> Inr [unenforceable_constraint name]
      | Some resolved \<Rightarrow>
          if (case dict_get arguments name of None \<Rightarrow> False | Some v \<Rightarrow> \<not> same_type v constraint)
          then Inr [argument_constraint name]
          else bind_res (constraint_satisfied fullmatch arguments resolved constraint) (\<lambda>ok.
               Inr (if ok then [] else [argument_constraint (rc_argument_key resolved)])))"

fun constraint_reasons ::
  "(string \<Rightarrow> string \<Rightarrow> bool) \<Rightarrow> (string \<times> json) list \<Rightarrow> (string \<times> constraint_value) list \<Rightarrow> string list result" where
  "constraint_reasons fullmatch arguments [] = Inr []"
| "constraint_reasons fullmatch arguments ((name, c) # cs) =
     bind_res (constraint_reason fullmatch arguments name c) (\<lambda>r.
     bind_res (constraint_reasons fullmatch arguments cs) (\<lambda>rs. Inr (r @ rs)))"

definition declared_paths :: "action_arguments \<Rightarrow> string list" where
  "declared_paths a = (case a of RollbackApiReleaseArgs ps \<Rightarrow> map patch_path ps | _ \<Rightarrow> [])"

section \<open>The engine\<close>

text \<open>The reasons collected before the decision.\<close>

definition policy_reasons ::
  "(string \<Rightarrow> string \<Rightarrow> bool) \<Rightarrow> tool_policy_rule option \<Rightarrow> canonical_action \<Rightarrow> role \<Rightarrow>
   evidence_validation \<Rightarrow> string list result" where
  "policy_reasons fullmatch rule_opt action caller evidence =
     (case rule_opt of
        None \<Rightarrow> Inr [UNKNOWN_TOOL]
      | Some rule \<Rightarrow>
          if rule_prohibited rule then
            Inr [if caller \<in> set (rule_roles rule) then CAPABILITY_PROHIBITED else CALLER_ROLE_DENIED]
          else
            bind_res (constraint_reasons fullmatch (arguments_dump (act_arguments action)) (rule_arguments rule)) (\<lambda>cs.
            Inr ((if caller \<notin> set (rule_roles rule) then [CALLER_ROLE_DENIED] else []) @
                 (if act_permission action \<noteq> rule_permission rule then [CALLER_PERMISSION_DENIED] else []) @
                 (if rule_allowed_changed_paths rule \<noteq> [] \<and>
                     \<not> set (declared_paths (act_arguments action)) \<subseteq> set (rule_allowed_changed_paths rule)
                  then [argument_constraint ''changed_paths''] else []) @
                 cs @
                 (if evv_state evidence \<noteq> VALID then evv_reasons evidence else []))))"

definition policy_evaluate ::
  "(string \<Rightarrow> string) \<Rightarrow> (string \<Rightarrow> string \<Rightarrow> bool) \<Rightarrow> policy_configuration \<Rightarrow> canonical_action \<Rightarrow> role \<Rightarrow>
   evidence_validation \<Rightarrow> policy_outcome result" where
  "policy_evaluate sha fullmatch configuration action caller evidence =
     (let rule = dict_get (pc_tools configuration) (act_tool_name action) in
      bind_res (policy_reasons fullmatch rule action caller evidence) (\<lambda>reasons.
      Inr (if reasons \<noteq> [] then
             \<lparr>po_decision = DENY, po_policy_version = pc_policy_version configuration,
              po_reasons = sorted_set reasons, po_action_hash = canonical_action_hash sha action\<rparr>
           else
             \<lparr>po_decision = (case rule of Some r \<Rightarrow> if rule_approval_required r then REQUIRE_APPROVAL else ALLOW
                             | None \<Rightarrow> ALLOW),
              po_policy_version = pc_policy_version configuration,
              po_reasons = [POLICY_VALID], po_action_hash = canonical_action_hash sha action\<rparr>)))"

section \<open>What the gate admits\<close>

text \<open>The declarative reading: a rule that does not prohibit, and every binding of it holds.\<close>

definition constraint_holds ::
  "(string \<Rightarrow> string \<Rightarrow> bool) \<Rightarrow> (string \<times> json) list \<Rightarrow> string \<times> constraint_value \<Rightarrow> bool" where
  "constraint_holds fullmatch arguments nc =
     (case resolve_argument_constraint (fst nc) of
        None \<Rightarrow> False
      | Some rc \<Rightarrow>
          (case dict_get arguments (fst nc) of None \<Rightarrow> True | Some v \<Rightarrow> same_type v (snd nc)) \<and>
          constraint_satisfied fullmatch arguments rc (snd nc) = Inr True)"

definition policy_admits ::
  "(string \<Rightarrow> string \<Rightarrow> bool) \<Rightarrow> policy_configuration \<Rightarrow> canonical_action \<Rightarrow> role \<Rightarrow> evidence_validation \<Rightarrow>
   tool_policy_rule \<Rightarrow> bool" where
  "policy_admits fullmatch configuration action caller evidence rule =
     (dict_get (pc_tools configuration) (act_tool_name action) = Some rule \<and>
      \<not> rule_prohibited rule \<and> caller \<in> set (rule_roles rule) \<and>
      act_permission action = rule_permission rule \<and>
      (rule_allowed_changed_paths rule \<noteq> [] \<longrightarrow>
         set (declared_paths (act_arguments action)) \<subseteq> set (rule_allowed_changed_paths rule)) \<and>
      (\<forall>nc \<in> set (rule_arguments rule). constraint_holds fullmatch (arguments_dump (act_arguments action)) nc) \<and>
      evv_state evidence = VALID)"

lemma constraint_reason_Nil:
  "constraint_reason fullmatch arguments name c = Inr [] \<longleftrightarrow> constraint_holds fullmatch arguments (name, c)"
  unfolding constraint_reason_def constraint_holds_def
  by (auto simp: bind_res_eq_Inr split: option.splits if_splits)

lemma constraint_reasons_Nil:
  "constraint_reasons fullmatch arguments cs = Inr [] \<longleftrightarrow> (\<forall>nc \<in> set cs. constraint_holds fullmatch arguments nc)"
proof (induction cs)
  case (Cons nc cs)
  obtain name c where "nc = (name, c)" by (cases nc)
  with Cons show ?case
    by (auto simp: bind_res_eq_Inr constraint_reason_Nil)
qed simp

lemma policy_reasons_Nil:
  assumes "evv_reasons evidence \<noteq> []"
  shows "policy_reasons fullmatch (dict_get (pc_tools configuration) (act_tool_name action)) action caller evidence = Inr [] \<longleftrightarrow>
     (\<exists>rule. policy_admits fullmatch configuration action caller evidence rule)"
  using assms unfolding policy_reasons_def policy_admits_def
  by (auto simp: bind_res_eq_Inr constraint_reasons_Nil split: option.splits if_splits)

lemma policy_evaluate_decision:
  assumes "policy_evaluate sha fullmatch configuration action caller evidence = Inr out" "evv_reasons evidence \<noteq> []"
  shows "po_decision out = DENY \<and> \<not> (\<exists>rule. policy_admits fullmatch configuration action caller evidence rule) \<and>
         po_reasons out \<noteq> [] \<or>
    po_reasons out = [POLICY_VALID] \<and> (\<exists>rule. policy_admits fullmatch configuration action caller evidence rule \<and>
      po_decision out = (if rule_approval_required rule then REQUIRE_APPROVAL else ALLOW))"
proof -
  let ?rule = "dict_get (pc_tools configuration) (act_tool_name action)"
  obtain rs where rs: "policy_reasons fullmatch ?rule action caller evidence = Inr rs"
    using assms(1) unfolding policy_evaluate_def Let_def bind_res_eq_Inr by blast
  show ?thesis
  proof (cases "rs = []")
    case True
    then obtain rule where adm: "policy_admits fullmatch configuration action caller evidence rule"
      using rs policy_reasons_Nil[OF assms(2)] by blast
    then have "?rule = Some rule" by (simp add: policy_admits_def)
    with True rs assms(1) adm show ?thesis by (auto simp: policy_evaluate_def)
  next
    case False
    then have "\<not> (\<exists>rule. policy_admits fullmatch configuration action caller evidence rule)"
      using rs policy_reasons_Nil[OF assms(2), of fullmatch configuration action caller] by simp
    with False rs assms(1) show ?thesis by (auto simp: policy_evaluate_def)
  qed
qed

lemma policy_evaluate_hash:
  "policy_evaluate sha fullmatch configuration action caller evidence = Inr out \<Longrightarrow>
     po_action_hash out = canonical_action_hash sha action"
  unfolding policy_evaluate_def Let_def bind_res_eq_Inr by (auto split: if_splits)

section \<open>A validated configuration never raises and never allows without approval\<close>

lemma max_bytes_is_int: "dict_get (arguments_dump a) ''max_bytes'' = Some v \<Longrightarrow> \<exists>i. v = JInt i"
  by (cases a) (auto simp: dict_get_def)

lemma constraint_kind_max_bytes:
  "resolve_argument_constraint name = Some rc \<Longrightarrow> rc_kind rc = MAX_BYTES \<Longrightarrow>
     name = ''max_bytes'' \<and> rc_argument_key rc = ''max_bytes''"
  unfolding resolve_argument_constraint_def
  by (auto simp: Let_def constraint_key_def constraint_names ARGUMENT_KEY_ALIASES_def dict_get_def
      split: if_splits)

lemma constraint_reason_total:
  assumes rc: "resolve_argument_constraint name = Some rc"
    and key: "rc_argument_key rc \<in> fst ` set (arguments_dump a)"
  shows "\<exists>r. constraint_reason fullmatch (arguments_dump a) name c = Inr r \<and> list_all is_known_reason r"
proof -
  have "rc_argument_key rc \<in> set ACTION_ARGUMENT_FIELDS"
    using resolve_Some(2)[OF rc] .
  moreover have "[] \<notin> set ACTION_ARGUMENT_FIELDS"
    by (simp add: ACTION_ARGUMENT_FIELDS_def CAPABILITY_ARGUMENT_FIELDS_def)
  ultimately have ne: "rc_argument_key rc \<noteq> []" by auto
  have ne_name: "name \<noteq> []" if "dict_get (arguments_dump a) name = Some v" for v
  proof -
    have "name \<in> fst ` set (arguments_dump a)"
      using that map_of_SomeD unfolding dict_get_def by force
    then have "name \<in> set ACTION_ARGUMENT_FIELDS" by (rule argument_key_is_field)
    then show ?thesis using \<open>[] \<notin> set ACTION_ARGUMENT_FIELDS\<close> by auto
  qed
  show ?thesis
  proof (cases "rc_kind rc = MAX_BYTES")
    case False
    then have "\<exists>ok. constraint_satisfied fullmatch (arguments_dump a) rc c = Inr ok"
      by (cases "rc_kind rc") (simp_all add: constraint_satisfied_def Let_def)
    then show ?thesis
      using rc ne ne_name by (auto simp: constraint_reason_def split: option.splits)
  next
    case True
    with constraint_kind_max_bytes[OF rc] have nm: "name = ''max_bytes''" "rc_argument_key rc = ''max_bytes''"
      by blast+
    then obtain v where v: "dict_get (arguments_dump a) ''max_bytes'' = Some v"
      using key unfolding dict_get_def
      by (metis map_of_eq_None_iff not_None_eq)
    then obtain i where i: "v = JInt i" using max_bytes_is_int by blast
    show ?thesis
      using rc nm v i True
      by (cases c) (simp_all add: constraint_reason_def constraint_satisfied_def)
  qed
qed

lemma constraint_reasons_total:
  assumes "\<forall>name \<in> fst ` set cs. \<exists>rc. resolve_argument_constraint name = Some rc \<and>
      rc_argument_key rc \<in> fst ` set (arguments_dump a)"
  shows "\<exists>r. constraint_reasons fullmatch (arguments_dump a) cs = Inr r \<and> list_all is_known_reason r"
  using assms
proof (induction cs)
  case (Cons nc cs)
  obtain name c where nc: "nc = (name, c)" by (cases nc)
  with Cons.prems obtain rc where "resolve_argument_constraint name = Some rc"
      "rc_argument_key rc \<in> fst ` set (arguments_dump a)" by auto
  from constraint_reason_total[OF this] obtain r where
    r: "constraint_reason fullmatch (arguments_dump a) name c = Inr r" "list_all is_known_reason r" by blast
  moreover obtain rs where "constraint_reasons fullmatch (arguments_dump a) cs = Inr rs" "list_all is_known_reason rs"
    using Cons by auto
  ultimately show ?case using nc by simp
qed simp

lemma policy_reasons_total:
  assumes cfg: "validate_policy_configuration c = Inr c'"
    and act: "act_tool_name action = ''operations.'' @ arguments_kind (act_arguments action)"
    and ev: "list_all is_known_reason (evv_reasons evidence)"
  shows "\<exists>rs. policy_reasons fullmatch (dict_get (pc_tools c) (act_tool_name action)) action caller evidence = Inr rs \<and>
     list_all is_known_reason rs"
proof (cases "dict_get (pc_tools c) (act_tool_name action)")
  case None
  then show ?thesis by (simp add: policy_reasons_def)
next
  case (Some rule)
  then have mem: "(''operations.'' @ arguments_kind (act_arguments action), rule) \<in> set (pc_tools c)"
    using act unfolding dict_get_def by (metis map_of_SomeD)
  have "validate_rule rule = Inr rule" "foreign_constraints (act_tool_name action) rule = []"
    using validate_policy_configuration_Inr(3,4)[OF cfg] mem act by auto
  then have "\<forall>name \<in> fst ` set (rule_arguments rule). \<exists>rc. resolve_argument_constraint name = Some rc \<and>
      rc_argument_key rc \<in> fst ` set (arguments_dump (act_arguments action))"
    using unenforceable_names_Nil foreign_constraints_Nil capability_fields_dump act
    unfolding validate_rule_Inr by fastforce
  from constraint_reasons_total[OF this, of fullmatch] obtain cs where
    "constraint_reasons fullmatch (arguments_dump (act_arguments action)) (rule_arguments rule) = Inr cs"
    "list_all is_known_reason cs" by blast
  then show ?thesis using Some ev by (simp add: policy_reasons_def)
qed

lemma sorted_set_known: "list_all is_known_reason rs \<Longrightarrow> list_all is_known_reason (sorted_set rs)"
  by (simp add: list_all_iff)

text \<open>
  C22: the engine denies unless the action is admitted. When it returns, it does not deny exactly
  when some rule for the tool does not prohibit it, names the caller's role and the action's
  permission, grants the changed paths, has every constraint satisfied and the evidence is valid;
  then the only reason is \<open>policy_valid\<close> and the decision is an approval requirement exactly when
  the rule asks for one. The outcome is bound to the hash of the action either way.
\<close>

theorem policy_denies_unless_admitted:
  assumes "policy_evaluate sha fullmatch configuration action caller evidence = Inr out"
    and "evv_reasons evidence \<noteq> []"
  shows "(po_decision out \<noteq> DENY \<longleftrightarrow> (\<exists>rule. policy_admits fullmatch configuration action caller evidence rule)) \<and>
    (po_decision out \<noteq> DENY \<longrightarrow> po_reasons out = [POLICY_VALID] \<and>
       (\<exists>rule. policy_admits fullmatch configuration action caller evidence rule \<and>
          (po_decision out = REQUIRE_APPROVAL) = rule_approval_required rule)) \<and>
    po_action_hash out = canonical_action_hash sha action"
  using policy_evaluate_decision[OF assms] policy_evaluate_hash[OF assms(1)]
  by (auto split: if_splits)


text \<open>
  a prohibition is absolute. For a tool whose rule prohibits it the engine always denies,
  with the one reason that names the prohibition, whatever the arguments, the permission or the
  evidence are.
\<close>

theorem prohibition_is_absolute:
  assumes "dict_get (pc_tools configuration) (act_tool_name action) = Some rule" "rule_prohibited rule"
  shows "policy_evaluate sha fullmatch configuration action caller evidence =
    Inr \<lparr>po_decision = DENY, po_policy_version = pc_policy_version configuration,
      po_reasons = [if caller \<in> set (rule_roles rule) then CAPABILITY_PROHIBITED else CALLER_ROLE_DENIED],
      po_action_hash = canonical_action_hash sha action\<rparr>"
  using assms by (simp add: policy_evaluate_def policy_reasons_def sorted_set_def)

section \<open>Witnesses\<close>

definition example_evidence :: evidence_validation where
  "example_evidence = evidence_validate example_configuration [''metrics''] 5 example_action
     [example_record ''queue is full''] None"

theorem policy_denies_unless_admitted_witness:
  "\<exists>out. policy_evaluate id (\<lambda>p t. p = t) example_configuration example_action OPERATOR example_evidence = Inr out \<and>
     po_reasons out = [POLICY_VALID]"
proof -
  have ev: "evv_reasons example_evidence \<noteq> []" by code_simp
  obtain out where out: "policy_evaluate id (\<lambda>p t. p = t) example_configuration example_action OPERATOR example_evidence = Inr out"
    "po_decision out \<noteq> DENY"
  proof -
    have "policy_reasons (\<lambda>p t. p = t) (dict_get (pc_tools example_configuration) (act_tool_name example_action))
        example_action OPERATOR example_evidence = Inr []" by code_simp
    then show ?thesis
      using that by (auto simp: policy_evaluate_def example_configuration_def example_action_def dict_get_def)
  qed
  from policy_denies_unless_admitted[OF out(1) ev] out show ?thesis by blast
qed

lemma example_action_valid: "validate_action example_action = Inr example_action"
  by code_simp


definition prohibiting_configuration :: policy_configuration where
  "prohibiting_configuration = example_configuration\<lparr>pc_tools := [(''operations.restart'',
     example_rule\<lparr>rule_prohibited := True, rule_approval_required := False, rule_arguments := []\<rparr>)]\<rparr>"

theorem prohibition_is_absolute_witness:
  "\<exists>out. policy_evaluate id (\<lambda>p t. True) prohibiting_configuration example_action OPERATOR example_evidence = Inr out \<and>
     po_decision out = DENY \<and> po_reasons out = [CAPABILITY_PROHIBITED]"
proof -
  let ?rule = "example_rule\<lparr>rule_prohibited := True, rule_approval_required := False, rule_arguments := []\<rparr>"
  have "dict_get (pc_tools prohibiting_configuration) (act_tool_name example_action) = Some ?rule"
    by (simp add: prohibiting_configuration_def example_action_def dict_get_def)
  from prohibition_is_absolute[OF this, of id "\<lambda>p t. True" OPERATOR example_evidence] show ?thesis
    by (simp add: example_rule_def)
qed

end
