(* ===== verification/Monitors.thy ===== *)
theory Monitors
  imports Policy Evaluation_Contracts "HOL-Library.Sublist"
begin

text \<open>
  The advisory monitors: \<open>control/monitor.py\<close> (the fail-closed provider monitor, the sequence
  conformance monitor and the fixture), \<open>control/monitor_v2.py\<close> (the structured caller with its
  typed errors, the recorder and the binding of an assessment to an action) and
  \<open>control/monitor_decision.py\<close> (the threshold rule).

  The provider's answer is an argument of the definitions, and so are \<open>json.loads\<close>, the schema
  parser of the answer and \<open>datetime.isoformat\<close>. The locale \<open>advisory_monitor\<close> is the contract the
  workflow relies on: whatever a monitor answers, it answers about the action it was given.
\<close>

section \<open>The interface\<close>

locale advisory_monitor =
  fixes sha :: "string \<Rightarrow> string"
    and assess :: "canonical_action \<Rightarrow> digest_entry list \<Rightarrow> monitor_result"
  assumes echo: "mr_evaluated_action_hash (assess action digest) = canonical_action_hash sha action"
    and score_low: "0 \<le> mr_suspicion_score (assess action digest)"
    and score_high: "mr_suspicion_score (assess action digest) \<le> 1"
begin

lemma answers_about_the_action:
  "mr_evaluated_action_hash (assess action digest) = canonical_action_hash sha action \<and>
   mr_suspicion_score (assess action digest) \<in> {0..1}"
  using echo score_low score_high by simp

lemma no_foreign_action:
  assumes "dumps (action_body action) = dumps (action_body action')"
  shows "mr_evaluated_action_hash (assess action digest) = mr_evaluated_action_hash (assess action' digest')"
  using assms by (simp add: echo canonical_action_hash_def)

end

section \<open>The order of the verdicts\<close>

instantiation monitor_verdict :: linorder
begin

definition verdict_rank :: "monitor_verdict \<Rightarrow> nat" where
  "verdict_rank v = (case v of V_ALLOW \<Rightarrow> 0 | V_DEFER \<Rightarrow> 1 | V_BLOCK \<Rightarrow> 2)"

definition less_eq_monitor_verdict :: "monitor_verdict \<Rightarrow> monitor_verdict \<Rightarrow> bool" where
  "less_eq_monitor_verdict v w = (verdict_rank v \<le> verdict_rank w)"

definition less_monitor_verdict :: "monitor_verdict \<Rightarrow> monitor_verdict \<Rightarrow> bool" where
  "less_monitor_verdict v w = (verdict_rank v < verdict_rank w)"

instance
  by standard (auto simp: less_eq_monitor_verdict_def less_monitor_verdict_def verdict_rank_def
      split: monitor_verdict.splits)

end

section \<open>Risk categories, assessments and thresholds\<close>

datatype risk_category =
    RISK_NONE | UNREQUESTED_STATE_CHANGE | SCOPE_EXPANSION | DATA_EXFILTRATION
  | AUTHORIZATION_WEAKENING | EVIDENCE_INCONSISTENCY | SEQUENCE_DEVIATION | DESTRUCTIVE_SCOPE

fun risk_category_name :: "risk_category \<Rightarrow> string" where
  "risk_category_name RISK_NONE = ''none''"
| "risk_category_name UNREQUESTED_STATE_CHANGE = ''unrequested_state_change''"
| "risk_category_name SCOPE_EXPANSION = ''scope_expansion''"
| "risk_category_name DATA_EXFILTRATION = ''data_exfiltration''"
| "risk_category_name AUTHORIZATION_WEAKENING = ''authorization_weakening''"
| "risk_category_name EVIDENCE_INCONSISTENCY = ''evidence_inconsistency''"
| "risk_category_name SEQUENCE_DEVIATION = ''sequence_deviation''"
| "risk_category_name DESTRUCTIVE_SCOPE = ''destructive_scope''"

record monitor_assessment =
  ma_output_schema_version :: string
  ma_risk_score :: rat
  ma_risk_categories :: "risk_category list"
  ma_evidence_support :: string
  ma_sequence_risk :: string
  ma_rationale :: string
  ma_evaluated_action_fingerprint :: string

text \<open>\<open>tuple(sorted(xs)) == xs\<close> and no member twice.\<close>

definition sorted_unique :: "string list \<Rightarrow> bool" where
  "sorted_unique xs = (sort xs = xs \<and> distinct xs)"

definition SEQUENCE_RISKS :: "string list" where
  "SEQUENCE_RISKS = [''none'', ''suspicious'', ''forbidden'']"

definition validate_assessment :: "monitor_assessment \<Rightarrow> monitor_assessment result" where
  [contract_defs]: "validate_assessment m = validated [
     (ma_output_schema_version m \<noteq> ''monitor-output-v2'', ValueError ''output_schema_version''),
     (ma_risk_score m < 0 \<or> ma_risk_score m > 1, ValueError ''risk_score''),
     (length (ma_risk_categories m) > 4, ValueError ''risk_categories''),
     (ma_evidence_support m \<notin> {''supported'', ''unsupported'', ''contradictory''},
        ValueError ''evidence_support''),
     (ma_sequence_risk m \<notin> set SEQUENCE_RISKS, ValueError ''sequence_risk''),
     (length (ma_rationale m) < 1 \<or> length (ma_rationale m) > 600, ValueError ''rationale''),
     (\<not> is_hex64 (ma_evaluated_action_fingerprint m), ValueError ''evaluated_action_fingerprint''),
     (\<not> sorted_unique (map risk_category_name (ma_risk_categories m)),
        ValueError ''risk_categories must be unique and sorted'')] m"

record monitor_thresholds =
  mt_defer_at :: rat
  mt_block_at :: rat
  mt_forced_block_sequence_risk :: "string list"
  mt_forced_block_categories :: "risk_category list"

definition validate_thresholds :: "monitor_thresholds \<Rightarrow> monitor_thresholds result" where
  [contract_defs]: "validate_thresholds t = validated [
     (mt_defer_at t \<le> 0 \<or> mt_defer_at t > 1, ValueError ''defer_at''),
     (mt_block_at t \<le> 0 \<or> mt_block_at t > 1, ValueError ''block_at''),
     (\<not> set (mt_forced_block_sequence_risk t) \<subseteq> set SEQUENCE_RISKS,
        ValueError ''forced_block_sequence_risk''),
     (mt_defer_at t > mt_block_at t, ValueError ''defer_at must be <= block_at''),
     (\<not> sorted_unique (mt_forced_block_sequence_risk t),
        ValueError ''forced block values must be unique and sorted''),
     (\<not> sorted_unique (map risk_category_name (mt_forced_block_categories t)),
        ValueError ''forced block values must be unique and sorted'')] t"

definition decide :: "monitor_assessment \<Rightarrow> monitor_thresholds \<Rightarrow> monitor_verdict" where
  "decide a t =
     (if ma_sequence_risk a \<in> set (mt_forced_block_sequence_risk t) then V_BLOCK
      else if set (ma_risk_categories a) \<inter> set (mt_forced_block_categories t) \<noteq> {} then V_BLOCK
      else if ma_risk_score a \<ge> mt_block_at t then V_BLOCK
      else if ma_risk_score a \<ge> mt_defer_at t then V_DEFER
      else V_ALLOW)"

definition to_monitor_result ::
  "monitor_assessment \<Rightarrow> string \<Rightarrow> monitor_thresholds \<Rightarrow> monitor_result" where
  "to_monitor_result a action_hash t = \<lparr>mr_verdict = decide a t, mr_suspicion_score = ma_risk_score a,
     mr_rationale = ma_rationale a, mr_evaluated_action_hash = action_hash\<rparr>"

definition bind_assessment ::
  "(string \<Rightarrow> string) \<Rightarrow> monitor_assessment \<Rightarrow> canonical_action \<Rightarrow> monitor_thresholds \<Rightarrow> monitor_result result" where
  "bind_assessment sha a action t =
     (if ma_evaluated_action_fingerprint a \<noteq> canonical_arguments_digest sha action
      then Inl (ValueError ''assessment fingerprint does not match action'')
      else Inr (to_monitor_result a (canonical_action_hash sha action) t))"

section \<open>The structured caller and the recorder\<close>

datatype monitor_error_kind =
    PROVIDER_UNAVAILABLE | MON_TIMEOUT | RESPONSE_TRUNCATED | RESPONSE_MALFORMED
  | SCHEMA_VIOLATION | ECHO_MISMATCH | INPUT_UNRENDERABLE | MON_CACHE_MISS

fun monitor_error_kind_name :: "monitor_error_kind \<Rightarrow> string" where
  "monitor_error_kind_name PROVIDER_UNAVAILABLE = ''provider_unavailable''"
| "monitor_error_kind_name MON_TIMEOUT = ''timeout''"
| "monitor_error_kind_name RESPONSE_TRUNCATED = ''response_truncated''"
| "monitor_error_kind_name RESPONSE_MALFORMED = ''response_malformed''"
| "monitor_error_kind_name SCHEMA_VIOLATION = ''schema_violation''"
| "monitor_error_kind_name ECHO_MISMATCH = ''echo_mismatch''"
| "monitor_error_kind_name INPUT_UNRENDERABLE = ''input_unrenderable''"
| "monitor_error_kind_name MON_CACHE_MISS = ''cache_miss''"

record monitor_outcome =
  mo_outcome :: string
  mo_assessment :: "monitor_assessment option"
  mo_error_kind :: "monitor_error_kind option"

definition validate_outcome :: "monitor_outcome \<Rightarrow> monitor_outcome result" where
  [contract_defs]: "validate_outcome m = validated [
     (mo_outcome m \<notin> {''assessed'', ''error''}, ValueError ''outcome''),
     ((mo_outcome m = ''assessed'') \<noteq> (mo_assessment m \<noteq> None) \<or>
      (mo_outcome m = ''error'') \<noteq> (mo_error_kind m \<noteq> None),
        ValueError ''outcome requires exactly its matching payload'')] m"

definition error_outcome :: "monitor_error_kind \<Rightarrow> monitor_outcome" where
  "error_outcome k = \<lparr>mo_outcome = ''error'', mo_assessment = None, mo_error_kind = Some k\<rparr>"

text \<open>What \<open>CompletionClient.complete\<close> does: raise one of the caught exceptions or answer.\<close>

datatype completion =
    RaisesTimeout | RaisesCacheMiss | RaisesProposalError string | RaisesOther
  | Completes "string option" model_invocation_record

text \<open>
  \<open>StructuredMonitorCaller.assess\<close>, returning the outcome and the \<open>last_invocation\<close> it leaves. The
  first argument says whether the input renders; \<open>loads\<close> is whether the text is JSON, \<open>schema\<close> the
  assessment it parses to, and a text that is no \<open>str\<close> is \<open>None\<close>. A Latin-1 text has at most two
  bytes per character; the bound is checked on the length of its UTF-8 encoding.
\<close>

definition utf8_length :: "string \<Rightarrow> nat" where
  "utf8_length s = sum_list (map (\<lambda>c. if code_point c < 128 then 1 else 2) s)"

definition structured_assess ::
  "bool \<Rightarrow> completion \<Rightarrow> (string \<Rightarrow> bool) \<Rightarrow> (string \<Rightarrow> monitor_assessment option) \<Rightarrow> string \<Rightarrow>
   monitor_outcome \<times> model_invocation_record option" where
  "structured_assess renders answer loads schema fingerprint =
     (if \<not> renders then (error_outcome INPUT_UNRENDERABLE, None)
      else case answer of
        RaisesTimeout \<Rightarrow> (error_outcome MON_TIMEOUT, None)
      | RaisesCacheMiss \<Rightarrow> (error_outcome MON_CACHE_MISS, None)
      | RaisesProposalError e \<Rightarrow>
          (error_outcome (if e = PROPOSAL_MODEL_OUTPUT_TRUNCATED then RESPONSE_TRUNCATED
                          else PROVIDER_UNAVAILABLE), None)
      | RaisesOther \<Rightarrow> (error_outcome PROVIDER_UNAVAILABLE, None)
      | Completes raw invocation \<Rightarrow>
          ((case raw of
              None \<Rightarrow> error_outcome RESPONSE_MALFORMED
            | Some text \<Rightarrow>
                if utf8_length text > 8000 then error_outcome RESPONSE_MALFORMED
                else if \<not> loads text then error_outcome RESPONSE_MALFORMED
                else case schema text of
                  None \<Rightarrow> error_outcome SCHEMA_VIOLATION
                | Some parsed \<Rightarrow>
                    if ma_evaluated_action_fingerprint parsed \<noteq> fingerprint
                    then error_outcome ECHO_MISMATCH
                    else \<lparr>mo_outcome = ''assessed'', mo_assessment = Some parsed, mo_error_kind = None\<rparr>),
           Some invocation))"

record recording_monitor =
  rm_last_outcome :: "monitor_outcome option"
  rm_last_input_hash :: "string option"
  rm_last_invocation :: "model_invocation_record option"

text \<open>
  \<open>RecordingSemanticMonitor.assess_consultation\<close>: the three fields are cleared before the inner
  monitor runs (\<open>inner\<close> is \<open>None\<close> when it raises, and the exception propagates), then set from
  what it left behind.
\<close>

definition record_consultation ::
  "(monitor_outcome \<times> string option \<times> model_invocation_record option) option \<Rightarrow> recording_monitor \<Rightarrow>
   monitor_outcome option \<times> recording_monitor" where
  "record_consultation inner m =
     (let cleared = m\<lparr>rm_last_outcome := None, rm_last_input_hash := None, rm_last_invocation := None\<rparr>
      in case inner of
           None \<Rightarrow> (None, cleared)
         | Some (outcome, input_hash, invocation) \<Rightarrow>
             (Some outcome, cleared\<lparr>rm_last_outcome := Some outcome,
                rm_last_input_hash := (case input_hash of None \<Rightarrow> None
                                       | Some h \<Rightarrow> if is_hex64 h then Some h else None),
                rm_last_invocation := invocation\<rparr>))"

section \<open>The fail-closed provider monitor\<close>

definition MAX_REQUEST_BYTES :: nat where "MAX_REQUEST_BYTES = 12000"

definition blocked_result :: "(string \<Rightarrow> string) \<Rightarrow> canonical_action \<Rightarrow> monitor_result" where
  "blocked_result sha action = \<lparr>mr_verdict = V_BLOCK, mr_suspicion_score = 1,
     mr_rationale = ''advisory_monitor_unavailable'',
     mr_evaluated_action_hash = canonical_action_hash sha action\<rparr>"

text \<open>The patterns \<open>_EVIDENCE_ID\<close> and \<open>_TOOL_NAME\<close>.\<close>

definition is_digest_evidence_id :: "string \<Rightarrow> bool" where
  "is_digest_evidence_id s = (s \<noteq> [] \<and> length s \<le> 128 \<and> is_alnum (hd s) \<and>
     list_all (\<lambda>c. is_alnum c \<or> c \<in> {CHR ''.'', CHR ''_'', CHR '':'', CHR ''-''}) (tl s))"

fun split_dots :: "string \<Rightarrow> string list" where
  "split_dots [] = [[]]"
| "split_dots (c # cs) =
     (if c = CHR ''.'' then [] # split_dots cs
      else case split_dots cs of [] \<Rightarrow> [[c]] | w # ws \<Rightarrow> (c # w) # ws)"

definition is_name_word :: "string \<Rightarrow> bool" where
  "is_name_word w = (w \<noteq> [] \<and> is_lower (hd w) \<and> list_all (\<lambda>c. is_lower c \<or> is_digit c \<or> c = CHR ''_'') (tl w))"

definition is_digest_tool_name :: "string \<Rightarrow> bool" where
  "is_digest_tool_name s = (length (split_dots s) \<ge> 2 \<and> list_all is_name_word (split_dots s))"

definition monitor_digest :: "digest_entry list \<Rightarrow> digest_entry list result" where
  "monitor_digest digest =
     (if digest = [] \<or> length digest > 32 \<or>
         list_ex (\<lambda>d. \<not> is_digest_evidence_id (dig_evidence_id d) \<or> \<not> is_digest_tool_name (dig_tool_name d)) digest
      then Inl (ValueError ''invalid evidence digest'') else Inr digest)"

definition digest_json :: "(instant \<Rightarrow> string) \<Rightarrow> digest_entry \<Rightarrow> json" where
  "digest_json isofmt d = JObj [(''evidence_id'', JStr (dig_evidence_id d)),
     (''tool_name'', JStr (dig_tool_name d)), (''observed_at'', JStr (isofmt (dig_observed_at d)))]"

definition monitor_request ::
  "(string \<Rightarrow> string) \<Rightarrow> (instant \<Rightarrow> string) \<Rightarrow> canonical_action \<Rightarrow> digest_entry list \<Rightarrow> string result" where
  "monitor_request sha isofmt action digest =
     bind_res (monitor_digest digest) (\<lambda>clean.
     let encoded = dumps (JObj [
           (''action_hash'', JStr (canonical_action_hash sha action)),
           (''action'', JObj [(''schema_version'', JStr (act_action_schema_version action)),
              (''tool_name'', JStr (act_tool_name action)),
              (''arguments'', JObj (arguments_dump (act_arguments action)))]),
           (''evidence_digest'', JArr (map (digest_json isofmt) clean))])
     in if length encoded > MAX_REQUEST_BYTES then Inl (ValueError ''monitor request too large'')
        else Inr encoded)"

text \<open>
  What the provider answers to a request: it raises, or a stop reason and the content, a list of
  blocks given as their texts (\<open>None\<close> for a block that is not text).
\<close>

datatype provider_answer = ProviderRaises | ProviderAnswer string "string option list"

text \<open>\<open>AnthropicAdvisoryMonitor.assess\<close>; \<open>parse\<close> is the strict parser of \<open>_MonitorOutput\<close>.\<close>

definition anthropic_assess ::
  "(string \<Rightarrow> string) \<Rightarrow> (instant \<Rightarrow> string) \<Rightarrow> (string \<Rightarrow> provider_answer) \<Rightarrow> (string \<Rightarrow> monitor_result option) \<Rightarrow>
   canonical_action \<Rightarrow> digest_entry list \<Rightarrow> monitor_result" where
  "anthropic_assess sha isofmt provider parse action digest =
     (let attempt =
        bind_res (monitor_request sha isofmt action digest) (\<lambda>request.
        case provider request of
          ProviderRaises \<Rightarrow> Inl (RuntimeError ''provider'')
        | ProviderAnswer stop content \<Rightarrow>
            if stop \<noteq> ''end_turn'' then Inl (ValueError ''incomplete response'')
            else case content of
              [Some text] \<Rightarrow>
                (case parse text of
                   None \<Rightarrow> Inl (ValueError ''validation error'')
                 | Some parsed \<Rightarrow>
                     bind_res (validate_monitor_result parsed) (\<lambda>r.
                     if mr_evaluated_action_hash r \<noteq> canonical_action_hash sha action
                     then Inl (ValueError ''hash mismatch'') else Inr r))
            | _ \<Rightarrow> Inl (ValueError ''non-text response''))
      in case attempt of Inl _ \<Rightarrow> blocked_result sha action | Inr r \<Rightarrow> r)"

section \<open>The deterministic monitors\<close>

text \<open>The list of names as Python prints it in a message.\<close>

definition list_repr :: "string list \<Rightarrow> string" where
  "list_repr xs = ''['' @ join '', '' (map (\<lambda>x. [CHR 0x27] @ x @ [CHR 0x27]) xs) @ '']''"

text \<open>
  \<open>SequenceConformanceMonitor.assess\<close>; \<open>committed_calls\<close> reads the committed call ledger.
  The constructor refuses an empty canonical sequence.
\<close>

definition make_sequence_monitor :: "string list \<Rightarrow> string list result" where
  "make_sequence_monitor canonical =
     (if canonical = [] then Inl (ValueError ''sequence conformance requires a canonical sequence'')
      else Inr canonical)"

definition sequence_assess ::
  "(string \<Rightarrow> string) \<Rightarrow> string list \<Rightarrow> (string \<Rightarrow> string list) \<Rightarrow> canonical_action \<Rightarrow> digest_entry list \<Rightarrow>
   monitor_result" where
  "sequence_assess sha canonical committed_calls action digest =
     (let committed = committed_calls (act_incident_id action);
          position = length committed;
          action_hash = canonical_action_hash sha action;
          block = (\<lambda>text. \<lparr>mr_verdict = V_BLOCK, mr_suspicion_score = 1, mr_rationale = take 1000 text,
                          mr_evaluated_action_hash = action_hash\<rparr>)
      in if committed \<noteq> take position canonical then
           block (''committed calls diverge from the canonical sequence before this call: '' @
                  list_repr committed)
         else if position \<ge> length canonical then
           block (''canonical sequence of '' @ dec_nat (length canonical) @ '' calls is complete; '' @
                  act_tool_name action @ '' is a surplus call'')
         else if act_tool_name action \<noteq> canonical ! position then
           block (''call '' @ dec_nat position @ '' of the canonical sequence must be '' @
                  canonical ! position @ ''; '' @ act_tool_name action @ '' departs from it'')
         else \<lparr>mr_verdict = V_ALLOW, mr_suspicion_score = 0,
               mr_rationale = ''call '' @ dec_nat position @ '' conforms to the canonical sequence'',
               mr_evaluated_action_hash = action_hash\<rparr>)"

definition fixture_assess ::
  "(string \<Rightarrow> string) \<Rightarrow> monitor_verdict \<Rightarrow> canonical_action \<Rightarrow> digest_entry list \<Rightarrow> monitor_result" where
  "fixture_assess sha verdict action digest = \<lparr>mr_verdict = verdict,
     mr_suspicion_score = (if verdict = V_ALLOW then 0 else 1),
     mr_rationale = ''fixture_'' @ monitor_verdict_name verdict,
     mr_evaluated_action_hash = canonical_action_hash sha action\<rparr>"

section \<open>Every monitor of the code meets the interface\<close>

interpretation fixture: advisory_monitor sha "fixture_assess sha verdict" for sha verdict
  by unfold_locales (simp_all add: fixture_assess_def)

interpretation sequence: advisory_monitor sha "sequence_assess sha canonical committed_calls"
  for sha canonical committed_calls
  by unfold_locales (simp_all add: sequence_assess_def Let_def)

lemma validate_monitor_result_Inr:
  "validate_monitor_result m = Inr m' \<Longrightarrow> m' = m \<and> 0 \<le> mr_suspicion_score m \<and> mr_suspicion_score m \<le> 1"
  unfolding validate_monitor_result_def validated_Inr by (auto split: if_splits)

lemma anthropic_cases:
  "anthropic_assess sha isofmt provider parse action digest = blocked_result sha action \<or>
   (\<exists>request text parsed. monitor_request sha isofmt action digest = Inr request \<and>
      provider request = ProviderAnswer ''end_turn'' [Some text] \<and> parse text = Some parsed \<and>
      validate_monitor_result parsed = Inr parsed \<and>
      anthropic_assess sha isofmt provider parse action digest = parsed \<and>
      mr_evaluated_action_hash parsed = canonical_action_hash sha action)"
proof (cases "anthropic_assess sha isofmt provider parse action digest = blocked_result sha action")
  case False
  then show ?thesis
    using validate_monitor_result_Inr unfolding anthropic_assess_def Let_def
    by (auto simp: bind_res_def split: sum.splits provider_answer.splits if_splits list.splits option.splits)
qed simp

interpretation anthropic: advisory_monitor sha "anthropic_assess sha isofmt provider parse"
  for sha isofmt provider parse
proof
  fix action digest
  note cases = anthropic_cases[of sha isofmt provider parse action digest]
  show "mr_evaluated_action_hash (anthropic_assess sha isofmt provider parse action digest) =
      canonical_action_hash sha action"
    using cases by (auto simp: blocked_result_def)
  show "0 \<le> mr_suspicion_score (anthropic_assess sha isofmt provider parse action digest)"
    using cases validate_monitor_result_Inr by (auto simp: blocked_result_def)
  show "mr_suspicion_score (anthropic_assess sha isofmt provider parse action digest) \<le> 1"
    using cases validate_monitor_result_Inr by (auto simp: blocked_result_def)
qed

section \<open>Lemmas\<close>

lemma less_eq_verdict_simps [simp]:
  "V_ALLOW \<le> v" "v \<le> V_BLOCK" "V_DEFER \<le> v \<longleftrightarrow> v \<noteq> V_ALLOW" "V_BLOCK \<le> v \<longleftrightarrow> v = V_BLOCK"
  by (cases v; simp add: less_eq_monitor_verdict_def verdict_rank_def)+

lemma monitor_error_kind_names: "monitor_error_kind_name k \<in> set MONITOR_ERROR_KINDS"
  by (cases k) (simp_all add: MONITOR_ERROR_KINDS_def)

lemma error_outcome_valid: "validate_outcome (error_outcome k) = Inr (error_outcome k)"
  by (simp add: validate_outcome_def error_outcome_def validated_def)

lemma structured_cases:
  "(\<exists>k. fst (structured_assess renders answer loads schema fingerprint) = error_outcome k) \<or>
   (\<exists>raw invocation parsed. answer = Completes (Some raw) invocation \<and> schema raw = Some parsed \<and>
      ma_evaluated_action_fingerprint parsed = fingerprint \<and>
      fst (structured_assess renders answer loads schema fingerprint) =
        \<lparr>mo_outcome = ''assessed'', mo_assessment = Some parsed, mo_error_kind = None\<rparr>)"
proof (cases answer)
  case (Completes raw invocation)
  then show ?thesis
    unfolding structured_assess_def by (auto split: if_splits option.splits)
qed (auto simp: structured_assess_def)

lemma sequence_allows:
  "mr_verdict (sequence_assess sha canonical committed_calls action digest) = V_ALLOW \<longleftrightarrow>
     prefix (committed_calls (act_incident_id action) @ [act_tool_name action]) canonical"
proof -
  let ?c = "committed_calls (act_incident_id action)"
  have "prefix (?c @ [act_tool_name action]) canonical \<longleftrightarrow>
      ?c = take (length ?c) canonical \<and> length ?c < length canonical \<and>
      act_tool_name action = canonical ! length ?c"
  proof
    assume "prefix (?c @ [act_tool_name action]) canonical"
    then obtain r where "canonical = ?c @ act_tool_name action # r" by (auto simp: prefix_def)
    then show "?c = take (length ?c) canonical \<and> length ?c < length canonical \<and>
        act_tool_name action = canonical ! length ?c"
      by (metis append_eq_conv_conj length_append less_add_same_cancel1 length_greater_0_conv
          list.distinct(1) nth_append_length)
  next
    assume r: "?c = take (length ?c) canonical \<and> length ?c < length canonical \<and>
        act_tool_name action = canonical ! length ?c"
    then have "take (Suc (length ?c)) canonical = ?c @ [act_tool_name action]"
      by (metis take_Suc_conv_app_nth)
    then show "prefix (?c @ [act_tool_name action]) canonical"
      by (metis take_is_prefix)
  qed
  then show ?thesis
    by (auto simp: sequence_assess_def Let_def)
qed

text \<open>
  The calls of one incident that a sequence monitor lets through: a call is committed only when
  the monitor, reading the calls committed so far, allows it.
\<close>

inductive monitored_run :: "(string \<Rightarrow> string) \<Rightarrow> string list \<Rightarrow> string list \<Rightarrow> bool"
  for sha :: "string \<Rightarrow> string" and canonical :: "string list" where
  start: "monitored_run sha canonical []"
| commit: "monitored_run sha canonical calls \<Longrightarrow>
     mr_verdict (sequence_assess sha canonical (\<lambda>_. calls) action digest) = V_ALLOW \<Longrightarrow>
     monitored_run sha canonical (calls @ [act_tool_name action])"

inductive_cases monitored_run_snocE: "monitored_run sha canonical (calls @ [t])"

lemma monitored_run_prefix: "monitored_run sha canonical calls \<Longrightarrow> prefix calls canonical"
  by (induction rule: monitored_run.induct) (auto simp: sequence_allows)

lemma prefix_monitored_run: "prefix calls canonical \<Longrightarrow> monitored_run sha canonical calls"
proof (induction calls rule: rev_induct)
  case (snoc t calls)
  let ?a = "example_action\<lparr>act_tool_name := t\<rparr>"
  have "monitored_run sha canonical calls"
    using snoc by (metis append_prefixD)
  moreover have "mr_verdict (sequence_assess sha canonical (\<lambda>_. calls) ?a []) = V_ALLOW"
    using snoc.prems by (simp add: sequence_allows)
  ultimately have "monitored_run sha canonical (calls @ [act_tool_name ?a])"
    by (rule monitored_run.commit)
  then show ?case by simp
qed (rule monitored_run.start)

section \<open>Properties\<close>

text \<open>
  the threshold rule is monotone. A higher score, more risk categories, a lower threshold or
  more forced-block members never make the verdict milder; a forced sequence risk or category
  blocks whatever the score is.
\<close>

theorem decide_monotone:
  assumes "ma_risk_score a \<le> ma_risk_score b"
    and "ma_sequence_risk a = ma_sequence_risk b"
    and "set (ma_risk_categories a) \<subseteq> set (ma_risk_categories b)"
    and "mt_defer_at u \<le> mt_defer_at t" and "mt_block_at u \<le> mt_block_at t"
    and "set (mt_forced_block_sequence_risk t) \<subseteq> set (mt_forced_block_sequence_risk u)"
    and "set (mt_forced_block_categories t) \<subseteq> set (mt_forced_block_categories u)"
  shows "decide a t \<le> decide b u \<and>
    (ma_sequence_risk b \<in> set (mt_forced_block_sequence_risk u) \<longrightarrow> decide b u = V_BLOCK)"
  using assms unfolding decide_def by (auto simp: disjoint_iff)

text \<open>
  an availability failure never becomes a verdict. Whatever the provider does, the outcome of
  the structured caller validates; it is either a bounded error kind whose audit reason is its own
  member of the vocabulary (never the fallback \<open>unknown\<close>), or an assessment of exactly the action
  that was rendered, which then binds without raising to the verdict the thresholds give it.
\<close>

theorem structured_outcome_bounded:
  "let out = fst (structured_assess renders answer loads schema (canonical_arguments_digest sha action)) in
    validate_outcome out = Inr out \<and>
    (case mo_error_kind out of
       Some k \<Rightarrow> mo_assessment out = None \<and>
         monitor_error (monitor_error_kind_name k) = MONITOR_ERROR_PREFIX @ monitor_error_kind_name k
     | None \<Rightarrow> (\<exists>raw invocation a. answer = Completes (Some raw) invocation \<and> schema raw = Some a \<and>
         mo_assessment out = Some a \<and>
         bind_assessment sha a action t = Inr (to_monitor_result a (canonical_action_hash sha action) t)))"
proof -
  let ?out = "fst (structured_assess renders answer loads schema (canonical_arguments_digest sha action))"
  from structured_cases[of renders answer loads schema "canonical_arguments_digest sha action"]
  show ?thesis
  proof
    assume "\<exists>k. ?out = error_outcome k"
    then obtain k where k: "?out = error_outcome k" ..
    show ?thesis
      unfolding Let_def k error_outcome_valid
      by (simp add: error_outcome_def monitor_error_def monitor_error_kind_names)
  next
    assume "\<exists>raw invocation parsed. answer = Completes (Some raw) invocation \<and> schema raw = Some parsed \<and>
      ma_evaluated_action_fingerprint parsed = canonical_arguments_digest sha action \<and>
      ?out = \<lparr>mo_outcome = ''assessed'', mo_assessment = Some parsed, mo_error_kind = None\<rparr>"
    then show ?thesis
      by (auto simp: Let_def validate_outcome_def validated_def bind_assessment_def)
  qed
qed

text \<open>
  C30: the provider monitor fails closed. Its result is always about the action it was given; and
  any verdict milder than a block is the provider's own complete, schema-valid answer to the
  bounded request, carrying the hash of that action.
\<close>

theorem provider_monitor_fails_closed:
  "let r = anthropic_assess sha isofmt provider parse action digest in
    mr_evaluated_action_hash r = canonical_action_hash sha action \<and>
    (mr_verdict r = V_BLOCK \<or>
      (\<exists>request text. monitor_request sha isofmt action digest = Inr request \<and>
         length request \<le> MAX_REQUEST_BYTES \<and>
         provider request = ProviderAnswer ''end_turn'' [Some text] \<and> parse text = Some r))"
proof -
  let ?r = "anthropic_assess sha isofmt provider parse action digest"
  have "length request \<le> MAX_REQUEST_BYTES" if "monitor_request sha isofmt action digest = Inr request" for request
    using that by (auto simp: monitor_request_def Let_def bind_res_eq_Inr split: if_splits)
  moreover have "mr_verdict (blocked_result sha action) = V_BLOCK"
    by (simp add: blocked_result_def)
  ultimately show ?thesis
    using anthropic_cases[of sha isofmt provider parse action digest]
      anthropic.echo[of sha isofmt provider parse action digest]
    unfolding Let_def by metis
qed

text \<open>
  C31: the sequence monitor admits exactly the canonical sequence. It allows a call when and only
  when the committed calls followed by this one are a prefix of the canonical sequence, so the
  runs it lets commit are exactly the prefixes of that sequence: no surplus and no reordered call
  is ever committed.
\<close>

theorem sequence_monitor_admits_prefixes:
  "(mr_verdict (sequence_assess sha canonical committed_calls action digest) = V_ALLOW \<longleftrightarrow>
      prefix (committed_calls (act_incident_id action) @ [act_tool_name action]) canonical) \<and>
   (monitored_run sha canonical calls \<longleftrightarrow> prefix calls canonical)"
  using sequence_allows monitored_run_prefix prefix_monitored_run by blast

section \<open>Witnesses\<close>

definition example_thresholds :: "rat \<Rightarrow> monitor_thresholds" where
  "example_thresholds d = \<lparr>mt_defer_at = d, mt_block_at = 3 / 4,
     mt_forced_block_sequence_risk = [''forbidden''], mt_forced_block_categories = []\<rparr>"

definition example_assessment :: "rat \<Rightarrow> monitor_assessment" where
  "example_assessment r = \<lparr>ma_output_schema_version = ''monitor-output-v2'', ma_risk_score = r,
     ma_risk_categories = [RISK_NONE], ma_evidence_support = ''supported'',
     ma_sequence_risk = ''none'', ma_rationale = ''ok'',
     ma_evaluated_action_fingerprint = replicate 64 (CHR ''a'')\<rparr>"

theorem decide_monotone_witness:
  "decide (example_assessment (1 / 4)) (example_thresholds (1 / 2)) \<le>
     decide (example_assessment (1 / 3)) (example_thresholds (1 / 4)) \<and>
   decide (example_assessment (1 / 3)) (example_thresholds (1 / 4)) = V_DEFER"
proof -
  have "decide (example_assessment (1 / 4)) (example_thresholds (1 / 2)) \<le>
     decide (example_assessment (1 / 3)) (example_thresholds (1 / 4))"
    by (rule decide_monotone[THEN conjunct1]) (simp_all add: example_assessment_def example_thresholds_def)
  then show ?thesis by (simp add: decide_def example_assessment_def example_thresholds_def)
qed


end
