(* ===== verification/Safeguards.thy ===== *)
theory Safeguards
  imports Contracts
begin

text \<open>
  \<open>control/safeguards.py\<close>: which safeguards stop an action, which only observe, and who
  authorizes. The constructor refuses a disabled evidence or policy gate and a stand-in approver
  that does not belong to the deterministic control.
\<close>

datatype gate_mode = ENFORCE | OBSERVE_ONLY | GATE_DISABLED

datatype authorization_gate = DURABLE_HUMAN | DETERMINISTIC_CONTROL

record safeguard_configuration =
  sc_evidence_gate :: gate_mode
  sc_policy_gate :: gate_mode
  sc_monitor_gate :: gate_mode
  sc_authorization_gate :: authorization_gate
  sc_control_approver :: "string option"

definition validate_safeguards :: "safeguard_configuration \<Rightarrow> safeguard_configuration result" where
  [contract_defs]: "validate_safeguards s =
     (let deterministic = (sc_authorization_gate s = DETERMINISTIC_CONTROL) in validated [
       (sc_evidence_gate s = GATE_DISABLED, ValueError ''evidence_gate has no disabled mode''),
       (sc_policy_gate s = GATE_DISABLED, ValueError ''policy_gate has no disabled mode''),
       (deterministic \<and> (case sc_control_approver s of None \<Rightarrow> True | Some a \<Rightarrow> a = []),
          ValueError ''the deterministic authorization control must name the principal''),
       (\<not> deterministic \<and> sc_control_approver s \<noteq> None,
          ValueError ''only the deterministic authorization control has a stand-in approver'')] s)"

definition enforces_policy :: "safeguard_configuration \<Rightarrow> bool" where
  "enforces_policy s = (sc_policy_gate s = ENFORCE)"

definition enforces_evidence :: "safeguard_configuration \<Rightarrow> bool" where
  "enforces_evidence s = (sc_evidence_gate s = ENFORCE)"

definition consults_monitor :: "safeguard_configuration \<Rightarrow> bool" where
  "consults_monitor s = (sc_monitor_gate s \<noteq> GATE_DISABLED)"

definition enforces_monitor :: "safeguard_configuration \<Rightarrow> bool" where
  "enforces_monitor s = (sc_monitor_gate s = ENFORCE)"

lemmas safeguard_predicates =
  enforces_policy_def enforces_evidence_def consults_monitor_def enforces_monitor_def

definition PRODUCTION_SAFEGUARDS :: safeguard_configuration where
  "PRODUCTION_SAFEGUARDS = \<lparr>sc_evidence_gate = ENFORCE, sc_policy_gate = ENFORCE,
     sc_monitor_gate = ENFORCE, sc_authorization_gate = DURABLE_HUMAN, sc_control_approver = None\<rparr>"

lemma production_valid: "validate_safeguards PRODUCTION_SAFEGUARDS = Inr PRODUCTION_SAFEGUARDS"
  by code_simp

lemma production_enforces [simp]:
  "enforces_policy PRODUCTION_SAFEGUARDS" "enforces_evidence PRODUCTION_SAFEGUARDS"
  "consults_monitor PRODUCTION_SAFEGUARDS" "enforces_monitor PRODUCTION_SAFEGUARDS"
  "sc_authorization_gate PRODUCTION_SAFEGUARDS = DURABLE_HUMAN"
  by (simp_all add: safeguard_predicates PRODUCTION_SAFEGUARDS_def)

lemma validate_safeguards_Inr:
  "validate_safeguards s = Inr s' \<longleftrightarrow> s' = s \<and> sc_evidence_gate s \<noteq> GATE_DISABLED \<and>
     sc_policy_gate s \<noteq> GATE_DISABLED \<and>
     (case sc_control_approver s of None \<Rightarrow> sc_authorization_gate s = DURABLE_HUMAN
      | Some a \<Rightarrow> sc_authorization_gate s = DETERMINISTIC_CONTROL \<and> a \<noteq> [])"
  unfolding validate_safeguards_def Let_def validated_Inr
  by (cases "sc_authorization_gate s") (auto split: option.splits)

end
