(* ===== verification/Workflow.thy ===== *)
theory Workflow
  imports Monitors Safeguards Approval Scenarios
begin

text \<open>
  \<open>control/workflow.py\<close>: the one action pipeline, node by node, and the graph that runs it once
  (\<open>build_workflow_graph\<close>). The ports of \<open>WorkflowDependencies\<close> are functions over an environment
  of type \<open>'w\<close>; the evidence validator and the policy engine are the ones of the theories
  \<open>Evidence\<close> and \<open>Policy\<close>. A node returns its update, raises, or suspends at the human interrupt;
  the log of a world records the calls of the ports in order. Telemetry spans are not modelled,
  the scenario check made while one is opened is.
\<close>

section \<open>Values of the control plane\<close>

record caller =
  cal_actor :: string
  cal_role :: role

record human_decision =
  hd_decision :: string
  hd_approver :: string
  hd_reason :: "string option"
  hd_token :: "approval_token option"

definition validate_human :: "human_decision \<Rightarrow> human_decision result" where
  [contract_defs]: "validate_human h = validated [
     (hd_decision h \<notin> {''approve'', ''reject''}, ValueError ''decision''),
     (hd_approver h = [], ValueError ''approver''),
     (case hd_reason h of None \<Rightarrow> False | Some r \<Rightarrow> length r > 1000, ValueError ''reason'')] h"

record control_audit_event =
  ca_transition :: string
  ca_incident_id :: string
  ca_thread_id :: string
  ca_action_hash :: "string option"
  ca_reason :: "string option"
  ca_at :: instant

record workflow_result =
  wr_final_state :: string
  wr_reasons :: "string list"
  wr_action_hash :: "string option"
  wr_evidence_ids :: "string list"
  wr_policy :: "policy_outcome option"
  wr_monitor :: "monitor_result option"
  wr_operation :: "ledger_result option"
  wr_verification :: "verification_result option"
  wr_hypothesis :: "hypothesis option"
  wr_idempotency_key :: "uuid option"
  wr_approval :: "human_decision option"
  wr_report :: "incident_report option"

record authorization_request =
  arq_action_hash :: string
  arq_incident_id :: string
  arq_thread_id :: string
  arq_actor :: string
  arq_monitor_verdict :: "monitor_verdict option"
  arq_requires_reason :: bool

text \<open>The channels; one that was never written is \<open>None\<close>.\<close>

record workflow_state =
  ws_incident :: incident_identity
  ws_context :: tool_call_context
  ws_caller :: caller
  ws_records :: "evidence_record list option"
  ws_evidence :: "evidence_validation option"
  ws_hypothesis :: "hypothesis option"
  ws_action :: "canonical_action option"
  ws_policy :: "policy_outcome option"
  ws_monitor :: "monitor_result option"
  ws_monitor_error :: "string option"
  ws_monitor_input_hash :: "string option"
  ws_monitor_invocation :: "model_invocation_record option"
  ws_idempotency_key :: "uuid option"
  ws_human :: "human_decision option"
  ws_operation :: "ledger_result option"
  ws_verification :: "verification_result option"
  ws_result :: "workflow_result option"

section \<open>Worlds and effects\<close>

datatype port_call =
    Collected incident_identity
  | Proposed incident_identity
  | Assessed canonical_action
  | Emitted control_audit_event
  | Requested authorization_request
  | CheckedToken approval_token string string instant bool
  | Executed canonical_action tool_call_context approval_token string uuid
  | Verified incident_identity ledger_result

record 'w world =
  wd_log :: "port_call list"
  wd_env :: 'w

datatype 'a outcome = Returned 'a | Raised py_exn | Suspended authorization_request

type_synonym ('a, 'w) effect = "'w world \<Rightarrow> 'a outcome \<times> 'w world"

definition returning :: "'a \<Rightarrow> ('a, 'w) effect" where
  "returning x w = (Returned x, w)"

definition raising :: "py_exn \<Rightarrow> ('a, 'w) effect" where
  "raising e w = (Raised e, w)"

definition bind_eff :: "('a, 'w) effect \<Rightarrow> ('a \<Rightarrow> ('b, 'w) effect) \<Rightarrow> ('b, 'w) effect" where
  "bind_eff m f w = (case m w of
     (Returned x, w') \<Rightarrow> f x w' | (Raised e, w') \<Rightarrow> (Raised e, w') | (Suspended r, w') \<Rightarrow> (Suspended r, w'))"

definition from_result :: "'a result \<Rightarrow> ('a, 'w) effect" where
  "from_result r = (case r of Inl e \<Rightarrow> raising e | Inr x \<Rightarrow> returning x)"

text \<open>A read of a channel that must be there, and a call of a port with its entry in the log.\<close>

definition channel :: "string \<Rightarrow> 'a option \<Rightarrow> ('a, 'w) effect" where
  "channel name v = (case v of None \<Rightarrow> raising (KeyError name) | Some x \<Rightarrow> returning x)"

definition port :: "('a result \<Rightarrow> port_call list) \<Rightarrow> ('w \<Rightarrow> 'a result \<times> 'w) \<Rightarrow> ('a, 'w) effect" where
  "port entry f w = (let (r, env) = f (wd_env w) in
     from_result r \<lparr>wd_log = wd_log w @ entry r, wd_env = env\<rparr>)"

section \<open>Dependencies\<close>

text \<open>
  The monitor a graph is configured with: a v1 monitor, or the v2 bundle of the consultation
  factory, the structured monitor, the binder it may bring, what it exposes of its last
  invocation, and the thresholds.
\<close>

record ('w, 'c) monitor_bundle =
  mb_build :: "incident_identity \<Rightarrow> canonical_action \<Rightarrow> evidence_record list \<Rightarrow> evidence_validation \<Rightarrow>
     policy_outcome \<Rightarrow> safeguard_configuration \<Rightarrow> 'w \<Rightarrow> 'c result \<times> 'w"
  mb_assess :: "'c \<Rightarrow> 'w \<Rightarrow> monitor_outcome result \<times> 'w"
  mb_bind_result :: "(monitor_assessment \<Rightarrow> canonical_action \<Rightarrow> monitor_thresholds \<Rightarrow> monitor_result result) option"
  mb_observation :: "('w \<Rightarrow> string option \<times> model_invocation_record option) option"
  mb_thresholds :: monitor_thresholds

datatype ('w, 'c) monitor_port =
    MonitorV1 "canonical_action \<Rightarrow> digest_entry list \<Rightarrow> 'w \<Rightarrow> monitor_result result \<times> 'w"
  | MonitorV2 "('w, 'c) monitor_bundle"

text \<open>The check of the constructor: exactly one monitor, and a v2 bundle only when complete.\<close>

definition monitor_configuration :: "bool \<Rightarrow> bool list \<Rightarrow> unit result" where
  "monitor_configuration has_v1 v2_items =
     (if has_v1 \<and> list_ex id v2_items \<or> \<not> has_v1 \<and> \<not> list_all id v2_items
      then Inl (ValueError ''configure exactly one monitor: v1 monitor or complete v2 monitor bundle'')
      else Inr ())"

text \<open>\<open>None\<close> is the durable human authorizer, which interrupts the graph.\<close>

type_synonym 'w authorizer = "authorization_request \<Rightarrow> 'w \<Rightarrow> human_decision result \<times> 'w"

type_synonym 'w proposer = "incident_identity \<Rightarrow> caller \<Rightarrow> tool_call_context \<Rightarrow> evidence_record list \<Rightarrow> 'w \<Rightarrow>
  (hypothesis \<times> canonical_action) result \<times> 'w"

record ('w, 'c) workflow_dependencies =
  dp_sha :: "string \<Rightarrow> string"
  dp_uuid5 :: "string \<Rightarrow> uuid"
  dp_fullmatch :: "string \<Rightarrow> string \<Rightarrow> bool"
  dp_policy :: policy_configuration
  dp_allowed_sources :: "string list"
  dp_evidence_clock :: "'w \<Rightarrow> instant \<times> 'w"
  dp_collect :: "incident_identity \<Rightarrow> 'w \<Rightarrow> evidence_record list result \<times> 'w"
  dp_propose :: "'w proposer"
  dp_monitor :: "('w, 'c) monitor_port"
  dp_validate_token :: "approval_token \<Rightarrow> string \<Rightarrow> string \<Rightarrow> instant \<Rightarrow> 'w \<Rightarrow> (bool \<times> string) result \<times> 'w"
  dp_execute :: "canonical_action \<Rightarrow> tool_call_context \<Rightarrow> approval_token \<Rightarrow> string \<Rightarrow> uuid \<Rightarrow> 'w \<Rightarrow>
     ledger_result result \<times> 'w"
  dp_verify :: "incident_identity \<Rightarrow> ledger_result \<Rightarrow> 'w \<Rightarrow> verification_result result \<times> 'w"
  dp_emit :: "control_audit_event \<Rightarrow> 'w \<Rightarrow> unit result \<times> 'w"
  dp_clock :: "'w \<Rightarrow> instant \<times> 'w"
  dp_safeguards :: safeguard_configuration
  dp_authorization :: "'w authorizer option"

definition read_clock :: "('w \<Rightarrow> instant \<times> 'w) \<Rightarrow> (instant, 'w) effect" where
  "read_clock tick = port (\<lambda>_. []) (\<lambda>env. let (t, env') = tick env in (Inr t, env'))"

definition clock :: "('w, 'c) workflow_dependencies \<Rightarrow> (instant, 'w) effect" where
  "clock d = read_clock (dp_clock d)"

definition emit_event ::
  "('w, 'c) workflow_dependencies \<Rightarrow> string \<Rightarrow> string \<Rightarrow> string \<Rightarrow> string option \<Rightarrow> string option \<Rightarrow> (unit, 'w) effect" where
  "emit_event d transition incident_id thread_id action_hash reason = bind_eff (clock d) (\<lambda>now.
     let event = \<lparr>ca_transition = transition, ca_incident_id = incident_id, ca_thread_id = thread_id,
         ca_action_hash = action_hash, ca_reason = reason, ca_at = now\<rparr>
     in port (\<lambda>r. case r of Inl _ \<Rightarrow> [] | Inr _ \<Rightarrow> [Emitted event]) (dp_emit d event))"

definition audit :: "('w, 'c) workflow_dependencies \<Rightarrow> workflow_state \<Rightarrow> string \<Rightarrow> string \<Rightarrow> (unit, 'w) effect" where
  "audit d st transition reason =
     emit_event d transition (idn_incident_id (ws_incident st)) (idn_thread_id (ws_incident st))
       (map_option po_action_hash (ws_policy st)) (Some reason)"

text \<open>\<open>_scenario_span\<close>: the scenarios a graph is built for.\<close>

definition scenario_span :: "workflow_state \<Rightarrow> (unit, 'w) effect" where
  "scenario_span st = (if idn_scenario_id (ws_incident st) \<in> set ACTION_TAKING_SCENARIOS then returning ()
     else raising (ValueError ''unsupported checkpoint scenario''))"

section \<open>Helpers of the nodes\<close>

definition IDEMPOTENCY_KEY_PREFIX :: string where
  "IDEMPOTENCY_KEY_PREFIX = ''triage-agent-lab:d1:''"

definition idempotency_key :: "(string \<Rightarrow> uuid) \<Rightarrow> string \<Rightarrow> string \<Rightarrow> uuid" where
  "idempotency_key uuid5 action_hash thread_id =
     uuid5 (IDEMPOTENCY_KEY_PREFIX @ thread_id @ '':'' @ action_hash)"

definition observed_only :: "evidence_validation \<Rightarrow> evidence_validation" where
  "observed_only evidence = \<lparr>evv_state = VALID, evv_reasons = [EVIDENCE_VALID],
     evv_evidence_ids = evv_evidence_ids evidence, evv_digest = evv_digest evidence\<rparr>"

definition blocked_with :: "string list \<Rightarrow> workflow_result" where
  "blocked_with reasons = \<lparr>wr_final_state = ''blocked'', wr_reasons = reasons, wr_action_hash = None,
     wr_evidence_ids = [], wr_policy = None, wr_monitor = None, wr_operation = None,
     wr_verification = None, wr_hypothesis = None, wr_idempotency_key = None, wr_approval = None,
     wr_report = None\<rparr>"

definition report ::
  "workflow_state \<Rightarrow> canonical_action \<Rightarrow> hypothesis \<Rightarrow> policy_outcome \<Rightarrow> incident_state \<Rightarrow> incident_report" where
  "report st action hyp policy final_state = \<lparr>rep_incident = (ws_incident st)\<lparr>idn_state := final_state\<rparr>,
     rep_diagnosis = hyp_statement hyp, rep_hypotheses = [hyp], rep_evidence_ids = act_evidence_ids action,
     rep_action_hash = Some (po_action_hash policy), rep_policy = Some policy,
     rep_monitor = ws_monitor st, rep_verification = ws_verification st, rep_final_state = final_state\<rparr>"

text \<open>The channels every terminal node after the policy reads, as one record of their values.\<close>

definition terminal_result ::
  "workflow_state \<Rightarrow> string list \<Rightarrow> monitor_result option \<Rightarrow> human_decision option \<Rightarrow> (workflow_result, 'w) effect" where
  "terminal_result st reasons monitor human =
     bind_eff (channel ''action'' (ws_action st)) (\<lambda>action.
     bind_eff (channel ''hypothesis'' (ws_hypothesis st)) (\<lambda>hyp.
     bind_eff (channel ''policy'' (ws_policy st)) (\<lambda>policy.
     bind_eff (channel ''idempotency_key'' (ws_idempotency_key st)) (\<lambda>key.
     returning ((blocked_with reasons)\<lparr>wr_action_hash := Some (po_action_hash policy),
       wr_evidence_ids := act_evidence_ids action, wr_policy := Some policy, wr_monitor := monitor,
       wr_hypothesis := Some hyp, wr_idempotency_key := Some key, wr_approval := human,
       wr_report := Some (report st action hyp policy BLOCKED)\<rparr>)))))"

text \<open>The validator reads its own clock, and only for a tool the policy knows.\<close>

definition evidence_step ::
  "('w, 'c) workflow_dependencies \<Rightarrow> canonical_action \<Rightarrow> evidence_record list \<Rightarrow> tool_call_context \<Rightarrow>
   (evidence_validation, 'w) effect" where
  "evidence_step d action records ctx =
     bind_eff (if dict_get (pc_tools (dp_policy d)) (act_tool_name action) = None then returning 0
               else read_clock (dp_evidence_clock d)) (\<lambda>now.
     returning (evidence_validate (dp_policy d) (dp_allowed_sources d) now action records (Some ctx)))"

section \<open>The nodes\<close>

definition ingest :: "workflow_state \<Rightarrow> (workflow_state, 'w) effect" where
  [node_defs]: "ingest st =
     (let incident = ws_incident st; ctx = ws_context st in
      returning (if idn_thread_id incident \<noteq> ctx_thread_id ctx
        then st\<lparr>ws_result := Some (blocked_with [THREAD_CONTEXT_MISMATCH])\<rparr>
        else if idn_incident_id incident \<noteq> ctx_incident_id ctx
        then st\<lparr>ws_result := Some (blocked_with [INCIDENT_CONTEXT_MISMATCH])\<rparr>
        else if cal_actor (ws_caller st) \<noteq> ctx_actor ctx
        then st\<lparr>ws_result := Some (blocked_with [CALLER_ACTOR_MISMATCH])\<rparr>
        else st))"

definition collect :: "('w, 'c) workflow_dependencies \<Rightarrow> workflow_state \<Rightarrow> (workflow_state, 'w) effect" where
  [node_defs]: "collect d st =
     bind_eff (port (\<lambda>_. [Collected (ws_incident st)]) (dp_collect d (ws_incident st))) (\<lambda>records.
     returning (st\<lparr>ws_records := Some records\<rparr>))"

text \<open>Only a \<open>ProposalError\<close> is a terminal reason; every other exception leaves the node.\<close>

definition propose_with ::
  "('w, 'c) workflow_dependencies \<Rightarrow> 'w proposer \<Rightarrow> workflow_state \<Rightarrow> (workflow_state, 'w) effect" where
  [node_defs]: "propose_with d proposer st =
     bind_eff (channel ''records'' (ws_records st)) (\<lambda>records w.
     let (answer, w') = port (\<lambda>_. [Proposed (ws_incident st)])
       (\<lambda>env. apfst Inr (proposer (ws_incident st) (ws_caller st) (ws_context st) records env)) w
     in case answer of
          Returned (Inr (hyp, action)) \<Rightarrow> (Returned (st\<lparr>ws_hypothesis := Some hyp, ws_action := Some action\<rparr>), w')
        | Returned (Inl (ProposalError reason)) \<Rightarrow>
            bind_eff (audit d st ''proposal'' reason) (\<lambda>_.
              returning (st\<lparr>ws_result := Some (blocked_with [reason])\<rparr>)) w'
        | Returned (Inl e) \<Rightarrow> (Raised e, w')
        | Raised e \<Rightarrow> (Raised e, w')
        | Suspended r \<Rightarrow> (Suspended r, w'))"

definition propose :: "('w, 'c) workflow_dependencies \<Rightarrow> workflow_state \<Rightarrow> (workflow_state, 'w) effect" where
  [node_defs]: "propose d = propose_with d (dp_propose d)"

definition validate_node :: "('w, 'c) workflow_dependencies \<Rightarrow> workflow_state \<Rightarrow> (workflow_state, 'w) effect" where
  [node_defs]: "validate_node d st =
     bind_eff (channel ''action'' (ws_action st)) (\<lambda>action.
     bind_eff (channel ''records'' (ws_records st)) (\<lambda>records.
     bind_eff (evidence_step d action records (ws_context st)) (\<lambda>evidence.
     if evv_state evidence = INVALID \<and> enforces_evidence (dp_safeguards d) then
       bind_eff (audit d st ''evidence'' (join '';'' (evv_reasons evidence))) (\<lambda>_.
       bind_eff (channel ''hypothesis'' (ws_hypothesis st)) (\<lambda>hyp.
       returning (st\<lparr>ws_evidence := Some evidence,
         ws_result := Some ((blocked_with (evv_reasons evidence))\<lparr>wr_evidence_ids := act_evidence_ids action,
           wr_hypothesis := Some hyp,
           wr_report := Some \<lparr>rep_incident = (ws_incident st)\<lparr>idn_state := BLOCKED\<rparr>,
             rep_diagnosis = hyp_statement hyp, rep_hypotheses = [hyp],
             rep_evidence_ids = act_evidence_ids action, rep_action_hash = None, rep_policy = None,
             rep_monitor = None, rep_verification = None, rep_final_state = BLOCKED\<rparr>\<rparr>)\<rparr>)))
     else
       bind_eff (scenario_span st) (\<lambda>_.
       bind_eff (from_result (policy_evaluate (dp_sha d) (dp_fullmatch d) (dp_policy d) action
           (cal_role (ws_caller st))
           (if enforces_evidence (dp_safeguards d) then evidence else observed_only evidence))) (\<lambda>policy.
       returning (st\<lparr>ws_evidence := Some evidence, ws_policy := Some policy,
         ws_idempotency_key := Some (idempotency_key (dp_uuid5 d) (po_action_hash policy)
           (idn_thread_id (ws_incident st)))\<rparr>))))))"

text \<open>The monitor node.\<close>

fun is_value_error :: "py_exn \<Rightarrow> bool" where
  "is_value_error (ValueError _) = True"
| "is_value_error (ValueErrorOf _ _) = True"
| "is_value_error _ = False"

fun is_type_error :: "py_exn \<Rightarrow> bool" where
  "is_type_error (TypeError _) = True"
| "is_type_error _ = False"

definition semantic_observation ::
  "('w, 'c) monitor_bundle \<Rightarrow> workflow_state \<Rightarrow> (workflow_state, 'w) effect" where
  "semantic_observation b st w =
     (case mb_observation b of
        None \<Rightarrow> (Returned st, w)
      | Some observe \<Rightarrow>
          let (input_hash, invocation) = observe (wd_env w) in
          if (case input_hash of None \<Rightarrow> False | Some h \<Rightarrow> \<not> is_hex64 h)
          then (Raised (TypeError ''semantic monitor exposed an invalid input hash''), w)
          else (Returned (st\<lparr>ws_monitor_input_hash := input_hash, ws_monitor_invocation := invocation\<rparr>), w))"

definition observe_with ::
  "('w, 'c) monitor_bundle \<Rightarrow> (workflow_state \<Rightarrow> workflow_state) \<Rightarrow> workflow_state \<Rightarrow> (workflow_state, 'w) effect" where
  "observe_with b f st = bind_eff (semantic_observation b st) (\<lambda>st'. returning (f st'))"

definition bound_result ::
  "('w, 'c) workflow_dependencies \<Rightarrow> ('w, 'c) monitor_bundle \<Rightarrow> monitor_assessment \<Rightarrow> canonical_action \<Rightarrow>
   monitor_result result" where
  "bound_result d b assessment action =
     (case mb_bind_result b of
        Some bind_result \<Rightarrow> bind_result assessment action (mb_thresholds b)
      | None \<Rightarrow> bind_assessment (dp_sha d) assessment action (mb_thresholds b))"

definition consult_v2 ::
  "('w, 'c) workflow_dependencies \<Rightarrow> ('w, 'c) monitor_bundle \<Rightarrow> workflow_state \<Rightarrow> canonical_action \<Rightarrow>
   evidence_record list \<Rightarrow> evidence_validation \<Rightarrow> policy_outcome \<Rightarrow> (workflow_state, 'w) effect" where
  "consult_v2 d b st action records evidence policy w =
     (let (built, env) = mb_build b (ws_incident st) action records evidence policy (dp_safeguards d) (wd_env w);
          w1 = w\<lparr>wd_env := env\<rparr>
      in case built of
           Inl e \<Rightarrow> if is_value_error e \<or> is_type_error e
                    then (Returned (st\<lparr>ws_monitor_error := Some ''input_unrenderable''\<rparr>), w1)
                    else (Raised e, w1)
         | Inr consultation \<Rightarrow>
             bind_eff (port (\<lambda>_. [Assessed action]) (mb_assess b consultation)) (\<lambda>outcome.
             if mo_outcome outcome = ''error'' then
               (case mo_error_kind outcome of
                  None \<Rightarrow> raising (RuntimeError ''AssertionError'')
                | Some kind \<Rightarrow>
                    observe_with b (\<lambda>s. s\<lparr>ws_monitor_error := Some (monitor_error_kind_name kind)\<rparr>) st)
             else
               (case mo_assessment outcome of
                  None \<Rightarrow> raising (RuntimeError ''AssertionError'')
                | Some assessment \<Rightarrow>
                    (case bound_result d b assessment action of
                       Inl e \<Rightarrow> if is_value_error e
                         then observe_with b (\<lambda>s. s\<lparr>ws_monitor_error := Some ''echo_mismatch''\<rparr>) st
                         else raising e
                     | Inr r \<Rightarrow> observe_with b (\<lambda>s. s\<lparr>ws_monitor := Some r\<rparr>) st))) w1)"

definition monitor_node :: "('w, 'c) workflow_dependencies \<Rightarrow> workflow_state \<Rightarrow> (workflow_state, 'w) effect" where
  [node_defs]: "monitor_node d st =
     (if ws_result st \<noteq> None then returning st
      else bind_eff (channel ''evidence'' (ws_evidence st)) (\<lambda>evidence.
           bind_eff (channel ''policy'' (ws_policy st)) (\<lambda>policy.
           if \<not> consults_monitor (dp_safeguards d) then returning st
           else if po_decision policy = DENY \<and> enforces_policy (dp_safeguards d) then returning st
           else bind_eff (scenario_span st) (\<lambda>_.
                bind_eff (channel ''action'' (ws_action st)) (\<lambda>action.
                case dp_monitor d of
                  MonitorV1 assess \<Rightarrow>
                    bind_eff (port (\<lambda>_. [Assessed action]) (assess action (evv_digest evidence))) (\<lambda>m.
                    returning (st\<lparr>ws_monitor := Some m\<rparr>))
                | MonitorV2 b \<Rightarrow>
                    bind_eff (channel ''records'' (ws_records st)) (\<lambda>records.
                    consult_v2 d b st action records evidence policy))))))"

datatype monitor_route = R_finish | R_deny | R_mismatch | R_error | R_block | R_approve

definition after_monitor :: "('w, 'c) workflow_dependencies \<Rightarrow> workflow_state \<Rightarrow> monitor_route result" where
  "after_monitor d st =
     (if ws_result st \<noteq> None then Inr R_finish
      else case ws_policy st of
        None \<Rightarrow> Inl (KeyError ''policy'')
      | Some policy \<Rightarrow>
          Inr (if po_decision policy = DENY \<and> enforces_policy (dp_safeguards d) then R_deny
               else if (case ws_monitor st of None \<Rightarrow> False
                        | Some m \<Rightarrow> mr_evaluated_action_hash m \<noteq> po_action_hash policy) then R_mismatch
               else if (case ws_monitor_error st of None \<Rightarrow> False | Some e \<Rightarrow> e \<noteq> []) \<and>
                       enforces_monitor (dp_safeguards d) then R_error
               else if (case ws_monitor st of None \<Rightarrow> False | Some m \<Rightarrow> mr_verdict m = V_BLOCK) \<and>
                       enforces_monitor (dp_safeguards d) then R_block
               else R_approve))"

text \<open>The refusals before an approval.\<close>

definition finish_with ::
  "workflow_state \<Rightarrow> string list \<Rightarrow> monitor_result option \<Rightarrow> human_decision option \<Rightarrow> (workflow_state, 'w) effect" where
  "finish_with st reasons monitor human = bind_eff (terminal_result st reasons monitor human) (\<lambda>r.
     returning (st\<lparr>ws_result := Some r\<rparr>))"

definition deny :: "('w, 'c) workflow_dependencies \<Rightarrow> workflow_state \<Rightarrow> (workflow_state, 'w) effect" where
  [node_defs]: "deny d st = bind_eff (channel ''policy'' (ws_policy st)) (\<lambda>policy.
     bind_eff (audit d st ''policy'' (join '';'' (po_reasons policy))) (\<lambda>_.
     finish_with st (po_reasons policy) None None))"

definition refuse_after_policy ::
  "('w, 'c) workflow_dependencies \<Rightarrow> workflow_state \<Rightarrow> string \<Rightarrow> string \<Rightarrow> monitor_result option \<Rightarrow>
   (workflow_state, 'w) effect" where
  "refuse_after_policy d st audited reason monitor =
     bind_eff (channel ''policy'' (ws_policy st)) (\<lambda>policy.
     bind_eff (audit d st ''policy'' POLICY_VALID) (\<lambda>_.
     bind_eff (audit d st ''monitor'' audited) (\<lambda>_.
     finish_with st [reason] monitor None)))"

definition blocked :: "('w, 'c) workflow_dependencies \<Rightarrow> workflow_state \<Rightarrow> (workflow_state, 'w) effect" where
  [node_defs]: "blocked d st = bind_eff (channel ''monitor'' (ws_monitor st)) (\<lambda>m.
     refuse_after_policy d st MONITOR_BLOCK MONITOR_BLOCK (Some m))"

definition monitor_mismatch :: "('w, 'c) workflow_dependencies \<Rightarrow> workflow_state \<Rightarrow> (workflow_state, 'w) effect" where
  [node_defs]: "monitor_mismatch d st =
     refuse_after_policy d st MONITOR_ACTION_HASH_MISMATCH MONITOR_ACTION_HASH_MISMATCH (ws_monitor st)"

definition monitor_error_terminal :: "('w, 'c) workflow_dependencies \<Rightarrow> workflow_state \<Rightarrow> (workflow_state, 'w) effect" where
  [node_defs]: "monitor_error_terminal d st =
     bind_eff (channel ''policy'' (ws_policy st)) (\<lambda>policy.
     bind_eff (audit d st ''policy'' POLICY_VALID) (\<lambda>_.
     bind_eff (channel ''monitor_error'' (ws_monitor_error st)) (\<lambda>e.
     bind_eff (audit d st ''monitor'' (monitor_error e)) (\<lambda>_.
     finish_with st [MONITOR_ERROR] None None))))"

text \<open>The decision chain is recorded before anybody is asked.\<close>

definition preapproval_audit :: "('w, 'c) workflow_dependencies \<Rightarrow> workflow_state \<Rightarrow> (workflow_state, 'w) effect" where
  [node_defs]: "preapproval_audit d st = bind_eff (audit d st ''policy'' POLICY_VALID) (\<lambda>_.
     bind_eff (case ws_monitor st of
         Some m \<Rightarrow> audit d st ''monitor'' (monitor_verdict_reason (monitor_verdict_name (mr_verdict m)))
       | None \<Rightarrow>
           (case ws_monitor_error st of
              None \<Rightarrow> returning ()
            | Some e \<Rightarrow> if e = [] then returning () else audit d st ''monitor'' (monitor_error e))) (\<lambda>_.
     returning st))"

text \<open>The approval node; \<open>resume\<close> is the value an interrupted run was resumed with.\<close>

definition build_request ::
  "workflow_state \<Rightarrow> canonical_action \<Rightarrow> policy_outcome \<Rightarrow> authorization_request" where
  "build_request st action policy = \<lparr>arq_action_hash = po_action_hash policy,
     arq_incident_id = idn_incident_id (ws_incident st), arq_thread_id = idn_thread_id (ws_incident st),
     arq_actor = act_actor action, arq_monitor_verdict = map_option mr_verdict (ws_monitor st),
     arq_requires_reason = (case ws_monitor st of None \<Rightarrow> False | Some m \<Rightarrow> mr_verdict m = V_DEFER)\<rparr>"

definition request_decision ::
  "'w authorizer option \<Rightarrow> human_decision option \<Rightarrow> authorization_request \<Rightarrow> (human_decision, 'w) effect" where
  "request_decision requester resume request =
     (case requester of
        Some f \<Rightarrow> port (\<lambda>_. [Requested request]) (f request)
      | None \<Rightarrow> (\<lambda>w. let w' = w\<lparr>wd_log := wd_log w @ [Requested request]\<rparr> in
          case resume of None \<Rightarrow> (Suspended request, w') | Some payload \<Rightarrow> (Returned payload, w')))"

definition refuse_human ::
  "('w, 'c) workflow_dependencies \<Rightarrow> workflow_state \<Rightarrow> human_decision \<Rightarrow> string \<Rightarrow> string \<Rightarrow> (workflow_state, 'w) effect" where
  "refuse_human d st human audited reason = bind_eff (audit d st ''approval'' audited) (\<lambda>_.
     bind_eff (terminal_result st [reason] (ws_monitor st) (Some human)) (\<lambda>r.
     returning (st\<lparr>ws_human := Some human, ws_result := Some r\<rparr>)))"

definition token_step ::
  "('w, 'c) workflow_dependencies \<Rightarrow> approval_token \<Rightarrow> string \<Rightarrow> string \<Rightarrow> (bool \<times> string, 'w) effect" where
  "token_step d token action_hash actor = bind_eff (clock d) (\<lambda>now.
     port (\<lambda>r. case r of Inl _ \<Rightarrow> [] | Inr (valid, _) \<Rightarrow> [CheckedToken token action_hash actor now valid])
       (dp_validate_token d token action_hash actor now))"

definition decide_approval ::
  "('w, 'c) workflow_dependencies \<Rightarrow> workflow_state \<Rightarrow> canonical_action \<Rightarrow> policy_outcome \<Rightarrow> human_decision \<Rightarrow>
   (workflow_state, 'w) effect" where
  "decide_approval d st action policy human =
     (if hd_decision human = ''reject'' then refuse_human d st human AUDIT_REJECTED HUMAN_REJECTED
      else if (case ws_monitor st of None \<Rightarrow> False | Some m \<Rightarrow> mr_verdict m = V_DEFER) \<and>
              strip (case hd_reason human of None \<Rightarrow> [] | Some r \<Rightarrow> r) = []
      then refuse_human d st human DEFER_REASON_REQUIRED DEFER_REASON_REQUIRED
      else case hd_token human of
        None \<Rightarrow> refuse_human d st human AUDIT_TOKEN_REQUIRED APPROVAL_TOKEN_REQUIRED
      | Some token \<Rightarrow>
          if hd_approver human \<noteq> tok_approver token
          then refuse_human d st human (approval_invalid TOKEN_APPROVER_MISMATCH)
                 (approval_invalid TOKEN_APPROVER_MISMATCH)
          else bind_eff (token_step d token (po_action_hash policy) (act_actor action)) (\<lambda>(valid, reason).
            if \<not> valid then refuse_human d st human (approval_invalid reason) (approval_invalid reason)
            else bind_eff (audit d st ''approval'' AUDIT_APPROVED) (\<lambda>_.
                 returning (st\<lparr>ws_human := Some human\<rparr>))))"

definition approval_with ::
  "('w, 'c) workflow_dependencies \<Rightarrow> 'w authorizer option \<Rightarrow> human_decision option \<Rightarrow> workflow_state \<Rightarrow>
   (workflow_state, 'w) effect" where
  [node_defs]: "approval_with d requester resume st =
     bind_eff (scenario_span st) (\<lambda>_.
     bind_eff (channel ''policy'' (ws_policy st)) (\<lambda>policy.
     bind_eff (channel ''action'' (ws_action st)) (\<lambda>action.
     bind_eff (request_decision requester resume (build_request st action policy)) (\<lambda>payload.
     bind_eff (from_result (validate_human payload)) (decide_approval d st action policy)))))"

definition approval ::
  "('w, 'c) workflow_dependencies \<Rightarrow> human_decision option \<Rightarrow> workflow_state \<Rightarrow> (workflow_state, 'w) effect" where
  [node_defs]: "approval d = approval_with d (dp_authorization d)"

text \<open>The execution and the verification of the operation.\<close>

definition execute_with ::
  "('w, 'c) workflow_dependencies \<Rightarrow> (workflow_state \<Rightarrow> ledger_result \<Rightarrow> (unit, 'w) effect) option \<Rightarrow>
   workflow_state \<Rightarrow> (workflow_state, 'w) effect" where
  [node_defs]: "execute_with d post_delivery st =
     bind_eff (channel ''action'' (ws_action st)) (\<lambda>action.
     bind_eff (channel ''policy'' (ws_policy st)) (\<lambda>policy.
     bind_eff (channel ''human'' (ws_human st)) (\<lambda>human.
     bind_eff (channel ''idempotency_key'' (ws_idempotency_key st)) (\<lambda>key.
     let ctx = (ws_context st)\<lparr>ctx_idempotency_key := Some key\<rparr> in
     case hd_token human of
       None \<Rightarrow> raising (RuntimeError ''AssertionError'')
     | Some token \<Rightarrow>
         bind_eff (port (\<lambda>_. [Executed action ctx token (po_action_hash policy) key])
             (dp_execute d action ctx token (po_action_hash policy) key)) (\<lambda>operation.
         bind_eff (case post_delivery of None \<Rightarrow> returning () | Some hook \<Rightarrow> hook st operation) (\<lambda>_.
         bind_eff (emit_event d ''execution'' (act_incident_id action) (act_thread_id action)
             (Some (po_action_hash policy)) (Some AUDIT_EXECUTED)) (\<lambda>_.
         returning (st\<lparr>ws_operation := Some operation\<rparr>))))))))"

definition execute :: "('w, 'c) workflow_dependencies \<Rightarrow> workflow_state \<Rightarrow> (workflow_state, 'w) effect" where
  [node_defs]: "execute d = execute_with d None"

definition verify_node :: "('w, 'c) workflow_dependencies \<Rightarrow> workflow_state \<Rightarrow> (workflow_state, 'w) effect" where
  [node_defs]: "verify_node d st =
     bind_eff (channel ''action'' (ws_action st)) (\<lambda>action.
     bind_eff (channel ''policy'' (ws_policy st)) (\<lambda>policy.
     bind_eff (scenario_span st) (\<lambda>_.
     bind_eff (channel ''operation'' (ws_operation st)) (\<lambda>operation.
     bind_eff (port (\<lambda>_. [Verified (ws_incident st) operation]) (dp_verify d (ws_incident st) operation)) (\<lambda>verification.
     bind_eff (emit_event d ''verification'' (act_incident_id action) (act_thread_id action)
         (Some (po_action_hash policy)) (Some (if vr_passed verification then AUDIT_PASSED else AUDIT_FAILED))) (\<lambda>_.
     bind_eff (channel ''hypothesis'' (ws_hypothesis st)) (\<lambda>hyp.
     bind_eff (channel ''idempotency_key'' (ws_idempotency_key st)) (\<lambda>key.
     bind_eff (channel ''human'' (ws_human st)) (\<lambda>human.
     returning (st\<lparr>ws_verification := Some verification, ws_result := Some \<lparr>
       wr_final_state = (if vr_passed verification then ''resolved'' else ''blocked''),
       wr_reasons = [if vr_passed verification then RECOVERY_VERIFIED else RECOVERY_FAILED],
       wr_action_hash = Some (po_action_hash policy), wr_evidence_ids = act_evidence_ids action,
       wr_policy = Some policy, wr_monitor = ws_monitor st, wr_operation = Some operation,
       wr_verification = Some verification, wr_hypothesis = Some hyp, wr_idempotency_key = Some key,
       wr_approval = Some human,
       wr_report = Some (report (st\<lparr>ws_verification := Some verification\<rparr>) action hyp policy
         (if vr_passed verification then RESOLVED else BLOCKED))\<rparr>\<rparr>))))))))))"

section \<open>The one-action graph\<close>

datatype graph_node =
    N_ingest | N_collect | N_propose | N_validate | N_monitor | N_deny | N_blocked | N_monitor_mismatch
  | N_monitor_error | N_preapproval_audit | N_approval | N_execute | N_verify | N_end

fun run_node ::
  "('w, 'c) workflow_dependencies \<Rightarrow> human_decision option \<Rightarrow> graph_node \<Rightarrow> workflow_state \<Rightarrow> (workflow_state, 'w) effect" where
  "run_node d resume N_ingest st = ingest st"
| "run_node d resume N_collect st = collect d st"
| "run_node d resume N_propose st = propose d st"
| "run_node d resume N_validate st = validate_node d st"
| "run_node d resume N_monitor st = monitor_node d st"
| "run_node d resume N_deny st = deny d st"
| "run_node d resume N_blocked st = blocked d st"
| "run_node d resume N_monitor_mismatch st = monitor_mismatch d st"
| "run_node d resume N_monitor_error st = monitor_error_terminal d st"
| "run_node d resume N_preapproval_audit st = preapproval_audit d st"
| "run_node d resume N_approval st = approval d resume st"
| "run_node d resume N_execute st = execute d st"
| "run_node d resume N_verify st = verify_node d st"
| "run_node d resume N_end st = returning st"

fun route_of :: "monitor_route \<Rightarrow> graph_node" where
  "route_of R_finish = N_end"
| "route_of R_deny = N_deny"
| "route_of R_block = N_blocked"
| "route_of R_mismatch = N_monitor_mismatch"
| "route_of R_error = N_monitor_error"
| "route_of R_approve = N_preapproval_audit"

text \<open>The edges: the node after one that has returned this state.\<close>

fun next_node :: "('w, 'c) workflow_dependencies \<Rightarrow> graph_node \<Rightarrow> workflow_state \<Rightarrow> graph_node result" where
  "next_node d N_ingest st = Inr (if ws_result st \<noteq> None then N_end else N_collect)"
| "next_node d N_collect st = Inr N_propose"
| "next_node d N_propose st = Inr (if ws_result st \<noteq> None then N_end else N_validate)"
| "next_node d N_validate st = Inr N_monitor"
| "next_node d N_monitor st = map_sum id route_of (after_monitor d st)"
| "next_node d N_preapproval_audit st = Inr N_approval"
| "next_node d N_approval st = Inr (if ws_result st \<noteq> None then N_end else N_execute)"
| "next_node d N_execute st = Inr N_verify"
| "next_node d _ st = Inr N_end"

text \<open>
  A run ends with the final state, suspended at the approval node, or with the exception of a node.
  The last two carry the checkpoint, the node to run again and the state before it: a node that
  does not return writes nothing.
\<close>

datatype run_end =
    Finished workflow_state
  | Interrupted graph_node workflow_state authorization_request
  | Failed graph_node workflow_state py_exn

fun node_rank :: "graph_node \<Rightarrow> nat" where
  "node_rank N_ingest = 9"
| "node_rank N_collect = 8"
| "node_rank N_propose = 7"
| "node_rank N_validate = 6"
| "node_rank N_monitor = 5"
| "node_rank N_preapproval_audit = 4"
| "node_rank N_approval = 3"
| "node_rank N_execute = 2"
| "node_rank N_end = 0"
| "node_rank _ = 1"

lemma next_node_rank: "next_node d n st = Inr n' \<Longrightarrow> n \<noteq> N_end \<Longrightarrow> node_rank n' < node_rank n"
  by (cases n) (auto split: if_splits simp: after_monitor_def map_sum_def split: option.splits sum.splits)

function run_graph ::
  "('w, 'c) workflow_dependencies \<Rightarrow> human_decision option \<Rightarrow> graph_node \<Rightarrow> workflow_state \<Rightarrow> 'w world \<Rightarrow>
   run_end \<times> 'w world" where
  "run_graph d resume n st w =
     (if n = N_end then (Finished st, w)
      else case run_node d resume n st w of
        (Returned st', w') \<Rightarrow>
          (case next_node d n st' of
             Inl e \<Rightarrow> (Failed n st e, w')
           | Inr n' \<Rightarrow> run_graph d resume n' st' w')
      | (Suspended request, w') \<Rightarrow> (Interrupted n st request, w')
      | (Raised e, w') \<Rightarrow> (Failed n st e, w'))"
  by pat_completeness auto
termination
  by (relation "measure (\<lambda>(d, resume, n, st, w). node_rank n)") (auto dest: next_node_rank)

declare run_graph.simps [simp del]

definition initial_state :: "incident_identity \<Rightarrow> tool_call_context \<Rightarrow> caller \<Rightarrow> workflow_state" where
  "initial_state incident ctx c = \<lparr>ws_incident = incident, ws_context = ctx, ws_caller = c,
     ws_records = None, ws_evidence = None, ws_hypothesis = None, ws_action = None, ws_policy = None,
     ws_monitor = None, ws_monitor_error = None, ws_monitor_input_hash = None, ws_monitor_invocation = None,
     ws_idempotency_key = None, ws_human = None, ws_operation = None, ws_verification = None,
     ws_result = None\<rparr>"

end
