(* ===== verification/Workflow_Safety.thy ===== *)
theory Workflow_Safety
  imports Workflow
begin

text \<open>
  What every run of the pipeline keeps, however often it is interrupted, fails and is resumed. The
  relation \<open>reaches\<close> is the machine of one thread: a checkpoint (the node to run and the state
  before it) with the world. A node that raises or suspends leaves its checkpoint, so it is run
  again in the world it left; between two nodes the environment may change in any way. A crash
  inside a port is a port that raises after its effect.
\<close>

section \<open>Reasoning about effects\<close>

text \<open>
  What an effect started with the log \<open>l\<close> returns, and what it leaves when it raises or suspends,
  in whatever environment.
\<close>

definition ensures ::
  "('a, 'w) effect \<Rightarrow> port_call list \<Rightarrow> ('a \<Rightarrow> port_call list \<Rightarrow> bool) \<Rightarrow> (port_call list \<Rightarrow> bool) \<Rightarrow> bool" where
  "ensures m l Q E = (\<forall>w. wd_log w = l \<longrightarrow> (case m w of
     (Returned x, w') \<Rightarrow> Q x (wd_log w') | (Raised e, w') \<Rightarrow> E (wd_log w') | (Suspended r, w') \<Rightarrow> E (wd_log w')))"

named_theorems ensures_rules \<open>rules of the effect calculus\<close>

lemma ensures_returning [ensures_rules]: "Q x l \<Longrightarrow> ensures (returning x) l Q E"
  by (simp add: ensures_def returning_def)

lemma ensures_raising [ensures_rules]: "E l \<Longrightarrow> ensures (raising e) l Q E"
  by (simp add: ensures_def raising_def)

lemma ensures_bind [ensures_rules]:
  "ensures m l (\<lambda>x l'. ensures (f x) l' Q E) E \<Longrightarrow> ensures (bind_eff m f) l Q E"
  unfolding ensures_def bind_eff_def
  by (auto split: prod.splits outcome.splits) (metis (no_types, lifting) case_prod_conv outcome.simps)+

lemma ensures_from_result [ensures_rules]:
  "(\<And>e. r = Inl e \<Longrightarrow> E l) \<Longrightarrow> (\<And>x. r = Inr x \<Longrightarrow> Q x l) \<Longrightarrow> ensures (from_result r) l Q E"
  by (simp add: ensures_def from_result_def returning_def raising_def split: sum.splits)

lemma ensures_channel [ensures_rules]:
  "(v = None \<Longrightarrow> E l) \<Longrightarrow> (\<And>x. v = Some x \<Longrightarrow> Q x l) \<Longrightarrow> ensures (channel name v) l Q E"
  by (simp add: ensures_def channel_def returning_def raising_def split: option.splits)

lemma ensures_port [ensures_rules]:
  "(\<And>e env. fst (f env) = Inl e \<Longrightarrow> E (l @ entry (Inl e))) \<Longrightarrow>
   (\<And>x env. fst (f env) = Inr x \<Longrightarrow> Q x (l @ entry (Inr x))) \<Longrightarrow> ensures (port entry f) l Q E"
  by (auto simp: ensures_def port_def from_result_def returning_def raising_def Let_def
      split: prod.splits sum.splits) (metis fst_conv)+

lemma ensures_if [ensures_rules]:
  "(b \<Longrightarrow> ensures m l Q E) \<Longrightarrow> (\<not> b \<Longrightarrow> ensures n l Q E) \<Longrightarrow> ensures (if b then m else n) l Q E"
  by simp

lemma ensures_option [ensures_rules]:
  "(v = None \<Longrightarrow> ensures m l Q E) \<Longrightarrow> (\<And>x. v = Some x \<Longrightarrow> ensures (f x) l Q E) \<Longrightarrow>
     ensures (case v of None \<Rightarrow> m | Some x \<Rightarrow> f x) l Q E"
  by (cases v) simp_all

lemma ensures_prod [ensures_rules]:
  "(\<And>a b. v = (a, b) \<Longrightarrow> ensures (f a b) l Q E) \<Longrightarrow> ensures (case v of (a, b) \<Rightarrow> f a b) l Q E"
  by (cases v) simp

lemma ensures_mono:
  "ensures m l Q E \<Longrightarrow> (\<And>x l'. Q x l' \<Longrightarrow> Q' x l') \<Longrightarrow> (\<And>l'. E l' \<Longrightarrow> E' l') \<Longrightarrow> ensures m l Q' E'"
  unfolding ensures_def
  by (intro allI impI, drule spec, drule (1) mp, simp split: prod.splits outcome.splits)

lemma ensuresD:
  assumes "ensures m (wd_log w) Q E" "m w = (out, w')"
  shows "case out of Returned x \<Rightarrow> Q x (wd_log w') | _ \<Rightarrow> E (wd_log w')"
  using assms by (auto simp: ensures_def split: outcome.splits)

lemma ensures_clock [ensures_rules]: "E l \<Longrightarrow> (\<And>now. Q now l) \<Longrightarrow> ensures (clock d) l Q E"
  unfolding clock_def read_clock_def by (rule ensures_port) simp_all

lemma ensures_read_clock [ensures_rules]: "E l \<Longrightarrow> (\<And>now. Q now l) \<Longrightarrow> ensures (read_clock t) l Q E"
  unfolding read_clock_def by (rule ensures_port) simp_all

text \<open>An audit that succeeds is in the log, one that fails is not.\<close>

lemma ensures_emit [ensures_rules]:
  assumes "E l" "\<And>now. Q () (l @ [Emitted \<lparr>ca_transition = t, ca_incident_id = i, ca_thread_id = th,
     ca_action_hash = h, ca_reason = r, ca_at = now\<rparr>])"
  shows "ensures (emit_event d t i th h r) l Q E"
  unfolding emit_event_def Let_def
  by (rule ensures_bind, rule ensures_clock, rule assms(1), rule ensures_port) (use assms in auto)

lemma ensures_audit [ensures_rules]:
  assumes "E l" "\<And>now. Q () (l @ [Emitted \<lparr>ca_transition = t,
     ca_incident_id = idn_incident_id (ws_incident st), ca_thread_id = idn_thread_id (ws_incident st),
     ca_action_hash = map_option po_action_hash (ws_policy st), ca_reason = Some r, ca_at = now\<rparr>])"
  shows "ensures (audit d st t r) l Q E"
  unfolding audit_def using assms by (rule ensures_emit)

lemma ensures_scenario_span [ensures_rules]:
  "E l \<Longrightarrow> Q () l \<Longrightarrow> ensures (scenario_span st) l Q E"
  unfolding scenario_span_def by (intro ensures_rules)

section \<open>Ordered logs\<close>

definition ordered :: "(port_call list \<Rightarrow> port_call \<Rightarrow> bool) \<Rightarrow> port_call list \<Rightarrow> bool" where
  "ordered P l = (\<forall>i < length l. P (take i l) (l ! i))"

lemma ordered_Nil [simp]: "ordered P []"
  by (simp add: ordered_def)

lemma ordered_snoc [simp]: "ordered P (l @ [x]) \<longleftrightarrow> ordered P l \<and> P l x"
  unfolding ordered_def by (auto simp: less_Suc_eq nth_append)

lemma ordered_at: "ordered P (pre @ x # post) \<Longrightarrow> P pre x"
  unfolding ordered_def by (auto dest: spec[of _ "length pre"])

section \<open>The machine\<close>

inductive reaches ::
  "('w, 'c) workflow_dependencies \<Rightarrow> workflow_state \<Rightarrow> graph_node \<Rightarrow> workflow_state \<Rightarrow> 'w world \<Rightarrow> bool"
  for d :: "('w, 'c) workflow_dependencies" and st0 :: workflow_state where
  start: "wd_log w = [] \<Longrightarrow> reaches d st0 N_ingest st0 w"
| step: "reaches d st0 n st w \<Longrightarrow> n \<noteq> N_end \<Longrightarrow> run_node d resume n st w = (Returned st', w') \<Longrightarrow>
     next_node d n st' = Inr n' \<Longrightarrow> reaches d st0 n' st' w'"
| retry: "reaches d st0 n st w \<Longrightarrow> n \<noteq> N_end \<Longrightarrow> run_node d resume n st w = (out, w') \<Longrightarrow>
     (\<forall>st' n'. out = Returned st' \<longrightarrow> next_node d n st' \<noteq> Inr n') \<Longrightarrow> reaches d st0 n st w'"
| elsewhere: "reaches d st0 n st w \<Longrightarrow> reaches d st0 n st (w\<lparr>wd_env := env\<rparr>)"

inductive_cases reachesE: "reaches d st0 n st w"

lemma run_graph_reaches:
  assumes "reaches d st0 n st w" "run_graph d resume n st w = (res, w')"
  shows "case res of Finished st' \<Rightarrow> reaches d st0 N_end st' w'
    | Interrupted n' st' r \<Rightarrow> reaches d st0 n' st' w'
    | Failed n' st' e \<Rightarrow> reaches d st0 n' st' w'"
  using assms
proof (induction d resume n st w rule: run_graph.induct)
  case (1 d resume n st w)
  show ?case
  proof (cases "n = N_end")
    case True
    then show ?thesis using 1(2,3) by (auto simp: run_graph.simps)
  next
    case False
    obtain out w1 where r: "run_node d resume n st w = (out, w1)" by fastforce
    show ?thesis
    proof (cases out)
      case (Returned st')
      show ?thesis
      proof (cases "next_node d n st'")
        case (Inl e)
        then show ?thesis
          using 1(2,3) False r Returned reaches.retry[OF 1(2) False r] by (auto simp: run_graph.simps[of d resume n])
      next
        case (Inr n')
        then have "reaches d st0 n' st' w1" using reaches.step[OF 1(2) False] r Returned by simp
        then show ?thesis
          using 1(1)[OF False r[symmetric] Returned Inr] 1(3) False r Returned Inr
          by (simp add: run_graph.simps[of d resume n])
      qed
    next
      case (Raised e)
      then show ?thesis
        using 1(2,3) False r reaches.retry[OF 1(2) False r] by (auto simp: run_graph.simps[of d resume n])
    next
      case (Suspended q)
      then show ?thesis
        using 1(2,3) False r reaches.retry[OF 1(2) False r] by (auto simp: run_graph.simps[of d resume n])
    qed
  qed
qed

section \<open>What a checkpoint knows\<close>

text \<open>The calls that need an authority before them; a log without one is quiet.\<close>

fun guarded :: "port_call \<Rightarrow> bool" where
  "guarded (Requested _) = True"
| "guarded (Executed _ _ _ _ _) = True"
| "guarded (Verified _ _) = True"
| "guarded _ = False"

fun is_execution :: "port_call \<Rightarrow> bool" where
  "is_execution (Executed _ _ _ _ _) = True"
| "is_execution _ = False"

definition quiet :: "port_call list \<Rightarrow> bool" where
  "quiet l = (\<forall>x \<in> set l. \<not> guarded x)"

lemma quiet_simps [simp]:
  "quiet []" "quiet (x # l) \<longleftrightarrow> \<not> guarded x \<and> quiet l" "quiet (l @ l') \<longleftrightarrow> quiet l \<and> quiet l'"
  by (auto simp: quiet_def)

definition recorded :: "port_call list \<Rightarrow> workflow_state \<Rightarrow> string \<Rightarrow> string \<Rightarrow> string \<Rightarrow> bool" where
  "recorded l st transition action_hash reason = (\<exists>now. Emitted \<lparr>ca_transition = transition,
     ca_incident_id = idn_incident_id (ws_incident st), ca_thread_id = idn_thread_id (ws_incident st),
     ca_action_hash = Some action_hash, ca_reason = Some reason, ca_at = now\<rparr> \<in> set l)"

lemma recorded_simps [simp]:
  "\<not> recorded [] st t h r"
  "recorded (x # l) st t h r \<longleftrightarrow> (\<exists>now. x = Emitted \<lparr>ca_transition = t,
     ca_incident_id = idn_incident_id (ws_incident st), ca_thread_id = idn_thread_id (ws_incident st),
     ca_action_hash = Some h, ca_reason = Some r, ca_at = now\<rparr>) \<or> recorded l st t h r"
  "recorded (l @ l') st t h r \<longleftrightarrow> recorded l st t h r \<or> recorded l' st t h r"
  by (auto simp: recorded_def)

lemma recorded_human [simp]: "recorded l (st\<lparr>ws_human := x\<rparr>) t h r = recorded l st t h r"
  by (simp add: recorded_def)

text \<open>
  A request for a hash and an actor, a token accepted for them, an execution under a hash and an
  audit event about one are in the log.
\<close>

definition asked :: "port_call list \<Rightarrow> string \<Rightarrow> string \<Rightarrow> bool" where
  "asked l action_hash actor =
     (\<exists>r. Requested r \<in> set l \<and> arq_action_hash r = action_hash \<and> arq_actor r = actor)"

definition checked :: "port_call list \<Rightarrow> approval_token \<Rightarrow> string \<Rightarrow> string \<Rightarrow> bool" where
  "checked l token action_hash actor = (\<exists>now. CheckedToken token action_hash actor now True \<in> set l)"

definition delivered :: "port_call list \<Rightarrow> string \<Rightarrow> bool" where
  "delivered l action_hash = (\<exists>action ctx token key. Executed action ctx token action_hash key \<in> set l)"

definition noted :: "port_call list \<Rightarrow> string \<Rightarrow> string \<Rightarrow> string \<Rightarrow> bool" where
  "noted l transition action_hash reason = (\<exists>e. Emitted e \<in> set l \<and> ca_transition e = transition \<and>
     ca_action_hash e = Some action_hash \<and> ca_reason e = Some reason)"

lemma log_fact_simps [simp]:
  "\<not> asked [] h actor" "\<not> checked [] token h actor" "\<not> delivered [] h" "\<not> noted [] t h r"
  "asked (x # l) h actor \<longleftrightarrow> (\<exists>q. x = Requested q \<and> arq_action_hash q = h \<and> arq_actor q = actor) \<or> asked l h actor"
  "checked (x # l) token h actor \<longleftrightarrow> (\<exists>now. x = CheckedToken token h actor now True) \<or> checked l token h actor"
  "delivered (x # l) h \<longleftrightarrow> (\<exists>action ctx token key. x = Executed action ctx token h key) \<or> delivered l h"
  "noted (x # l) t h r \<longleftrightarrow> (\<exists>e. x = Emitted e \<and> ca_transition e = t \<and> ca_action_hash e = Some h \<and>
     ca_reason e = Some r) \<or> noted l t h r"
  "asked (l @ l') h actor \<longleftrightarrow> asked l h actor \<or> asked l' h actor"
  "checked (l @ l') token h actor \<longleftrightarrow> checked l token h actor \<or> checked l' token h actor"
  "delivered (l @ l') h \<longleftrightarrow> delivered l h \<or> delivered l' h"
  "noted (l @ l') t h r \<longleftrightarrow> noted l t h r \<or> noted l' t h r"
  by (auto simp: asked_def checked_def delivered_def noted_def)

text \<open>
  What must be in the log before a guarded call: the decision chain before an authorization is
  requested, the accepted token and its record before an execution, the record of the execution
  before a verification.
\<close>

fun justified :: "workflow_state \<Rightarrow> port_call list \<Rightarrow> port_call \<Rightarrow> bool" where
  "justified st0 l (Requested request) =
     (recorded l st0 ''policy'' (arq_action_hash request) POLICY_VALID \<and>
      (case arq_monitor_verdict request of None \<Rightarrow> True
       | Some v \<Rightarrow> recorded l st0 ''monitor'' (arq_action_hash request) (monitor_verdict_reason (monitor_verdict_name v))))"
| "justified st0 l (Executed action ctx token action_hash key) =
     (asked l action_hash (act_actor action) \<and> checked l token action_hash (act_actor action) \<and>
      recorded l st0 ''approval'' action_hash AUDIT_APPROVED)"
| "justified st0 l (Verified incident operation) =
     (\<exists>action_hash. delivered l action_hash \<and> noted l ''execution'' action_hash AUDIT_EXECUTED)"
| "justified st0 l _ = True"

lemma unguarded_justified: "\<not> guarded x \<Longrightarrow> justified st0 l x"
  by (cases x) simp_all

lemma quiet_ordered: "quiet l \<Longrightarrow> ordered (justified st0) l"
  by (auto simp: quiet_def ordered_def unguarded_justified)

lemma ordered_quiet [simp]: "quiet ys \<Longrightarrow> ordered (justified st0) (l @ ys) = ordered (justified st0) l"
proof (induction ys rule: rev_induct)
  case (snoc y ys)
  then show ?case using ordered_snoc[of "justified st0" "l @ ys" y] by (simp add: unguarded_justified)
qed simp

lemma ordered_Cons_quiet [simp]:
  "quiet ys \<Longrightarrow> ordered (justified st0) (l @ x # ys) \<longleftrightarrow> ordered (justified st0) l \<and> justified st0 l x"
  using ordered_quiet[of ys st0 "l @ [x]"] by simp

definition same_input :: "workflow_state \<Rightarrow> workflow_state \<Rightarrow> bool" where
  "same_input st0 st = (ws_incident st = ws_incident st0 \<and> ws_context st = ws_context st0 \<and> ws_caller st = ws_caller st0)"

text \<open>The three agreements that \<open>ingest\<close> checks.\<close>

definition bound :: "workflow_state \<Rightarrow> bool" where
  "bound st = (idn_thread_id (ws_incident st) = ctx_thread_id (ws_context st) \<and>
     idn_incident_id (ws_incident st) = ctx_incident_id (ws_context st) \<and>
     cal_actor (ws_caller st) = ctx_actor (ws_context st))"

text \<open>
  The documented behaviour of the ports under which every reason is of the frozen vocabulary: the
  proposer raises its own reasons and returns validated actions that cite non-empty ids, the policy
  is a validated configuration, and the token validator answers with a cause of its vocabulary.
\<close>

definition citing :: "canonical_action \<Rightarrow> bool" where
  "citing action = ((\<exists>proposal. validate_action proposal = Inr action) \<and> [] \<notin> set (act_evidence_ids action))"

definition known_ports :: "('w, 'c) workflow_dependencies \<Rightarrow> bool" where
  "known_ports d = ((\<forall>i c ctx rs env reason. fst (dp_propose d i c ctx rs env) = Inl (ProposalError reason) \<longrightarrow>
       is_known_reason reason) \<and>
     (\<forall>i c ctx rs env hyp action. fst (dp_propose d i c ctx rs env) = Inr (hyp, action) \<longrightarrow> citing action) \<and>
     (\<exists>configuration. validate_policy_configuration (dp_policy d) = Inr configuration) \<and>
     (\<forall>token h actor now env valid cause. fst (dp_validate_token d token h actor now env) = Inr (valid, cause) \<longrightarrow>
       cause \<in> set TOKEN_CAUSES))"

definition speaks :: "('w, 'c) workflow_dependencies \<Rightarrow> string list \<Rightarrow> bool" where
  "speaks d reasons = (known_ports d \<longrightarrow> list_all is_known_reason reasons)"

lemma speaks_simps [simp]: "speaks d []" "is_known_reason r \<Longrightarrow> speaks d [r]"
  by (simp_all add: speaks_def)

definition refused :: "('w, 'c) workflow_dependencies \<Rightarrow> workflow_result \<Rightarrow> bool" where
  "refused d r = (wr_final_state r = ''blocked'' \<and> wr_operation r = None \<and> speaks d (wr_reasons r))"

text \<open>The action passed evidence and policy as far as these gates enforce.\<close>

definition admitted :: "('w, 'c) workflow_dependencies \<Rightarrow> workflow_state \<Rightarrow> bool" where
  "admitted d st = (\<exists>action evidence policy. ws_action st = Some action \<and> ws_evidence st = Some evidence \<and>
     ws_policy st = Some policy \<and> ws_hypothesis st \<noteq> None \<and> bound st \<and> speaks d (po_reasons policy) \<and>
     (enforces_evidence (dp_safeguards d) \<longrightarrow> evv_state evidence = VALID) \<and>
     policy_evaluate (dp_sha d) (dp_fullmatch d) (dp_policy d) action (cal_role (ws_caller st))
       (if enforces_evidence (dp_safeguards d) then evidence else observed_only evidence) = Inr policy \<and>
     ws_idempotency_key st = Some (idempotency_key (dp_uuid5 d) (po_action_hash policy) (idn_thread_id (ws_incident st))))"

definition routed :: "('w, 'c) workflow_dependencies \<Rightarrow> workflow_state \<Rightarrow> monitor_route \<Rightarrow> bool" where
  "routed d st r = (after_monitor d (st\<lparr>ws_result := None\<rparr>) = Inr r)"

definition chain_recorded :: "workflow_state \<Rightarrow> port_call list \<Rightarrow> bool" where
  "chain_recorded st l = (\<forall>policy. ws_policy st = Some policy \<longrightarrow>
     recorded l st ''policy'' (po_action_hash policy) POLICY_VALID \<and>
     (\<forall>m. ws_monitor st = Some m \<longrightarrow> recorded l st ''monitor'' (po_action_hash policy)
        (monitor_verdict_reason (monitor_verdict_name (mr_verdict m)))))"

definition approved :: "workflow_state \<Rightarrow> port_call list \<Rightarrow> bool" where
  "approved st l = (\<exists>action policy human token. ws_action st = Some action \<and> ws_policy st = Some policy \<and>
     ws_human st = Some human \<and> hd_token human = Some token \<and> hd_decision human = ''approve'' \<and>
     hd_approver human = tok_approver token \<and>
     checked l token (po_action_hash policy) (act_actor action) \<and>
     asked l (po_action_hash policy) (act_actor action) \<and>
     recorded l st ''approval'' (po_action_hash policy) AUDIT_APPROVED \<and>
     (\<forall>m. ws_monitor st = Some m \<longrightarrow> mr_verdict m = V_DEFER \<longrightarrow>
        (\<exists>reason. hd_reason human = Some reason \<and> strip reason \<noteq> [])))"

text \<open>The one call of the executor this thread can make.\<close>

definition execution_call :: "workflow_state \<Rightarrow> port_call option" where
  "execution_call st = (case (ws_action st, ws_policy st, ws_human st, ws_idempotency_key st) of
     (Some action, Some policy, Some human, Some key) \<Rightarrow> map_option (\<lambda>token.
        Executed action ((ws_context st)\<lparr>ctx_idempotency_key := Some key\<rparr>) token (po_action_hash policy) key)
        (hd_token human)
   | _ \<Rightarrow> None)"

definition only_execution :: "workflow_state \<Rightarrow> port_call list \<Rightarrow> bool" where
  "only_execution st l = (\<forall>x \<in> set l. is_execution x \<longrightarrow> execution_call st = Some x)"

definition no_execution :: "port_call list \<Rightarrow> bool" where
  "no_execution l = (\<forall>x \<in> set l. \<not> is_execution x)"

lemma no_execution_simps [simp]:
  "no_execution []" "no_execution (x # l) \<longleftrightarrow> \<not> is_execution x \<and> no_execution l"
  "no_execution (l @ l') \<longleftrightarrow> no_execution l \<and> no_execution l'"
  by (auto simp: no_execution_def)

lemma only_execution_simps [simp]:
  "only_execution st []"
  "only_execution st (x # l) \<longleftrightarrow> (is_execution x \<longrightarrow> execution_call st = Some x) \<and> only_execution st l"
  "only_execution st (l @ l') \<longleftrightarrow> only_execution st l \<and> only_execution st l'"
  by (auto simp: only_execution_def)

lemma quiet_no_execution: "quiet l \<Longrightarrow> no_execution l"
  unfolding quiet_def no_execution_def by (metis guarded.simps(2) is_execution.elims(2))

definition closed :: "('w, 'c) workflow_dependencies \<Rightarrow> workflow_state \<Rightarrow> workflow_result \<Rightarrow> port_call list \<Rightarrow> bool" where
  "closed d st r l =
     ((refused d r \<and> no_execution l) \<or>
      (admitted d st \<and> routed d st R_approve \<and> approved st l \<and> only_execution st l \<and> (\<exists>h. delivered l h) \<and>
       (\<exists>operation verification. wr_operation r = Some operation \<and> wr_verification r = Some verification \<and>
          wr_final_state r = (if vr_passed verification then ''resolved'' else ''blocked'') \<and>
          wr_reasons r = [if vr_passed verification then RECOVERY_VERIFIED else RECOVERY_FAILED])))"

text \<open>The states before the proposal and before the validation.\<close>

definition collected :: "workflow_state \<Rightarrow> workflow_state \<Rightarrow> bool" where
  "collected st0 st = (\<exists>records. st = st0\<lparr>ws_records := Some records\<rparr>)"

definition proposed :: "('w, 'c) workflow_dependencies \<Rightarrow> workflow_state \<Rightarrow> workflow_state \<Rightarrow> bool" where
  "proposed d st0 st = (\<exists>records hyp action. (known_ports d \<longrightarrow> citing action) \<and>
     st = st0\<lparr>ws_records := Some records, ws_hypothesis := Some hyp, ws_action := Some action\<rparr>)"

lemma gathered_simps [simp]:
  "collected st0 (st0\<lparr>ws_records := Some records\<rparr>)"
  "(known_ports d \<longrightarrow> citing action) \<Longrightarrow>
     proposed d st0 (st0\<lparr>ws_records := Some records, ws_hypothesis := Some hyp, ws_action := Some action\<rparr>)"
  unfolding collected_def proposed_def by blast+

lemma gatheredE:
  "collected st0 st \<Longrightarrow> (\<And>records. st = st0\<lparr>ws_records := Some records\<rparr> \<Longrightarrow> P) \<Longrightarrow> P"
  "proposed d st0 st \<Longrightarrow> (\<And>records hyp action. known_ports d \<longrightarrow> citing action \<Longrightarrow>
     st = st0\<lparr>ws_records := Some records, ws_hypothesis := Some hyp, ws_action := Some action\<rparr> \<Longrightarrow> P) \<Longrightarrow> P"
  unfolding collected_def proposed_def by blast+

text \<open>The invariant of a checkpoint.\<close>

fun node_inv :: "('w, 'c) workflow_dependencies \<Rightarrow> workflow_state \<Rightarrow> graph_node \<Rightarrow> workflow_state \<Rightarrow> port_call list \<Rightarrow> bool" where
  "node_inv d st0 N_ingest st l = (st = st0 \<and> quiet l)"
| "node_inv d st0 N_collect st l = (st = st0 \<and> bound st0 \<and> quiet l)"
| "node_inv d st0 N_propose st l = (quiet l \<and> bound st0 \<and> collected st0 st)"
| "node_inv d st0 N_validate st l = (quiet l \<and> bound st0 \<and> proposed d st0 st)"
| "node_inv d st0 N_monitor st l = (same_input st0 st \<and> quiet l \<and>
     (case ws_result st of
        None \<Rightarrow> admitted d st \<and> ws_monitor st = None \<and> ws_monitor_error st = None
      | Some r \<Rightarrow> refused d r))"
| "node_inv d st0 N_preapproval_audit st l =
     (same_input st0 st \<and> quiet l \<and> admitted d st \<and> routed d st R_approve \<and> ws_result st = None)"
| "node_inv d st0 N_approval st l =
     (same_input st0 st \<and> ordered (justified st0) l \<and> no_execution l \<and> admitted d st \<and> routed d st R_approve \<and>
      ws_result st = None \<and> chain_recorded st l)"
| "node_inv d st0 N_execute st l =
     (same_input st0 st \<and> ordered (justified st0) l \<and> admitted d st \<and> routed d st R_approve \<and>
      ws_result st = None \<and> approved st l \<and> only_execution st l)"
| "node_inv d st0 N_verify st l =
     (same_input st0 st \<and> ordered (justified st0) l \<and> admitted d st \<and> routed d st R_approve \<and>
      ws_result st = None \<and> approved st l \<and> only_execution st l \<and> ws_operation st \<noteq> None \<and>
      (\<exists>h. delivered l h \<and> noted l ''execution'' h AUDIT_EXECUTED))"
| "node_inv d st0 N_end st l =
     (same_input st0 st \<and> ordered (justified st0) l \<and> (\<exists>r. ws_result st = Some r \<and> closed d st r l))"
| "node_inv d st0 n st l =
     (same_input st0 st \<and> quiet l \<and> admitted d st \<and> ws_result st = None)"

definition node_step_ok :: "('w, 'c) workflow_dependencies \<Rightarrow> workflow_state \<Rightarrow> graph_node \<Rightarrow> bool" where
  "node_step_ok d st0 n = (\<forall>resume st l. node_inv d st0 n st l \<longrightarrow>
     ensures (run_node d resume n st) l
       (\<lambda>st' l'. \<exists>n'. next_node d n st' = Inr n' \<and> node_inv d st0 n' st' l')
       (node_inv d st0 n st))"

lemma reaches_inv:
  assumes steps: "\<And>n. n \<noteq> N_end \<Longrightarrow> node_step_ok d st0 n"
  shows "reaches d st0 n st w \<Longrightarrow> node_inv d st0 n st (wd_log w)"
proof (induction rule: reaches.induct)
  case (step n st w resume st' w' n')
  have "ensures (run_node d resume n st) (wd_log w)
       (\<lambda>st' l'. \<exists>n'. next_node d n st' = Inr n' \<and> node_inv d st0 n' st' l') (node_inv d st0 n st)"
    using steps[OF step(2)] step.IH by (simp add: node_step_ok_def)
  from ensuresD[OF this step(3)] show ?case using step(4) by simp
next
  case (retry n st w resume out w')
  have "ensures (run_node d resume n st) (wd_log w)
       (\<lambda>st' l'. \<exists>n'. next_node d n st' = Inr n' \<and> node_inv d st0 n' st' l') (node_inv d st0 n st)"
    using steps[OF retry(2)] retry.IH by (simp add: node_step_ok_def)
  from ensuresD[OF this retry(3)] show ?case using retry(4) by (cases out) auto
qed simp_all

section \<open>Every node keeps it\<close>

lemma ensures_propose_with [ensures_rules]:
  assumes "E l" "E (l @ [Proposed (ws_incident st)])"
    and "\<And>records hyp action env. ws_records st = Some records \<Longrightarrow>
      fst (p (ws_incident st) (ws_caller st) (ws_context st) records env) = Inr (hyp, action) \<Longrightarrow>
      Q (st\<lparr>ws_hypothesis := Some hyp, ws_action := Some action\<rparr>) (l @ [Proposed (ws_incident st)])"
    and "\<And>records reason now env. ws_records st = Some records \<Longrightarrow>
      fst (p (ws_incident st) (ws_caller st) (ws_context st) records env) = Inl (ProposalError reason) \<Longrightarrow>
      Q (st\<lparr>ws_result := Some (blocked_with [reason])\<rparr>) ((l @ [Proposed (ws_incident st)]) @ [Emitted
        \<lparr>ca_transition = ''proposal'', ca_incident_id = idn_incident_id (ws_incident st),
         ca_thread_id = idn_thread_id (ws_incident st), ca_action_hash = map_option po_action_hash (ws_policy st),
         ca_reason = Some reason, ca_at = now\<rparr>])"
  shows "ensures (propose_with d p st) l Q E"
  unfolding propose_with_def
proof (rule ensures_bind, rule ensures_channel, rule assms(1))
  fix records assume r: "ws_records st = Some records"
  let ?i = "Proposed (ws_incident st)"
  have audit: "ensures (bind_eff (audit d st ''proposal'' reason) (\<lambda>_. returning (st\<lparr>ws_result := Some (blocked_with [reason])\<rparr>)))
      (l @ [?i]) Q E" if "fst (p (ws_incident st) (ws_caller st) (ws_context st) records env) = Inl (ProposalError reason)"
    for reason env
    using assms(2) assms(4)[OF r that] by (intro ensures_rules)
  show "ensures (\<lambda>w. let (answer, w') = port (\<lambda>_. [?i])
       (\<lambda>env. apfst Inr (p (ws_incident st) (ws_caller st) (ws_context st) records env)) w
     in case answer of
          Returned (Inr (hyp, action)) \<Rightarrow> (Returned (st\<lparr>ws_hypothesis := Some hyp, ws_action := Some action\<rparr>), w')
        | Returned (Inl (ProposalError reason)) \<Rightarrow>
            bind_eff (audit d st ''proposal'' reason) (\<lambda>_.
              returning (st\<lparr>ws_result := Some (blocked_with [reason])\<rparr>)) w'
        | Returned (Inl e) \<Rightarrow> (Raised e, w')
        | Raised e \<Rightarrow> (Raised e, w')
        | Suspended r \<Rightarrow> (Suspended r, w')) l Q E"
    unfolding ensures_def
  proof (intro allI impI)
    fix w :: "'a world" assume w: "wd_log w = l"
    obtain ans env where a: "p (ws_incident st) (ws_caller st) (ws_context st) records (wd_env w) = (ans, env)"
      by fastforce
    let ?w = "\<lparr>wd_log = l @ [?i], wd_env = env\<rparr>"
    have port: "port (\<lambda>_. [?i]) (\<lambda>env. apfst Inr (p (ws_incident st) (ws_caller st) (ws_context st) records env)) w =
        (Returned ans, ?w)"
      using a w by (simp add: port_def from_result_def returning_def)
    show "case let (answer, w') = port (\<lambda>_. [?i])
       (\<lambda>env. apfst Inr (p (ws_incident st) (ws_caller st) (ws_context st) records env)) w
     in case answer of
          Returned (Inr (hyp, action)) \<Rightarrow> (Returned (st\<lparr>ws_hypothesis := Some hyp, ws_action := Some action\<rparr>), w')
        | Returned (Inl (ProposalError reason)) \<Rightarrow>
            bind_eff (audit d st ''proposal'' reason) (\<lambda>_.
              returning (st\<lparr>ws_result := Some (blocked_with [reason])\<rparr>)) w'
        | Returned (Inl e) \<Rightarrow> (Raised e, w')
        | Raised e \<Rightarrow> (Raised e, w')
        | Suspended r \<Rightarrow> (Suspended r, w') of
        (Returned x, w') \<Rightarrow> Q x (wd_log w') | (Raised e, w') \<Rightarrow> E (wd_log w') | (Suspended r, w') \<Rightarrow> E (wd_log w')"
      using audit[of "wd_env w"] assms(2) assms(3)[OF r, of "wd_env w"] a
      by (cases ans) (auto simp: port ensures_def split: py_exn.splits)
  qed
qed

lemma ensures_observe_with:
  assumes "E l" "\<And>h i. Q (f (st\<lparr>ws_monitor_input_hash := h, ws_monitor_invocation := i\<rparr>)) l" "Q (f st) l"
  shows "ensures (observe_with b f st) l Q E"
  unfolding observe_with_def
  by (rule ensures_bind)
    (use assms in \<open>auto simp: ensures_def semantic_observation_def returning_def split: option.splits prod.splits\<close>)

lemma observation_order:
  "st\<lparr>ws_monitor_input_hash := h, ws_monitor_invocation := i, ws_monitor_error := e\<rparr> =
     st\<lparr>ws_monitor_error := e, ws_monitor_input_hash := h, ws_monitor_invocation := i\<rparr>"
  "st\<lparr>ws_monitor_input_hash := h, ws_monitor_invocation := i, ws_monitor := m\<rparr> =
     st\<lparr>ws_monitor := m, ws_monitor_input_hash := h, ws_monitor_invocation := i\<rparr>"
  by (cases st, simp)+

text \<open>The v2 consultation sets the verdict or the error, and what the monitor exposes.\<close>

lemma ensures_consult_v2:
  assumes E: "E l" "E (l @ [Assessed action])"
    and Q: "\<And>e m h i l'. l' = l \<or> l' = l @ [Assessed action] \<Longrightarrow> m = ws_monitor st \<or> e = ws_monitor_error st \<Longrightarrow>
      Q (st\<lparr>ws_monitor := m, ws_monitor_error := e, ws_monitor_input_hash := h, ws_monitor_invocation := i\<rparr>) l'"
  shows "ensures (consult_v2 d b st action records evidence policy) l Q E"
proof -
  have err: "Q (st\<lparr>ws_monitor_error := Some e\<rparr>) l'"
    "Q (st\<lparr>ws_monitor_input_hash := h, ws_monitor_invocation := i, ws_monitor_error := Some e\<rparr>) l'"
    "Q (st\<lparr>ws_monitor := Some m\<rparr>) l'"
    "Q (st\<lparr>ws_monitor_input_hash := h, ws_monitor_invocation := i, ws_monitor := Some m\<rparr>) l'"
    if "l' = l \<or> l' = l @ [Assessed action]" for e h i m l'
    using Q[OF that, where m = "ws_monitor st" and e = "Some e" and h = "ws_monitor_input_hash st"
        and i = "ws_monitor_invocation st"]
      Q[OF that, where m = "ws_monitor st" and e = "Some e" and h = h and i = i]
      Q[OF that, where m = "Some m" and e = "ws_monitor_error st" and h = "ws_monitor_input_hash st"
        and i = "ws_monitor_invocation st"]
      Q[OF that, where m = "Some m" and e = "ws_monitor_error st" and h = h and i = i]
    by (simp_all add: observation_order)
  have obs: "ensures (observe_with b (\<lambda>s. s\<lparr>ws_monitor_error := Some e\<rparr>) st) (l @ [Assessed action]) Q E"
    "ensures (observe_with b (\<lambda>s. s\<lparr>ws_monitor := Some m\<rparr>) st) (l @ [Assessed action]) Q E" for e m
    by (rule ensures_observe_with; use E err in simp)+
  have inner: "ensures (bind_eff (port (\<lambda>_. [Assessed action]) (mb_assess b c)) (\<lambda>outcome.
             if mo_outcome outcome = ''error'' then
               (case mo_error_kind outcome of
                  None \<Rightarrow> raising (RuntimeError ''AssertionError'')
                | Some kind \<Rightarrow>
                    observe_with b (\<lambda>s. s\<lparr>ws_monitor_error := Some (monitor_error_kind_name kind)\<rparr>) st)
             else
               (case mo_assessment outcome of
                  None \<Rightarrow> raising (RuntimeError ''AssertionError'')
                | Some assessment \<Rightarrow>
                    (case bound_result d b assessment action of
                       Inl e \<Rightarrow> if is_value_error e
                         then observe_with b (\<lambda>s. s\<lparr>ws_monitor_error := Some ''echo_mismatch''\<rparr>) st
                         else raising e
                     | Inr r \<Rightarrow> observe_with b (\<lambda>s. s\<lparr>ws_monitor := Some r\<rparr>) st)))) l Q E" for c
    by (intro ensures_rules obs E) (auto split: sum.splits intro: obs ensures_raising E)
  show ?thesis
    unfolding ensures_def
  proof (intro allI impI)
    fix w :: "'a world" assume w: "wd_log w = l"
    obtain built env where b: "mb_build b (ws_incident st) action records evidence policy (dp_safeguards d) (wd_env w) = (built, env)"
      by fastforce
    show "case consult_v2 d b st action records evidence policy w of
        (Returned x, w') \<Rightarrow> Q x (wd_log w') | (Raised e, w') \<Rightarrow> E (wd_log w') | (Suspended r, w') \<Rightarrow> E (wd_log w')"
    proof (cases built)
      case (Inl e)
      then show ?thesis using b w E err(1)[of l] by (simp add: consult_v2_def Let_def)
    next
      case (Inr c)
      then show ?thesis using b w inner[of c] by (simp add: consult_v2_def ensures_def)
    qed
  qed
qed

lemma ensures_request_decision [ensures_rules]:
  assumes "E (l @ [Requested request])" "\<And>h. Q h (l @ [Requested request])"
  shows "ensures (request_decision requester resume request) l Q E"
proof (cases requester)
  case None
  then show ?thesis
    using assms by (auto simp: ensures_def request_decision_def Let_def split: option.splits)
next
  case (Some f)
  then show ?thesis unfolding request_decision_def using assms by (auto intro: ensures_port)
qed

definition fresh :: "workflow_state \<Rightarrow> bool" where
  "fresh st = (\<exists>incident ctx c. st = initial_state incident ctx c)"

lemma fresh_channels:
  assumes "fresh st"
  shows "ws_records st = None" "ws_evidence st = None" "ws_hypothesis st = None" "ws_action st = None"
    "ws_policy st = None" "ws_monitor st = None" "ws_monitor_error st = None" "ws_idempotency_key st = None"
    "ws_human st = None" "ws_operation st = None" "ws_verification st = None" "ws_result st = None"
  using assms by (auto simp: fresh_def initial_state_def)

text \<open>The lemmas of the collection, and what a node that only sets channels keeps.\<close>

lemma blocked_with_simps [simp]:
  "wr_final_state (blocked_with rs) = ''blocked''" "wr_operation (blocked_with rs) = None"
  "wr_reasons (blocked_with rs) = rs" "wr_verification (blocked_with rs) = None"
  by (simp_all add: blocked_with_def)

lemma closed_quiet: "refused d r \<Longrightarrow> quiet l \<Longrightarrow> closed d st r l"
  by (simp add: closed_def quiet_no_execution)

lemma refused_blocked [simp]: "refused d (blocked_with reasons) = speaks d reasons"
  by (simp add: refused_def)

lemma refused_update [simp]:
  "refused d (r\<lparr>wr_evidence_ids := a, wr_hypothesis := b, wr_report := c\<rparr>) = refused d r"
  by (simp add: refused_def)

lemma ensures_terminal_result [ensures_rules]:
  assumes "E l" "\<And>r. wr_final_state r = ''blocked'' \<Longrightarrow> wr_operation r = None \<Longrightarrow> wr_reasons r = reasons \<Longrightarrow> Q r l"
  shows "ensures (terminal_result st reasons monitor human) l Q E"
  unfolding terminal_result_def by (intro ensures_rules assms) (simp_all add: assms)

lemma ensures_finish_with [ensures_rules]:
  assumes "E l" "\<And>r. wr_final_state r = ''blocked'' \<Longrightarrow> wr_operation r = None \<Longrightarrow> wr_reasons r = reasons \<Longrightarrow>
    Q (st\<lparr>ws_result := Some r\<rparr>) l"
  shows "ensures (finish_with st reasons monitor human) l Q E"
  unfolding finish_with_def using assms by (intro ensures_rules)

lemma ingest_ok: "fresh st0 \<Longrightarrow> node_step_ok d st0 N_ingest"
  unfolding node_step_ok_def
  by (auto simp: ingest_def Let_def bound_def same_input_def fresh_channels quiet_ordered closed_quiet
      intro!: ensures_rules)

lemma collect_ok: "node_step_ok d st0 N_collect"
  unfolding node_step_ok_def by (auto simp: collect_def intro!: ensures_rules)

text \<open>What the ports and the gates say is of the vocabulary.\<close>

lemma port_speaks:
  "fst (dp_propose d i c ctx rs env) = Inl (ProposalError reason) \<Longrightarrow> speaks d [reason]"
  "fst (dp_propose d i c ctx rs env) = Inr (hyp, action) \<Longrightarrow> known_ports d \<longrightarrow> citing action"
  "fst (dp_validate_token d token h actor now env) = Inr (valid, cause) \<Longrightarrow> speaks d [approval_invalid cause]"
  using token_causes_nonempty[of cause] unfolding speaks_def known_ports_def by auto

lemma evidence_speaks:
  "known_ports d \<longrightarrow> citing action \<Longrightarrow> speaks d (evv_reasons (evidence_validate policy sources now action records ctx))"
  unfolding speaks_def citing_def using evidence_reasons_known[of action] by blast

lemma policy_speaks:
  assumes "policy_evaluate sha fullmatch (dp_policy d) action role evidence = Inr policy"
    and "known_ports d \<longrightarrow> citing action" and "speaks d (evv_reasons evidence)"
  shows "speaks d (po_reasons policy)"
  unfolding speaks_def
proof
  assume known: "known_ports d"
  then obtain configuration proposal where c: "validate_policy_configuration (dp_policy d) = Inr configuration"
      "validate_action proposal = Inr action" using assms(2) unfolding citing_def by (auto simp: known_ports_def)
  then have tool: "act_tool_name action = ''operations.'' @ arguments_kind (act_arguments action)"
    unfolding validate_action_def validated_Inr by (simp split: if_splits)
  from known assms(3) have "list_all is_known_reason (evv_reasons evidence)" by (simp add: speaks_def)
  from policy_reasons_total[OF c(1) tool this, of fullmatch role] obtain rs where
    "policy_reasons fullmatch (dict_get (pc_tools (dp_policy d)) (act_tool_name action)) action role evidence = Inr rs"
    "list_all is_known_reason rs" by blast
  then show "list_all is_known_reason (po_reasons policy)"
    using assms(1) sorted_set_known[of rs] by (auto simp: policy_evaluate_def)
qed

lemma admitted_speaks: "admitted d st \<Longrightarrow> ws_policy st = Some policy \<Longrightarrow> speaks d (po_reasons policy)"
  by (auto simp: admitted_def)

lemma propose_ok: "fresh st0 \<Longrightarrow> node_step_ok d st0 N_propose"
  unfolding node_step_ok_def
  by (auto simp: propose_def same_input_def fresh_channels quiet_ordered closed_quiet port_speaks
      elim!: gatheredE intro!: ensures_rules)

lemma ensures_evidence_step [ensures_rules]:
  assumes "E l" "\<And>now. Q (evidence_validate (dp_policy d) (dp_allowed_sources d) now action records (Some ctx)) l"
  shows "ensures (evidence_step d action records ctx) l Q E"
  unfolding evidence_step_def using assms by (intro ensures_rules)

lemma not_INVALID: "s \<noteq> INVALID \<longleftrightarrow> s = VALID"
  by (cases s) simp_all

lemma observed_speaks [simp]: "speaks d (evv_reasons (observed_only evidence))"
  by (simp add: observed_only_def)

lemma validate_ok: "fresh st0 \<Longrightarrow> node_step_ok d st0 N_validate"
  unfolding node_step_ok_def
  by (auto simp: validate_node_def same_input_def admitted_def bound_def fresh_channels not_INVALID evidence_speaks
      elim!: gatheredE policy_speaks intro!: ensures_rules)

text \<open>Where the monitor node sends a state without a result.\<close>

lemma set_result_id: "ws_result st = None \<Longrightarrow> st\<lparr>ws_result := None\<rparr> = st"
  by simp

lemma routed_inv:
  assumes "same_input st0 st" "quiet l" "admitted d st" "ws_result st = None"
  shows "\<exists>n. next_node d N_monitor st = Inr n \<and> node_inv d st0 n st l"
proof -
  obtain r where r: "after_monitor d st = Inr r" "r \<noteq> R_finish"
    using assms(3,4) by (fastforce simp: after_monitor_def admitted_def)
  then show ?thesis using assms by (cases r) (simp_all add: routed_def set_result_id)
qed

lemma observed_inv [simp]:
  "same_input st0 (st\<lparr>ws_monitor := m, ws_monitor_error := e, ws_monitor_input_hash := h, ws_monitor_invocation := i\<rparr>) =
     same_input st0 st"
  "same_input st0 (st\<lparr>ws_monitor := m\<rparr>) = same_input st0 st"
  "admitted d (st\<lparr>ws_monitor := m, ws_monitor_error := e, ws_monitor_input_hash := h, ws_monitor_invocation := i\<rparr>) =
     admitted d st"
  "admitted d (st\<lparr>ws_monitor := m\<rparr>) = admitted d st"
  by (simp_all add: same_input_def admitted_def bound_def)

lemma ensures_monitor_node:
  assumes "ws_result st = None" "E l" "\<And>action. E (l @ [Assessed action])"
    and "\<And>l' m e h i. l' = l \<or> (\<exists>action. l' = l @ [Assessed action]) \<Longrightarrow>
      Q (st\<lparr>ws_monitor := m, ws_monitor_error := e, ws_monitor_input_hash := h, ws_monitor_invocation := i\<rparr>) l'"
  shows "ensures (monitor_node d st) l Q E"
proof -
  have Q: "Q st l" "\<And>m action. Q (st\<lparr>ws_monitor := m\<rparr>) (l @ [Assessed action])"
    using assms(4)[of l, where m = "ws_monitor st" and e = "ws_monitor_error st" and h = "ws_monitor_input_hash st"
        and i = "ws_monitor_invocation st"]
      assms(4)[where e = "ws_monitor_error st" and h = "ws_monitor_input_hash st" and i = "ws_monitor_invocation st"]
    by auto
  show ?thesis
    unfolding monitor_node_def
    by (cases "dp_monitor d") (auto simp: assms(1) intro!: ensures_rules ensures_consult_v2 assms(2-4) Q)
qed

lemma monitor_ok: "node_step_ok d st0 N_monitor"
  unfolding node_step_ok_def
proof (intro allI impI)
  fix resume st l assume inv: "node_inv d st0 N_monitor st l"
  show "ensures (run_node d resume N_monitor st) l
       (\<lambda>st' l'. \<exists>n'. next_node d N_monitor st' = Inr n' \<and> node_inv d st0 n' st' l') (node_inv d st0 N_monitor st)"
  proof (cases "ws_result st")
    case None
    with inv have h: "same_input st0 st" "quiet l" "admitted d st" by simp_all
    show ?thesis
      unfolding run_node.simps
      by (rule ensures_monitor_node; use None inv in \<open>auto simp del: next_node.simps intro!: routed_inv simp: h\<close>)
  next
    case (Some r)
    with inv show ?thesis
      by (auto simp: monitor_node_def after_monitor_def quiet_ordered closed_quiet intro!: ensures_rules)
  qed
qed

lemma deny_ok: "node_step_ok d st0 N_deny"
  unfolding node_step_ok_def
  by (auto simp: deny_def same_input_def refused_def admitted_speaks quiet_ordered closed_quiet intro!: ensures_rules)

lemma blocked_ok: "node_step_ok d st0 N_blocked"
  unfolding node_step_ok_def
  by (auto simp: blocked_def refuse_after_policy_def refused_def same_input_def quiet_ordered closed_quiet intro!: ensures_rules)

lemma mismatch_ok: "node_step_ok d st0 N_monitor_mismatch"
  unfolding node_step_ok_def
  by (auto simp: monitor_mismatch_def refuse_after_policy_def refused_def same_input_def quiet_ordered closed_quiet intro!: ensures_rules)

lemma error_ok: "node_step_ok d st0 N_monitor_error"
  unfolding node_step_ok_def
  by (auto simp: monitor_error_terminal_def refused_def same_input_def quiet_ordered closed_quiet intro!: ensures_rules)


text \<open>The channels written after the monitor do not change what was decided before.\<close>

lemma after_monitor_cong:
  assumes "ws_result s = ws_result s'" "ws_policy s = ws_policy s'" "ws_monitor s = ws_monitor s'"
    "ws_monitor_error s = ws_monitor_error s'"
  shows "after_monitor d s = after_monitor d s'"
  unfolding after_monitor_def assms by (rule refl)

lemma routed_cong:
  "ws_policy s = ws_policy s' \<Longrightarrow> ws_monitor s = ws_monitor s' \<Longrightarrow>
     ws_monitor_error s = ws_monitor_error s' \<Longrightarrow> routed d s r = routed d s' r"
  unfolding routed_def using after_monitor_cong[of "s\<lparr>ws_result := None\<rparr>" "s'\<lparr>ws_result := None\<rparr>" d] by simp

lemma decided_simps [simp]:
  "same_input st0 (st\<lparr>ws_human := x\<rparr>) = same_input st0 st"
  "same_input st0 (st\<lparr>ws_operation := y\<rparr>) = same_input st0 st"
  "same_input st0 (st\<lparr>ws_result := z\<rparr>) = same_input st0 st"
  "same_input st0 (st\<lparr>ws_verification := v\<rparr>) = same_input st0 st"
  "admitted d (st\<lparr>ws_human := x\<rparr>) = admitted d st"
  "admitted d (st\<lparr>ws_operation := y\<rparr>) = admitted d st"
  "admitted d (st\<lparr>ws_result := z\<rparr>) = admitted d st"
  "admitted d (st\<lparr>ws_verification := v\<rparr>) = admitted d st"
  by (simp_all add: same_input_def admitted_def bound_def)

lemma routed_simps [simp]:
  "routed d (st\<lparr>ws_human := x\<rparr>) r = routed d st r"
  "routed d (st\<lparr>ws_operation := y\<rparr>) r = routed d st r"
  "routed d (st\<lparr>ws_result := z\<rparr>) r = routed d st r"
  "routed d (st\<lparr>ws_verification := v\<rparr>) r = routed d st r"
  by (rule routed_cong; simp)+

lemma execution_call_simps [simp]:
  "execution_call (st\<lparr>ws_operation := y\<rparr>) = execution_call st"
  "execution_call (st\<lparr>ws_result := z\<rparr>) = execution_call st"
  "execution_call (st\<lparr>ws_verification := v\<rparr>) = execution_call st"
  by (auto simp: execution_call_def split: option.splits)

lemma build_request_simps [simp]:
  "build_request (st\<lparr>ws_human := x\<rparr>) action policy = build_request st action policy"
  "build_request (st\<lparr>ws_operation := y\<rparr>) action policy = build_request st action policy"
  "build_request (st\<lparr>ws_result := z\<rparr>) action policy = build_request st action policy"
  "build_request (st\<lparr>ws_verification := v\<rparr>) action policy = build_request st action policy"
  by (auto simp: build_request_def split: option.splits)

lemma approved_simps [simp]:
  "approved (st\<lparr>ws_operation := y\<rparr>) l = approved st l"
  "approved (st\<lparr>ws_result := z\<rparr>) l = approved st l"
  "approved (st\<lparr>ws_verification := v\<rparr>) l = approved st l"
  "only_execution (st\<lparr>ws_operation := y\<rparr>) l = only_execution st l"
  "only_execution (st\<lparr>ws_result := z\<rparr>) l = only_execution st l"
  "only_execution (st\<lparr>ws_verification := v\<rparr>) l = only_execution st l"
  by (simp_all add: approved_def only_execution_def recorded_def)

lemma approved_append [simp]: "approved st l \<Longrightarrow> approved st (l @ xs)"
  unfolding approved_def by fastforce

lemma chain_recorded_append [simp]: "chain_recorded st l \<Longrightarrow> chain_recorded st (l @ xs)"
  by (auto simp: chain_recorded_def)

lemma recorded_input: "same_input st0 st \<Longrightarrow> recorded l st t h r = recorded l st0 t h r"
  by (simp add: recorded_def same_input_def)

lemma no_execution_only: "no_execution l \<Longrightarrow> only_execution st l"
  by (auto simp: no_execution_def only_execution_def)

lemma admitted_policy: "admitted d st \<Longrightarrow> \<exists>policy. ws_policy st = Some policy"
  by (auto simp: admitted_def)

lemma preapproval_ok: "node_step_ok d st0 N_preapproval_audit"
  unfolding node_step_ok_def
proof (intro allI impI)
  fix resume st l assume inv: "node_inv d st0 N_preapproval_audit st l"
  then obtain policy where p: "ws_policy st = Some policy" using admitted_policy by force
  show "ensures (run_node d resume N_preapproval_audit st) l
       (\<lambda>st' l'. \<exists>n'. next_node d N_preapproval_audit st' = Inr n' \<and> node_inv d st0 n' st' l')
       (node_inv d st0 N_preapproval_audit st)"
    using inv p
    by (auto simp: preapproval_audit_def quiet_ordered quiet_no_execution chain_recorded_def
        intro!: ensures_rules)
qed

lemma request_justified:
  assumes "same_input st0 st" "chain_recorded st l" "ws_policy st = Some policy"
  shows "justified st0 l (Requested (build_request st action policy))"
  using assms by (auto simp: build_request_def chain_recorded_def recorded_input split: option.splits)

text \<open>A refusal at the approval node.\<close>

lemma ensures_refuse_human [ensures_rules]:
  assumes "E l" "\<And>e. \<not> guarded (Emitted e) \<Longrightarrow> E (l @ [Emitted e])"
    and "\<And>e r. wr_final_state r = ''blocked'' \<Longrightarrow> wr_operation r = None \<Longrightarrow> wr_reasons r = [reason] \<Longrightarrow>
      Q (st\<lparr>ws_human := Some human, ws_result := Some r\<rparr>) (l @ [Emitted e])"
  shows "ensures (refuse_human d st human audited reason) l Q E"
  unfolding refuse_human_def using assms by (intro ensures_rules) simp_all

lemma ensures_token_step [ensures_rules]:
  assumes "E l" "\<And>v reason now env. fst (dp_validate_token d token h actor now env) = Inr (v, reason) \<Longrightarrow>
      Q (v, reason) (l @ [CheckedToken token h actor now v])"
  shows "ensures (token_step d token h actor) l Q E"
  unfolding token_step_def
  by (intro ensures_rules assms(1)) (use assms in \<open>auto split: prod.splits\<close>)

lemma human_approves:
  "validate_human h = Inr human \<Longrightarrow> hd_decision human \<noteq> ''reject'' \<Longrightarrow> hd_decision human = ''approve''"
  by (auto simp: validate_human_def validated_Inr split: if_splits)

lemma strip_Nil [simp]: "strip [] = []"
  by (simp add: strip_def)

lemma request_names [simp]:
  "arq_action_hash (build_request st action policy) = po_action_hash policy"
  "arq_actor (build_request st action policy) = act_actor action"
  by (simp_all add: build_request_def)

lemma approver_cause [simp]: "TOKEN_APPROVER_MISMATCH \<noteq> []"
  by (simp add: reason_defs)

lemma ensures_decide:
  assumes E: "\<And>xs. quiet xs \<Longrightarrow> E (l @ xs)"
    and refuses: "\<And>r xs. refused d r \<Longrightarrow> quiet xs \<Longrightarrow>
      Q (st\<lparr>ws_human := Some human, ws_result := Some r\<rparr>) (l @ xs)"
    and accepted: "\<And>token now t. hd_decision human \<noteq> ''reject'' \<Longrightarrow> hd_token human = Some token \<Longrightarrow>
      hd_approver human = tok_approver token \<Longrightarrow>
      (\<forall>m. ws_monitor st = Some m \<longrightarrow> mr_verdict m = V_DEFER \<longrightarrow>
        (\<exists>reason. hd_reason human = Some reason \<and> strip reason \<noteq> [])) \<Longrightarrow>
      Q (st\<lparr>ws_human := Some human\<rparr>) (l @ [CheckedToken token (po_action_hash policy) (act_actor action) now True,
        Emitted \<lparr>ca_transition = ''approval'', ca_incident_id = idn_incident_id (ws_incident st),
          ca_thread_id = idn_thread_id (ws_incident st), ca_action_hash = map_option po_action_hash (ws_policy st),
          ca_reason = Some AUDIT_APPROVED, ca_at = t\<rparr>])"
  shows "ensures (decide_approval d st action policy human) l Q E"
proof -
  have refuse: "ensures (refuse_human d st human audited reason) (l @ xs) Q E" if "quiet xs" "speaks d [reason]" for audited reason xs
    using that by (intro ensures_rules) (auto intro!: E refuses simp: refused_def)
  have l0: "ensures m (l @ []) Q E \<Longrightarrow> ensures m l Q E" for m by simp
  have deferred: "\<exists>reason. hd_reason human = Some reason \<and> strip reason \<noteq> []"
    if "\<not> ((case ws_monitor st of None \<Rightarrow> False | Some m \<Rightarrow> mr_verdict m = V_DEFER) \<and>
      strip (case hd_reason human of None \<Rightarrow> [] | Some r \<Rightarrow> r) = [])" "ws_monitor st = Some m" "mr_verdict m = V_DEFER" for m
    using that by (auto split: option.splits)
  show ?thesis
    unfolding decide_approval_def
    apply (intro ensures_if ensures_option)
        apply (rule l0, rule refuse, simp, simp)+
    apply (intro ensures_rules)
         apply (use E[of "[]"] in simp)
        apply (simp_all add: E refuses refused_def port_speaks)
    using deferred by (intro accepted) auto
qed

lemma approval_ok: "node_step_ok d st0 N_approval"
  unfolding node_step_ok_def
proof (intro allI impI)
  fix resume st l assume inv: "node_inv d st0 N_approval st l"
  then obtain policy action where p: "ws_policy st = Some policy" "ws_action st = Some action"
    by (auto simp: admitted_def)
  let ?l = "l @ [Requested (build_request st action policy)]"
  have j: "justified st0 l (Requested (build_request st action policy))"
    using inv p by (intro request_justified) simp_all
  have decide: "ensures (decide_approval d st action policy human) ?l
     (\<lambda>st' l'. \<exists>n'. next_node d N_approval st' = Inr n' \<and> node_inv d st0 n' st' l') (node_inv d st0 N_approval st)"
    if "validate_human payload = Inr human" for payload human
    by (rule ensures_decide)
      (use inv j p human_approves[OF that] in \<open>auto simp: closed_def quiet_no_execution no_execution_only approved_def
        simp del: justified.simps(1)\<close>)
  show "ensures (run_node d resume N_approval st) l
       (\<lambda>st' l'. \<exists>n'. next_node d N_approval st' = Inr n' \<and> node_inv d st0 n' st' l') (node_inv d st0 N_approval st)"
    unfolding run_node.simps approval_def approval_with_def
    by (intro ensures_rules) (use inv j p decide in \<open>auto simp del: justified.simps(1)\<close>)
qed

lemma execution_justified:
  assumes "same_input st0 st" "approved st l" "ws_action st = Some action" "ws_policy st = Some policy"
    "ws_human st = Some human" "hd_token human = Some token"
  shows "justified st0 l (Executed action ctx token (po_action_hash policy) key)"
  using assms by (auto simp: approved_def recorded_input)

lemma execute_ok: "node_step_ok d st0 N_execute"
  unfolding node_step_ok_def
  by (auto simp: execute_def execute_with_def Let_def emit_event_def execution_call_def execution_justified
     simp del: justified.simps(2) intro!: ensures_rules)

lemma verify_ok: "node_step_ok d st0 N_verify"
  unfolding node_step_ok_def
  by (auto simp: verify_node_def closed_def intro!: ensures_rules)


section \<open>What every reachable checkpoint satisfies\<close>

lemma nodes_ok: "fresh st0 \<Longrightarrow> n \<noteq> N_end \<Longrightarrow> node_step_ok d st0 n"
  by (cases n) (simp_all add: ingest_ok collect_ok propose_ok validate_ok monitor_ok deny_ok blocked_ok
    mismatch_ok error_ok preapproval_ok approval_ok execute_ok verify_ok)

lemma initial_fresh: "fresh (initial_state incident ctx c)"
  by (auto simp: fresh_def)

lemma reachable_inv:
  "reaches d (initial_state incident ctx c) n st w \<Longrightarrow> node_inv d (initial_state incident ctx c) n st (wd_log w)"
  using reaches_inv[OF nodes_ok[OF initial_fresh]] .

lemma inv_ordered: "node_inv d st0 n st l \<Longrightarrow> ordered (justified st0) l"
  by (cases n) (auto simp: quiet_ordered)

lemma inv_same_input: "node_inv d st0 n st l \<Longrightarrow> same_input st0 st"
  by (cases n) (auto simp: same_input_def elim!: gatheredE)

lemma inv_execution:
  assumes "node_inv d st0 n st l" "is_execution x" "x \<in> set l"
  shows "admitted d st \<and> routed d st R_approve \<and> approved st l \<and> execution_call st = Some x"
  using assms by (cases n) (auto simp: closed_def only_execution_def no_execution_def dest: quiet_no_execution)

lemma routed_approve:
  assumes "routed d st R_approve" "ws_policy st = Some policy"
  shows "(enforces_policy (dp_safeguards d) \<longrightarrow> po_decision policy \<noteq> DENY) \<and>
    (\<forall>m. ws_monitor st = Some m \<longrightarrow> mr_evaluated_action_hash m = po_action_hash policy \<and>
       (enforces_monitor (dp_safeguards d) \<longrightarrow> mr_verdict m \<noteq> V_BLOCK)) \<and>
    (enforces_monitor (dp_safeguards d) \<longrightarrow> ws_monitor_error st = None \<or> ws_monitor_error st = Some [])"
  using assms by (auto simp: routed_def after_monitor_def split: option.splits if_splits)

text \<open>
  C2: nothing is executed without authority. If the executor was ever called in a run of the graph,
  over any interleaving of retries, crashes and resumptions, the three agreements that ingest
  checks hold, the evidence is valid and the policy does not deny wherever those gates enforce,
  the monitor that spoke judged this very action and did not block it, a human approved, the
  approver is the token's, the token was accepted for exactly this action hash and actor (with a
  reason where the monitor deferred), and the call carries the key derived from the hash and the
  thread.
\<close>

theorem execution_requires_authorization:
  assumes "reaches d (initial_state incident ctx c) n st w"
    and "Executed action ctx' token action_hash key \<in> set (wd_log w)"
  shows "\<exists>evidence policy human. ws_action st = Some action \<and> ws_evidence st = Some evidence \<and>
    ws_policy st = Some policy \<and> ws_human st = Some human \<and> po_action_hash policy = action_hash \<and>
    bound (initial_state incident ctx c) \<and>
    policy_evaluate (dp_sha d) (dp_fullmatch d) (dp_policy d) action (cal_role c)
      (if enforces_evidence (dp_safeguards d) then evidence else observed_only evidence) = Inr policy \<and>
    (enforces_evidence (dp_safeguards d) \<longrightarrow> evv_state evidence = VALID) \<and>
    (enforces_policy (dp_safeguards d) \<longrightarrow> po_decision policy \<noteq> DENY) \<and>
    (\<forall>m. ws_monitor st = Some m \<longrightarrow> mr_evaluated_action_hash m = action_hash \<and>
       (enforces_monitor (dp_safeguards d) \<longrightarrow> mr_verdict m \<noteq> V_BLOCK)) \<and>
    hd_decision human = ''approve'' \<and> hd_token human = Some token \<and> hd_approver human = tok_approver token \<and>
    (\<forall>m. ws_monitor st = Some m \<longrightarrow> mr_verdict m = V_DEFER \<longrightarrow>
       (\<exists>reason. hd_reason human = Some reason \<and> strip reason \<noteq> [])) \<and>
    (\<exists>now. CheckedToken token action_hash (act_actor action) now True \<in> set (wd_log w)) \<and>
    key = idempotency_key (dp_uuid5 d) action_hash (idn_thread_id incident) \<and>
    ctx' = ctx\<lparr>ctx_idempotency_key := Some key\<rparr>"
proof -
  note inv = reachable_inv[OF assms(1)]
  have same: "ws_incident st = incident" "ws_context st = ctx" "ws_caller st = c"
    using inv_same_input[OF inv] by (simp_all add: same_input_def initial_state_def)
  have facts: "admitted d st" "routed d st R_approve" "approved st (wd_log w)"
      "execution_call st = Some (Executed action ctx' token action_hash key)"
    using inv_execution[OF inv _ assms(2)] by simp_all
  from facts(1) obtain policy where p: "ws_policy st = Some policy" by (auto simp: admitted_def)
  show ?thesis
    using facts routed_approve[OF facts(2) p] p same
    by (auto simp: admitted_def approved_def execution_call_def checked_def bound_def initial_state_def
        split: option.splits)
qed

text \<open>
  C25: the record comes first. In every reachable log an authorization is requested only after the
  decisions of the policy and of the monitor were recorded for its action hash; the executor is
  called only after a request and an accepted token for that hash and actor and the record of the
  approval; a verification only after an execution whose record is in the log.
\<close>

theorem record_precedes_effect:
  assumes "reaches d (initial_state incident ctx c) n st w" and "wd_log w = before @ x # after"
  shows "justified (initial_state incident ctx c) before x"
  using inv_ordered[OF reachable_inv[OF assms(1)]] assms(2) ordered_at by fastforce

text \<open>
  C24: one thread executes one operation. However often a run is interrupted and resumed, every
  call of the executor in its log is the same call, with the same action, context, token, hash and
  key.
\<close>

theorem execution_is_idempotent:
  assumes "reaches d (initial_state incident ctx c) n st w"
    and "x \<in> set (wd_log w)" "y \<in> set (wd_log w)" "is_execution x" "is_execution y"
  shows "x = y"
  using inv_execution[OF reachable_inv[OF assms(1)]] assms(2-5) by (metis option.inject)

text \<open>
  C26: a result tells what was done. A run that has ended carries a result. Either it is blocked
  without an operation and the executor was never called, or it carries the operation and the
  verification, the executor was called, and it is resolved exactly when the verification passed.
\<close>

theorem result_tells_execution:
  assumes "reaches d (initial_state incident ctx c) N_end st w"
  shows "\<exists>r. ws_result st = Some r \<and>
    (wr_operation r = None \<longleftrightarrow> no_execution (wd_log w)) \<and>
    (wr_operation r = None \<longrightarrow> wr_final_state r = ''blocked'') \<and>
    (wr_operation r \<noteq> None \<longrightarrow> (\<exists>verification. wr_verification r = Some verification \<and>
       wr_final_state r = (if vr_passed verification then ''resolved'' else ''blocked'') \<and>
       wr_reasons r = [if vr_passed verification then RECOVERY_VERIFIED else RECOVERY_FAILED]))"
proof -
  obtain r where r: "ws_result st = Some r" "closed d st r (wd_log w)" using reachable_inv[OF assms] by auto
  have "\<not> no_execution (wd_log w)" if "delivered (wd_log w) h" for h
    using that unfolding no_execution_def delivered_def by fastforce
  with r show ?thesis unfolding closed_def refused_def by auto
qed

text \<open>
  every terminal reason is of the frozen vocabulary, whatever the ports answer, as long as the
  proposer and the token validator keep to theirs and the policy configuration validates.
\<close>

theorem terminal_reasons_known:
  assumes "reaches d (initial_state incident ctx c) N_end st w" and "known_ports d"
  shows "\<exists>r. ws_result st = Some r \<and> list_all is_known_reason (wr_reasons r)"
  using reachable_inv[OF assms(1)] assms(2)
  by (auto simp: closed_def refused_def speaks_def)

section \<open>A run that crashes in the executor and is resumed\<close>

text \<open>The environment counts the deliveries; the first one loses its response.\<close>

definition example_incident :: incident_identity where
  "example_incident = \<lparr>idn_incident_id = ''INC-1'', idn_scenario_id = hd ACTION_TAKING_SCENARIOS,
     idn_thread_id = ''t'', idn_correlation_id = ''c'', idn_state = IS_OPEN\<rparr>"

definition example_call_context :: tool_call_context where
  "example_call_context = \<lparr>ctx_incident_id = ''INC-1'', ctx_thread_id = ''t'', ctx_correlation_id = ''c'',
     ctx_actor = ''op'', ctx_permission = ''operate'', ctx_idempotency_key = None\<rparr>"

definition example_caller :: caller where
  "example_caller = \<lparr>cal_actor = ''op'', cal_role = OPERATOR\<rparr>"

definition example_grant :: approval_token where
  "example_grant = \<lparr>apr_approval_id = 1, apr_action_hash = example_hash, apr_actor = ''op'',
     apr_expires_at = 100, apr_one_time_use_id = 2, apr_requested_at = 0, tok_token_id = 3,
     tok_approver = ''lead'', tok_approved_at = 5\<rparr>"

definition example_approval :: human_decision where
  "example_approval = \<lparr>hd_decision = ''approve'', hd_approver = ''lead'', hd_reason = None,
     hd_token = Some example_grant\<rparr>"

definition example_operation :: "tool_call_context \<Rightarrow> uuid \<Rightarrow> ledger_result" where
  "example_operation ctx key = \<lparr>lr_context = ctx, lr_idempotency_key = key,
     lr_action_hash = example_hash, lr_approval_token_id = 3, lr_one_time_use_id = 2,
     lr_status = SUCCEEDED, lr_operation_id = ''op'', lr_committed_at = 50, lr_result = None\<rparr>"

definition example_dependencies :: "(nat, unit) workflow_dependencies" where
  "example_dependencies = \<lparr>dp_sha = (\<lambda>_. example_hash), dp_uuid5 = length, dp_fullmatch = (=),
     dp_policy = example_configuration, dp_allowed_sources = [''metrics''], dp_evidence_clock = Pair 5,
     dp_collect = (\<lambda>_. Pair (Inr [example_record ''ok''])),
     dp_propose = (\<lambda>_ _ _ _. Pair (Inr (\<lparr>hyp_hypothesis_id = ''h'', hyp_statement = ''s'', hyp_confidence = 1,
       hyp_evidence_ids = [''e1'']\<rparr>, example_action))),
     dp_monitor = MonitorV1 (\<lambda>_ _. Pair (Inr \<lparr>mr_verdict = V_ALLOW, mr_suspicion_score = 0, mr_rationale = ''r'',
       mr_evaluated_action_hash = example_hash\<rparr>)),
     dp_validate_token = (\<lambda>_ _ _ _. Pair (Inr (True, TOKEN_VALID))),
     dp_execute = (\<lambda>_ ctx _ _ key env. (if env = 0 then Inl (ResponseLost ''lost'') else Inr (example_operation ctx key), Suc env)),
     dp_verify = (\<lambda>_ _. Pair (Inr \<lparr>vr_predicate = ''p'', vr_passed = True, vr_checked_at = 60, vr_evidence_ids = [''e1''],
       vr_detail = ''d''\<rparr>)),
     dp_emit = (\<lambda>_. Pair (Inr ())), dp_clock = Pair 5, dp_safeguards = PRODUCTION_SAFEGUARDS,
     dp_authorization = Some (\<lambda>_. Pair (Inr example_approval))\<rparr>"

definition example_start :: workflow_state where
  "example_start = initial_state example_incident example_call_context example_caller"

definition example_world :: "nat world" where
  "example_world = \<lparr>wd_log = [], wd_env = 0\<rparr>"

definition example_crash :: "run_end \<times> nat world" where
  "example_crash = run_graph example_dependencies None N_ingest example_start example_world"

definition example_resumed :: "run_end \<times> nat world" where
  "example_resumed = (case example_crash of
     (Failed n st e, w) \<Rightarrow> run_graph example_dependencies None n st w | r \<Rightarrow> r)"


lemma example_scenario [simp]: "hd ACTION_TAKING_SCENARIOS \<in> set ACTION_TAKING_SCENARIOS"
  by (rule hd_in_set) code_simp

definition example_validation :: evidence_validation where
  "example_validation = \<lparr>evv_state = VALID, evv_reasons = [EVIDENCE_VALID], evv_evidence_ids = [''e1''],
     evv_digest = [record_digest (example_record ''ok'')]\<rparr>"

definition example_outcome :: policy_outcome where
  "example_outcome = \<lparr>po_decision = REQUIRE_APPROVAL, po_policy_version = ''v1'', po_reasons = [POLICY_VALID],
     po_action_hash = example_hash\<rparr>"

lemma example_gates:
  "evidence_validate example_configuration [''metrics''] 5 example_action [example_record ''ok''] (Some example_call_context) =
     example_validation"
  "policy_evaluate (\<lambda>_. example_hash) (=) example_configuration example_action OPERATOR example_validation = Inr example_outcome"
proof -
  show "evidence_validate example_configuration [''metrics''] 5 example_action [example_record ''ok''] (Some example_call_context) =
     example_validation" by code_simp
  have "policy_reasons (=) (dict_get (pc_tools example_configuration) (act_tool_name example_action))
        example_action OPERATOR example_validation = Inr []" by code_simp
  then show "policy_evaluate (\<lambda>_. example_hash) (=) example_configuration example_action OPERATOR example_validation =
      Inr example_outcome"
    by (simp add: policy_evaluate_def example_configuration_def example_action_def dict_get_def canonical_action_hash_def
        example_outcome_def example_rule_def)
qed

lemma example_projections [simp]:
  "evv_state example_validation = VALID" "po_decision example_outcome = REQUIRE_APPROVAL"
  "po_action_hash example_outcome = example_hash" "act_actor example_action = ''op''"
  "dict_get (pc_tools example_configuration) (act_tool_name example_action) = Some example_rule"
  by (simp_all add: example_validation_def example_outcome_def example_action_def example_configuration_def dict_get_def)

lemmas effect_defs = returning_def raising_def bind_eff_def from_result_def port_def channel_def clock_def
  read_clock_def emit_event_def audit_def scenario_span_def

lemmas example_defs = example_dependencies_def example_start_def example_world_def initial_state_def
  example_incident_def example_caller_def

lemmas example_run_defs = run_graph.simps effect_defs node_defs example_defs evidence_step_def after_monitor_def
  decide_approval_def request_decision_def validate_human_def validated_def token_step_def Let_def
  example_call_context_def example_approval_def example_grant_def

lemma example_crash_facts:
  "\<exists>st e w. example_crash = (Failed N_execute st e, w) \<and> length (filter is_execution (wd_log w)) = 1"
  using example_gates unfolding example_crash_def by (simp add: example_run_defs)

lemma example_resumed_facts:
  "\<exists>st w. example_resumed = (Finished st, w) \<and> map_option wr_final_state (ws_result st) = Some ''resolved'' \<and>
     length (filter is_execution (wd_log w)) = 2"
  using example_gates unfolding example_resumed_def example_crash_def by (simp add: example_run_defs)

lemma example_reached:
  "\<exists>st e w x. example_crash = (Failed N_execute st e, w) \<and>
     reaches example_dependencies example_start N_execute st w \<and> x \<in> set (wd_log w) \<and> is_execution x"
proof -
  obtain st e w where c: "example_crash = (Failed N_execute st e, w)" "length (filter is_execution (wd_log w)) = 1"
    using example_crash_facts by blast
  have "reaches example_dependencies example_start N_ingest example_start example_world"
    by (rule reaches.start) (simp add: example_world_def)
  from run_graph_reaches[OF this c(1)[unfolded example_crash_def]]
  have "reaches example_dependencies example_start N_execute st w" by simp
  moreover obtain x where "x \<in> set (wd_log w)" "is_execution x"
    using c(2) by (metis filter_False list.size(3) zero_neq_one)
  ultimately show ?thesis using c(1) by blast
qed

lemma example_ended:
  "\<exists>st w. example_resumed = (Finished st, w) \<and> reaches example_dependencies example_start N_end st w \<and>
     map_option wr_final_state (ws_result st) = Some ''resolved'' \<and> length (filter is_execution (wd_log w)) = 2"
proof -
  obtain st e w where c: "example_crash = (Failed N_execute st e, w)"
      "reaches example_dependencies example_start N_execute st w"
    using example_reached by blast
  obtain st' w' where r: "example_resumed = (Finished st', w')"
      "map_option wr_final_state (ws_result st') = Some ''resolved''" "length (filter is_execution (wd_log w')) = 2"
    using example_resumed_facts by blast
  with c(1) have "run_graph example_dependencies None N_execute st w = (Finished st', w')"
    unfolding example_resumed_def c(1) by simp
  from run_graph_reaches[OF c(2) this] r show ?thesis by auto
qed

theorem execution_requires_authorization_witness:
  "\<exists>st e w action ctx token action_hash key now. example_crash = (Failed N_execute st e, w) \<and>
     Executed action ctx token action_hash key \<in> set (wd_log w) \<and> ws_action st = Some action \<and>
     CheckedToken token action_hash (act_actor action) now True \<in> set (wd_log w)"
proof -
  obtain st e w x where c: "example_crash = (Failed N_execute st e, w)"
      "reaches example_dependencies example_start N_execute st w" "x \<in> set (wd_log w)" "is_execution x"
    using example_reached by blast
  from c(4) obtain action ctx token h key where "x = Executed action ctx token h key"
    by (cases x) simp_all
  with c(3) have x: "Executed action ctx token h key \<in> set (wd_log w)" by simp
  from execution_requires_authorization[OF c(2)[unfolded example_start_def] x] c(1) x show ?thesis by blast
qed

theorem record_precedes_effect_witness:
  "\<exists>st e w before x after. example_crash = (Failed N_execute st e, w) \<and> wd_log w = before @ x # after \<and>
     is_execution x \<and> justified example_start before x"
proof -
  obtain st e w x where c: "example_crash = (Failed N_execute st e, w)"
      "reaches example_dependencies example_start N_execute st w" "x \<in> set (wd_log w)" "is_execution x"
    using example_reached by blast
  obtain before after where l: "wd_log w = before @ x # after" using c(3) by (meson split_list)
  from record_precedes_effect[OF c(2)[unfolded example_start_def] l] c l show ?thesis
    unfolding example_start_def by blast
qed

theorem execution_is_idempotent_witness:
  "\<exists>st w x y. example_resumed = (Finished st, w) \<and> filter is_execution (wd_log w) = [x, y] \<and> x = y"
proof -
  obtain st w where c: "example_resumed = (Finished st, w)"
      "reaches example_dependencies example_start N_end st w" "length (filter is_execution (wd_log w)) = 2"
    using example_ended by blast
  from c(3) obtain x y where xy: "filter is_execution (wd_log w) = [x, y]"
    by (auto simp: length_Suc_conv numeral_2_eq_2)
  then have "x \<in> set (filter is_execution (wd_log w))" "y \<in> set (filter is_execution (wd_log w))" by simp_all
  then have "x = y" using execution_is_idempotent[OF c(2)[unfolded example_start_def]] by simp
  with c(1) xy show ?thesis by blast
qed

theorem result_tells_execution_witness:
  "\<exists>st w r. example_resumed = (Finished st, w) \<and> ws_result st = Some r \<and> wr_final_state r = ''resolved'' \<and>
     wr_operation r \<noteq> None \<and> wr_reasons r = [RECOVERY_VERIFIED]"
proof -
  obtain st w where c: "example_resumed = (Finished st, w)"
      "reaches example_dependencies example_start N_end st w"
      "map_option wr_final_state (ws_result st) = Some ''resolved''"
    using example_ended by blast
  from result_tells_execution[OF c(2)[unfolded example_start_def]] c show ?thesis by (auto split: if_splits)
qed

theorem terminal_reasons_known_witness:
  "\<exists>st w r. example_resumed = (Finished st, w) \<and> ws_result st = Some r \<and> list_all is_known_reason (wr_reasons r)"
proof -
  obtain st w where c: "example_resumed = (Finished st, w)"
      "reaches example_dependencies example_start N_end st w"
    using example_ended by blast
  have "citing example_action" unfolding citing_def using example_action_valid by (auto simp: example_action_def)
  moreover have "TOKEN_VALID \<in> set TOKEN_CAUSES" by code_simp
  ultimately have "known_ports example_dependencies"
    using example_configuration_valid by (auto simp: known_ports_def example_dependencies_def)
  from terminal_reasons_known[OF c(2)[unfolded example_start_def] this] c(1) show ?thesis by auto
qed

end
