(* ===== verification/Collection.thy ===== *)
theory Collection
  imports Observability
begin

text \<open>
  The durable collections of \<open>lab/repository.py\<close> over their whole life. A run of R05, R10 or R11 is
  a cursor and the evidence links it has committed; the locale \<open>ordered_collection\<close> is the contract
  between such a cursor and the store, and its client theory shows that whatever happens between two
  calls the run can be resumed and holds the reads of its order, none skipped and none repeated. It
  is interpreted on the tables of R05 and of R10 and R11. \<open>collection_step\<close> is what a store goes
  through: reads, attempts, resets, new sources and every step of the operations.
\<close>

section \<open>What happens to a store\<close>

definition empty_observability :: "lab_db \<Rightarrow> observability" where
  "empty_observability db = \<lparr>ob_lab = db, ob_sources = [], ob_records = [], ob_d6_runs = [], ob_r05_runs = [],
     ob_partner_runs = [], ob_r05_evidence = [], ob_partner_evidence = [], ob_attempt_runs = [], ob_attempts = []\<rparr>"

inductive collection_step :: "observability \<Rightarrow> observability \<Rightarrow> bool" where
  read: "evidence env ctx kind ob = Inr (record, ob') \<Longrightarrow> collection_step ob ob'"
| attempt: "begin_collection_attempt env ctx scenario ob = Inr (outcome, ob') \<Longrightarrow> collection_step ob ob'"
| reset: "collection_step ob (delete_incident_reads incident ob)"
| source: "collection_step ob (ob\<lparr>ob_sources := sources\<rparr>)"
| operate: "collection_step ob (ob\<lparr>ob_lab := db\<rparr>)"

inductive collection_reachable :: "observability \<Rightarrow> bool" where
  start: "collection_reachable (empty_observability db)"
| step: "collection_reachable ob \<Longrightarrow> collection_step ob ob' \<Longrightarrow> collection_reachable ob'"

lemma collection_induct [consumes 1, case_names start read attempt reset source operate]:
  assumes "collection_reachable ob"
    and "\<And>db. P (empty_observability db)"
    and "\<And>ob env ctx kind record ob'. P ob \<Longrightarrow> evidence env ctx kind ob = Inr (record, ob') \<Longrightarrow> P ob'"
    and "\<And>ob env ctx scenario outcome ob'. P ob \<Longrightarrow>
      begin_collection_attempt env ctx scenario ob = Inr (outcome, ob') \<Longrightarrow> P ob'"
    and "\<And>ob incident. P ob \<Longrightarrow> P (delete_incident_reads incident ob)"
    and "\<And>ob sources. P ob \<Longrightarrow> P (ob\<lparr>ob_sources := sources\<rparr>)"
    and "\<And>ob db. P ob \<Longrightarrow> P (ob\<lparr>ob_lab := db\<rparr>)"
  shows "P ob"
  using assms(1)
proof induction
  case (step ob ob')
  from step(2) step(3) show ?case by cases (use assms in blast)+
qed (rule assms(2))

section \<open>What one read changes\<close>

definition incident_of :: "run_key \<Rightarrow> string" where
  "incident_of key = fst key"

lemma incident_of_run_key [simp]: "incident_of (run_key ctx) = ctx_incident_id ctx"
  by (simp add: incident_of_def run_key_def)

lemma if_InrE:
  "(if c then a else b) = Inr x \<Longrightarrow> (c \<Longrightarrow> a = Inr x \<Longrightarrow> P) \<Longrightarrow> (\<not> c \<Longrightarrow> b = Inr x \<Longrightarrow> P) \<Longrightarrow> P"
  by (simp split: if_splits)

lemma fresh_source_Inr:
  "fresh_source env ctx kind payload number ob = Inr o' \<longleftrightarrow>
     \<not> list_ex (\<lambda>s. so_source_id s = re_source_id env) (ob_sources ob) \<and>
     o' = \<lparr>os_source_id = re_source_id env, os_payload = payload, os_observed_at = re_now env, os_number = number,
        os_store = ob\<lparr>ob_sources := ob_sources ob @ [\<lparr>so_source_id = re_source_id env,
          so_incident_id = ctx_incident_id ctx, so_kind = kind, so_payload = payload,
          so_observed_at = re_now env\<rparr>]\<rparr>\<rparr>"
  by (auto simp: fresh_source_def)

definition with_run :: "run_key \<Rightarrow> read_run \<Rightarrow> (run_key \<times> read_run) list \<Rightarrow> (run_key \<times> read_run) list" where
  "with_run key run runs = (if map_of runs key = None then runs @ [(key, run)] else runs)"

lemma ensure_run_Inr:
  "ensure_run table key run runs = Inr runs' \<longleftrightarrow> rr_permission run = READ_PERMISSION \<and> runs' = with_run key run runs"
  by (auto simp: ensure_run_def with_run_def)

lemma map_of_update_run:
  "map_of (update_run key f runs) k = (if k = key then map_option f (map_of runs k) else map_of runs k)"
  by (induction runs) (auto simp: update_run_def)

lemma map_of_with_run:
  "map_of (with_run key run runs) k =
     (if k = key \<and> map_of runs key = None then Some run else map_of runs k)"
  by (auto simp: with_run_def map_add_def split: option.splits)

lemma owned_run_Inr:
  "owned_run message ctx (with_run (run_key ctx) new runs) = Inr run \<longleftrightarrow>
     (map_of runs (run_key ctx) = Some run \<or> map_of runs (run_key ctx) = None \<and> run = new) \<and>
     rr_actor run = ctx_actor ctx \<and> rr_permission run = ctx_permission ctx"
  by (auto simp: owned_run_def map_of_with_run split: option.splits)

definition cursor_of :: "tool_call_context \<Rightarrow> read_run \<Rightarrow> (run_key \<times> read_run) list \<Rightarrow> bool" where
  "cursor_of ctx run runs =
     ((map_of runs (run_key ctx) = Some run \<or>
       map_of runs (run_key ctx) = None \<and> rr_next_read run = 0 \<and> rr_elapsed run = 0) \<and>
      rr_actor run = ctx_actor ctx \<and> rr_permission run = ctx_permission ctx)"

lemma r05_read_Inr:
  assumes "r05_read env ctx kind ob = Inr (n, payload, ob')"
  shows "\<exists>run new. cursor_of ctx run (ob_r05_runs ob) \<and> n = Suc (rr_next_read run) \<and> n \<le> 3 \<and>
    kind = R05_ORDER ! (n - 1) \<and> payload = r05_payload n (rr_elapsed run) kind \<and>
    (map_of (ob_r05_runs ob) (run_key ctx) = None \<longrightarrow> new = run) \<and>
    ob' = ob\<lparr>ob_r05_runs := update_run (run_key ctx) (\<lambda>r. r\<lparr>rr_next_read := n,
         rr_elapsed := (if n = 2 then 45 else rr_elapsed run)\<rparr>) (with_run (run_key ctx) new (ob_r05_runs ob))\<rparr>"
proof -
  let ?new = "new_run ctx (re_now env)"
  obtain run where run: "owned_run ''R05 collection owner mismatch'' ctx (with_run (run_key ctx) ?new (ob_r05_runs ob)) = Inr run"
    and rest: "n = rr_next_read run + 1" "\<not> (n = 1 \<and> kind \<noteq> ''database_locks'' \<or> n = 2 \<and> kind \<noteq> ''query_metrics'' \<or>
        n = 3 \<and> kind \<noteq> ''database_locks'' \<or> n > 3)" "payload = r05_payload n (rr_elapsed run) kind"
      "ob' = ob\<lparr>ob_r05_runs := update_run (run_key ctx) (\<lambda>r. r\<lparr>rr_next_read := n,
         rr_elapsed := (if n = 2 then 45 else rr_elapsed run)\<rparr>) (with_run (run_key ctx) ?new (ob_r05_runs ob))\<rparr>"
    using assms unfolding r05_read_def bind_res_eq_Inr ensure_run_Inr Let_def by (force split: if_splits)
  have "n = 1 \<or> n = 2 \<or> n = 3" using rest(1,2) by linarith
  then have "n \<le> 3" "kind = R05_ORDER ! (n - 1)" using rest(2) by (auto simp: R05_ORDER_def)
  with run rest(1,3,4) show ?thesis unfolding owned_run_Inr
    by (intro exI[of _ run] exI[of _ ?new]) (auto simp: cursor_of_def new_run_def)
qed

lemma begin_partner_read_Inr:
  assumes "begin_partner_read ctx scenario kind ob = Inr (n, ob')"
  shows "\<exists>run new. cursor_of ctx run (ob_partner_runs ob) \<and> n = Suc (rr_next_read run) \<and> n \<le> 2 \<and>
    kind = [partner_opening scenario, ''dependency_metrics''] ! (n - 1) \<and>
    (map_of (ob_partner_runs ob) (run_key ctx) = None \<longrightarrow> new = run) \<and>
    ob' = ob\<lparr>ob_partner_runs := update_run (run_key ctx) (\<lambda>r. r\<lparr>rr_next_read := n\<rparr>)
         (with_run (run_key ctx) new (ob_partner_runs ob))\<rparr>"
proof -
  let ?new = "new_run ctx 0"
  obtain run where run: "owned_run (scenario @ '' collection owner mismatch'') ctx
        (with_run (run_key ctx) ?new (ob_partner_runs ob)) = Inr run"
    and rest: "n = rr_next_read run + 1" "\<not> (n > 2 \<or> kind \<noteq> (if n = 1 then partner_opening scenario else ''dependency_metrics''))"
      "ob' = ob\<lparr>ob_partner_runs := update_run (run_key ctx) (\<lambda>r. r\<lparr>rr_next_read := n\<rparr>)
         (with_run (run_key ctx) ?new (ob_partner_runs ob))\<rparr>"
  proof (cases "ctx_permission ctx \<noteq> READ_PERMISSION \<or> ctx_idempotency_key ctx \<noteq> None")
    case False
    then have "\<exists>run. owned_run (scenario @ '' collection owner mismatch'') ctx
        (with_run (run_key ctx) ?new (ob_partner_runs ob)) = Inr run \<and>
      (if rr_next_read run + 1 > 2 \<or> kind \<noteq> (if rr_next_read run + 1 = 1 then partner_opening scenario else ''dependency_metrics'')
       then Inl (ValueError (scenario @ '' collection order mismatch''))
       else Inr (rr_next_read run + 1, ob\<lparr>ob_partner_runs := update_run (run_key ctx)
         (\<lambda>r. r\<lparr>rr_next_read := rr_next_read run + 1\<rparr>) (with_run (run_key ctx) ?new (ob_partner_runs ob))\<rparr>)) = Inr (n, ob')"
      using assms unfolding begin_partner_read_def if_not_P[OF False] bind_res_eq_Inr ensure_run_Inr Let_def by blast
    then show thesis using that by (elim exE conjE) (simp split: if_split_asm)
  qed (use assms in \<open>simp add: begin_partner_read_def\<close>)
  have "n = 1 \<or> n = 2" using rest(1,2) by linarith
  then have "n \<le> 2" "kind = [partner_opening scenario, ''dependency_metrics''] ! (n - 1)" using rest(2) by auto
  with run rest(1,3) show ?thesis unfolding owned_run_Inr
    by (intro exI[of _ run] exI[of _ ?new]) (auto simp: cursor_of_def new_run_def)
qed

lemma injected_fixture_Inr:
  "injected_fixture ob key message = Inr row \<longleftrightarrow> db_fixtures (ob_lab ob) key = Some row \<and> injected row"
  by (auto simp: injected_fixture_def split: option.splits)

text \<open>An attempt extends the ledger of attempts, or ends the collection.\<close>

definition new_attempt :: "read_env \<Rightarrow> tool_call_context \<Rightarrow> string \<Rightarrow> int \<Rightarrow> attempt_row" where
  "new_attempt env ctx scenario number = \<lparr>ta_key = run_key ctx, ta_actor = ctx_actor ctx,
     ta_permission = ctx_permission ctx, ta_scenario_id = scenario, ta_attempt_number = number,
     ta_reason = (if scenario = ''D4'' then UPSTREAM_TIMEOUT else OBSERVABILITY_TOOL_TIMEOUT),
     ta_recorded_at = re_now env\<rparr>"

lemma four_way:
  "(if c1 then Inl e else if c2 then Inr (a, s1) else if c3 then Inr (b, s1) else Inr (d, s2)) = Inr (x, s) \<Longrightarrow>
     (x = a \<or> c3 \<and> x = b) \<and> s = s1 \<or> \<not> c3 \<and> x = d \<and> s = s2"
  by (auto split: if_splits)

lemma begin_collection_attempt_Inr:
  assumes "begin_collection_attempt env ctx sid ob = Inr (outcome, ob')"
  shows "\<exists>scenario row runs. checkpoint_scenario sid = Inr (scenario, ctx_incident_id ctx) \<and> scenario \<in> {''D4'', ''D7''} \<and>
    ctx_permission ctx = READ_PERMISSION \<and>
    db_fixtures (ob_lab ob) (''collection_fault_state'', scenario) = Some row \<and>
    (let number = fold max (map ta_attempt_number (attempts_of ob ctx)) 0 + 1 in
      (fst outcome = None \<and> (snd outcome = TIME_BUDGET_EXHAUSTED \<or>
         int_of (column row ''retry_budget'') + 1 < number \<and> snd outcome = RETRY_BUDGET_EXHAUSTED) \<and>
       ob' = ob\<lparr>ob_attempt_runs := runs\<rparr>) \<or>
      (fst outcome = Some number \<and> number \<le> int_of (column row ''retry_budget'') + 1 \<and>
       ob' = ob\<lparr>ob_attempt_runs := runs, ob_attempts := ob_attempts ob @ [new_attempt env ctx scenario number]\<rparr>))"
proof -
  obtain scenario incident where c: "checkpoint_scenario sid = Inr (scenario, incident)"
    using assms unfolding begin_collection_attempt_def bind_res_eq_Inr by auto
  have bad: "\<not> (scenario \<notin> {''D4'', ''D7''} \<or> ctx_incident_id ctx \<noteq> incident)" (is "\<not> ?bad")
    using assms c unfolding begin_collection_attempt_def by (cases ?bad) simp_all
  have perm: "\<not> (ctx_permission ctx \<noteq> READ_PERMISSION \<or> ctx_idempotency_key ctx \<noteq> None)" (is "\<not> ?perm")
    using assms[unfolded begin_collection_attempt_def c bind_res_Inr prod.case if_not_P[OF bad]] by (cases ?perm) simp_all
  from assms[unfolded begin_collection_attempt_def c bind_res_Inr prod.case if_not_P[OF bad] if_not_P[OF perm]
      bind_res_eq_Inr injected_fixture_Inr Let_def]
  show ?thesis
  proof (elim exE conjE, goal_cases)
    case (1 row)
    let ?new = "\<lparr>tr_scenario_id = scenario, tr_actor = ctx_actor ctx, tr_permission = ctx_permission ctx,
        tr_started_at = re_now env\<rparr>"
    from four_way[OF 1(1)] show ?case
      using c bad perm 1(2) unfolding Let_def new_attempt_def
      by (intro exI[of _ scenario] exI[of _ row]
          exI[of _ "if map_of (ob_attempt_runs ob) (run_key ctx) = None
             then ob_attempt_runs ob @ [(run_key ctx, ?new)] else ob_attempt_runs ob"]) (elim disjE conjE; simp)
  qed
qed

text \<open>The stores an observation may come from: the sources and the cursor of its own scenario change.\<close>

definition reads_framed :: "string \<Rightarrow> observability \<Rightarrow> observability \<Rightarrow> bool" where
  "reads_framed incident ob ob' =
     (ob_lab ob' = ob_lab ob \<and> ob_records ob' = ob_records ob \<and> ob_r05_evidence ob' = ob_r05_evidence ob \<and>
      ob_partner_evidence ob' = ob_partner_evidence ob \<and> ob_attempt_runs ob' = ob_attempt_runs ob \<and>
      ob_attempts ob' = ob_attempts ob \<and>
      (incident_scenario incident \<noteq> Some ''R05'' \<longrightarrow> ob_r05_runs ob' = ob_r05_runs ob) \<and>
      (incident_scenario incident \<notin> {Some ''R10'', Some ''R11''} \<longrightarrow> ob_partner_runs ob' = ob_partner_runs ob) \<and>
      (incident \<noteq> ''INC-D6'' \<longrightarrow> ob_d6_runs ob' = ob_d6_runs ob))"

lemma reads_framed_refl [simp]: "reads_framed i ob ob"
  by (simp add: reads_framed_def)

lemma fresh_source_framed:
  "fresh_source env ctx kind payload number ob1 = Inr o' \<Longrightarrow> reads_framed i ob ob1 \<Longrightarrow> reads_framed i ob (os_store o')"
  by (auto simp: fresh_source_Inr reads_framed_def)

lemma d6_read_Inr:
  assumes "d6_read env ctx ob = Inr (n, ob')"
  shows "\<exists>runs. ob' = ob\<lparr>ob_d6_runs := runs\<rparr>"
proof -
  have "\<not> (map_of (ob_d6_runs ob) (run_key ctx) = None \<and>
         list_ex (\<lambda>((i, t, c), run). i = ctx_incident_id ctx \<and> t = ctx_thread_id ctx) (ob_d6_runs ob))" (is "\<not> ?taken")
    using assms unfolding d6_read_def by (cases ?taken) simp_all
  from assms show ?thesis
    unfolding d6_read_def if_not_P[OF \<open>\<not> ?taken\<close>] bind_res_eq_Inr Let_def by (auto split: if_splits)
qed

lemma incident_scenario_eq:
  "incident_scenario i = Some s \<longleftrightarrow> s \<in> set CHECKPOINT_SCENARIOS \<and> i = ''INC-'' @ s"
proof -
  have "distinct (map fst (map (\<lambda>s. (''INC-'' @ s, s)) CHECKPOINT_SCENARIOS))"
    by (simp add: CHECKPOINT_SCENARIOS_def)
  then show ?thesis unfolding incident_scenario_def dict_get_def map_of_eq_Some_iff[OF \<open>distinct _\<close>] by auto
qed

lemma observe_framed:
  assumes "observe env ctx kind ob = Inr o'"
  shows "reads_framed (ctx_incident_id ctx) ob (os_store o')"
proof -
  let ?i = "ctx_incident_id ctx"
  let ?s = "incident_scenario ?i"
  let ?n = "case ?s of None \<Rightarrow> [] | Some s \<Rightarrow> s"
  have rel: "reads_framed ?i ob (os_store o')" if o: "observe_reliability env ctx n kind ob = Inr o'" "?s = Some n" for n
  proof -
    obtain row where row: "(if n = ''R05'' then
         bind_res (r05_read env ctx kind ob) (\<lambda>(number, payload, ob1). fresh_source env ctx kind payload number ob1)
       else if n \<in> {''R10'', ''R11''} then
         bind_res (begin_partner_read ctx n kind ob) (\<lambda>(number, ob1).
         fresh_source env ctx kind (partner_payload n row number) number ob1)
       else fresh_source env ctx kind (reliability_payload n row kind) 0 ob) = Inr o'"
      using o unfolding observe_reliability_def bind_res_eq_Inr by blast
    consider "n = ''R05''" | "n = ''R10'' \<or> n = ''R11''" | "n \<noteq> ''R05''" "n \<notin> {''R10'', ''R11''}" by blast
    then show ?thesis
    proof cases
      case 1
      then obtain k p ob1 where "r05_read env ctx kind ob = Inr (k, p, ob1)" "fresh_source env ctx kind p k ob1 = Inr o'"
        using row by (auto simp: bind_res_eq_Inr)
      moreover from this have "reads_framed ?i ob ob1" using r05_read_Inr[of env ctx kind ob k p ob1] 1 o(2) by (auto simp: reads_framed_def)
      ultimately show ?thesis using fresh_source_framed by blast
    next
      case 2
      then obtain k ob1 where "begin_partner_read ctx n kind ob = Inr (k, ob1)"
          "fresh_source env ctx kind (partner_payload n row k) k ob1 = Inr o'"
        using row by (auto simp: bind_res_eq_Inr)
      moreover from this have "reads_framed ?i ob ob1" using begin_partner_read_Inr[of ctx n kind ob k ob1] 2 o(2) by (auto simp: reads_framed_def)
      ultimately show ?thesis using fresh_source_framed by blast
    next
      case 3
      then show ?thesis using row fresh_source_framed by simp
    qed
  qed
  have d6: "reads_framed ?i ob (os_store o')" if o: "observe_d6_health env ctx ob = Inr o'" "?i = ''INC-D6''"
  proof -
    obtain k ob1 where k: "d6_read env ctx ob = Inr (k, ob1)"
      and r: "(if k = 1 then (case earliest_source (sources_of ob1 ''INC-D6'' ''health'') of
          None \<Rightarrow> Inl (RuntimeError ''AssertionError'') | Some s \<Rightarrow> Inr (stored_source s (so_payload s) ob1))
        else fresh_source env ctx ''health'' [(''component'', PStr ''api''), (''status'', PInt 200), (''freshness'', PStr ''fresh''),
          (''checked_at'', PStr (re_isoformat env (re_now env)))] 0 ob1) = Inr o'"
      using o unfolding observe_d6_health_def bind_res_eq_Inr by auto
    then have "reads_framed ?i ob ob1" using d6_read_Inr[OF k] o(2) by (auto simp: reads_framed_def)
    then show ?thesis using r fresh_source_framed
      by (auto simp: stored_source_def split: if_splits option.splits)
  qed
  have bound: "(\<And>row. f row = Inr o' \<Longrightarrow> reads_framed ?i ob (os_store o')) \<Longrightarrow>
      bind_res (injected_fixture ob key m) f = Inr o' \<Longrightarrow> reads_framed ?i ob (os_store o')" for key m f
    by (auto simp: bind_res_eq_Inr)
  note fresh = fresh_source_framed[OF _ reads_framed_refl]
  have tgt: "reads_framed ?i ob (os_store o')" if "observe_target env ctx sc kind ob = Inr o'" for sc
    using that fresh unfolding observe_target_def by (auto split: option.splits)
  have imm: "reads_framed ?i ob (os_store o')" if "observe_immutable env ctx kind ob = Inr o'"
    using that unfolding observe_immutable_def by (auto simp: stored_source_def split: option.splits)
  show ?thesis
  proof (cases "?n \<in> {''R01'', ''R02'', ''R03'', ''R04'', ''R05'', ''R06'', ''R07'', ''R08'', ''R09'', ''R10'',
        ''R11'', ''R12''}")
    case True
    then have "?s = Some ?n" by (auto split: option.splits)
    moreover from True assms have "observe_reliability env ctx ?n kind ob = Inr o'"
      unfolding observe_def Let_def by (elim insertE emptyE; simp)
    ultimately show ?thesis using rel by blast
  next
    case False
    have sab: "reads_framed ?i ob (os_store o')" if "observe_sabotage env ctx ?n kind ob = Inr o'"
      using that unfolding observe_sabotage_def by (rule bound[OF fresh, rotated])
    have d7: "reads_framed ?i ob (os_store o')" if "observe_d7 env ctx kind ob = Inr o'"
      using that unfolding observe_d7_def by (rule bound[OF fresh, rotated])
    from assms show ?thesis
      unfolding observe_def Let_def if_not_P[OF False]
      by (elim if_InrE) (assumption | erule sab d7 bound[OF fresh, rotated] tgt imm | erule d6, blast)+
  qed
qed

lemma evidence_Inr:
  assumes "evidence env ctx kind ob = Inr (e, ob')"
  obtains o' where "observe env ctx kind ob = Inr o'" "e = evidence_of env ctx kind o'"
    "record_evidence e kind (os_number o') (os_store o') = Inr ob'"
    "ob_records ob' = ob_records ob @ [e]" "\<not> list_ex (\<lambda>r. le_evidence_id r = le_evidence_id e) (ob_records ob)"
proof -
  from assms obtain o' where o: "observe env ctx kind ob = Inr o'" "e = evidence_of env ctx kind o'"
      "record_evidence e kind (os_number o') (os_store o') = Inr ob'"
    unfolding evidence_def by (auto simp: bind_res_eq_Inr elim!: if_InrE)
  moreover have "ob_records (os_store o') = ob_records ob"
    using observe_framed[OF o(1)] by (simp add: reads_framed_def)
  ultimately show thesis using that o by (auto simp: record_evidence_def Let_def split: if_splits)
qed

text \<open>A read changes nothing the operations decide on but the evidence they may cite.\<close>

lemma evidence_lab:
  assumes "evidence env ctx kind ob = Inr (e, ob')"
  shows "\<exists>rows. ob_lab ob' = (ob_lab ob)\<lparr>db_evidence := rows\<rparr>"
  using assms
proof (cases rule: evidence_Inr)
  case (1 o')
  then show ?thesis using observe_framed[OF 1(1)]
    by (auto simp: record_evidence_def Let_def reads_framed_def split: if_splits)
qed

lemma evidence_of_fields [simp]:
  "le_incident_id (evidence_of env ctx kind o') = ctx_incident_id ctx"
  "le_thread_id (evidence_of env ctx kind o') = ctx_thread_id ctx"
  "le_correlation_id (evidence_of env ctx kind o') = ctx_correlation_id ctx"
  "le_actor (evidence_of env ctx kind o') = ctx_actor ctx"
  "le_permission (evidence_of env ctx kind o') = ctx_permission ctx"
  "le_tool_name (evidence_of env ctx kind o') = evidence_tool_name kind"
  "le_payload (evidence_of env ctx kind o') = os_payload o'"
  by (simp_all add: evidence_of_def)

section \<open>Stored records\<close>

lemma stored_record_append:
  "stored_record ob i = Some e \<Longrightarrow> ob_records ob' = ob_records ob @ es \<Longrightarrow> stored_record ob' i = Some e"
  by (simp add: stored_record_def find_append)

lemma stored_record_new:
  "\<not> list_ex (\<lambda>r. le_evidence_id r = le_evidence_id e) (ob_records ob) \<Longrightarrow> ob_records ob' = ob_records ob @ [e] \<Longrightarrow>
     stored_record ob' (le_evidence_id e) = Some e"
  by (cases "find (\<lambda>r. le_evidence_id r = le_evidence_id e) (ob_records ob)")
    (auto simp: stored_record_def find_append list_ex_iff find_Some_iff)

lemma find_filter: "find P xs = Some x \<Longrightarrow> Q x \<Longrightarrow> find P (filter Q xs) = Some x"
  by (induction xs) (auto split: if_splits)

lemma stored_record_delete:
  "stored_record ob i = Some e \<Longrightarrow> le_incident_id e \<noteq> incident \<Longrightarrow>
     stored_record (delete_incident_reads incident ob) i = Some e"
  by (simp add: stored_record_def delete_incident_reads_def find_filter)

lemma reads_of_append: "reads_of (xs @ ys) key = reads_of xs key @ reads_of ys key"
  by (simp add: reads_of_def)

lemma reads_of_single: "reads_of [(k, n, i)] key = (if k = key then [(n, i)] else [])"
  by (simp add: reads_of_def)

lemma reads_of_filter:
  "reads_of (filter (\<lambda>r. fst (fst r) \<noteq> i) xs) key = (if incident_of key = i then [] else reads_of xs key)"
  by (induction xs) (auto simp: reads_of_def incident_of_def)

lemma map_of_filter_incident:
  "map_of (filter (\<lambda>r. fst (fst r) \<noteq> i) xs) key = (if incident_of key = i then None else map_of xs key)"
  by (induction xs) (auto simp: incident_of_def)

section \<open>Ordered collections\<close>

text \<open>
  A read of a run: its number, the identifier of its record, and the record, which carries the
  envelope of the run, the kind the order prescribes and the content of that position.
\<close>

definition read_stored ::
  "(string \<Rightarrow> string list) \<Rightarrow> (string \<Rightarrow> nat \<Rightarrow> (string \<times> py) list \<Rightarrow> bool) \<Rightarrow> observability \<Rightarrow> run_key \<Rightarrow> read_run \<Rightarrow>
   nat \<times> string \<Rightarrow> bool" where
  "read_stored order content ob key run = (\<lambda>(n, i). \<exists>e. stored_record ob i = Some e \<and>
     (le_incident_id e, le_thread_id e, le_correlation_id e) = key \<and> le_actor e = rr_actor run \<and>
     le_permission e = rr_permission run \<and> le_tool_name e = evidence_tool_name (order (incident_of key) ! (n - 1)) \<and>
     content (incident_of key) n (le_payload e))"

definition run_collected ::
  "(string \<Rightarrow> string list) \<Rightarrow> (nat \<Rightarrow> int) \<Rightarrow> (string \<Rightarrow> nat \<Rightarrow> (string \<times> py) list \<Rightarrow> bool) \<Rightarrow>
   (run_key \<times> nat \<times> string) list \<Rightarrow> observability \<Rightarrow> run_key \<Rightarrow> read_run \<Rightarrow> bool" where
  "run_collected order elapsed content links ob key run =
     (0 < rr_next_read run \<and> rr_next_read run \<le> length (order (incident_of key)) \<and>
      rr_elapsed run = elapsed (rr_next_read run) \<and>
      map fst (reads_of links key) = [1..<Suc (rr_next_read run)] \<and>
      (\<forall>p \<in> set (reads_of links key). read_stored order content ob key run p))"

locale ordered_collection =
  fixes incidents :: "string set"
    and runs :: "observability \<Rightarrow> (run_key \<times> read_run) list"
    and links :: "observability \<Rightarrow> (run_key \<times> nat \<times> string) list"
    and order :: "string \<Rightarrow> string list"
    and elapsed :: "nat \<Rightarrow> int"
    and content :: "string \<Rightarrow> nat \<Rightarrow> (string \<times> py) list \<Rightarrow> bool"
  assumes elapsed_0: "elapsed 0 = 0"
    and advances: "\<And>env ctx kind ob o'. observe env ctx kind ob = Inr o' \<Longrightarrow> ctx_incident_id ctx \<in> incidents \<Longrightarrow>
      \<exists>run run'. cursor_of ctx run (runs ob) \<and> os_number o' = Suc (rr_next_read run) \<and>
        os_number o' \<le> length (order (ctx_incident_id ctx)) \<and> kind = order (ctx_incident_id ctx) ! rr_next_read run \<and>
        (rr_elapsed run = elapsed (rr_next_read run) \<longrightarrow>
           content (ctx_incident_id ctx) (os_number o') (os_payload o') \<and> rr_elapsed run' = elapsed (os_number o')) \<and>
        rr_actor run' = rr_actor run \<and> rr_permission run' = rr_permission run \<and> rr_next_read run' = os_number o' \<and>
        map_of (runs (os_store o')) = (map_of (runs ob))(run_key ctx \<mapsto> run')"
    and others: "\<And>env ctx kind ob o'. observe env ctx kind ob = Inr o' \<Longrightarrow> ctx_incident_id ctx \<notin> incidents \<Longrightarrow>
      runs (os_store o') = runs ob"
    and observed: "\<And>env ctx kind ob o'. observe env ctx kind ob = Inr o' \<Longrightarrow> links (os_store o') = links ob"
    and recorded: "\<And>e kind n ob ob'. record_evidence e kind n ob = Inr ob' \<Longrightarrow> runs ob' = runs ob \<and>
      links ob' = links ob @ (if le_incident_id e \<in> incidents
        then [((le_incident_id e, le_thread_id e, le_correlation_id e), n, le_evidence_id e)] else [])"
    and attempted: "\<And>env ctx scenario ob outcome ob'. begin_collection_attempt env ctx scenario ob = Inr (outcome, ob') \<Longrightarrow>
      runs ob' = runs ob \<and> links ob' = links ob"
    and deleted: "\<And>i ob. runs (delete_incident_reads i ob) = filter (\<lambda>r. fst (fst r) \<noteq> i) (runs ob) \<and>
      links (delete_incident_reads i ob) = filter (\<lambda>r. fst (fst r) \<noteq> i) (links ob)"
    and sourced: "\<And>ob sources. runs (ob\<lparr>ob_sources := sources\<rparr>) = runs ob \<and> links (ob\<lparr>ob_sources := sources\<rparr>) = links ob"
    and operated: "\<And>ob db. runs (ob\<lparr>ob_lab := db\<rparr>) = runs ob \<and> links (ob\<lparr>ob_lab := db\<rparr>) = links ob"
    and initially: "\<And>db. runs (empty_observability db) = [] \<and> links (empty_observability db) = []"
begin

abbreviation collected :: "observability \<Rightarrow> bool" where
  "collected ob \<equiv> (\<forall>key run. map_of (runs ob) key = Some run \<longrightarrow> run_collected order elapsed content (links ob) ob key run) \<and>
     (\<forall>key. map_of (runs ob) key = None \<longrightarrow> reads_of (links ob) key = [])"

lemma run_collected_append:
  assumes "run_collected order elapsed content ls ob key run" "ob_records ob' = ob_records ob @ es"
    and "reads_of ls' key = reads_of ls key"
  shows "run_collected order elapsed content ls' ob' key run"
  using assms unfolding run_collected_def read_stored_def
  by (fastforce dest: stored_record_append[OF _ assms(2)])

lemma collected_same:
  assumes "collected ob" "runs ob' = runs ob" "links ob' = links ob" "ob_records ob' = ob_records ob @ es"
  shows "collected ob'"
  using assms(1) run_collected_append[OF _ assms(4), of "links ob" _ _ "links ob'"] unfolding assms(2,3) by blast

lemma collected_record:
  assumes inv: "collected ob" and e: "evidence env ctx kind ob = Inr (e, ob')"
  shows "collected ob'"
  using e
proof (cases rule: evidence_Inr)
  case (1 o')
  let ?i = "ctx_incident_id ctx" and ?k = "run_key ctx"
  have ls: "links ob' = links ob @ (if ?i \<in> incidents then [(?k, os_number o', le_evidence_id e)] else [])"
    "runs ob' = runs (os_store o')"
    using recorded[OF 1(3)] observed[OF 1(1)] 1(2) by (auto simp: run_key_def)
  show ?thesis
  proof (cases "?i \<in> incidents")
    case False
    then show ?thesis using collected_same[OF inv _ _ 1(4)] ls others[OF 1(1)] by simp
  next
    case True
    then obtain run run' where r: "cursor_of ctx run (runs ob)" "os_number o' = Suc (rr_next_read run)"
        "os_number o' \<le> length (order ?i)" "kind = order ?i ! rr_next_read run"
        "rr_elapsed run = elapsed (rr_next_read run) \<longrightarrow>
           content ?i (os_number o') (os_payload o') \<and> rr_elapsed run' = elapsed (os_number o')"
        "rr_actor run' = rr_actor run" "rr_permission run' = rr_permission run" "rr_next_read run' = os_number o'"
        "map_of (runs (os_store o')) = (map_of (runs ob))(?k \<mapsto> run')"
      using advances[OF 1(1)] by blast
    have reads: "reads_of (links ob') key = reads_of (links ob) key @ (if key = ?k then [(os_number o', le_evidence_id e)] else [])"
      for key using True ls(1) by (auto simp: reads_of_append reads_of_single)
    have old: "rr_elapsed run = elapsed (rr_next_read run)" "map fst (reads_of (links ob) ?k) = [1..<Suc (rr_next_read run)]"
      "\<forall>p \<in> set (reads_of (links ob) ?k). read_stored order content ob ?k run p"
    proof -
      have "run_collected order elapsed content (links ob) ob ?k run" if "map_of (runs ob) ?k = Some run"
        using inv that by blast
      moreover have "reads_of (links ob) ?k = []" if "map_of (runs ob) ?k = None"
        using inv that by blast
      ultimately show "rr_elapsed run = elapsed (rr_next_read run)"
        "map fst (reads_of (links ob) ?k) = [1..<Suc (rr_next_read run)]"
        "\<forall>p \<in> set (reads_of (links ob) ?k). read_stored order content ob ?k run p"
        using r(1) elapsed_0 by (auto simp: cursor_of_def run_collected_def)
    qed
    have "read_stored order content ob' ?k run' p" if "p \<in> set (reads_of (links ob) ?k)" for p
      using old(3) that r(6,7) unfolding read_stored_def
      by (fastforce dest: stored_record_append[OF _ 1(4)])
    moreover have "read_stored order content ob' ?k run' (os_number o', le_evidence_id e)"
      using stored_record_new[OF 1(5,4)] 1(2) r old(1) by (simp add: read_stored_def cursor_of_def run_key_def incident_of_def)
    ultimately have "run_collected order elapsed content (links ob') ob' ?k run'"
      using reads[of ?k] old r unfolding run_collected_def by auto
    moreover have "run_collected order elapsed content (links ob') ob' key ru"
      if "key \<noteq> ?k" "map_of (runs ob) key = Some ru" for key ru
      by (rule run_collected_append[OF _ 1(4)]) (use inv that reads in \<open>blast, simp\<close>)
    ultimately show ?thesis using inv ls(2) r(9) reads by auto
  qed
qed

lemma collected_delete:
  assumes "collected ob"
  shows "collected (delete_incident_reads i ob)"
proof -
  have "run_collected order elapsed content (filter (\<lambda>r. fst (fst r) \<noteq> i) (links ob)) (delete_incident_reads i ob) key run"
    if "run_collected order elapsed content (links ob) ob key run" "incident_of key \<noteq> i" for key run
    using that unfolding run_collected_def read_stored_def reads_of_filter
    by (fastforce dest: stored_record_delete[of ob _ _ i] simp: incident_of_def)
  then show ?thesis using assms deleted[of i ob] by (auto simp: reads_of_filter map_of_filter_incident)
qed

lemma reachable_collected: "collection_reachable ob \<Longrightarrow> collected ob"
proof (induction rule: collection_induct)
  case (attempt ob env ctx scenario outcome ob')
  have "ob_records ob' = ob_records ob"
    using begin_collection_attempt_Inr[OF attempt(2)] by (auto simp: Let_def)
  then show ?case using collected_same[OF attempt(1), of ob' "[]"] attempted[OF attempt(2)] by simp
next
  case (source ob sources)
  show ?case by (rule collected_same[OF source, where es = "[]"]) (use sourced in auto)
next
  case (operate ob db)
  show ?case by (rule collected_same[OF operate, where es = "[]"]) (use operated in auto)
next
  case (start db)
  then show ?case using initially by (simp add: reads_of_def)
qed (use collected_record collected_delete in blast)+

text \<open>What a resumed run returns: the records of its links, a prefix of the order.\<close>

lemma resume_records:
  assumes "collection_reachable ob" "map_of (runs ob) (run_key ctx) = Some run"
    and "rr_actor run = ctx_actor ctx" "rr_permission run = ctx_permission ctx"
  shows "resume_evidence name (runs ob) (links ob) ctx ob =
      Inr (map (\<lambda>p. without_source (the (stored_record ob (snd p)))) (reads_of (links ob) (run_key ctx)))"
    and "\<And>p. p \<in> set (reads_of (links ob) (run_key ctx)) \<Longrightarrow> \<exists>e. stored_record ob (snd p) = Some e \<and> bound_to ctx e \<and>
      le_tool_name e = evidence_tool_name (order (ctx_incident_id ctx) ! (fst p - 1)) \<and>
      content (ctx_incident_id ctx) (fst p) (le_payload e)"
    and "run_collected order elapsed content (links ob) ob (run_key ctx) run"
proof -
  let ?reads = "reads_of (links ob) (run_key ctx)"
  show rc: "run_collected order elapsed content (links ob) ob (run_key ctx) run"
    using reachable_collected[OF assms(1)] assms(2) by blast
  then have fsts: "map fst ?reads = [1..<Suc (rr_next_read run)]" and len: "length ?reads = rr_next_read run"
    unfolding run_collected_def by (auto dest: arg_cong[of _ _ length])
  have sorted: "sort_key fst ?reads = ?reads"
    by (rule sort_key_id_if_sorted) (simp only: fsts sorted_upt)
  show st: "\<exists>e. stored_record ob (snd p) = Some e \<and> bound_to ctx e \<and>
      le_tool_name e = evidence_tool_name (order (ctx_incident_id ctx) ! (fst p - 1)) \<and>
      content (ctx_incident_id ctx) (fst p) (le_payload e)" if "p \<in> set ?reads" for p
    using rc that assms(3,4) unfolding run_collected_def read_stored_def
    by (force simp: bound_to_def run_key_def incident_of_def split_beta)
  have "list_all (\<lambda>r. case r of None \<Rightarrow> False | Some e \<Rightarrow> bound_to ctx e) (map (stored_record ob \<circ> snd) ?reads)"
    using st by (fastforce simp: list_all_iff split: option.splits)
  moreover have "?reads \<noteq> []" using rc len by (auto simp: run_collected_def)
  ultimately show "resume_evidence name (runs ob) (links ob) ctx ob =
      Inr (map (\<lambda>p. without_source (the (stored_record ob (snd p)))) ?reads)"
    using assms(2-4) fsts len unfolding resume_evidence_def Let_def sorted by (simp add: comp_def)
qed

lemma resume_prefix:
  assumes "collection_reachable ob" "map_of (runs ob) (run_key ctx) = Some run"
    and "rr_actor run = ctx_actor ctx" "rr_permission run = ctx_permission ctx"
  shows "\<exists>records. resume_evidence name (runs ob) (links ob) ctx ob = Inr records \<and>
    length records = rr_next_read run \<and> 0 < rr_next_read run \<and> rr_next_read run \<le> length (order (ctx_incident_id ctx)) \<and>
    rr_elapsed run = elapsed (rr_next_read run) \<and>
    map le_tool_name records = map evidence_tool_name (take (length records) (order (ctx_incident_id ctx))) \<and>
    list_all (\<lambda>e. bound_to ctx e \<and> le_source_uri e = None) records \<and>
    (\<forall>k < length records. content (ctx_incident_id ctx) (Suc k) (le_payload (records ! k)))"
proof -
  let ?i = "ctx_incident_id ctx" and ?reads = "reads_of (links ob) (run_key ctx)"
  let ?records = "map (\<lambda>p. without_source (the (stored_record ob (snd p)))) ?reads"
  note st = resume_records(2)[OF assms] and rc = resume_records(3)[OF assms]
  then have fsts: "map fst ?reads = [1..<Suc (rr_next_read run)]" and len: "length ?reads = rr_next_read run"
    unfolding run_collected_def by (auto dest: arg_cong[of _ _ length])
  have nth: "fst (?reads ! k) = Suc k" if "k < rr_next_read run" for k
    using that fsts len by (metis add.commute nth_map nth_upt plus_1_eq_Suc Suc_less_eq add_less_cancel_left)
  have rd: "bound_to ctx (?records ! k) \<and> le_source_uri (?records ! k) = None \<and>
      le_tool_name (?records ! k) = evidence_tool_name (order ?i ! k) \<and> content ?i (Suc k) (le_payload (?records ! k))"
    if k: "k < rr_next_read run" for k
  proof -
    from k len have "?reads ! k \<in> set ?reads" by simp
    from st[OF this] show ?thesis using nth[OF k] k len by (auto simp: without_source_def bound_to_def)
  qed
  have "map le_tool_name ?records = map evidence_tool_name (take (length ?records) (order ?i))"
    by (rule nth_equalityI) (use rd rc len in \<open>simp_all add: run_collected_def\<close>)
  moreover have "list_all (\<lambda>e. bound_to ctx e \<and> le_source_uri e = None) ?records"
    using rd len unfolding list_all_length by simp
  ultimately show ?thesis
    using rc rd len resume_records(1)[OF assms] by (intro exI[of _ ?records]) (simp add: run_collected_def)
qed

text \<open>A read of the owner extends what its run resumes to by the record it returned.\<close>

lemma resume_extends:
  assumes "collection_reachable ob" "ctx_incident_id ctx \<in> incidents"
    and ev: "evidence env ctx kind ob = Inr (e, ob')"
    and rs: "resume_evidence name (runs ob) (links ob) ctx ob = Inr rs"
  shows "resume_evidence name (runs ob') (links ob') ctx ob' = Inr (rs @ [without_source e])"
  using ev
proof (cases rule: evidence_Inr)
  case (1 o')
  let ?k = "run_key ctx"
  obtain run run' where r: "cursor_of ctx run (runs ob)" "rr_actor run' = rr_actor run" "rr_permission run' = rr_permission run"
      "map_of (runs (os_store o')) = (map_of (runs ob))(?k \<mapsto> run')"
    using advances[OF 1(1) assms(2)] by blast
  have ls: "reads_of (links ob') ?k = reads_of (links ob) ?k @ [(os_number o', le_evidence_id e)]" "runs ob' = runs (os_store o')"
    using recorded[OF 1(3)] observed[OF 1(1)] 1(2) assms(2) by (auto simp: run_key_def reads_of_append reads_of_single)
  have r': "collection_reachable ob'" using assms(1) ev by (blast intro: collection_reachable.step collection_step.read)
  have own: "map_of (runs ob') ?k = Some run'" "rr_actor run' = ctx_actor ctx" "rr_permission run' = ctx_permission ctx"
    using r ls(2) by (auto simp: cursor_of_def)
  have old: "rs = map (\<lambda>p. without_source (the (stored_record ob' (snd p)))) (reads_of (links ob) ?k)"
  proof (cases "map_of (runs ob) ?k")
    case None
    then have "rs = []" "reads_of (links ob) ?k = []"
      using rs reachable_collected[OF assms(1)] unfolding resume_evidence_def by (simp, blast)
    then show ?thesis by simp
  next
    case (Some run0)
    then have "run0 = run" "rr_actor run0 = ctx_actor ctx" "rr_permission run0 = ctx_permission ctx"
      using r(1) by (auto simp: cursor_of_def)
    note rec = resume_records[OF assms(1) Some this(2,3)]
    have "stored_record ob' (snd p) = stored_record ob (snd p)" if "p \<in> set (reads_of (links ob) ?k)" for p
      using rec(2)[OF that] stored_record_append[OF _ 1(4)] by fastforce
    then show ?thesis using rec(1)[of name] rs by simp
  qed
  show ?thesis
    unfolding resume_records(1)[OF r' own] ls(1) old using stored_record_new[OF 1(5,4)] by simp
qed

end

section \<open>The two ordered collections of the repository\<close>

definition r05_elapsed :: "nat \<Rightarrow> int" where
  "r05_elapsed n = (if 2 \<le> n then 45 else 0)"

definition r05_content :: "string \<Rightarrow> nat \<Rightarrow> (string \<times> py) list \<Rightarrow> bool" where
  "r05_content incident n payload = (payload = r05_payload n 0 (R05_ORDER ! (n - 1)))"

definition partner_order :: "string \<Rightarrow> string list" where
  "partner_order incident = [partner_opening (if incident = ''INC-R10'' then ''R10'' else ''R11''), ''dependency_metrics'']"

definition partner_content :: "string \<Rightarrow> nat \<Rightarrow> (string \<times> py) list \<Rightarrow> bool" where
  "partner_content incident n payload =
     (\<exists>row. payload = partner_payload (if incident = ''INC-R10'' then ''R10'' else ''R11'') row n)"

lemma scenario_facts [simp]:
  "incident_scenario i = Some ''R05'' \<longleftrightarrow> i = ''INC-R05''"
  "incident_scenario i = Some ''R10'' \<longleftrightarrow> i = ''INC-R10''"
  "incident_scenario i = Some ''R11'' \<longleftrightarrow> i = ''INC-R11''"
  by (simp_all add: incident_scenario_eq CHECKPOINT_SCENARIOS_def)

lemma observe_reliability_incident:
  "incident_scenario (ctx_incident_id ctx) = Some s \<Longrightarrow> s \<in> {''R05'', ''R10'', ''R11''} \<Longrightarrow>
     observe env ctx kind ob = observe_reliability env ctx s kind ob"
  by (auto simp: observe_def)

lemma map_of_advanced:
  assumes "cursor_of ctx run runs" "map_of runs (run_key ctx) = None \<longrightarrow> new = run"
  shows "map_of (update_run (run_key ctx) f (with_run (run_key ctx) new runs)) = (map_of runs)(run_key ctx \<mapsto> f run)"
  using assms by (auto simp: fun_eq_iff map_of_update_run map_of_with_run cursor_of_def)

lemma r05_advances:
  assumes "observe env ctx kind ob = Inr o'" "ctx_incident_id ctx \<in> {''INC-R05''}"
  shows "\<exists>run run'. cursor_of ctx run (ob_r05_runs ob) \<and> os_number o' = Suc (rr_next_read run) \<and>
    os_number o' \<le> length R05_ORDER \<and> kind = R05_ORDER ! rr_next_read run \<and>
    (rr_elapsed run = r05_elapsed (rr_next_read run) \<longrightarrow>
       r05_content (ctx_incident_id ctx) (os_number o') (os_payload o') \<and> rr_elapsed run' = r05_elapsed (os_number o')) \<and>
    rr_actor run' = rr_actor run \<and> rr_permission run' = rr_permission run \<and> rr_next_read run' = os_number o' \<and>
    map_of (ob_r05_runs (os_store o')) = (map_of (ob_r05_runs ob))(run_key ctx \<mapsto> run')"
proof -
  have "observe_reliability env ctx ''R05'' kind ob = Inr o'"
    using assms observe_reliability_incident[of ctx "''R05''"] by simp
  then obtain n payload ob1 where rd: "r05_read env ctx kind ob = Inr (n, payload, ob1)"
      and fr: "fresh_source env ctx kind payload n ob1 = Inr o'"
    unfolding observe_reliability_def by (auto simp: bind_res_eq_Inr)
  from r05_read_Inr[OF rd] obtain run new where r: "cursor_of ctx run (ob_r05_runs ob)" "n = Suc (rr_next_read run)" "n \<le> 3"
      "kind = R05_ORDER ! (n - 1)" "payload = r05_payload n (rr_elapsed run) kind"
      "map_of (ob_r05_runs ob) (run_key ctx) = None \<longrightarrow> new = run"
      "ob1 = ob\<lparr>ob_r05_runs := update_run (run_key ctx) (\<lambda>r. r\<lparr>rr_next_read := n,
         rr_elapsed := (if n = 2 then 45 else rr_elapsed run)\<rparr>) (with_run (run_key ctx) new (ob_r05_runs ob))\<rparr>"
    by (elim exE conjE) (rule that)
  have pay: "r05_payload n (rr_elapsed run) kind = r05_payload n 0 kind" if "rr_elapsed run = r05_elapsed (rr_next_read run)"
    using that r(2) by (simp add: r05_payload_def r05_elapsed_def)
  let ?f = "\<lambda>r. r\<lparr>rr_next_read := n, rr_elapsed := (if n = 2 then 45 else rr_elapsed run)\<rparr>"
  have o: "os_number o' = n" "os_payload o' = payload" "ob_r05_runs (os_store o') = ob_r05_runs ob1"
    using fr by (simp_all add: fresh_source_Inr)
  have m: "map_of (ob_r05_runs ob1) = (map_of (ob_r05_runs ob))(run_key ctx \<mapsto> ?f run)"
    using map_of_advanced[OF r(1,6), of ?f] r(7) by simp
  have k: "n - 1 = rr_next_read run" "length R05_ORDER = 3" using r(2) by (simp_all add: R05_ORDER_def)
  show ?thesis
    using r(1-4) pay
    unfolding o m k r(5) r05_content_def
    by (intro exI[of _ run] exI[of _ "?f run"]) (simp add: r05_elapsed_def)
qed

lemma partner_advances:
  assumes "observe env ctx kind ob = Inr o'" "ctx_incident_id ctx \<in> {''INC-R10'', ''INC-R11''}"
  shows "\<exists>run run'. cursor_of ctx run (ob_partner_runs ob) \<and> os_number o' = Suc (rr_next_read run) \<and>
    os_number o' \<le> length (partner_order (ctx_incident_id ctx)) \<and>
    kind = partner_order (ctx_incident_id ctx) ! rr_next_read run \<and>
    (rr_elapsed run = 0 \<longrightarrow>
       partner_content (ctx_incident_id ctx) (os_number o') (os_payload o') \<and> rr_elapsed run' = 0) \<and>
    rr_actor run' = rr_actor run \<and> rr_permission run' = rr_permission run \<and> rr_next_read run' = os_number o' \<and>
    map_of (ob_partner_runs (os_store o')) = (map_of (ob_partner_runs ob))(run_key ctx \<mapsto> run')"
proof -
  let ?s = "if ctx_incident_id ctx = ''INC-R10'' then ''R10'' else ''R11''"
  have "observe_reliability env ctx ?s kind ob = Inr o'"
    using assms observe_reliability_incident[of ctx ?s] by (auto split: if_splits)
  then obtain row n ob1 where rd: "begin_partner_read ctx ?s kind ob = Inr (n, ob1)"
      and fr: "fresh_source env ctx kind (partner_payload ?s row n) n ob1 = Inr o'"
    unfolding observe_reliability_def by (auto simp: bind_res_eq_Inr split: if_splits)
  from begin_partner_read_Inr[OF rd] obtain run new where r: "cursor_of ctx run (ob_partner_runs ob)"
      "n = Suc (rr_next_read run)" "n \<le> 2" "kind = [partner_opening ?s, ''dependency_metrics''] ! (n - 1)"
      "map_of (ob_partner_runs ob) (run_key ctx) = None \<longrightarrow> new = run"
      "ob1 = ob\<lparr>ob_partner_runs := update_run (run_key ctx) (\<lambda>r. r\<lparr>rr_next_read := n\<rparr>)
         (with_run (run_key ctx) new (ob_partner_runs ob))\<rparr>"
    by (elim exE conjE) (rule that)
  let ?f = "\<lambda>r. r\<lparr>rr_next_read := n\<rparr>"
  have o: "os_number o' = n" "os_payload o' = partner_payload ?s row n" "ob_partner_runs (os_store o') = ob_partner_runs ob1"
    using fr by (simp_all add: fresh_source_Inr)
  have m: "map_of (ob_partner_runs ob1) = (map_of (ob_partner_runs ob))(run_key ctx \<mapsto> ?f run)"
    using map_of_advanced[OF r(1,5), of ?f] r(6) by simp
  have k: "n - 1 = rr_next_read run" using r(2) by simp
  show ?thesis
    using r(1-4) unfolding o m k partner_content_def partner_order_def
    by (intro exI[of _ run] exI[of _ "?f run"]) auto
qed

lemma record_evidence_links:
  "record_evidence e kind n ob = Inr ob' \<Longrightarrow> ob_r05_runs ob' = ob_r05_runs ob \<and> ob_partner_runs ob' = ob_partner_runs ob \<and>
     ob_r05_evidence ob' = ob_r05_evidence ob @ (if le_incident_id e \<in> {''INC-R05''}
        then [((le_incident_id e, le_thread_id e, le_correlation_id e), n, le_evidence_id e)] else []) \<and>
     ob_partner_evidence ob' = ob_partner_evidence ob @ (if le_incident_id e \<in> {''INC-R10'', ''INC-R11''}
        then [((le_incident_id e, le_thread_id e, le_correlation_id e), n, le_evidence_id e)] else [])"
  by (auto simp: record_evidence_def Let_def split: if_splits)

lemma attempt_links:
  "begin_collection_attempt env ctx scenario ob = Inr (outcome, ob') \<Longrightarrow>
     ob_r05_runs ob' = ob_r05_runs ob \<and> ob_partner_runs ob' = ob_partner_runs ob \<and>
     ob_r05_evidence ob' = ob_r05_evidence ob \<and> ob_partner_evidence ob' = ob_partner_evidence ob"
  by (drule begin_collection_attempt_Inr) (auto simp: Let_def)

interpretation r05: ordered_collection "{''INC-R05''}" ob_r05_runs ob_r05_evidence "\<lambda>_. R05_ORDER" r05_elapsed r05_content
proof
  show "observe env ctx kind ob = Inr o' \<Longrightarrow> ctx_incident_id ctx \<notin> {''INC-R05''} \<Longrightarrow> ob_r05_runs (os_store o') = ob_r05_runs ob"
    for env ctx kind ob o' using observe_framed[of env ctx kind ob o'] by (simp add: reads_framed_def)
  show "observe env ctx kind ob = Inr o' \<Longrightarrow> ob_r05_evidence (os_store o') = ob_r05_evidence ob" for env ctx kind ob o'
    using observe_framed[of env ctx kind ob o'] by (simp add: reads_framed_def)
qed (use r05_advances record_evidence_links attempt_links in
  \<open>auto simp: r05_elapsed_def delete_incident_reads_def empty_observability_def\<close>)

interpretation partner: ordered_collection "{''INC-R10'', ''INC-R11''}" ob_partner_runs ob_partner_evidence
  partner_order "\<lambda>_. 0" partner_content
proof
  show "observe env ctx kind ob = Inr o' \<Longrightarrow> ctx_incident_id ctx \<notin> {''INC-R10'', ''INC-R11''} \<Longrightarrow>
      ob_partner_runs (os_store o') = ob_partner_runs ob"
    for env ctx kind ob o' using observe_framed[of env ctx kind ob o'] by (simp add: reads_framed_def)
  show "observe env ctx kind ob = Inr o' \<Longrightarrow> ob_partner_evidence (os_store o') = ob_partner_evidence ob" for env ctx kind ob o'
    using observe_framed[of env ctx kind ob o'] by (simp add: reads_framed_def)
qed (use partner_advances record_evidence_links attempt_links in
  \<open>auto simp: delete_incident_reads_def empty_observability_def\<close>)

section \<open>Properties\<close>

lemma owner_mismatch:
  "map_of runs (run_key ctx) = Some run \<Longrightarrow> rr_actor run \<noteq> ctx_actor ctx \<or> rr_permission run \<noteq> ctx_permission ctx \<Longrightarrow>
     resume_evidence name runs links ctx ob = Inl (ValueError (name @ '' collection owner mismatch''))"
  by (auto simp: resume_evidence_def)

lemma nth_map_upt: "length xs = n \<Longrightarrow> (\<And>k. k < n \<Longrightarrow> g (xs ! k) = f k) \<Longrightarrow> map g xs = map f [0..<n]"
  by (rule nth_equalityI) auto

lemma r05_records:
  assumes "collection_reachable ob" "map_of (ob_r05_runs ob) (run_key ctx) = Some run"
    and "rr_actor run = ctx_actor ctx" "rr_permission run = ctx_permission ctx"
  shows "\<exists>records. r05_resume_evidence ctx ob = Inr records \<and> length records = rr_next_read run \<and>
    rr_next_read run \<in> {1, 2, 3} \<and> rr_elapsed run = r05_elapsed (rr_next_read run) \<and>
    map le_tool_name records = map evidence_tool_name (take (length records) R05_ORDER) \<and>
    list_all (\<lambda>e. bound_to ctx e \<and> le_source_uri e = None) records \<and>
    map le_payload records = map (\<lambda>k. r05_payload (Suc k) 0 (R05_ORDER ! k)) [0..<length records]"
proof -
  from r05.resume_prefix[OF assms, of "''R05''"] obtain records where
    r: "resume_evidence ''R05'' (ob_r05_runs ob) (ob_r05_evidence ob) ctx ob = Inr records"
      "length records = rr_next_read run" "0 < rr_next_read run" "rr_next_read run \<le> length R05_ORDER"
      "rr_elapsed run = r05_elapsed (rr_next_read run)"
      "map le_tool_name records = map evidence_tool_name (take (length records) R05_ORDER)"
      "list_all (\<lambda>e. bound_to ctx e \<and> le_source_uri e = None) records"
      "\<forall>k < length records. r05_content (ctx_incident_id ctx) (Suc k) (le_payload (records ! k))" by blast
  moreover have "map le_payload records = map (\<lambda>k. r05_payload (Suc k) 0 (R05_ORDER ! k)) [0..<length records]"
    by (rule nth_map_upt) (use r(8) in \<open>simp_all add: r05_content_def\<close>)
  moreover have "rr_next_read run \<in> {1, 2, 3}" using r(3,4) by (auto simp: R05_ORDER_def)
  ultimately show ?thesis unfolding r05_resume_evidence_def by (intro exI[of _ records]) simp
qed

text \<open>
  C32: an R05 collection can always be resumed, whatever was read, reset, attempted or operated
  between the calls. A run that does not exist resumes to nothing; another actor or permission is
  refused; the owner gets exactly as many records as the durable cursor counts, one to three, in the
  fixed order of the scenario, each in the envelope of its context, without its source, and with the
  payload of its position. The mismatch errors of the resume method cannot arise.
\<close>

theorem r05_resume_in_order:
  assumes "collection_reachable ob"
  shows "case map_of (ob_r05_runs ob) (run_key ctx) of
      None \<Rightarrow> r05_resume_evidence ctx ob = Inr []
    | Some run \<Rightarrow>
        if rr_actor run = ctx_actor ctx \<and> rr_permission run = ctx_permission ctx
        then \<exists>records. r05_resume_evidence ctx ob = Inr records \<and> length records = rr_next_read run \<and>
          rr_next_read run \<in> {1, 2, 3} \<and>
          map le_tool_name records = map evidence_tool_name (take (length records) R05_ORDER) \<and>
          list_all (\<lambda>e. bound_to ctx e \<and> le_source_uri e = None) records \<and>
          map le_payload records = map (\<lambda>k. r05_payload (Suc k) 0 (R05_ORDER ! k)) [0..<length records]
        else r05_resume_evidence ctx ob = Inl (ValueError ''R05 collection owner mismatch'')"
proof (cases "map_of (ob_r05_runs ob) (run_key ctx)")
  case None
  then show ?thesis by (simp add: r05_resume_evidence_def resume_evidence_def)
next
  case (Some run)
  then show ?thesis
    using r05_records[OF assms Some] owner_mismatch[OF Some, of "''R05''"]
    by (auto simp: r05_resume_evidence_def)
qed

text \<open>
  C33: the proof that a virtual-time collection did nothing is sound and complete. Over every
  reachable store with the fixture installed, the snapshot of R05 is accepted for its context
  exactly when the run of its owner has made its three reads, no approval exists for the incident,
  no ledger row exists for the run and the fixture was never mutated.
\<close>

theorem r05_snapshot_iff:
  assumes "collection_reachable ob" "ctx_incident_id ctx = ''INC-R05''" "ctx_permission ctx = READ_PERMISSION"
    and "ctx_idempotency_key ctx = None" "db_fixtures (ob_lab ob) (scenario_fixture ''R05'') = Some row"
  shows "(\<exists>s. r05_evaluation_snapshot ctx ob = Inr s) \<longleftrightarrow>
    (\<exists>run. map_of (ob_r05_runs ob) (run_key ctx) = Some run \<and> rr_actor run = ctx_actor ctx \<and>
       rr_permission run = ctx_permission ctx \<and> rr_next_read run = 3) \<and>
    filter (\<lambda>a. ap_incident_id a = ''INC-R05'') (db_approvals (ob_lab ob)) = [] \<and>
    filter (\<lambda>r. (lg_incident_id r, lg_thread_id r, lg_correlation_id r) = run_key ctx) (db_ledger (ob_lab ob)) = [] \<and>
    int_of (column row ''mutation_count'') = 0"
proof (cases "map_of (ob_r05_runs ob) (run_key ctx)")
  case None
  then show ?thesis using assms(2-4)
    by (auto simp: r05_evaluation_snapshot_def bind_res_eq_Inr collection_snapshot_of_def)
next
  case (Some run)
  show ?thesis
  proof (cases "rr_actor run = ctx_actor ctx \<and> rr_permission run = ctx_permission ctx")
    case False
    then show ?thesis
      using Some assms(2-4) owner_mismatch[OF Some, of "''R05''" "ob_r05_evidence ob" ob]
      by (auto simp: r05_evaluation_snapshot_def r05_resume_evidence_def)
  next
    case True
    then obtain records where r: "r05_resume_evidence ctx ob = Inr records" "length records = rr_next_read run"
        "rr_next_read run \<in> {1, 2, 3}" "rr_elapsed run = r05_elapsed (rr_next_read run)"
        "map le_tool_name records = map evidence_tool_name (take (length records) R05_ORDER)"
        "map le_payload records = map (\<lambda>k. r05_payload (Suc k) 0 (R05_ORDER ! k)) [0..<length records]"
      using r05_records[OF assms(1) Some] by blast
    have pay: "le_payload (records ! k) = r05_payload (Suc k) 0 (R05_ORDER ! k)" if "k < length records" for k
      using arg_cong[OF r(6), of "\<lambda>xs. xs ! k"] that by simp
    have "[0..<3::nat] = [0, 1, 2]" by (simp add: upt_rec)
    then show ?thesis
      using Some True assms(2-5) r(1-5) pay[of 0] pay[of 1] pay[of 2]
      by (auto simp: r05_evaluation_snapshot_def collection_snapshot_of_def untouched_def r05_elapsed_def
          R05_ORDER_def r05_payload_def payload_is_def payload_get_def dict_get_def num_eq_def filter_empty_conv Let_def)
  qed
qed

text \<open>
  the same for the partner collections of R10 and R11: one or two records, the opening probe of
  the scenario and then the metrics of the dependency.
\<close>

theorem partner_resume_in_order:
  assumes "collection_reachable ob"
  shows "case map_of (ob_partner_runs ob) (run_key ctx) of
      None \<Rightarrow> r10_r11_resume_evidence ctx ob = Inr []
    | Some run \<Rightarrow>
        if rr_actor run = ctx_actor ctx \<and> rr_permission run = ctx_permission ctx
        then \<exists>records. r10_r11_resume_evidence ctx ob = Inr records \<and> length records = rr_next_read run \<and>
          rr_next_read run \<in> {1, 2} \<and>
          map le_tool_name records =
            map evidence_tool_name (take (length records) (partner_order (ctx_incident_id ctx))) \<and>
          list_all (\<lambda>e. bound_to ctx e \<and> le_source_uri e = None) records \<and>
          list_all2 (partner_content (ctx_incident_id ctx)) [1..<Suc (length records)] (map le_payload records)
        else r10_r11_resume_evidence ctx ob = Inl (ValueError ''R10/R11 collection owner mismatch'')"
proof (cases "map_of (ob_partner_runs ob) (run_key ctx)")
  case None
  then show ?thesis by (simp add: r10_r11_resume_evidence_def resume_evidence_def)
next
  case (Some run)
  show ?thesis
  proof (cases "rr_actor run = ctx_actor ctx \<and> rr_permission run = ctx_permission ctx")
    case True
    then obtain records where r: "resume_evidence ''R10/R11'' (ob_partner_runs ob) (ob_partner_evidence ob) ctx ob = Inr records"
        "length records = rr_next_read run" "0 < rr_next_read run"
        "rr_next_read run \<le> length (partner_order (ctx_incident_id ctx))"
        "map le_tool_name records = map evidence_tool_name (take (length records) (partner_order (ctx_incident_id ctx)))"
        "list_all (\<lambda>e. bound_to ctx e \<and> le_source_uri e = None) records"
        "\<forall>k < length records. partner_content (ctx_incident_id ctx) (Suc k) (le_payload (records ! k))"
      using partner.resume_prefix[OF assms Some] by blast
    moreover have "rr_next_read run \<in> {1, 2}" using r(3,4) by (auto simp: partner_order_def)
    moreover have "list_all2 (partner_content (ctx_incident_id ctx)) [1..<Suc (length records)] (map le_payload records)"
      using r(7) by (auto simp: list_all2_conv_all_nth simp del: upt_Suc)
    ultimately show ?thesis using Some True by (simp add: r10_r11_resume_evidence_def)
  next
    case False
    then show ?thesis using Some owner_mismatch[OF Some] by (auto simp: r10_r11_resume_evidence_def)
  qed
qed

section \<open>A collection of each kind\<close>

definition example_reader :: "string \<Rightarrow> tool_call_context" where
  "example_reader incident = \<lparr>ctx_incident_id = incident, ctx_thread_id = ''t'', ctx_correlation_id = ''c'',
     ctx_actor = ''operator'', ctx_permission = READ_PERMISSION, ctx_idempotency_key = None\<rparr>"

definition example_clock :: "nat \<Rightarrow> read_env" where
  "example_clock n = \<lparr>re_now = int n * second, re_source_id = n, re_evidence_id = [digit_char n],
     re_sha = (\<lambda>s. s), re_isoformat = (\<lambda>_. [])\<rparr>"

definition example_fixture_db :: "string \<Rightarrow> lab_db" where
  "example_fixture_db scenario = empty_db\<lparr>db_fixtures := (\<lambda>_. None)(scenario_fixture scenario \<mapsto>
     [''injected'' \<mapsto> PBool True, ''mutation_count'' \<mapsto> PInt 0])\<rparr>"

definition example_read :: "nat \<Rightarrow> string \<Rightarrow> string \<Rightarrow> observability \<Rightarrow> observability" where
  "example_read n incident kind ob = snd (projr (evidence (example_clock n) (example_reader incident) kind ob))"

definition example_r05_1 :: observability where
  "example_r05_1 = example_read 1 ''INC-R05'' ''database_locks'' (empty_observability (example_fixture_db ''R05''))"

definition example_r05_2 :: observability where
  "example_r05_2 = example_read 2 ''INC-R05'' ''query_metrics'' example_r05_1"

definition example_r05 :: observability where
  "example_r05 = example_read 3 ''INC-R05'' ''database_locks'' example_r05_2"

definition example_r10 :: observability where
  "example_r10 = example_read 1 ''INC-R10'' ''dns_lookup'' (empty_observability (example_fixture_db ''R10''))"

lemma example_read_reachable:
  assumes "collection_reachable ob" "isl (evidence (example_clock n) (example_reader i) kind ob) = False"
  shows "collection_reachable (example_read n i kind ob)"
proof -
  obtain e ob' where "evidence (example_clock n) (example_reader i) kind ob = Inr (e, ob')"
    using assms(2) by (cases "evidence (example_clock n) (example_reader i) kind ob") auto
  then show ?thesis using assms(1) by (auto simp: example_read_def intro: collection_reachable.step collection_step.read)
qed

lemma example_read_lab:
  assumes "isl (evidence (example_clock n) (example_reader i) kind ob) = False"
  shows "\<exists>rows. ob_lab (example_read n i kind ob) = (ob_lab ob)\<lparr>db_evidence := rows\<rparr>"
proof -
  obtain e ob' where "evidence (example_clock n) (example_reader i) kind ob = Inr (e, ob')"
    using assms by (cases "evidence (example_clock n) (example_reader i) kind ob") auto
  then show ?thesis using evidence_lab by (simp add: example_read_def)
qed

lemma example_r05_reads:
  "isl (evidence (example_clock 1) (example_reader ''INC-R05'') ''database_locks''
     (empty_observability (example_fixture_db ''R05''))) = False"
  "isl (evidence (example_clock 2) (example_reader ''INC-R05'') ''query_metrics'' example_r05_1) = False"
  "isl (evidence (example_clock 3) (example_reader ''INC-R05'') ''database_locks'' example_r05_2) = False"
  by code_simp+

lemma example_r05_reachable: "collection_reachable example_r05"
  unfolding example_r05_def example_r05_2_def example_r05_1_def
  by (intro example_read_reachable collection_reachable.start)
    (use example_r05_reads in \<open>simp_all add: example_r05_2_def example_r05_1_def\<close>)

lemma example_r10_reachable: "collection_reachable example_r10"
  unfolding example_r10_def
  by (intro example_read_reachable collection_reachable.start; code_simp)

lemma example_r05_run:
  "case map_of (ob_r05_runs example_r05) (run_key (example_reader ''INC-R05'')) of
     None \<Rightarrow> False | Some run \<Rightarrow> rr_actor run = ''operator'' \<and> rr_permission run = READ_PERMISSION \<and> rr_next_read run = 3"
  by code_simp

theorem r05_resume_in_order_witness:
  "\<exists>records. r05_resume_evidence (example_reader ''INC-R05'') example_r05 = Inr records \<and>
     map le_tool_name records = map evidence_tool_name R05_ORDER"
  using r05_resume_in_order[OF example_r05_reachable, of "example_reader ''INC-R05''"] example_r05_run
  by (auto simp: example_reader_def R05_ORDER_def split: option.splits)

theorem r05_snapshot_iff_witness:
  "\<exists>s. r05_evaluation_snapshot (example_reader ''INC-R05'') example_r05 = Inr s"
proof -
  have "\<exists>rows. ob_lab example_r05 = (example_fixture_db ''R05'')\<lparr>db_evidence := rows\<rparr>"
    using example_r05_reads[THEN example_read_lab]
    by (auto simp: example_r05_def example_r05_2_def example_r05_1_def empty_observability_def)
  then have "db_fixtures (ob_lab example_r05) (scenario_fixture ''R05'') =
      Some [''injected'' \<mapsto> PBool True, ''mutation_count'' \<mapsto> PInt 0]"
    and "db_approvals (ob_lab example_r05) = []" "db_ledger (ob_lab example_r05) = []"
    by (auto simp: example_fixture_db_def empty_db_def)
  then show ?thesis
    using r05_snapshot_iff[OF example_r05_reachable, of "example_reader ''INC-R05''"] example_r05_run
    by (auto simp: example_reader_def column_def int_of_def split: option.splits)
qed

theorem partner_resume_in_order_witness:
  "\<exists>records. r10_r11_resume_evidence (example_reader ''INC-R10'') example_r10 = Inr records \<and>
     map le_tool_name records = [''observability.dns_lookup'']"
proof -
  have "case map_of (ob_partner_runs example_r10) (run_key (example_reader ''INC-R10'')) of
     None \<Rightarrow> False | Some run \<Rightarrow> rr_actor run = ''operator'' \<and> rr_permission run = READ_PERMISSION \<and> rr_next_read run = 1"
    by code_simp
  then show ?thesis
    using partner_resume_in_order[OF example_r10_reachable, of "example_reader ''INC-R10''"]
    by (auto simp: example_reader_def partner_order_def partner_opening_def evidence_tool_name_def split: option.splits)
qed

end
