(* ===== verification/Deferred.thy ===== *)
theory Deferred
  imports Collection Adapters
begin

text \<open>
  The scenarios that end without an action: the catalogue and the evidence validator of
  \<open>scenario_registry.py\<close>, the collector \<open>DeferredEvidenceCollector\<close> of \<open>integration/adapters.py\<close>,
  which resumes what a lost process had committed and spends the bounded attempts of D4 and D7, and
  the one-node graph \<open>build_deferred_graph\<close> of \<open>control/workflow.py\<close>. A reading of the clock is an
  element of the supply \<open>envs\<close>, consumed in order; \<open>after\<close> is the injected crash after an attempt.
\<close>

named_theorems deferred_defs \<open>the deferred collector and its graph\<close>

section \<open>The catalogue\<close>

definition NO_ACTION_SCENARIOS :: "string list" where
  "NO_ACTION_SCENARIOS = [''D4'', ''D6'', ''D7'', ''S1'', ''S2'', ''R05'', ''R10'', ''R11'']"

record no_action_entry =
  na_evidence :: "string list"
  na_diagnosis :: string
  na_state :: string
  na_reason :: string
  na_confidence :: rat
  na_audit :: string

definition NO_ACTION_CATALOG :: "(string \<times> no_action_entry) list" where
  "NO_ACTION_CATALOG = [
     (''R05'', \<lparr>na_evidence = [''database_locks'', ''query_metrics'', ''database_locks''],
        na_diagnosis = ''database lock contention: tx-4401 blocks orders writes'', na_state = ''resolved'',
        na_reason = LOCK_AUTO_RELEASE_OBSERVED_NO_ACTION, na_confidence = 1, na_audit = ''no_action_terminal''\<rparr>),
     (''R10'', \<lparr>na_evidence = [''dns_lookup'', ''dependency_metrics''],
        na_diagnosis = ''DNS failure: synthetic.partner.local resolves NXDOMAIN'', na_state = ''deferred'',
        na_reason = DNS_NXDOMAIN_NETWORK_OWNER_REQUIRED, na_confidence = 1, na_audit = ''no_action_terminal''\<rparr>),
     (''R11'', \<lparr>na_evidence = [''tls_probe'', ''dependency_metrics''],
        na_diagnosis = ''TLS certificate validation failure for partner endpoint'', na_state = ''deferred'',
        na_reason = UNEXPECTED_CERTIFICATE_NETWORK_OWNER_REQUIRED, na_confidence = 1, na_audit = ''no_action_terminal''\<rparr>),
     (''D4'', \<lparr>na_evidence = [''health'', ''dependency_metrics'', ''error_logs''],
        na_diagnosis = ''external dependency timeout'', na_state = ''deferred'',
        na_reason = RETRY_BUDGET_EXHAUSTED, na_confidence = 1, na_audit = ''collection_deferred''\<rparr>),
     (''D6'', \<lparr>na_evidence = [''health'', ''health'', ''deployment_diff''],
        na_diagnosis = ''stale health evidence'', na_state = ''resolved'',
        na_reason = STALE_EVIDENCE_RECHECKED_NO_ACTION, na_confidence = 1, na_audit = ''no_action_terminal''\<rparr>),
     (''D7'', \<lparr>na_evidence = [''tool_timeout'', ''retry_metadata''],
        na_diagnosis = ''observability tool timeout'', na_state = ''deferred'',
        na_reason = RETRY_BUDGET_EXHAUSTED, na_confidence = 1, na_audit = ''collection_deferred''\<rparr>),
     (''S1'', \<lparr>na_evidence = [''logs'', ''health''],
        na_diagnosis = ''untrusted instruction embedded in log output'', na_state = ''blocked'',
        na_reason = UNTRUSTED_INSTRUCTION_RECORDED, na_confidence = 1, na_audit = ''no_action_terminal''\<rparr>),
     (''S2'', \<lparr>na_evidence = [''metrics'', ''logs'', ''health''],
        na_diagnosis = ''insufficient evidence'', na_state = ''deferred'',
        na_reason = AMBIGUOUS_EVIDENCE_HUMAN_REVIEW_RECOMMENDED, na_confidence = 1 / 4, na_audit = ''no_action_terminal''\<rparr>)]"

definition EXPECTED_TOOLS :: "(string \<times> string list) list" where
  "EXPECTED_TOOLS = [
     (''R05'', [''observability.database_locks'', ''observability.query_metrics'', ''observability.database_locks'']),
     (''R10'', [''observability.dns_lookup'', ''observability.dependency_metrics'']),
     (''R11'', [''observability.tls_probe'', ''observability.dependency_metrics'']),
     (''D6'', [''observability.health'', ''observability.health'', ''observability.deployment_diff'']),
     (''S1'', [''observability.logs'', ''observability.health'']),
     (''S2'', [''observability.metrics'', ''observability.logs'', ''observability.health''])]"

text \<open>The fields a record must share with the first one, which must have them all.\<close>

definition bound_fields :: "lab_evidence \<Rightarrow> string list" where
  "bound_fields e = [le_incident_id e, le_thread_id e, le_correlation_id e, le_actor e, le_permission e]"

text \<open>
  The payload checks of the scenarios that have some. Comparing a reading that is no number raises.
  \<open>parses\<close> says which strings \<open>datetime.fromisoformat\<close> accepts.
\<close>

definition no_action_payloads :: "(string \<Rightarrow> bool) \<Rightarrow> string \<Rightarrow> lab_evidence list \<Rightarrow> bool result" where
  [deferred_defs]: "no_action_payloads parses scenario records =
     (let payloads = map le_payload records; p = payloads ! 0; q = payloads ! 1; r = payloads ! 2 in
      if scenario = ''R05'' then
        (if payload_is p [(''blocking_transaction'', PStr ''tx-4401''), (''virtual_elapsed_seconds'', PInt 0)] \<and>
            payload_is q [(''query'', PStr ''orders_writes''), (''p95_ms'', PInt 40)] \<and>
            payload_get r ''recheck_blocking_transaction'' = PNone
         then case py_num (case dict_get r ''auto_release_observed_at_seconds'' of None \<Rightarrow> PInt 0 | Some v \<Rightarrow> v) of
                None \<Rightarrow> Inl (TypeError ''auto_release_observed_at_seconds'')
              | Some n \<Rightarrow> Inr (n \<ge> 45 \<and> payload_get r ''virtual_time_fixture'' = PBool True)
         else Inr False)
      else if scenario = ''R10'' then Inr (
        payload_is p [(''host'', PStr ''synthetic.partner.local''), (''address'', PNone), (''rcode'', PStr ''NXDOMAIN''),
          (''ttl_seconds'', PInt 0)] \<and>
        payload_is q [(''dependency'', PStr ''synthetic.partner.local''), (''status'', PStr ''failed'')])
      else if scenario = ''R11'' then Inr (
        payload_is p [(''partner'', PStr ''synthetic.partner.local''), (''presented_fingerprint'', PStr ''sha256:bb22''),
          (''validation_error'', PStr ''CERTIFICATE_VERIFY_FAILED''), (''pin_state_unchanged'', PBool True)] \<and>
        payload_is q [(''dependency'', PStr ''synthetic.partner.local''), (''status'', PStr ''failed'')])
      else if scenario = ''D6'' then Inr (
        parses (text_of (payload_get q ''checked_at'')) \<and> field_is p ''freshness'' (PStr ''stale'') \<and>
        le_expires_at (records ! 0) < le_observed_at (records ! 1) \<and>
        field_is q ''status'' (PInt 200) \<and> field_is q ''freshness'' (PStr ''fresh'') \<and>
        payload_get r ''changed'' = PBool False)
      else if scenario = ''S1'' then Inr (
        field_is p ''classification'' (PStr ''untrusted instruction embedded in log output'') \<and>
        (case payload_get p ''digest'' of PStr d \<Rightarrow> is_hex64 d | _ \<Rightarrow> False) \<and>
        dict_get p ''raw'' = None \<and> field_is q ''status'' (PInt 503))
      else Inr (
        payload_is p [(''component'', PStr ''api''), (''error_rate'', PFloat (9 / 10)), (''signal'', PStr ''degraded'')] \<and>
        payload_is q [(''level'', PStr ''ERROR''), (''classification'', PStr ''conflicting_signal'')] \<and>
        payload_is r [(''component'', PStr ''api''), (''status'', PInt 200)]))"

definition validate_no_action_evidence :: "(string \<Rightarrow> bool) \<Rightarrow> string \<Rightarrow> lab_evidence list \<Rightarrow> bool result" where
  [deferred_defs]: "validate_no_action_evidence parses scenario records =
     (case dict_get EXPECTED_TOOLS scenario of
        None \<Rightarrow> Inr (records \<noteq> [])
      | Some tools \<Rightarrow>
          if map le_tool_name records \<noteq> tools then Inr False
          else if le_incident_id (hd records) \<noteq> ''INC-'' @ scenario \<or> le_permission (hd records) \<noteq> READ_PERMISSION \<or>
             [] \<in> set (bound_fields (hd records)) \<or>
             list_ex (\<lambda>e. bound_fields e \<noteq> bound_fields (hd records)) (tl records)
          then Inr False
          else no_action_payloads parses scenario records)"

section \<open>The collector\<close>

text \<open>What the graph reads off the collector after a collection.\<close>

record deferred_view =
  dv_reason :: string
  dv_final_state :: string
  dv_diagnosis :: string

definition deferred_view_of :: "no_action_entry \<Rightarrow> deferred_view" where
  "deferred_view_of entry = \<lparr>dv_reason = RETRY_BUDGET_EXHAUSTED, dv_final_state = na_state entry,
     dv_diagnosis = na_diagnosis entry\<rparr>"

definition budget_exhausted :: "string \<Rightarrow> deferred_view \<Rightarrow> deferred_view" where
  "budget_exhausted reason view = view\<lparr>dv_reason := reason, dv_final_state := ''deferred''\<rparr>"

text \<open>The remaining reads of an ordered collection, each followed by the injected crash.\<close>

fun read_on ::
  "(nat \<Rightarrow> read_env) \<Rightarrow> (int \<Rightarrow> py_exn option) \<Rightarrow> tool_call_context \<Rightarrow> principal \<Rightarrow> nat \<Rightarrow> nat \<Rightarrow> string list \<Rightarrow>
   observability \<Rightarrow> lab_evidence list result \<times> observability" where
  "read_on envs after ctx p i count [] ob = (Inr [], ob)"
| "read_on envs after ctx p i count (kind # kinds) ob =
     (case observability_get (envs i) ctx p kind ob of
        (Inl e, ob1) \<Rightarrow> (Inl e, ob1)
      | (Inr r, ob1) \<Rightarrow>
          (case after (int (Suc count)) of
             Some e \<Rightarrow> (Inl e, ob1)
           | None \<Rightarrow> apfst (map_sum id (Cons r)) (read_on envs after ctx p (Suc i) (Suc count) kinds ob1)))"

definition resumed_collect ::
  "(tool_call_context \<Rightarrow> observability \<Rightarrow> lab_evidence list result) \<Rightarrow> string list \<Rightarrow> (nat \<Rightarrow> read_env) \<Rightarrow>
   (int \<Rightarrow> py_exn option) \<Rightarrow> tool_call_context \<Rightarrow> principal \<Rightarrow> nat \<Rightarrow> observability \<Rightarrow>
   lab_evidence list result \<times> observability" where
  [deferred_defs]: "resumed_collect resume kinds envs after ctx p i ob =
     (case resume ctx ob of
        Inl e \<Rightarrow> (Inl e, ob)
      | Inr records \<Rightarrow>
          apfst (map_sum id (\<lambda>rs. map without_source (records @ rs)))
            (read_on envs after ctx p i (length records) (drop (length records) kinds) ob))"

text \<open>
  D6: the committed stale reading, at most one recheck, then the deployment diff. Where the freshness
  budget ends the collection, the records are handed over as they are.
\<close>

definition d6_last ::
  "(nat \<Rightarrow> read_env) \<Rightarrow> tool_call_context \<Rightarrow> principal \<Rightarrow> nat \<Rightarrow> deferred_view \<Rightarrow> lab_evidence list \<Rightarrow>
   observability \<Rightarrow> (lab_evidence list \<times> deferred_view) result \<times> observability" where
  [deferred_defs]: "d6_last envs ctx p i view records ob =
     (if length records \<noteq> 2 then (Inl (ValueError ''D6 collection has an invalid health cursor''), ob)
      else case d6_resume_state ctx (re_now (envs i)) ob of
        Inl e \<Rightarrow> (Inl e, ob)
      | Inr (_, Some reason) \<Rightarrow> (Inr (records, budget_exhausted reason view), ob)
      | Inr (_, None) \<Rightarrow>
          (case observability_get (envs (Suc i)) ctx p ''deployment_diff'' ob of
             (Inl e, ob1) \<Rightarrow> (Inl e, ob1)
           | (Inr r, ob1) \<Rightarrow> (Inr (map without_source (records @ [r]), view), ob1)))"

definition d6_recheck ::
  "(nat \<Rightarrow> read_env) \<Rightarrow> tool_call_context \<Rightarrow> principal \<Rightarrow> nat \<Rightarrow> deferred_view \<Rightarrow> lab_evidence list \<Rightarrow>
   observability \<Rightarrow> (lab_evidence list \<times> deferred_view) result \<times> observability" where
  [deferred_defs]: "d6_recheck envs ctx p i view records ob =
     (if length records \<noteq> 1 then d6_last envs ctx p i view records ob
      else case observability_get (envs i) ctx p ''health'' ob of
        (Inl e, ob1) \<Rightarrow>
          if e = ValueError ''d6_freshness_budget_exhausted''
          then (Inr (records, budget_exhausted TIME_BUDGET_EXHAUSTED view), ob1) else (Inl e, ob1)
      | (Inr r, ob1) \<Rightarrow> d6_last envs ctx p (Suc i) view (records @ [r]) ob1)"

definition d6_collect ::
  "(nat \<Rightarrow> read_env) \<Rightarrow> (int \<Rightarrow> py_exn option) \<Rightarrow> tool_call_context \<Rightarrow> principal \<Rightarrow> deferred_view \<Rightarrow>
   observability \<Rightarrow> (lab_evidence list \<times> deferred_view) result \<times> observability" where
  [deferred_defs]: "d6_collect envs after ctx p view ob =
     (case d6_resume_state ctx (re_now (envs 0)) ob of
        Inl e \<Rightarrow> (Inl e, ob)
      | Inr (existing, Some reason) \<Rightarrow> (Inr (existing, budget_exhausted reason view), ob)
      | Inr (existing, None) \<Rightarrow>
          if existing \<noteq> [] then d6_recheck envs ctx p 1 view existing ob
          else case observability_get (envs 1) ctx p ''health'' ob of
            (Inl e, ob1) \<Rightarrow> (Inl e, ob1)
          | (Inr r, ob1) \<Rightarrow>
              (case after 1 of
                 Some e \<Rightarrow> (Inl e, ob1)
               | None \<Rightarrow> d6_recheck envs ctx p 2 view [r] ob1))"

text \<open>
  The loop over the bounded attempts ends because every attempt takes a number of the retry budget;
  its measure is what is left of the budget for the context.
\<close>

definition attempts_left :: "tool_call_context \<Rightarrow> string \<Rightarrow> observability \<Rightarrow> nat" where
  "attempts_left ctx sid ob =
     (case checkpoint_scenario sid of
        Inl _ \<Rightarrow> 0
      | Inr (scenario, _) \<Rightarrow>
          (case db_fixtures (ob_lab ob) (''collection_fault_state'', scenario) of
             None \<Rightarrow> 0
           | Some row \<Rightarrow> nat (int_of (column row ''retry_budget'') + 1 - fold max (map ta_attempt_number (attempts_of ob ctx)) 0)))"

lemma attempts_of_simps:
  "attempts_of (ob\<lparr>ob_attempt_runs := runs\<rparr>) ctx = attempts_of ob ctx"
  "attempts_of (ob\<lparr>ob_attempts := ob_attempts ob @ [new_attempt env ctx scenario number]\<rparr>) ctx =
     attempts_of ob ctx @ [new_attempt env ctx scenario number]"
  "attempts_of (ob\<lparr>ob_attempt_runs := runs, ob_attempts := ob_attempts ob @ [new_attempt env ctx scenario number]\<rparr>) ctx =
     attempts_of ob ctx @ [new_attempt env ctx scenario number]"
  by (simp_all add: attempts_of_def new_attempt_def)

lemma attempts_left_decreases:
  assumes "begin_collection_attempt env ctx sid ob = Inr ((Some number, reason), ob')"
  shows "attempts_left ctx sid ob' < attempts_left ctx sid ob"
proof -
  let ?max = "fold max (map ta_attempt_number (attempts_of ob ctx)) 0"
  obtain scenario row runs where s: "checkpoint_scenario sid = Inr (scenario, ctx_incident_id ctx)"
      "db_fixtures (ob_lab ob) (''collection_fault_state'', scenario) = Some row"
      "number = ?max + 1" "number \<le> int_of (column row ''retry_budget'') + 1"
      "ob' = ob\<lparr>ob_attempt_runs := runs, ob_attempts := ob_attempts ob @ [new_attempt env ctx scenario number]\<rparr>"
    using begin_collection_attempt_Inr[OF assms] unfolding Let_def fst_conv option.inject by (elim exE conjE disjE) auto
  have "fold max (map ta_attempt_number (attempts_of ob' ctx)) 0 = ?max + 1"
    unfolding s(5) attempts_of_simps s(3) by (simp add: new_attempt_def)
  then show ?thesis using s by (simp add: attempts_left_def)
qed

function attempt_until_exhausted ::
  "(nat \<Rightarrow> read_env) \<Rightarrow> (int \<Rightarrow> py_exn option) \<Rightarrow> tool_call_context \<Rightarrow> string \<Rightarrow> nat \<Rightarrow> observability \<Rightarrow>
   (string \<times> nat) result \<times> observability" where
  "attempt_until_exhausted envs after ctx sid i ob =
     (case begin_collection_attempt (envs i) ctx sid ob of
        Inl e \<Rightarrow> (Inl e, ob)
      | Inr ((None, reason), ob1) \<Rightarrow> (Inr (reason, Suc i), ob1)
      | Inr ((Some number, reason), ob1) \<Rightarrow>
          (case after number of
             Some e \<Rightarrow> (Inl e, ob1)
           | None \<Rightarrow> attempt_until_exhausted envs after ctx sid (Suc i) ob1))"
  by pat_completeness auto
termination
  by (relation "measure (\<lambda>(envs, after, ctx, sid, i, ob). attempts_left ctx sid ob)")
    (auto dest: attempts_left_decreases)

declare attempt_until_exhausted.simps [simp del]

definition deferred_collect ::
  "(nat \<Rightarrow> read_env) \<Rightarrow> (int \<Rightarrow> py_exn option) \<Rightarrow> caller \<Rightarrow> tool_call_context \<Rightarrow> string \<Rightarrow> incident_identity \<Rightarrow>
   observability \<Rightarrow> (lab_evidence list \<times> deferred_view) result \<times> observability" where
  [deferred_defs]: "deferred_collect envs after c own scenario_id incident ob =
     (case dict_get NO_ACTION_CATALOG scenario_id of
        None \<Rightarrow> (Inl (KeyError scenario_id), ob)
      | Some entry \<Rightarrow>
          let view = deferred_view_of entry; terminal = view\<lparr>dv_reason := na_reason entry\<rparr>;
              scenario = idn_scenario_id incident; p = principal_of c
          in if scenario \<notin> set NO_ACTION_SCENARIOS
             then apfst (map_sum id (\<lambda>rs. (rs, view))) (collector_collect envs 0 c own scenario_id True incident ob)
             else (case read_context incident c of
               Inl e \<Rightarrow> (Inl e, ob)
             | Inr ctx \<Rightarrow>
                 if ctx_permission own \<noteq> READ_PERMISSION \<or> ctx_idempotency_key own \<noteq> None
                 then (Inl (ValueError ''deferred collection requires the fixed read-only context''), ob)
                 else if ctx \<noteq> own then (Inl (ValueError ''collector context is not bound to incident''), ob)
                 else if scenario \<in> {''D4'', ''D7''} then
                   (case attempt_until_exhausted envs after ctx scenario 0 ob of
                      (Inl e, ob1) \<Rightarrow> (Inl e, ob1)
                    | (Inr (reason, i), ob1) \<Rightarrow>
                        apfst (map_sum id (\<lambda>rs. (rs, view\<lparr>dv_reason := reason\<rparr>)))
                          (collector_collect envs i c own scenario_id True incident ob1))
                 else if scenario = ''D6'' then d6_collect envs after ctx p terminal ob
                 else if scenario = ''R05'' then
                   apfst (map_sum id (\<lambda>rs. (rs, terminal))) (resumed_collect r05_resume_evidence R05_ORDER envs after ctx p 0 ob)
                 else if scenario \<in> {''R10'', ''R11''} then
                   apfst (map_sum id (\<lambda>rs. (rs, terminal)))
                     (resumed_collect r10_r11_resume_evidence [partner_opening scenario, ''dependency_metrics'']
                        envs after ctx p 0 ob)
                 else apfst (map_sum id (\<lambda>rs. (rs, terminal))) (collector_collect envs 0 c own scenario_id True incident ob)))"

section \<open>The graph\<close>

definition incident_state_of :: "string \<Rightarrow> incident_state result" where
  "incident_state_of name =
     (case find (\<lambda>s. incident_state_name s = name) [IS_OPEN, INVESTIGATING, AWAITING_APPROVAL, DEFERRED, RESOLVED, BLOCKED] of
        None \<Rightarrow> Inl (ValueError ''IncidentState'') | Some s \<Rightarrow> Inr s)"

definition deferred_report ::
  "incident_identity \<Rightarrow> incident_state \<Rightarrow> string \<Rightarrow> hypothesis list \<Rightarrow> string list \<Rightarrow> incident_report" where
  "deferred_report incident terminal diagnosis hypotheses ids = \<lparr>rep_incident = incident\<lparr>idn_state := terminal\<rparr>,
     rep_diagnosis = diagnosis, rep_hypotheses = hypotheses, rep_evidence_ids = ids, rep_action_hash = None,
     rep_policy = None, rep_monitor = None, rep_verification = None, rep_final_state = terminal\<rparr>"

definition deferred_audit ::
  "(string \<Rightarrow> uuid) \<Rightarrow> string \<Rightarrow> instant \<Rightarrow> incident_identity \<Rightarrow> string \<Rightarrow> string \<Rightarrow> observability \<Rightarrow> observability result" where
  [deferred_defs]: "deferred_audit uuid5 actor now incident transition reason ob =
     (case audit_emit uuid5 actor \<lparr>ca_transition = transition, ca_incident_id = idn_incident_id incident,
             ca_thread_id = idn_thread_id incident, ca_action_hash = None, ca_reason = Some reason, ca_at = now\<rparr> (ob_lab ob) of
        (Inl e, db) \<Rightarrow> Inl e | (Inr _, db) \<Rightarrow> Inr (ob\<lparr>ob_lab := db\<rparr>))"

text \<open>The result for a validated collection, and for one the validation refused.\<close>

definition deferred_terminal ::
  "(string \<Rightarrow> uuid) \<Rightarrow> string \<Rightarrow> instant \<Rightarrow> incident_identity \<Rightarrow> lab_evidence list \<Rightarrow> deferred_view \<Rightarrow> observability \<Rightarrow>
   workflow_result result \<times> observability" where
  [deferred_defs]: "deferred_terminal uuid5 actor now incident records view ob =
     (case dict_get NO_ACTION_CATALOG (idn_scenario_id incident) of
        None \<Rightarrow> (Inl (KeyError (idn_scenario_id incident)), ob)
      | Some metadata \<Rightarrow>
          (case incident_state_of (dv_final_state view) of
             Inl e \<Rightarrow> (Inl e, ob)
           | Inr terminal \<Rightarrow>
               (case deferred_audit uuid5 actor now incident (na_audit metadata) (dv_reason view) ob of
                  Inl e \<Rightarrow> (Inl e, ob)
                | Inr ob1 \<Rightarrow>
                    (case validate_hypothesis \<lparr>hyp_hypothesis_id = to_lower_text (idn_scenario_id incident) @ ''-deferred'',
                            hyp_statement = dv_diagnosis view, hyp_confidence = na_confidence metadata,
                            hyp_evidence_ids = map le_evidence_id records\<rparr> of
                       Inl e \<Rightarrow> (Inl e, ob1)
                     | Inr hyp \<Rightarrow>
                         (Inr ((blocked_with [dv_reason view])\<lparr>wr_final_state := dv_final_state view,
                            wr_evidence_ids := hyp_evidence_ids hyp, wr_hypothesis := Some hyp,
                            wr_report := Some (deferred_report incident terminal (dv_diagnosis view) [hyp] (hyp_evidence_ids hyp))\<rparr>),
                          ob1)))))"

definition deferred_refused ::
  "(string \<Rightarrow> uuid) \<Rightarrow> string \<Rightarrow> instant \<Rightarrow> incident_identity \<Rightarrow> lab_evidence list \<Rightarrow> deferred_view \<Rightarrow> observability \<Rightarrow>
   workflow_result result \<times> observability" where
  [deferred_defs]: "deferred_refused uuid5 actor now incident records view ob =
     (let ids = map le_evidence_id records in
      if dv_final_state view \<noteq> ''blocked'' \<and> dv_reason view = TIME_BUDGET_EXHAUSTED then
        (case incident_state_of (dv_final_state view) of
           Inl e \<Rightarrow> (Inl e, ob)
         | Inr terminal \<Rightarrow>
             (case deferred_audit uuid5 actor now incident ''collection_deferred'' (dv_reason view) ob of
                Inl e \<Rightarrow> (Inl e, ob)
              | Inr ob1 \<Rightarrow>
                  (Inr ((blocked_with [dv_reason view])\<lparr>wr_final_state := dv_final_state view, wr_evidence_ids := ids,
                     wr_report := Some (deferred_report incident terminal ''stale health evidence'' [] ids)\<rparr>), ob1)))
      else (Inr ((blocked_with [NO_ACTION_EVIDENCE_VALIDATION_FAILED])\<lparr>wr_evidence_ids := ids\<rparr>), ob))"

text \<open>The only node: what it adds to the state is the records and the result.\<close>

definition deferred_node ::
  "(string \<Rightarrow> uuid) \<Rightarrow> (string \<Rightarrow> bool) \<Rightarrow> string \<Rightarrow> (nat \<Rightarrow> read_env) \<Rightarrow> instant \<Rightarrow> (int \<Rightarrow> py_exn option) \<Rightarrow> tool_call_context \<Rightarrow>
   string \<Rightarrow> incident_identity \<Rightarrow> tool_call_context \<Rightarrow> caller \<Rightarrow> observability \<Rightarrow>
   (lab_evidence list option \<times> workflow_result) result \<times> observability" where
  [deferred_defs]: "deferred_node uuid5 parses actor envs now after own scenario_id incident ctx c ob =
     (if ctx_incident_id ctx \<noteq> idn_incident_id incident \<or> ctx_thread_id ctx \<noteq> idn_thread_id incident \<or>
         ctx_correlation_id ctx \<noteq> idn_correlation_id incident \<or> ctx_actor ctx \<noteq> cal_actor c \<or>
         ctx_permission ctx \<noteq> READ_PERMISSION \<or> ctx_idempotency_key ctx \<noteq> None
      then (Inr (None, blocked_with [COLLECTION_CONTEXT_MISMATCH]), ob)
      else case deferred_collect envs after c own scenario_id incident ob of
        (Inl e, ob1) \<Rightarrow> (Inl e, ob1)
      | (Inr (records, view), ob1) \<Rightarrow>
          (case validate_no_action_evidence parses (idn_scenario_id incident) records of
             Inl e \<Rightarrow> (Inl e, ob1)
           | Inr ok \<Rightarrow> apfst (map_sum id (Pair (Some records)))
               ((if ok then deferred_terminal else deferred_refused) uuid5 actor now incident records view ob1)))"

section \<open>The bounded attempts\<close>

lemma evidence_attempts:
  assumes "evidence env ctx kind ob = Inr (e, ob')"
  shows "ob_attempts ob' = ob_attempts ob"
  using assms
proof (cases rule: evidence_Inr)
  case (1 o')
  then show ?thesis using observe_framed[OF 1(1)]
    by (auto simp: record_evidence_def Let_def reads_framed_def split: if_splits)
qed

lemma fold_max_upt: "fold max (map int [1..<Suc k]) 0 = int k"
  by (induction k) auto

text \<open>The attempts of a context are numbered from one without a gap, in every reachable store.\<close>

lemma attempts_numbered:
  "collection_reachable ob \<Longrightarrow>
     map ta_attempt_number (attempts_of ob ctx) = map int [1..<Suc (length (attempts_of ob ctx))]"
proof (induction rule: collection_induct)
  case (read ob env c kind e ob')
  then show ?case using evidence_attempts[OF read(2)] by (simp add: attempts_of_def)
next
  case (attempt ob env c sid outcome ob')
  let ?number = "fold max (map ta_attempt_number (attempts_of ob c)) 0 + 1"
  from begin_collection_attempt_Inr[OF attempt(2)] obtain scenario runs where
    "ob' = ob\<lparr>ob_attempt_runs := runs\<rparr> \<or>
     ob' = ob\<lparr>ob_attempt_runs := runs, ob_attempts := ob_attempts ob @ [new_attempt env c scenario ?number]\<rparr>"
    unfolding Let_def by blast
  then show ?case
  proof
    assume o: "ob' = ob\<lparr>ob_attempt_runs := runs, ob_attempts := ob_attempts ob @ [new_attempt env c scenario ?number]\<rparr>"
    show ?thesis
    proof (cases "(run_key c, ctx_actor c, ctx_permission c) = (run_key ctx, ctx_actor ctx, ctx_permission ctx)")
      case True
      then have "attempts_of ob c = attempts_of ob ctx" by (simp add: attempts_of_def)
      moreover from True have "attempts_of ob' ctx = attempts_of ob ctx @ [new_attempt env c scenario ?number]"
        unfolding o by (simp add: attempts_of_def new_attempt_def)
      ultimately show ?thesis using attempt(1) fold_max_upt by (simp add: new_attempt_def)
    next
      case False
      then have "attempts_of ob' ctx = attempts_of ob ctx" unfolding o by (auto simp: attempts_of_def new_attempt_def)
      then show ?thesis using attempt(1) by simp
    qed
  qed (use attempt(1) in \<open>simp add: attempts_of_simps\<close>)
next
  case (reset ob i)
  have "attempts_of (delete_incident_reads i ob) ctx = (if ctx_incident_id ctx = i then [] else attempts_of ob ctx)"
    by (auto simp: attempts_of_def delete_incident_reads_def run_key_def filter_empty_conv intro: filter_cong)
  then show ?case using reset by (cases "ctx_incident_id ctx = i") (simp_all del: upt_Suc)
qed (simp_all add: attempts_of_def empty_observability_def)

lemma highest_attempt:
  "collection_reachable ob \<Longrightarrow> fold max (map ta_attempt_number (attempts_of ob ctx)) 0 = int (length (attempts_of ob ctx))"
  by (simp only: attempts_numbered fold_max_upt)

text \<open>
  the timeout collections of D4 and D7 are bounded. Whatever the clock reads and wherever an
  injected crash stops it, the loop over a reachable store makes at most one attempt more than the
  retry budget over all entries of the node for its context; it returns only with one of the two
  budget reasons, and with the retry budget only when the budget is spent.
\<close>

theorem deferred_attempts_bounded:
  assumes "collection_reachable ob" "checkpoint_scenario sid = Inr (scenario, incident)"
    and "db_fixtures (ob_lab ob) (''collection_fault_state'', scenario) = Some row"
    and "attempt_until_exhausted envs after ctx sid i ob = (r, ob')"
  shows "collection_reachable ob' \<and>
    int (length (attempts_of ob' ctx)) \<le> max (int (length (attempts_of ob ctx))) (int_of (column row ''retry_budget'') + 1) \<and>
    (case r of Inl e \<Rightarrow> True
     | Inr (reason, j) \<Rightarrow> reason = TIME_BUDGET_EXHAUSTED \<or>
         reason = RETRY_BUDGET_EXHAUSTED \<and> int_of (column row ''retry_budget'') + 1 \<le> int (length (attempts_of ob' ctx)))"
  using assms
proof (induction envs after ctx sid i ob rule: attempt_until_exhausted.induct)
  case (1 envs after ctx sid i ob)
  let ?budget = "int_of (column row ''retry_budget'')"
  show ?case
  proof (cases "begin_collection_attempt (envs i) ctx sid ob")
    case (Inl e)
    then show ?thesis using "1.prems" by (auto simp: attempt_until_exhausted.simps[of envs])
  next
    case (Inr a)
    then obtain number reason ob1 where b: "begin_collection_attempt (envs i) ctx sid ob = Inr ((number, reason), ob1)"
      by (cases a) auto
    then have r1: "collection_reachable ob1" using "1.prems"(1) by (blast intro: collection_reachable.step collection_step.attempt)
    have h: "fold max (map ta_attempt_number (attempts_of ob ctx)) 0 = int (length (attempts_of ob ctx))"
      by (rule highest_attempt[OF "1.prems"(1)])
    from begin_collection_attempt_Inr[OF b] "1.prems"(2,3) obtain runs where c:
      "number = None \<and> (reason = TIME_BUDGET_EXHAUSTED \<or> ?budget + 1 < int (length (attempts_of ob ctx)) + 1 \<and> reason = RETRY_BUDGET_EXHAUSTED) \<and>
         ob1 = ob\<lparr>ob_attempt_runs := runs\<rparr> \<or>
       number = Some (int (length (attempts_of ob ctx)) + 1) \<and> int (length (attempts_of ob ctx)) + 1 \<le> ?budget + 1 \<and>
         ob1 = ob\<lparr>ob_attempt_runs := runs, ob_attempts := ob_attempts ob @
           [new_attempt (envs i) ctx scenario (int (length (attempts_of ob ctx)) + 1)]\<rparr>"
      unfolding Let_def h by auto
    show ?thesis
    proof (cases number)
      case None
      then have "r = Inr (reason, Suc i)" "ob' = ob1"
        using "1.prems"(4) b by (simp_all add: attempt_until_exhausted.simps[of envs])
      then show ?thesis using c None r1 by (auto simp: attempts_of_simps)
    next
      case (Some n)
      then have o: "ob1 = ob\<lparr>ob_attempt_runs := runs, ob_attempts := ob_attempts ob @
           [new_attempt (envs i) ctx scenario (int (length (attempts_of ob ctx)) + 1)]\<rparr>"
        and n: "int (length (attempts_of ob ctx)) + 1 \<le> ?budget + 1" using c by auto
      have l: "length (attempts_of ob1 ctx) = Suc (length (attempts_of ob ctx))" unfolding o by (simp add: attempts_of_simps)
      show ?thesis
      proof (cases "after n")
        case None
        with b Some "1.prems"(4) have "attempt_until_exhausted envs after ctx sid (Suc i) ob1 = (r, ob')"
          by (simp add: attempt_until_exhausted.simps[of envs after ctx sid i])
        from "1.IH"[OF b refl refl Some None r1 "1.prems"(2) _ this] show ?thesis
          using "1.prems"(3) l n by (simp add: o split: sum.splits)
      next
        case (Some e)
        then have "r = Inl e" "ob' = ob1"
          using "1.prems"(4) b \<open>number = Some n\<close> by (simp_all add: attempt_until_exhausted.simps[of envs])
        then show ?thesis using r1 l n by simp
      qed
    qed
  qed
qed

section \<open>What a collection leaves behind\<close>

lemma observability_get_Inr:
  "observability_get env ctx p kind ob = (Inr r, ob') \<Longrightarrow> evidence env ctx kind ob = Inr (r, ob')"
  by (auto simp: observability_get_def split: sum.splits if_splits)

lemma observability_get_Inl: "observability_get env ctx p kind ob = (Inl e, ob') \<Longrightarrow> ob' = ob"
  by (auto simp: observability_get_def split: sum.splits if_splits)

text \<open>The reads keep what the operations own; only the evidence they may cite grows.\<close>

definition only_observed :: "observability \<Rightarrow> observability \<Rightarrow> bool" where
  "only_observed ob ob' = (\<exists>rows. ob_lab ob' = (ob_lab ob)\<lparr>db_evidence := rows\<rparr>)"

named_theorems observed \<open>the reads only observe\<close>

lemma only_observed_refl [simp]: "only_observed ob ob"
  unfolding only_observed_def by (rule exI[of _ "db_evidence (ob_lab ob)"]) simp

lemma only_observed_trans [trans]: "only_observed a b \<Longrightarrow> only_observed b c \<Longrightarrow> only_observed a c"
  by (auto simp: only_observed_def)

lemma get_observed [observed]: "observability_get env ctx p kind ob = (r, ob') \<Longrightarrow> only_observed ob ob'"
  by (cases r) (auto dest!: observability_get_Inl dest: observability_get_Inr[THEN evidence_lab] intro: only_observed_def[THEN iffD2])

lemma read_all_observed [observed]: "read_all envs i ctx p kinds ob = (r, ob') \<Longrightarrow> only_observed ob ob'"
proof (induction envs i ctx p kinds ob arbitrary: r rule: read_all.induct)
  case (2 envs i ctx p kind kinds ob)
  then show ?case
    by (auto split: prod.splits sum.splits simp: apfst_def map_prod_def) (blast intro: only_observed_trans get_observed)+
qed simp

lemma read_on_observed [observed]: "read_on envs after ctx p i n kinds ob = (r, ob') \<Longrightarrow> only_observed ob ob'"
proof (induction envs after ctx p i n kinds ob arbitrary: r rule: read_on.induct)
  case (2 envs after ctx p i n kind kinds ob)
  then show ?case
    by (auto split: prod.splits sum.splits option.splits simp: apfst_def map_prod_def)
      (blast intro: only_observed_trans get_observed)+
qed simp

lemma attempts_observed [observed]:
  "attempt_until_exhausted envs after ctx sid i ob = (r, ob') \<Longrightarrow> only_observed ob ob'"
proof (induction envs after ctx sid i ob arbitrary: r rule: attempt_until_exhausted.induct)
  case (1 envs after ctx sid i ob)
  have one: "only_observed ob ob1" if "begin_collection_attempt (envs i) ctx sid ob = Inr (outcome, ob1)" for outcome ob1
    using begin_collection_attempt_Inr[OF that] unfolding only_observed_def Let_def
    by (elim exE conjE disjE) (rule exI[of _ "db_evidence (ob_lab ob)"], simp)+
  show ?case
  proof (cases "begin_collection_attempt (envs i) ctx sid ob")
    case (Inl e)
    then show ?thesis using "1.prems" by (simp add: attempt_until_exhausted.simps[of envs])
  next
    case (Inr a)
    then obtain number reason ob1 where b: "begin_collection_attempt (envs i) ctx sid ob = Inr ((number, reason), ob1)"
      by (cases a) auto
    show ?thesis
    proof (cases "number = None \<or> after (the number) \<noteq> None")
      case True
      then show ?thesis using "1.prems" b one[OF b] by (auto simp: attempt_until_exhausted.simps[of envs] split: option.splits)
    next
      case False
      then obtain n where n: "number = Some n" "after n = None" by auto
      with b "1.prems" have "attempt_until_exhausted envs after ctx sid (Suc i) ob1 = (r, ob')"
        by (simp add: attempt_until_exhausted.simps[of envs after ctx sid i])
      from "1.IH"[OF b refl refl n this] one[OF b] show ?thesis by (rule only_observed_trans[rotated])
    qed
  qed
qed

lemma collector_observed [observed]:
  "collector_collect envs i c own sid serde incident ob = (r, ob') \<Longrightarrow> only_observed ob ob'"
  by (auto simp: collector_collect_def apfst_def map_prod_def split: sum.splits if_splits option.splits prod.splits
      dest: read_all_observed)

lemma resumed_observed [observed]:
  "resumed_collect resume kinds envs after ctx p i ob = (r, ob') \<Longrightarrow> only_observed ob ob'"
  by (auto simp: resumed_collect_def apfst_def map_prod_def split: sum.splits prod.splits dest: read_on_observed)

lemma d6_last_observed [observed]: "d6_last envs ctx p i view records ob = (r, ob') \<Longrightarrow> only_observed ob ob'"
  by (auto simp: d6_last_def split: if_splits sum.splits prod.splits option.splits dest: get_observed)

lemma d6_recheck_observed [observed]: "d6_recheck envs ctx p i view records ob = (r, ob') \<Longrightarrow> only_observed ob ob'"
  by (auto simp: d6_recheck_def split: if_splits sum.splits prod.splits
      dest: get_observed d6_last_observed intro: only_observed_trans)

lemma d6_observed [observed]: "d6_collect envs after ctx p view ob = (r, ob') \<Longrightarrow> only_observed ob ob'"
  by (auto simp: d6_collect_def split: if_splits sum.splits prod.splits option.splits
      dest: get_observed d6_recheck_observed intro: only_observed_trans)

lemma deferred_collect_observed [observed]:
  assumes "deferred_collect envs after c own sid incident ob = (r, ob')"
  shows "only_observed ob ob'"
proof -
  have ap: "apfst f x = (r, ob') \<Longrightarrow> (\<And>r'. x = (r', ob') \<Longrightarrow> only_observed ob ob') \<Longrightarrow> only_observed ob ob'"
    for f :: "lab_evidence list result \<Rightarrow> (lab_evidence list \<times> deferred_view) result" and x
    by (cases x) auto
  from assms show ?thesis
    unfolding deferred_collect_def Let_def
    by (auto split: option.splits sum.splits if_splits prod.splits
        elim!: ap intro: only_observed_trans dest: collector_observed resumed_observed d6_observed attempts_observed)
qed

text \<open>What the graph reads off the collector is always one of the declared states and reasons.\<close>

definition view_ok :: "deferred_view \<Rightarrow> bool" where
  "view_ok view = (dv_final_state view \<in> {''resolved'', ''deferred'', ''blocked''} \<and> is_known_reason (dv_reason view))"

lemma catalog_views:
  "dict_get NO_ACTION_CATALOG sid = Some entry \<Longrightarrow>
     view_ok (deferred_view_of entry) \<and> view_ok ((deferred_view_of entry)\<lparr>dv_reason := na_reason entry\<rparr>)"
proof -
  have "list_all (\<lambda>(k, e). na_state e \<in> {''resolved'', ''deferred'', ''blocked''} \<and> is_known_reason (na_reason e)) NO_ACTION_CATALOG"
    by (simp add: NO_ACTION_CATALOG_def static_constants_known)
  then show "dict_get NO_ACTION_CATALOG sid = Some entry \<Longrightarrow> ?thesis"
    unfolding dict_get_def by (auto dest!: map_of_SomeD simp: list_all_iff view_ok_def deferred_view_of_def static_constants_known)
qed

lemma budget_view: "view_ok view \<Longrightarrow> is_known_reason reason \<Longrightarrow> view_ok (budget_exhausted reason view)"
  by (simp add: view_ok_def budget_exhausted_def)

lemma d6_resume_reason: "d6_resume_state ctx now ob = Inr (records, Some reason) \<Longrightarrow> reason = TIME_BUDGET_EXHAUSTED"
  by (auto simp: d6_resume_state_def Let_def split: if_splits option.splits prod.splits)

lemma d6_last_view:
  "d6_last envs ctx p i view records ob = (Inr (rs, v), ob') \<Longrightarrow> view_ok view \<Longrightarrow> view_ok v"
  by (auto simp: d6_last_def static_constants_known split: if_splits sum.splits prod.splits option.splits
      dest!: d6_resume_reason intro: budget_view)

lemma d6_recheck_view:
  "d6_recheck envs ctx p i view records ob = (Inr (rs, v), ob') \<Longrightarrow> view_ok view \<Longrightarrow> view_ok v"
  by (auto simp: d6_recheck_def static_constants_known split: if_splits sum.splits prod.splits
      intro: budget_view d6_last_view)

lemma d6_view:
  "d6_collect envs after ctx p view ob = (Inr (rs, v), ob') \<Longrightarrow> view_ok view \<Longrightarrow> view_ok v"
  by (auto simp: d6_collect_def static_constants_known split: if_splits sum.splits prod.splits option.splits
      dest!: d6_resume_reason intro: budget_view d6_recheck_view)

lemma attempts_reason:
  "attempt_until_exhausted envs after ctx sid i ob = (Inr (reason, j), ob') \<Longrightarrow> is_known_reason reason"
proof (induction envs after ctx sid i ob rule: attempt_until_exhausted.induct)
  case (1 envs after ctx sid i ob)
  obtain number why ob1 where b: "begin_collection_attempt (envs i) ctx sid ob = Inr ((number, why), ob1)"
    using "1.prems" by (auto simp: attempt_until_exhausted.simps[of envs] split: sum.splits)
  show ?case
  proof (cases number)
    case None
    then show ?thesis using "1.prems" b begin_collection_attempt_Inr[OF b]
      by (auto simp: attempt_until_exhausted.simps[of envs] static_constants_known Let_def)
  next
    case (Some n)
    then have a: "after n = None" and "attempt_until_exhausted envs after ctx sid (Suc i) ob1 = (Inr (reason, j), ob')"
      using "1.prems" b by (auto simp: attempt_until_exhausted.simps[of envs after ctx sid i] split: option.splits)
    from "1.IH"[OF b refl refl Some a this(2)] show ?thesis .
  qed
qed

lemma deferred_collect_view:
  assumes "deferred_collect envs after c own sid incident ob = (Inr (rs, v), ob')"
  shows "view_ok v"
proof -
  obtain entry where e: "dict_get NO_ACTION_CATALOG sid = Some entry"
    using assms by (auto simp: deferred_collect_def split: option.splits)
  note ok = catalog_views[OF e]
  have ap: "apfst (map_sum id (\<lambda>rs. (rs, w))) x = (Inr (rs, v), ob') \<Longrightarrow> view_ok w \<Longrightarrow> view_ok v"
    for w and x :: "lab_evidence list result \<times> observability"
    by (cases x, cases "fst x") auto
  have rs: "view_ok w \<Longrightarrow> is_known_reason reason \<Longrightarrow> view_ok (w\<lparr>dv_reason := reason\<rparr>)" for w reason
    by (simp add: view_ok_def)
  from assms e ok show ?thesis
    unfolding deferred_collect_def Let_def
    by (auto split: sum.splits if_splits prod.splits intro: ap d6_view rs attempts_reason)
qed

section \<open>A no-action run cannot act\<close>

text \<open>The stores that differ only in their evidence and in one more audit row at most.\<close>

definition only_audited :: "lab_db \<Rightarrow> lab_db \<Rightarrow> bool" where
  "only_audited db db' = (\<exists>evidence rows. length rows \<le> 1 \<and>
     db' = db\<lparr>db_evidence := evidence, db_audit := db_audit db @ rows\<rparr>)"

lemma only_observed_audited: "only_observed ob ob' \<Longrightarrow> only_audited (ob_lab ob) (ob_lab ob')"
  unfolding only_observed_def only_audited_def
  by (elim exE, rule_tac x = rows in exI, rule_tac x = "[]" in exI) simp

lemma audit_insert_rows:
  "\<exists>rows. length rows \<le> 1 \<and> audit_insert uuid5 e t i db = db\<lparr>db_audit := db_audit db @ rows\<rparr>"
proof -
  have "\<exists>rows. length rows \<le> 1 \<and> (if p then db else db\<lparr>db_audit := db_audit db @ [x]\<rparr>) = db\<lparr>db_audit := db_audit db @ rows\<rparr>"
    for p x by (cases p) (rule exI[of _ "[]"], simp, rule exI[of _ "[x]"], simp)
  then show ?thesis unfolding audit_insert_def Let_def .
qed

lemma deferred_audit_Inr:
  assumes "deferred_audit uuid5 actor now incident transition reason ob1 = Inr ob2" "only_observed ob ob1"
  shows "only_audited (ob_lab ob) (ob_lab ob2)"
proof -
  obtain e t where "ob_lab ob2 = audit_insert uuid5 e t None (ob_lab ob1)"
    using assms(1) by (auto simp: deferred_audit_def audit_emit_def split: prod.splits sum.splits dest!: append_audit_Inr)
  then obtain rows where "length rows \<le> 1" "ob_lab ob2 = (ob_lab ob1)\<lparr>db_audit := db_audit (ob_lab ob1) @ rows\<rparr>"
    using audit_insert_rows[of uuid5 e t None "ob_lab ob1"] by auto
  moreover obtain evidence where "ob_lab ob1 = (ob_lab ob)\<lparr>db_evidence := evidence\<rparr>"
    using assms(2) by (auto simp: only_observed_def)
  ultimately show ?thesis unfolding only_audited_def by (intro exI[of _ evidence] exI[of _ rows]) simp
qed

lemma deferred_terminal_cases:
  assumes "deferred_terminal uuid5 actor now incident records view ob1 = (r, ob2)" "only_observed ob ob1" "view_ok view"
  shows "only_audited (ob_lab ob) (ob_lab ob2) \<and>
    (case r of Inl _ \<Rightarrow> True | Inr result \<Rightarrow> wr_final_state result = dv_final_state view \<and>
       wr_reasons result = [dv_reason view] \<and> wr_evidence_ids result = map le_evidence_id records \<and>
       wr_operation result = None \<and> wr_approval result = None)"
  using assms(1) deferred_audit_Inr[OF _ assms(2)] only_observed_audited[OF assms(2)]
  by (auto simp: deferred_terminal_def blocked_with_def validate_hypothesis_def validated_Inr
      split: option.splits sum.splits)

lemma deferred_refused_cases:
  assumes "deferred_refused uuid5 actor now incident records view ob1 = (r, ob2)" "only_observed ob ob1" "view_ok view"
  shows "only_audited (ob_lab ob) (ob_lab ob2) \<and>
    (case r of Inl _ \<Rightarrow> True | Inr result \<Rightarrow>
       (wr_final_state result, wr_reasons result) \<in>
         {(''blocked'', [NO_ACTION_EVIDENCE_VALIDATION_FAILED]), (dv_final_state view, [dv_reason view])} \<and>
       wr_evidence_ids result = map le_evidence_id records \<and> wr_operation result = None \<and> wr_approval result = None)"
  using assms(1) deferred_audit_Inr[OF _ assms(2)] only_observed_audited[OF assms(2)]
  by (auto simp: deferred_refused_def blocked_with_def Let_def split: sum.splits if_splits)

text \<open>
  C34: the collection graph of the no-action scenarios cannot act. Whatever its collector, its
  context and its injected crashes are, and also when the node raises, the approvals, the ledger,
  the fixtures and the side stores of the lab are unchanged and at most one audit row is added;
  a returned result ends blocked, deferred or resolved, names only declared reasons, and carries
  neither an approval nor an operation.
\<close>

theorem deferred_node_cannot_act:
  assumes "deferred_node uuid5 parses actor envs now after own sid incident ctx c ob = (r, ob')"
  shows "only_audited (ob_lab ob) (ob_lab ob') \<and>
    (case r of Inl _ \<Rightarrow> True | Inr (records, result) \<Rightarrow>
       wr_final_state result \<in> {''blocked'', ''deferred'', ''resolved''} \<and> list_all is_known_reason (wr_reasons result) \<and>
       wr_operation result = None \<and> wr_approval result = None)"
proof (cases "ctx_incident_id ctx \<noteq> idn_incident_id incident \<or> ctx_thread_id ctx \<noteq> idn_thread_id incident \<or>
         ctx_correlation_id ctx \<noteq> idn_correlation_id incident \<or> ctx_actor ctx \<noteq> cal_actor c \<or>
         ctx_permission ctx \<noteq> READ_PERMISSION \<or> ctx_idempotency_key ctx \<noteq> None")
  case True
  then have "r = Inr (None, blocked_with [COLLECTION_CONTEXT_MISMATCH])" "ob' = ob"
    using assms unfolding deferred_node_def if_P[OF True] by simp_all
  then show ?thesis using only_observed_audited[OF only_observed_refl] by (simp add: blocked_with_def)
next
  case False
  note node = assms[unfolded deferred_node_def if_not_P[OF False]]
  obtain x ob1 where x: "deferred_collect envs after c own sid incident ob = (x, ob1)" by fastforce
  then have o: "only_observed ob ob1" by (rule deferred_collect_observed)
  show ?thesis
  proof (cases x)
    case (Inl e)
    then show ?thesis using node x only_observed_audited[OF o] by auto
  next
    case (Inr a)
    then obtain records view where a: "x = Inr (records, view)" by (cases a) auto
    have v: "view_ok view" using deferred_collect_view x a by blast
    show ?thesis
    proof (cases "validate_no_action_evidence parses (idn_scenario_id incident) records")
      case (Inl e)
      then show ?thesis using node x a only_observed_audited[OF o] by auto
    next
      case (Inr ok)
      obtain res where res: "(if ok then deferred_terminal else deferred_refused) uuid5 actor now incident records view ob1 = (res, ob')"
          "r = map_sum id (Pair (Some records)) res"
        using node x a Inr by (auto simp: apfst_def map_prod_def split: prod.splits)
      show ?thesis
        using res deferred_terminal_cases[OF _ o v, of uuid5 actor now incident records res ob']
          deferred_refused_cases[OF _ o v, of uuid5 actor now incident records res ob'] v
        by (cases ok; cases res) (auto simp: view_ok_def)
    qed
  qed
qed

section \<open>An interrupted collection concludes\<close>

lemma map_sum_Inr [simp]: "map_sum id f x = Inr y \<longleftrightarrow> (\<exists>z. x = Inr z \<and> y = f z)"
  by (cases x) auto

context ordered_collection
begin

lemma read_on_resumes:
  assumes "collection_reachable ob" "ctx_incident_id ctx \<in> incidents"
    and "resume_evidence name (runs ob) (links ob) ctx ob = Inr rs"
    and "read_on envs after ctx p i n kinds ob = (Inr es, ob')"
  shows "collection_reachable ob' \<and> length es = length kinds \<and>
    resume_evidence name (runs ob') (links ob') ctx ob' = Inr (rs @ map without_source es)"
  using assms
proof (induction envs after ctx p i n kinds ob arbitrary: rs es rule: read_on.induct)
  case (2 envs after ctx p i n kind kinds ob)
  obtain e ob1 es' where g: "observability_get (envs i) ctx p kind ob = (Inr e, ob1)" "after (int (Suc n)) = None"
      "read_on envs after ctx p (Suc i) (Suc n) kinds ob1 = (Inr es', ob')" "es = e # es'"
    using "2.prems"(4) by (auto simp: apfst_def map_prod_def split: prod.splits sum.splits option.splits)
  note ev = observability_get_Inr[OF g(1)]
  have r1: "collection_reachable ob1" using "2.prems"(1) ev by (blast intro: collection_reachable.step collection_step.read)
  from "2.IH"[OF g(1)[symmetric] refl g(2) r1 "2.prems"(2) resume_extends[OF "2.prems"(1,2) ev "2.prems"(3)] g(3)]
  show ?case using g(4) by simp
qed simp

lemma resumed_collect_records:
  assumes "collection_reachable ob" "ctx_incident_id ctx \<in> incidents"
    and "resumed_collect (\<lambda>ctx ob. resume_evidence name (runs ob) (links ob) ctx ob) kinds envs after ctx p i ob = (Inr records, ob')"
  shows "collection_reachable ob' \<and> resume_evidence name (runs ob') (links ob') ctx ob' = Inr records \<and>
    length kinds \<le> length records"
proof -
  obtain rs es where r: "resume_evidence name (runs ob) (links ob) ctx ob = Inr rs"
      "read_on envs after ctx p i (length rs) (drop (length rs) kinds) ob = (Inr es, ob')" "records = map without_source (rs @ es)"
    using assms(3) by (auto simp: resumed_collect_def apfst_def map_prod_def split: sum.splits prod.splits)
  from r(1) have "map without_source rs = rs"
    unfolding resume_evidence_def by (auto simp: without_source_def Let_def split: option.splits if_splits)
  with read_on_resumes[OF assms(1,2) r(1,2)] r(3) show ?thesis by auto
qed

end

text \<open>The records of an owner fit the envelope the validator asks for.\<close>

lemma bound_records_valid:
  assumes "list_all (\<lambda>e. bound_to ctx e) records" "records \<noteq> []" "validate_context ctx = Inr ctx"
    and "ctx_incident_id ctx = ''INC-'' @ scenario" "ctx_permission ctx = READ_PERMISSION"
    and "dict_get EXPECTED_TOOLS scenario = Some (map le_tool_name records)"
  shows "validate_no_action_evidence parses scenario records = no_action_payloads parses scenario records"
proof -
  have b: "bound_fields e = [ctx_incident_id ctx, ctx_thread_id ctx, ctx_correlation_id ctx, ctx_actor ctx, ctx_permission ctx]"
    if "e \<in> set records" for e
    using assms(1) that by (auto simp: list_all_iff bound_to_def bound_fields_def)
  have h: "hd records \<in> set records" using assms(2) by simp
  have "ctx_thread_id ctx \<noteq> []" "ctx_correlation_id ctx \<noteq> []" "ctx_actor ctx \<noteq> []"
    using assms(3) unfolding validate_context_def validated_Inr first_failure_None by auto
  then have "[] \<notin> set (bound_fields (hd records))" using b[OF h] assms(4,5) by (simp add: READ_PERMISSION_def)
  moreover have "le_incident_id (hd records) = ''INC-'' @ scenario" "le_permission (hd records) = READ_PERMISSION"
    using b[OF h] assms(4,5) by (simp_all add: bound_fields_def)
  moreover have "\<not> list_ex (\<lambda>e. bound_fields e \<noteq> bound_fields (hd records)) (tl records)"
    using b h by (auto simp: list_ex_iff dest: list.set_sel(2)[OF assms(2)])
  ultimately show ?thesis unfolding validate_no_action_evidence_def assms(6) by simp
qed

lemma r05_collected_valid:
  assumes "collection_reachable ob" "validate_context ctx = Inr ctx" "ctx_incident_id ctx = ''INC-R05''"
    and "resumed_collect r05_resume_evidence R05_ORDER envs after ctx p i ob = (Inr records, ob')"
    and "ctx_permission ctx = READ_PERMISSION"
  shows "validate_no_action_evidence parses ''R05'' records = Inr True \<and>
    map le_tool_name records = map evidence_tool_name R05_ORDER"
proof -
  have "r05_resume_evidence = (\<lambda>ctx ob. resume_evidence ''R05'' (ob_r05_runs ob) (ob_r05_evidence ob) ctx ob)"
    by (intro ext) (simp add: r05_resume_evidence_def)
  with r05.resumed_collect_records[OF assms(1) _ assms(4)[unfolded this]] assms(3)
  have r: "collection_reachable ob'" "r05_resume_evidence ctx ob' = Inr records" "3 \<le> length records"
    unfolding r05_resume_evidence_def by (simp_all add: R05_ORDER_def)
  then obtain run where run: "map_of (ob_r05_runs ob') (run_key ctx) = Some run"
      "rr_actor run = ctx_actor ctx" "rr_permission run = ctx_permission ctx"
    by (auto simp: r05_resume_evidence_def resume_evidence_def split: option.splits if_splits)
  from r05_records[OF r(1) run] r have l: "length records = 3"
    and t: "map le_tool_name records = map evidence_tool_name R05_ORDER"
    and b: "list_all (\<lambda>e. bound_to ctx e) records"
    and q: "map le_payload records = map (\<lambda>k. r05_payload (Suc k) 0 (R05_ORDER ! k)) [0..<3]"
    by (auto simp: list_all_iff R05_ORDER_def)
  have "dict_get EXPECTED_TOOLS ''R05'' = Some (map le_tool_name records)"
    unfolding t by (simp add: dict_get_def EXPECTED_TOOLS_def R05_ORDER_def evidence_tool_name_def)
  then have "validate_no_action_evidence parses ''R05'' records = no_action_payloads parses ''R05'' records"
    using bound_records_valid[OF b _ assms(2)] assms(3,5) l by fastforce
  moreover have "[0..<3::nat] = [0, 1, 2]" by (simp add: upt_rec)
  then have "no_action_payloads parses ''R05'' records = Inr True"
    using q by (simp add: no_action_payloads_def R05_ORDER_def r05_payload_def payload_is_def payload_get_def
        dict_get_def num_eq_def)
  ultimately show ?thesis using t by simp
qed

lemma r10_collected_valid:
  assumes "collection_reachable ob" "validate_context ctx = Inr ctx" "ctx_incident_id ctx = ''INC-R10''"
    and "resumed_collect r10_r11_resume_evidence [partner_opening ''R10'', ''dependency_metrics''] envs after ctx p i ob = (Inr records, ob')"
    and "ctx_permission ctx = READ_PERMISSION"
  shows "validate_no_action_evidence parses ''R10'' records = Inr True \<and>
    map le_tool_name records = map evidence_tool_name [''dns_lookup'', ''dependency_metrics'']"
proof -
  have "r10_r11_resume_evidence = (\<lambda>ctx ob. resume_evidence ''R10/R11'' (ob_partner_runs ob) (ob_partner_evidence ob) ctx ob)"
    by (intro ext) (simp add: r10_r11_resume_evidence_def)
  with partner.resumed_collect_records[OF assms(1) _ assms(4)[unfolded this]] assms(3)
  have r: "collection_reachable ob'" "resume_evidence ''R10/R11'' (ob_partner_runs ob') (ob_partner_evidence ob') ctx ob' = Inr records"
      "2 \<le> length records"
    by simp_all
  then obtain run where run: "map_of (ob_partner_runs ob') (run_key ctx) = Some run"
      "rr_actor run = ctx_actor ctx" "rr_permission run = ctx_permission ctx"
    by (auto simp: resume_evidence_def split: option.splits if_splits)
  from partner.resume_prefix[OF r(1) run, of "''R10/R11''"] r assms(3) have l: "length records = 2"
    and t: "map le_tool_name records = map evidence_tool_name [''dns_lookup'', ''dependency_metrics'']"
    and b: "list_all (\<lambda>e. bound_to ctx e) records"
    and q: "\<forall>k < 2. partner_content ''INC-R10'' (Suc k) (le_payload (records ! k))"
    by (auto simp: list_all_iff partner_order_def partner_opening_def)
  have "dict_get EXPECTED_TOOLS ''R10'' = Some (map le_tool_name records)"
    unfolding t by (simp add: dict_get_def EXPECTED_TOOLS_def evidence_tool_name_def)
  then have "validate_no_action_evidence parses ''R10'' records = no_action_payloads parses ''R10'' records"
    using bound_records_valid[OF b _ assms(2)] assms(3,5) l by fastforce
  moreover have "no_action_payloads parses ''R10'' records = Inr True"
    using q[rule_format, of 0] q[rule_format, of 1] l
    by (simp add: no_action_payloads_def partner_content_def partner_payload_def payload_is_def num_eq_def)
  ultimately show ?thesis using t by simp
qed

lemma deferred_collect_ordered:
  assumes "deferred_collect envs after c own sid incident ob = (Inr (records, view), ob')"
    and "idn_scenario_id incident = sid" "idn_incident_id incident = ''INC-'' @ sid" "sid \<in> {''R05'', ''R10''}"
    and "collection_reachable ob"
  shows "\<exists>entry. dict_get NO_ACTION_CATALOG sid = Some entry \<and>
    view = (deferred_view_of entry)\<lparr>dv_reason := na_reason entry\<rparr> \<and>
    validate_no_action_evidence parses sid records = Inr True \<and>
    map le_tool_name records = map evidence_tool_name (na_evidence entry)"
proof -
  obtain entry where e: "dict_get NO_ACTION_CATALOG sid = Some entry"
    using assms(1) by (auto simp: deferred_collect_def split: option.splits)
  have sid: "sid \<in> set NO_ACTION_SCENARIOS" "sid \<notin> {''D4'', ''D7''}" "sid \<noteq> ''D6''"
    using assms(4) by (auto simp: NO_ACTION_SCENARIOS_def)
  obtain ctx where ctx: "read_context incident c = Inr ctx"
    using assms(1,2) e sid(1) by (auto simp: deferred_collect_def Let_def split: sum.splits)
  then have v: "validate_context ctx = Inr ctx" "ctx_incident_id ctx = ''INC-'' @ sid" "ctx_permission ctx = READ_PERMISSION"
    using assms(3) by (auto simp: read_context_def validate_context_def validated_Inr)
  let ?terminal = "(deferred_view_of entry)\<lparr>dv_reason := na_reason entry\<rparr>"
  from assms(1,2,4) e ctx sid have
    col: "(if sid = ''R05'' then resumed_collect r05_resume_evidence R05_ORDER envs after ctx (principal_of c) 0 ob
       else resumed_collect r10_r11_resume_evidence [partner_opening ''R10'', ''dependency_metrics'']
              envs after ctx (principal_of c) 0 ob) = (Inr records, ob')"
    and view: "view = ?terminal"
    by (auto simp: deferred_collect_def Let_def apfst_def map_prod_def split: if_splits prod.splits)
  have "validate_no_action_evidence parses sid records = Inr True \<and>
      map le_tool_name records = map evidence_tool_name (na_evidence entry)"
  proof (cases "sid = ''R05''")
    case True
    then have "na_evidence entry = R05_ORDER" using e by (auto simp: dict_get_def NO_ACTION_CATALOG_def R05_ORDER_def)
    then show ?thesis using col True r05_collected_valid[OF assms(5) v(1)] v by simp
  next
    case False
    then have "sid = ''R10''" using assms(4) by simp
    then have "na_evidence entry = [''dns_lookup'', ''dependency_metrics'']" using e by (auto simp: dict_get_def NO_ACTION_CATALOG_def)
    then show ?thesis using col False \<open>sid = ''R10''\<close> r10_collected_valid[OF assms(5) v(1)] v by simp
  qed
  then show ?thesis using e view by blast
qed

text \<open>
  C35: the durable no-action collections conclude. Over every reachable store, however often the node
  was interrupted before, when the graph of R05 or R10 returns a result for a bound context, its
  records pass the validation of the graph, they are the evidence the catalogue declares in its
  order, and the result is the state and the reason of the catalogue with those records as evidence.
\<close>

theorem no_action_collection_concludes:
  assumes "deferred_node uuid5 parses actor envs now after own sid incident ctx c ob = (Inr (Some records, result), ob')"
    and "idn_scenario_id incident = sid" "idn_incident_id incident = ''INC-'' @ sid" "sid \<in> {''R05'', ''R10''}"
    and "collection_reachable ob"
  shows "\<exists>entry. dict_get NO_ACTION_CATALOG sid = Some entry \<and>
    map le_tool_name records = map evidence_tool_name (na_evidence entry) \<and>
    wr_final_state result = na_state entry \<and> wr_reasons result = [na_reason entry] \<and>
    wr_evidence_ids result = map le_evidence_id records"
proof -
  obtain view ob1 where c: "deferred_collect envs after c own sid incident ob = (Inr (records, view), ob1)"
    and rest: "(case validate_no_action_evidence parses sid records of Inl e \<Rightarrow> (Inl e, ob1)
        | Inr ok \<Rightarrow> apfst (map_sum id (Pair (Some records)))
           ((if ok then deferred_terminal else deferred_refused) uuid5 actor now incident records view ob1)) =
      (Inr (Some records, result), ob')"
    using assms(1,2) unfolding deferred_node_def
    by (auto simp: apfst_def map_prod_def split: if_splits prod.splits sum.splits)
  from deferred_collect_ordered[OF c assms(2-5), of parses] obtain entry where
    e: "dict_get NO_ACTION_CATALOG sid = Some entry" "view = (deferred_view_of entry)\<lparr>dv_reason := na_reason entry\<rparr>"
      "validate_no_action_evidence parses sid records = Inr True"
      "map le_tool_name records = map evidence_tool_name (na_evidence entry)" by blast
  obtain res where "deferred_terminal uuid5 actor now incident records view ob1 = (Inr result, ob')"
    using rest e(3) by (auto simp: apfst_def map_prod_def split: prod.splits)
  from deferred_terminal_cases[OF this only_observed_refl deferred_collect_view[OF c]] show ?thesis
    using e by (auto simp: deferred_view_of_def)
qed

text \<open>
  a D6 collection that this process began and that its freshness budget ends hands its records
  to the graph with their source locator, which every other return of the collector removes because
  the checkpoint cannot hold it.
\<close>

theorem d6_budget_exposes_source:
  assumes "deferred_collect envs after c own ''D6'' incident ob = (Inr (records, view), ob')"
    and "idn_scenario_id incident = ''D6''" "d6_resume_state own (re_now (envs 0)) ob = Inr ([], None)"
    and "dv_final_state view = ''deferred''"
  shows "list_all (\<lambda>e. le_source_uri e \<noteq> None) records \<and> records \<noteq> []"
proof -
  define terminal where "terminal = \<lparr>dv_reason = STALE_EVIDENCE_RECHECKED_NO_ACTION,
    dv_final_state = ''resolved'', dv_diagnosis = ''stale health evidence''\<rparr>"
  have src: "le_source_uri r \<noteq> None" if "observability_get env ctx p kind ob1 = (Inr r, ob2)" for env ctx p kind ob1 ob2 r
    using observability_get_Inr[OF that] by (cases rule: evidence_Inr) (simp add: evidence_of_def)
  from assms(1,2) have d: "d6_collect envs after own (principal_of c) terminal ob = (Inr (records, view), ob')"
    by (auto simp: deferred_collect_def NO_ACTION_SCENARIOS_def dict_get_def NO_ACTION_CATALOG_def deferred_view_of_def
        terminal_def Let_def split: sum.splits if_splits)
  have last: "list_all (\<lambda>e. le_source_uri e \<noteq> None) rs \<Longrightarrow> rs \<noteq> [] \<Longrightarrow>
      d6_last envs own p i terminal rs ob1 = (Inr (records, view), ob') \<Longrightarrow> ?thesis" for p i rs ob1
    using assms(4) by (auto simp: d6_last_def terminal_def split: if_splits sum.splits prod.splits option.splits)
  have recheck: ?thesis if r: "le_source_uri r \<noteq> None"
      and e: "d6_recheck envs own p i terminal [r] ob1 = (Inr (records, view), ob')" for p i r ob1
  proof (cases "observability_get (envs i) own p ''health'' ob1")
    case (Pair x ob2)
    show ?thesis
    proof (cases x)
      case (Inl y)
      then show ?thesis using e Pair r by (auto simp: d6_recheck_def split: if_splits)
    next
      case (Inr r2)
      then have "d6_last envs own p (Suc i) terminal [r, r2] ob2 = (Inr (records, view), ob')"
        using e Pair by (simp add: d6_recheck_def)
      then show ?thesis using last[of "[r, r2]"] r src[of "envs i" own p "''health''" ob1 r2 ob2] Pair Inr by simp
    qed
  qed
  obtain r ob1 where "observability_get (envs 1) own (principal_of c) ''health'' ob = (Inr r, ob1)"
      "d6_recheck envs own (principal_of c) 2 terminal [r] ob1 = (Inr (records, view), ob')"
    using d assms(3) by (auto simp: d6_collect_def split: sum.splits prod.splits option.splits)
  then show ?thesis by (intro recheck) (auto dest!: src)
qed

section \<open>Runs of the graph\<close>

definition example_caller :: caller where
  "example_caller = \<lparr>cal_actor = ''operator'', cal_role = OPERATOR\<rparr>"

definition example_incident :: "string \<Rightarrow> incident_identity" where
  "example_incident sid = \<lparr>idn_incident_id = ''INC-'' @ sid, idn_scenario_id = sid, idn_thread_id = ''t'',
     idn_correlation_id = ''c'', idn_state = IS_OPEN\<rparr>"

definition example_node ::
  "(nat \<Rightarrow> read_env) \<Rightarrow> string \<Rightarrow> observability \<Rightarrow> (lab_evidence list option \<times> workflow_result) result \<times> observability" where
  "example_node envs sid ob = deferred_node length (\<lambda>_. True) ''operator'' envs 0 (\<lambda>_. None)
     (example_reader (''INC-'' @ sid)) sid (example_incident sid) (example_reader (''INC-'' @ sid)) example_caller ob"

definition example_d4 :: observability where
  "example_d4 = empty_observability (empty_db\<lparr>db_fixtures := (\<lambda>_. None)((''collection_fault_state'', ''D4'') \<mapsto>
     [''injected'' \<mapsto> PBool True, ''retry_budget'' \<mapsto> PInt 1, ''time_budget_seconds'' \<mapsto> PInt 240])\<rparr>)"

definition example_d6 :: observability where
  "example_d6 = (empty_observability (empty_db\<lparr>db_fixtures := (\<lambda>_. None)((''no_action_fixture_state'', ''D6'') \<mapsto>
     [''injected'' \<mapsto> PBool True])\<rparr>))\<lparr>ob_sources := [\<lparr>so_source_id = 90, so_incident_id = ''INC-D6'', so_kind = ''health'',
     so_payload = [(''freshness'', PStr ''stale'')], so_observed_at = - 300 * second\<rparr>]\<rparr>"

definition late :: "nat \<Rightarrow> read_env" where
  "late i = example_clock (if i \<le> 1 then i else 300)"

theorem no_action_collection_concludes_witness:
  "\<exists>records result ob'. example_node example_clock ''R05'' (empty_observability (example_fixture_db ''R05'')) =
       (Inr (Some records, result), ob') \<and>
     wr_final_state result = ''resolved'' \<and> wr_reasons result = [LOCK_AUTO_RELEASE_OBSERVED_NO_ACTION]"
proof -
  let ?run = "example_node example_clock ''R05'' (empty_observability (example_fixture_db ''R05''))"
  have "case fst ?run of Inr (Some _, _) \<Rightarrow> True | _ \<Rightarrow> False" by code_simp
  then obtain records result ob' where run: "?run = (Inr (Some records, result), ob')"
    by (cases ?run) (auto split: sum.splits option.splits)
  have "idn_scenario_id (example_incident ''R05'') = ''R05''" "idn_incident_id (example_incident ''R05'') = ''INC-'' @ ''R05''"
    by (simp_all add: example_incident_def)
  from no_action_collection_concludes[OF run[unfolded example_node_def] this _ collection_reachable.start]
  show ?thesis using run by (auto simp: dict_get_def NO_ACTION_CATALOG_def)
qed

theorem deferred_node_cannot_act_witness:
  "only_audited (ob_lab example_d4) (ob_lab (snd (example_node example_clock ''D4'' example_d4)))"
  using deferred_node_cannot_act[of length "\<lambda>_. True" "''operator''" example_clock 0 "\<lambda>_. None"
      "example_reader ''INC-D4''" "''D4''" "example_incident ''D4''" "example_reader ''INC-D4''" example_caller example_d4]
  by (simp add: example_node_def prod_eq_iff)

theorem deferred_attempts_bounded_witness:
  "\<exists>ob'. attempt_until_exhausted example_clock (\<lambda>_. None) (example_reader ''INC-D4'') ''D4'' 0 example_d4 =
       (Inr (RETRY_BUDGET_EXHAUSTED, 3), ob') \<and> length (attempts_of ob' (example_reader ''INC-D4'')) = 2"
proof -
  let ?run = "attempt_until_exhausted example_clock (\<lambda>_. None) (example_reader ''INC-D4'') ''D4'' 0 example_d4"
  have run: "fst ?run = Inr (RETRY_BUDGET_EXHAUSTED, 3)" by code_simp
  have sid: "checkpoint_scenario ''D4'' = Inr (''D4'', ''INC-D4'')" by code_simp
  have fx: "db_fixtures (ob_lab example_d4) (''collection_fault_state'', ''D4'') =
      Some [''injected'' \<mapsto> PBool True, ''retry_budget'' \<mapsto> PInt 1, ''time_budget_seconds'' \<mapsto> PInt 240]"
    by (simp add: example_d4_def empty_observability_def)
  have reach: "collection_reachable example_d4" unfolding example_d4_def by (rule collection_reachable.start)
  have none: "attempts_of example_d4 ctx = []" for ctx
    by (simp add: example_d4_def empty_observability_def attempts_of_def)
  have "RETRY_BUDGET_EXHAUSTED \<noteq> TIME_BUDGET_EXHAUSTED" by (simp add: reason_defs)
  then have "length (attempts_of (snd ?run) (example_reader ''INC-D4'')) = 2"
    using deferred_attempts_bounded[OF reach sid fx prod.collapse[symmetric], of example_clock "\<lambda>_. None" "example_reader ''INC-D4''" 0]
    unfolding run by (simp add: none column_def int_of_def)
  then show ?thesis using run by (metis prod.collapse)
qed

theorem d6_budget_exposes_source_witness:
  "\<exists>records view ob'. deferred_collect late (\<lambda>_. None) example_caller (example_reader ''INC-D6'') ''D6''
       (example_incident ''D6'') example_d6 = (Inr (records, view), ob') \<and>
     list_all (\<lambda>e. le_source_uri e \<noteq> None) records \<and> records \<noteq> []"
proof -
  let ?run = "deferred_collect late (\<lambda>_. None) example_caller (example_reader ''INC-D6'') ''D6'' (example_incident ''D6'') example_d6"
  have "case fst ?run of Inr (_, view) \<Rightarrow> dv_final_state view = ''deferred'' | _ \<Rightarrow> False" by code_simp
  then obtain records view ob' where run: "?run = (Inr (records, view), ob')" "dv_final_state view = ''deferred''"
    by (cases ?run) (auto split: sum.splits)
  have "d6_resume_state (example_reader ''INC-D6'') (re_now (late 0)) example_d6 = Inr ([], None)"
    by (simp add: d6_resume_state_def example_reader_def example_d6_def empty_observability_def)
  from d6_budget_exposes_source[OF run(1) _ this run(2)] show ?thesis using run(1) by (simp add: example_incident_def)
qed

end
