(* ===== verification/Episode.thy ===== *)
theory Episode
  imports Workflow
begin

text \<open>
  The adaptive episode of \<open>control/models.py\<close> and \<open>control/workflow.py\<close>
  (\<open>build_episode_workflow_graph\<close>): a root loop that lets a strategy choose one attempt after
  another, runs each through the nodes of the one-action pipeline and keeps an append-only transcript.
  The channels an attempt shares with the pipeline are its \<open>workflow_state\<close>; a cleared channel is one
  never written. The requesters a process has selected are its cache, which a restart loses.
\<close>

named_theorems episode_defs \<open>the nodes of the episode\<close>

section \<open>The transcript\<close>

definition bounded_identifier :: "string \<Rightarrow> bool" where
  "bounded_identifier s = (s \<noteq> [] \<and> length s \<le> 120 \<and> list_all (\<lambda>c. is_alnum c \<or> c = CHR ''_'' \<or> c = CHR ''-'') s)"

datatype episode_leg = COVERT | INCIDENT_LEG

datatype episode_phase = PHASE_STARTED | PHASE_TERMINAL

record checkpoint_identity =
  cid_episode_id :: string
  cid_sequence :: int

definition validate_checkpoint_identity :: "checkpoint_identity \<Rightarrow> checkpoint_identity result" where
  [contract_defs]: "validate_checkpoint_identity i = validated [
     (\<not> bounded_identifier (cid_episode_id i), ValueError ''episode_id''),
     (cid_sequence i < 0, ValueError ''sequence'')] i"

record safeguard_identity =
  sgi_evidence_gate :: gate_mode
  sgi_policy_gate :: gate_mode
  sgi_monitor_gate :: gate_mode
  sgi_authorization_gate :: authorization_gate
  sgi_control_approver :: "string option"

definition validate_safeguard_identity :: "safeguard_identity \<Rightarrow> safeguard_identity result" where
  [contract_defs]: "validate_safeguard_identity s = validated [
     (case sgi_control_approver s of None \<Rightarrow> False | Some a \<Rightarrow> a = [] \<or> length a > 200, ValueError ''control_approver'')] s"

record authorization_selection =
  ase_leg :: episode_leg
  ase_leg_index :: int
  ase_sequence :: int
  ase_selection_id :: string
  ase_request_path :: authorization_gate

definition validate_selection :: "authorization_selection \<Rightarrow> authorization_selection result" where
  [contract_defs]: "validate_selection s = validated [
     (ase_leg_index s < 0, ValueError ''leg_index''),
     (ase_sequence s < 0, ValueError ''sequence''),
     (\<not> bounded_identifier (ase_selection_id s), ValueError ''selection_id'')] s"

definition evaluation_authorization_label :: "authorization_gate \<Rightarrow> string" where
  "evaluation_authorization_label gate =
     (if gate = DETERMINISTIC_CONTROL then ''automatic_evaluation_capability'' else ''deterministic_approver_simulation'')"

record step_snapshot =
  ss_thread_id :: string
  ss_proposal_produced :: bool
  ss_tool_name :: "string option"
  ss_arguments_digest :: "string option"
  ss_evidence_ids :: "string list"
  ss_policy_observed :: bool
  ss_policy_enforced :: bool
  ss_policy_consulted :: bool
  ss_policy_decision :: "policy_decision option"
  ss_policy_reasons :: "string list"
  ss_observed_policy_decision :: "policy_decision option"
  ss_observed_policy_reasons :: "string list"
  ss_evidence_observed :: bool
  ss_evidence_enforced :: bool
  ss_evidence_state :: "evidence_state option"
  ss_evidence_reasons :: "string list"
  ss_monitor_reached :: bool
  ss_monitor_consulted :: bool
  ss_monitor_verdict :: "monitor_verdict option"
  ss_monitor_error_kind :: "string option"
  ss_monitor_invocation :: "model_invocation_record option"
  ss_monitor_input_hash :: "string option"
  ss_authorization_reached :: bool
  ss_approval_requested :: bool
  ss_authorization :: "string option"
  ss_executed :: bool
  ss_operation_id :: "string option"
  ss_operation_status :: "operation_status option"
  ss_redelivered :: bool
  ss_terminal_state :: string
  ss_refusal_causes :: "string list"

definition exceeds :: "nat \<Rightarrow> string option \<Rightarrow> bool" where
  "exceeds n s = (case s of None \<Rightarrow> False | Some t \<Rightarrow> length t > n)"

text \<open>The bounds of the fields.\<close>

definition snapshot_bounds :: "step_snapshot \<Rightarrow> (bool \<times> py_exn) list" where
  [contract_defs]: "snapshot_bounds s = [
     (ss_thread_id s = [] \<or> length (ss_thread_id s) > 128, ValueError ''thread_id''),
     (ss_tool_name s = Some [] \<or> exceeds 128 (ss_tool_name s), ValueError ''tool_name''),
     (case ss_arguments_digest s of None \<Rightarrow> False | Some h \<Rightarrow> \<not> is_hex64 h, ValueError ''arguments_digest''),
     (length (ss_evidence_ids s) > 32, ValueError ''evidence_ids''),
     (length (ss_policy_reasons s) > 8, ValueError ''policy_reasons''),
     (length (ss_observed_policy_reasons s) > 8, ValueError ''observed_policy_reasons''),
     (length (ss_evidence_reasons s) > 8, ValueError ''evidence_reasons''),
     (exceeds 64 (ss_monitor_error_kind s), ValueError ''monitor_error_kind''),
     (case ss_monitor_input_hash s of None \<Rightarrow> False | Some h \<Rightarrow> \<not> is_hex64 h, ValueError ''monitor_input_hash''),
     (exceeds 200 (ss_operation_id s), ValueError ''operation_id''),
     (ss_terminal_state s = [] \<or> length (ss_terminal_state s) > 32, ValueError ''terminal_state''),
     (length (ss_refusal_causes s) > 8, ValueError ''refusal_causes'')]"

definition bounded_reasons :: "string list \<Rightarrow> bool" where
  "bounded_reasons reasons = list_all (\<lambda>r. r \<noteq> [] \<and> length r \<le> 200) reasons"

text \<open>What a snapshot of a produced proposal may say.\<close>

definition produced_shape :: "step_snapshot \<Rightarrow> (bool \<times> py_exn) list" where
  [contract_defs]: "produced_shape s = [
     (ss_tool_name s = None \<or> ss_arguments_digest s = None \<or> ss_evidence_ids s = [],
        ValueError ''a produced proposal requires tool, arguments digest, and evidence ids''),
     (ss_monitor_verdict s \<noteq> None \<and> ss_monitor_error_kind s \<noteq> None,
        ValueError ''a monitor cannot have both a verdict and an error''),
     (ss_monitor_invocation s \<noteq> None \<and> ss_monitor_input_hash s = None,
        ValueError ''a monitor invocation requires its input hash''),
     (ss_policy_observed s \<noteq> (ss_observed_policy_decision s \<noteq> None),
        ValueError ''observed policy facts require an observed policy decision''),
     (ss_policy_enforced s \<and> \<not> ss_policy_observed s, ValueError ''enforced policy must have been observed''),
     (ss_policy_consulted s \<noteq> ss_policy_enforced s,
        ValueError ''policy consultation is exactly an enforced policy decision''),
     (ss_policy_consulted s \<noteq> (ss_policy_decision s \<noteq> None),
        ValueError ''enforcing policy consultation requires exactly one decision''),
     ((ss_policy_decision s = None) \<noteq> (ss_policy_reasons s = []),
        ValueError ''enforcing policy reasons require exactly one decision''),
     ((ss_observed_policy_decision s = None) \<noteq> (ss_observed_policy_reasons s = []),
        ValueError ''observed policy reasons require exactly one decision''),
     (ss_evidence_observed s \<noteq> (ss_evidence_state s \<noteq> None),
        ValueError ''observed evidence facts require an observed evidence state''),
     (ss_evidence_enforced s \<and> \<not> ss_evidence_observed s, ValueError ''enforced evidence must have been observed''),
     ((ss_evidence_state s = None) \<noteq> (ss_evidence_reasons s = []),
        ValueError ''observed evidence reasons require exactly one state''),
     (\<not> ss_monitor_consulted s \<and> (ss_monitor_verdict s \<noteq> None \<or> ss_monitor_error_kind s \<noteq> None \<or>
          ss_monitor_invocation s \<noteq> None \<or> ss_monitor_input_hash s \<noteq> None),
        ValueError ''unconsulted monitor cannot carry consultation facts''),
     (ss_monitor_consulted s \<and> \<not> ss_monitor_reached s, ValueError ''monitor consultation requires the monitor boundary''),
     (ss_monitor_consulted s \<noteq> (ss_monitor_verdict s \<noteq> None \<or> ss_monitor_error_kind s \<noteq> None),
        ValueError ''monitor consultation requires a verdict or typed error''),
     (ss_approval_requested s \<and> \<not> ss_authorization_reached s,
        ValueError ''durable approval request requires the authorization boundary''),
     (ss_authorization s \<noteq> None \<and> \<not> ss_authorization_reached s,
        ValueError ''authorization fact requires the authorization boundary''),
     (\<not> bounded_reasons (ss_policy_reasons s), ValueError ''policy reasons must be bounded non-empty reason codes''),
     (\<not> bounded_reasons (ss_observed_policy_reasons s),
        ValueError ''observed policy reasons must be bounded non-empty reason codes''),
     (\<not> bounded_reasons (ss_evidence_reasons s), ValueError ''evidence reasons must be bounded non-empty reason codes''),
     ((ss_operation_id s \<noteq> None) \<noteq> (ss_operation_status s \<noteq> None),
        ValueError ''operation id and status must either both be present or absent''),
     (ss_executed s \<noteq> (ss_operation_id s \<noteq> None \<and> ss_operation_status s \<noteq> None),
        ValueError ''execution facts require both operation id and status''),
     (ss_redelivered s \<noteq> (ss_operation_status s = Some DUPLICATE),
        ValueError ''redelivery is exactly a duplicate operation'')]"

definition unproduced_shape :: "step_snapshot \<Rightarrow> (bool \<times> py_exn) list" where
  [contract_defs]: "unproduced_shape s = [
     (ss_tool_name s \<noteq> None \<or> ss_arguments_digest s \<noteq> None \<or> ss_evidence_ids s \<noteq> [] \<or> ss_policy_observed s \<or>
      ss_policy_enforced s \<or> ss_policy_consulted s \<or> ss_policy_decision s \<noteq> None \<or> ss_policy_reasons s \<noteq> [] \<or>
      ss_observed_policy_decision s \<noteq> None \<or> ss_observed_policy_reasons s \<noteq> [] \<or> ss_evidence_observed s \<or>
      ss_evidence_enforced s \<or> ss_evidence_state s \<noteq> None \<or> ss_evidence_reasons s \<noteq> [] \<or> ss_monitor_reached s \<or>
      ss_monitor_consulted s \<or> ss_monitor_verdict s \<noteq> None \<or> ss_monitor_error_kind s \<noteq> None \<or>
      ss_monitor_invocation s \<noteq> None \<or> ss_monitor_input_hash s \<noteq> None \<or> ss_authorization_reached s \<or>
      ss_approval_requested s \<or> ss_authorization s \<noteq> None \<or> ss_executed s \<or> ss_operation_id s \<noteq> None \<or>
      ss_operation_status s \<noteq> None \<or> ss_redelivered s,
        ValueError ''a not-produced proposal cannot carry action or gate facts'')]"

definition validate_snapshot :: "step_snapshot \<Rightarrow> step_snapshot result" where
  [contract_defs]: "validate_snapshot s =
     validated (snapshot_bounds s @ (if ss_proposal_produced s then produced_shape s else unproduced_shape s)) s"

record transcript_event =
  te_identity :: checkpoint_identity
  te_leg :: episode_leg
  te_action_id :: string
  te_phase :: episode_phase
  te_at :: instant
  te_step :: "step_snapshot option"

definition validate_event :: "transcript_event \<Rightarrow> transcript_event result" where
  [contract_defs]: "validate_event e = validated [
     (\<not> bounded_identifier (te_action_id e), ValueError ''action_id''),
     ((te_phase e = PHASE_STARTED) \<noteq> (te_step e = None),
        ValueError ''started events have no snapshot and terminal events require one'')] e"

record transcript =
  tr_incident_id :: string
  tr_thread_id :: string
  tr_episode_id :: string
  tr_events :: "transcript_event list"

text \<open>The loop over the events: the event that is open and the sequence that is expected.\<close>

fun ordered_history ::
  "string \<Rightarrow> string \<Rightarrow> transcript_event option \<Rightarrow> int \<Rightarrow> transcript_event list \<Rightarrow> unit result" where
  "ordered_history thread episode open_event next_sequence [] = Inr ()"
| "ordered_history thread episode open_event next_sequence (e # events) =
     (if cid_episode_id (te_identity e) \<noteq> episode then Inl (ValueError ''transcript event belongs to another episode'')
      else if cid_sequence (te_identity e) \<noteq> next_sequence
      then Inl (ValueError ''transcript sequences must be contiguous and monotonic'')
      else if te_phase e = PHASE_STARTED then
        (if open_event \<noteq> None then Inl (ValueError ''a transcript cannot start two actions at once'')
         else ordered_history thread episode (Some e) next_sequence events)
      else case (open_event, te_step e) of
        (Some s, Some step) \<Rightarrow>
          (if cid_sequence (te_identity s) \<noteq> cid_sequence (te_identity e) \<or> te_leg s \<noteq> te_leg e \<or>
              te_action_id s \<noteq> te_action_id e
           then Inl (ValueError ''terminal event must close its matching started event'')
           else if ss_thread_id step \<noteq> thread
           then Inl (ValueError ''snapshot thread does not match transcript business thread'')
           else ordered_history thread episode None (next_sequence + 1) events)
      | _ \<Rightarrow> Inl (ValueError ''terminal event must close its matching started event''))"

definition validate_transcript :: "transcript \<Rightarrow> transcript result" where
  "validate_transcript t = bind_res (validated [
     (tr_incident_id t = [], ValueError ''incident_id''), (tr_thread_id t = [], ValueError ''thread_id''),
     (\<not> bounded_identifier (tr_episode_id t), ValueError ''episode_id'')] t) (\<lambda>t.
   bind_res (ordered_history (tr_thread_id t) (tr_episode_id t) None 0 (tr_events t)) (\<lambda>_. Inr t))"

text \<open>\<open>transcript_from\<close>: the checkpointed transcript is validated again, its events and snapshots too.\<close>

fun revalidate_events :: "transcript_event list \<Rightarrow> unit result" where
  "revalidate_events [] = Inr ()"
| "revalidate_events (e # events) =
     bind_res (validate_checkpoint_identity (te_identity e)) (\<lambda>_.
     bind_res (case te_step e of None \<Rightarrow> Inr () | Some s \<Rightarrow> bind_res (validate_snapshot s) (\<lambda>_. Inr ())) (\<lambda>_.
     bind_res (validate_event e) (\<lambda>_. revalidate_events events)))"

definition transcript_from :: "transcript \<Rightarrow> transcript result" where
  "transcript_from t = bind_res (revalidate_events (tr_events t)) (\<lambda>_. validate_transcript t)"

definition with_event :: "transcript \<Rightarrow> transcript_event \<Rightarrow> transcript" where
  "with_event t e = t\<lparr>tr_events := tr_events t @ [e]\<rparr>"

section \<open>The state of an episode\<close>

datatype episode_termination = STRATEGY_COMPLETE | MAX_ACTIONS

record episode_state =
  es_flow :: workflow_state
  es_transcript :: transcript
  es_max_actions :: int
  es_sequence :: int
  es_termination :: "episode_termination option"
  es_safeguards :: safeguard_identity
  es_leg :: "episode_leg option"
  es_action_id :: "string option"
  es_selection :: "authorization_selection option"
  es_reached :: bool
  es_durable :: bool

text \<open>What the strategy sees, and what it chooses.\<close>

record strategy_observation =
  sob_transcript :: transcript
  sob_incident :: incident_identity
  sob_caller :: caller
  sob_context :: tool_call_context
  sob_records :: "evidence_record list"

record 'w action_selection =
  asn_leg :: episode_leg
  asn_action_id :: string
  asn_proposer :: "'w proposer"

record 'w authorization_choice =
  ach_selection_id :: string
  ach_requester :: "'w authorizer option"
  ach_request_path :: authorization_gate

text \<open>\<open>EpisodeAuthorizationChoice.__post_init__\<close>.\<close>

definition validate_choice :: "'w authorization_choice \<Rightarrow> 'w authorization_choice result" where
  [contract_defs]: "validate_choice c = validated [
     (\<not> bounded_identifier (ach_selection_id c),
        ValueError ''episode authorization selection_id must be a bounded identifier'')] c"

text \<open>The host of an episode: its strategy, the authorization it selects per attempt, the delivery hook.\<close>

record 'w episode_host =
  eh_strategy :: "strategy_observation \<Rightarrow> 'w \<Rightarrow> 'w action_selection option result \<times> 'w"
  eh_selector :: "(episode_leg \<Rightarrow> int \<Rightarrow> 'w \<Rightarrow> 'w authorization_choice option result \<times> 'w) option"
  eh_hook :: "(episode_leg \<Rightarrow> int \<Rightarrow> ledger_result \<Rightarrow> 'w \<Rightarrow> unit result \<times> 'w) option"

definition host_call :: "('w \<Rightarrow> 'a result \<times> 'w) \<Rightarrow> ('a, 'w) effect" where
  "host_call = port (\<lambda>_. [])"

definition episode_safeguard_identity :: "safeguard_configuration \<Rightarrow> safeguard_identity" where
  "episode_safeguard_identity s = \<lparr>sgi_evidence_gate = sc_evidence_gate s, sgi_policy_gate = sc_policy_gate s,
     sgi_monitor_gate = sc_monitor_gate s, sgi_authorization_gate = sc_authorization_gate s,
     sgi_control_approver = sc_control_approver s\<rparr>"

definition ensure_safeguards :: "('w, 'c) workflow_dependencies \<Rightarrow> episode_state \<Rightarrow> (unit, 'w) effect" where
  "ensure_safeguards d st =
     (if es_safeguards st \<noteq> episode_safeguard_identity (dp_safeguards d)
      then raising (ValueError ''episode safeguards do not match the durable root configuration'') else returning ())"

definition decimal :: "int \<Rightarrow> string" where
  "decimal n = dec_int n"

definition episode_key_suffix :: "string \<Rightarrow> int \<Rightarrow> string" where
  "episode_key_suffix episode_id sequence = '':episode:'' @ episode_id @ '':sequence:'' @ decimal sequence"

definition episode_idempotency_key :: "(string \<Rightarrow> uuid) \<Rightarrow> string \<Rightarrow> string \<Rightarrow> string \<Rightarrow> int \<Rightarrow> uuid" where
  "episode_idempotency_key uuid5 action_hash thread_id episode_id sequence =
     uuid5 (IDEMPOTENCY_KEY_PREFIX @ thread_id @ '':'' @ action_hash @ episode_key_suffix episode_id sequence)"

text \<open>The requester of an attempt and its durable identity.\<close>

definition default_path :: "'w authorizer option \<Rightarrow> authorization_gate option \<Rightarrow> authorization_gate" where
  "default_path fallback path = (case path of
     Some gate \<Rightarrow> gate | None \<Rightarrow> (case fallback of None \<Rightarrow> DURABLE_HUMAN | Some _ \<Rightarrow> DETERMINISTIC_CONTROL))"

definition resolve_episode_authorization ::
  "'w authorizer option \<Rightarrow> (episode_leg \<Rightarrow> int \<Rightarrow> 'w \<Rightarrow> 'w authorization_choice option result \<times> 'w) option \<Rightarrow>
   episode_leg \<Rightarrow> int \<Rightarrow> int \<Rightarrow> authorization_gate option \<Rightarrow> (authorization_selection \<times> 'w authorizer option, 'w) effect" where
  "resolve_episode_authorization fallback selector leg leg_index sequence path =
     bind_eff (case selector of None \<Rightarrow> returning None | Some f \<Rightarrow> host_call (f leg leg_index)) (\<lambda>choice.
     bind_eff (from_result (validate_selection \<lparr>ase_leg = leg, ase_leg_index = leg_index, ase_sequence = sequence,
         ase_selection_id = (case choice of None \<Rightarrow> ''safeguard_default'' | Some c \<Rightarrow> ach_selection_id c),
         ase_request_path = (case choice of None \<Rightarrow> default_path fallback path | Some c \<Rightarrow> ach_request_path c)\<rparr>)) (\<lambda>fact.
     returning (fact, case choice of None \<Rightarrow> fallback | Some c \<Rightarrow> ach_requester c)))"

definition select_requester ::
  "('w, 'c) workflow_dependencies \<Rightarrow> 'w episode_host \<Rightarrow> episode_leg \<Rightarrow> int \<Rightarrow> int \<Rightarrow>
   (authorization_selection \<times> 'w authorizer option, 'w) effect" where
  "select_requester d host leg leg_index sequence = resolve_episode_authorization (dp_authorization d) (eh_selector host)
     leg leg_index sequence (Some (sc_authorization_gate (dp_safeguards d)))"

definition leg_terminals :: "transcript \<Rightarrow> episode_leg \<Rightarrow> int" where
  "leg_terminals t leg = int (length (filter (\<lambda>e. te_phase e = PHASE_TERMINAL \<and> te_leg e = leg) (tr_events t)))"

definition episode_leg_index :: "episode_state \<Rightarrow> episode_leg \<Rightarrow> (int, 'w) effect" where
  "episode_leg_index st leg = bind_eff (from_result (transcript_from (es_transcript st))) (\<lambda>t. returning (leg_terminals t leg))"

definition observe_episode :: "transcript \<Rightarrow> workflow_state \<Rightarrow> evidence_record list \<Rightarrow> strategy_observation" where
  "observe_episode t flow records = \<lparr>sob_transcript = t, sob_incident = ws_incident flow, sob_caller = ws_caller flow,
     sob_context = ws_context flow, sob_records = records\<rparr>"

section \<open>The processes\<close>

text \<open>An effect of a process also has the process's cache of requesters.\<close>

type_synonym 'w requester_cache = "int \<Rightarrow> 'w authorizer option option"

type_synonym ('a, 'w) process = "'w requester_cache \<Rightarrow> 'w world \<Rightarrow> 'a outcome \<times> 'w requester_cache \<times> 'w world"

definition plain :: "('a, 'w) effect \<Rightarrow> ('a, 'w) process" where
  "plain m cache w = (let (out, w') = m w in (out, cache, w'))"

definition bind_proc :: "('a, 'w) process \<Rightarrow> ('a \<Rightarrow> ('b, 'w) process) \<Rightarrow> ('b, 'w) process" where
  "bind_proc m f cache w = (case m cache w of
     (Returned x, cache', w') \<Rightarrow> f x cache' w'
   | (Raised e, cache', w') \<Rightarrow> (Raised e, cache', w')
   | (Suspended r, cache', w') \<Rightarrow> (Suspended r, cache', w'))"

definition remember :: "int \<Rightarrow> 'w authorizer option \<Rightarrow> (unit, 'w) process" where
  "remember sequence requester cache w = (Returned (), cache(sequence \<mapsto> requester), w)"

definition recall :: "int \<Rightarrow> ('w authorizer option option, 'w) process" where
  "recall sequence cache w = (Returned (cache sequence), cache, w)"

section \<open>The nodes\<close>

definition started_event :: "transcript \<Rightarrow> int \<Rightarrow> 'w action_selection \<Rightarrow> instant \<Rightarrow> transcript_event" where
  "started_event t sequence selection now = \<lparr>
     te_identity = \<lparr>cid_episode_id = tr_episode_id t, cid_sequence = sequence\<rparr>, te_leg = asn_leg selection,
     te_action_id = asn_action_id selection, te_phase = PHASE_STARTED, te_at = now, te_step = None\<rparr>"

text \<open>A selected attempt: its start, its proposal and the requester of its authorization.\<close>

definition attempt ::
  "('w, 'c) workflow_dependencies \<Rightarrow> 'w episode_host \<Rightarrow> transcript \<Rightarrow> 'w action_selection \<Rightarrow> episode_state \<Rightarrow>
   (episode_state, 'w) process" where
  [episode_defs]: "attempt d host t selection st =
     (if asn_action_id selection = [] \<or> length (asn_action_id selection) > 120
      then plain (raising (ValueError ''episode action_id must be a bounded identifier''))
      else bind_proc (plain (clock d)) (\<lambda>now.
        let started = started_event t (es_sequence st) selection now in
        bind_proc (plain (from_result (bind_res (validate_checkpoint_identity (te_identity started)) (\<lambda>_.
            bind_res (validate_event started) (\<lambda>_. validate_transcript (with_event t started)))))) (\<lambda>durable.
        bind_proc (plain (propose_with d (asn_proposer selection) (es_flow st))) (\<lambda>flow.
        let base = st\<lparr>es_flow := flow, es_transcript := durable, es_leg := Some (asn_leg selection),
              es_action_id := Some (asn_action_id selection)\<rparr> in
        if ws_result flow \<noteq> None then plain (returning base)
        else bind_proc (plain (channel ''action'' (ws_action flow))) (\<lambda>action.
          if act_thread_id action \<noteq> tr_thread_id t \<or> act_incident_id action \<noteq> tr_incident_id t
          then plain (raising (ValueError ''episode proposer returned an action for another business incident''))
          else bind_proc (plain (episode_leg_index st (asn_leg selection))) (\<lambda>leg_index.
            bind_proc (plain (select_requester d host (asn_leg selection) leg_index (es_sequence st))) (\<lambda>(fact, requester).
            bind_proc (remember (es_sequence st) requester) (\<lambda>_.
            plain (returning (base\<lparr>es_selection := Some fact\<rparr>)))))))))) "

definition episode_propose ::
  "('w, 'c) workflow_dependencies \<Rightarrow> 'w episode_host \<Rightarrow> episode_state \<Rightarrow> (episode_state, 'w) process" where
  [episode_defs]: "episode_propose d host st =
     bind_proc (plain (ensure_safeguards d st)) (\<lambda>_.
     bind_proc (plain (from_result (transcript_from (es_transcript st)))) (\<lambda>t.
     case ws_records (es_flow st) of
       None \<Rightarrow> plain (raising (ValueError ''episode collection did not produce evidence records''))
     | Some records \<Rightarrow>
         bind_proc (plain (host_call (eh_strategy host (observe_episode t (es_flow st) records)))) (\<lambda>choice.
         case choice of
           None \<Rightarrow> plain (returning (st\<lparr>es_termination := Some STRATEGY_COMPLETE\<rparr>))
         | Some selection \<Rightarrow> attempt d host t selection st)))"

text \<open>The facts of a finished attempt.\<close>

definition unproduced_snapshot :: "string \<Rightarrow> workflow_result \<Rightarrow> step_snapshot" where
  "unproduced_snapshot thread r = \<lparr>ss_thread_id = thread, ss_proposal_produced = False, ss_tool_name = None,
     ss_arguments_digest = None, ss_evidence_ids = [], ss_policy_observed = False, ss_policy_enforced = False,
     ss_policy_consulted = False, ss_policy_decision = None, ss_policy_reasons = [], ss_observed_policy_decision = None,
     ss_observed_policy_reasons = [], ss_evidence_observed = False, ss_evidence_enforced = False, ss_evidence_state = None,
     ss_evidence_reasons = [], ss_monitor_reached = False, ss_monitor_consulted = False, ss_monitor_verdict = None,
     ss_monitor_error_kind = None, ss_monitor_invocation = None, ss_monitor_input_hash = None,
     ss_authorization_reached = False, ss_approval_requested = False, ss_authorization = None, ss_executed = False,
     ss_operation_id = None, ss_operation_status = None, ss_redelivered = False, ss_terminal_state = wr_final_state r,
     ss_refusal_causes = wr_reasons r\<rparr>"

definition authorization_fact ::
  "safeguard_configuration \<Rightarrow> authorization_selection option \<Rightarrow> workflow_result \<Rightarrow> string option" where
  "authorization_fact sg selection r = (case wr_approval r of
     None \<Rightarrow> None
   | Some human \<Rightarrow> if hd_decision human \<noteq> ''approve'' then None
       else Some (evaluation_authorization_label (case selection of
         None \<Rightarrow> sc_authorization_gate sg | Some s \<Rightarrow> ase_request_path s)))"

definition produced_snapshot ::
  "('w, 'c) workflow_dependencies \<Rightarrow> episode_state \<Rightarrow> canonical_action \<Rightarrow> workflow_result \<Rightarrow> step_snapshot" where
  "produced_snapshot d st action r =
     (let sg = dp_safeguards d; flow = es_flow st; policy = wr_policy r; evidence = ws_evidence flow;
          operation = wr_operation r; enforced = enforces_policy sg \<and> policy \<noteq> None in
      \<lparr>ss_thread_id = act_thread_id action, ss_proposal_produced = True, ss_tool_name = Some (act_tool_name action),
       ss_arguments_digest = Some (canonical_arguments_digest (dp_sha d) action), ss_evidence_ids = wr_evidence_ids r,
       ss_policy_observed = (policy \<noteq> None), ss_policy_enforced = enforced, ss_policy_consulted = enforced,
       ss_policy_decision = (if enforced then map_option po_decision policy else None),
       ss_policy_reasons = (case policy of None \<Rightarrow> [] | Some p \<Rightarrow> if enforces_policy sg then po_reasons p else []),
       ss_observed_policy_decision = map_option po_decision policy,
       ss_observed_policy_reasons = (case policy of None \<Rightarrow> [] | Some p \<Rightarrow> po_reasons p),
       ss_evidence_observed = (evidence \<noteq> None), ss_evidence_enforced = (enforces_evidence sg \<and> evidence \<noteq> None),
       ss_evidence_state = map_option evv_state evidence,
       ss_evidence_reasons = (case evidence of None \<Rightarrow> [] | Some e \<Rightarrow> evv_reasons e),
       ss_monitor_reached = (case policy of None \<Rightarrow> False
         | Some p \<Rightarrow> consults_monitor sg \<and> \<not> (po_decision p = DENY \<and> enforces_policy sg)),
       ss_monitor_consulted = (wr_monitor r \<noteq> None \<or> ws_monitor_error flow \<noteq> None),
       ss_monitor_verdict = map_option mr_verdict (wr_monitor r), ss_monitor_error_kind = ws_monitor_error flow,
       ss_monitor_invocation = ws_monitor_invocation flow, ss_monitor_input_hash = ws_monitor_input_hash flow,
       ss_authorization_reached = es_reached st, ss_approval_requested = es_durable st,
       ss_authorization = authorization_fact sg (es_selection st) r, ss_executed = (operation \<noteq> None),
       ss_operation_id = map_option lr_operation_id operation, ss_operation_status = map_option lr_status operation,
       ss_redelivered = (map_option lr_status operation = Some DUPLICATE), ss_terminal_state = wr_final_state r,
       ss_refusal_causes = (if wr_final_state r = ''blocked'' then wr_reasons r else [])\<rparr>)"

definition episode_snapshot :: "('w, 'c) workflow_dependencies \<Rightarrow> episode_state \<Rightarrow> (step_snapshot, 'w) effect" where
  [episode_defs]: "episode_snapshot d st =
     bind_eff (channel ''result'' (ws_result (es_flow st))) (\<lambda>r.
     from_result (validate_snapshot (case ws_action (es_flow st) of
       None \<Rightarrow> unproduced_snapshot (tr_thread_id (es_transcript st)) r | Some action \<Rightarrow> produced_snapshot d st action r)))"

text \<open>At the bound the strategy is asked once more, so that its completion is told from the bound.\<close>

definition terminal_event :: "transcript_event \<Rightarrow> instant \<Rightarrow> step_snapshot \<Rightarrow> transcript_event" where
  "terminal_event started now step = started\<lparr>te_phase := PHASE_TERMINAL, te_at := now, te_step := Some step\<rparr>"

definition episode_record ::
  "('w, 'c) workflow_dependencies \<Rightarrow> 'w episode_host \<Rightarrow> episode_state \<Rightarrow> (episode_state, 'w) effect" where
  [episode_defs]: "episode_record d host st =
     bind_eff (from_result (transcript_from (es_transcript st))) (\<lambda>t.
     if tr_events t = [] \<or> te_phase (last (tr_events t)) \<noteq> PHASE_STARTED
     then raising (ValueError ''episode terminal record requires a durable started action'')
     else bind_eff (clock d) (\<lambda>now.
       bind_eff (episode_snapshot d st) (\<lambda>step.
       let terminal = terminal_event (last (tr_events t)) now step in
       bind_eff (from_result (bind_res (validate_event terminal) (\<lambda>_. validate_transcript (with_event t terminal)))) (\<lambda>durable.
       let sequence = es_sequence st + 1 in
       bind_eff (if sequence \<ge> es_max_actions st
           then bind_eff (host_call (eh_strategy host (observe_episode durable (es_flow st)
               (case ws_records (es_flow st) of None \<Rightarrow> [] | Some records \<Rightarrow> records)))) (\<lambda>selection.
             returning (Some (if selection = None then STRATEGY_COMPLETE else MAX_ACTIONS)))
           else returning None) (\<lambda>termination.
       returning (st\<lparr>es_transcript := durable, es_sequence := sequence,
         es_termination := (case termination of None \<Rightarrow> es_termination st | Some t \<Rightarrow> Some t)\<rparr>))))))"

definition episode_clear :: "episode_state \<Rightarrow> episode_state" where
  "episode_clear st = st\<lparr>es_flow := initial_state (ws_incident (es_flow st)) (ws_context (es_flow st)) (ws_caller (es_flow st)),
     es_leg := None, es_action_id := None, es_selection := None, es_reached := False, es_durable := False\<rparr>"

definition episode_approval_reach ::
  "('w, 'c) workflow_dependencies \<Rightarrow> episode_state \<Rightarrow> (episode_state, 'w) effect" where
  [episode_defs]: "episode_approval_reach d st = bind_eff (ensure_safeguards d st) (\<lambda>_.
     case es_selection st of
       None \<Rightarrow> raising (ValueError ''episode authorization reach has no durable authorization selection'')
     | Some selection \<Rightarrow> bind_eff (from_result (validate_selection selection)) (\<lambda>selection.
         returning (st\<lparr>es_reached := True, es_durable := (ase_request_path selection = DURABLE_HUMAN)\<rparr>)))"

definition episode_approval ::
  "('w, 'c) workflow_dependencies \<Rightarrow> 'w episode_host \<Rightarrow> human_decision option \<Rightarrow> episode_state \<Rightarrow> (episode_state, 'w) process" where
  [episode_defs]: "episode_approval d host resume st = bind_proc (plain (ensure_safeguards d st)) (\<lambda>_.
     case es_selection st of
       None \<Rightarrow> plain (raising (ValueError ''episode approval has no durable authorization selection''))
     | Some selection \<Rightarrow>
         bind_proc (plain (from_result (validate_selection selection))) (\<lambda>selection.
         bind_proc (recall (ase_sequence selection)) (\<lambda>known.
         bind_proc (case known of
             Some requester \<Rightarrow> plain (returning requester)
           | None \<Rightarrow>
               bind_proc (plain (select_requester d host (ase_leg selection) (ase_leg_index selection) (ase_sequence selection)))
                 (\<lambda>(candidate, requester).
                 if candidate \<noteq> selection
                 then plain (raising (ValueError ''episode authorization selection does not match durable root''))
                 else bind_proc (remember (ase_sequence selection) requester) (\<lambda>_. plain (returning requester)))) (\<lambda>requester.
         bind_proc (plain (approval_with d requester resume (es_flow st))) (\<lambda>flow.
         plain (returning (st\<lparr>es_flow := flow\<rparr>)))))))"

definition deliver :: "'w episode_host \<Rightarrow> episode_state \<Rightarrow> ledger_result \<Rightarrow> (unit, 'w) effect" where
  [episode_defs]: "deliver host st operation =
     (case es_leg st of
        None \<Rightarrow> raising (ValueError ''episode execution has no selected leg'')
      | Some leg \<Rightarrow>
          (case eh_hook host of
             None \<Rightarrow> returning ()
           | Some hook \<Rightarrow>
               if lr_status operation \<noteq> SUCCEEDED then returning ()
               else bind_eff (episode_leg_index st leg) (\<lambda>leg_index. host_call (hook leg leg_index operation))))"

definition episode_execute ::
  "('w, 'c) workflow_dependencies \<Rightarrow> 'w episode_host \<Rightarrow> episode_state \<Rightarrow> (episode_state, 'w) effect" where
  [episode_defs]: "episode_execute d host st = bind_eff (ensure_safeguards d st) (\<lambda>_.
     bind_eff (execute_with d (Some (\<lambda>_. deliver host st)) (es_flow st)) (\<lambda>flow. returning (st\<lparr>es_flow := flow\<rparr>)))"

text \<open>A node shared with the pipeline; the key \<open>validate\<close> computes is bound to the attempt.\<close>

definition bind_key ::
  "('w, 'c) workflow_dependencies \<Rightarrow> episode_state \<Rightarrow> workflow_state \<Rightarrow> (workflow_state, 'w) effect" where
  [episode_defs]: "bind_key d st flow = (case ws_policy flow of
     None \<Rightarrow> returning flow
   | Some policy \<Rightarrow> bind_eff (from_result (transcript_from (es_transcript st))) (\<lambda>t.
       returning (flow\<lparr>ws_idempotency_key := Some (episode_idempotency_key (dp_uuid5 d) (po_action_hash policy)
         (tr_thread_id t) (tr_episode_id t) (es_sequence st))\<rparr>)))"

definition shared_node ::
  "('w, 'c) workflow_dependencies \<Rightarrow> graph_node \<Rightarrow> episode_state \<Rightarrow> (episode_state, 'w) effect" where
  [episode_defs]: "shared_node d n st = bind_eff (ensure_safeguards d st) (\<lambda>_.
     bind_eff (run_node d None n (es_flow st)) (\<lambda>flow.
     bind_eff (if n = N_validate then bind_key d st flow else returning flow) (\<lambda>flow.
     returning (st\<lparr>es_flow := flow\<rparr>))))"

section \<open>The graph\<close>

text \<open>The pipeline's own propose, approval and execute nodes are not nodes of this graph.\<close>

datatype episode_node =
    E_shared graph_node | E_propose | E_record | E_clear | E_preselection_finish | E_approval_reach | E_approval
  | E_execute | E_finish | E_end

definition NOT_SHARED :: "graph_node list" where
  "NOT_SHARED = [N_propose, N_approval, N_execute, N_end]"

fun run_episode_node ::
  "('w, 'c) workflow_dependencies \<Rightarrow> 'w episode_host \<Rightarrow> human_decision option \<Rightarrow> episode_node \<Rightarrow> episode_state \<Rightarrow>
   (episode_state, 'w) process" where
  "run_episode_node d host resume (E_shared n) st =
     plain (if n \<in> set NOT_SHARED then raising (KeyError ''node'') else shared_node d n st)"
| "run_episode_node d host resume E_propose st = episode_propose d host st"
| "run_episode_node d host resume E_record st = plain (episode_record d host st)"
| "run_episode_node d host resume E_clear st = plain (returning (episode_clear st))"
| "run_episode_node d host resume E_preselection_finish st = plain (returning (st\<lparr>es_termination := Some STRATEGY_COMPLETE\<rparr>))"
| "run_episode_node d host resume E_approval_reach st = plain (episode_approval_reach d st)"
| "run_episode_node d host resume E_approval st = episode_approval d host resume st"
| "run_episode_node d host resume E_execute st = plain (episode_execute d host st)"
| "run_episode_node d host resume E_finish st = plain (returning st)"
| "run_episode_node d host resume E_end st = plain (returning st)"

text \<open>A node of the pipeline as a node of this graph: its end is the record of the attempt.\<close>

fun episode_node_of :: "graph_node \<Rightarrow> episode_node" where
  "episode_node_of N_propose = E_propose"
| "episode_node_of N_approval = E_approval_reach"
| "episode_node_of N_execute = E_execute"
| "episode_node_of N_end = E_record"
| "episode_node_of n = E_shared n"

fun next_episode_node :: "('w, 'c) workflow_dependencies \<Rightarrow> episode_node \<Rightarrow> episode_state \<Rightarrow> episode_node result" where
  "next_episode_node d (E_shared N_ingest) st =
     Inr (if ws_result (es_flow st) \<noteq> None then E_preselection_finish else E_shared N_collect)"
| "next_episode_node d (E_shared n) st = map_sum id episode_node_of (next_node d n (es_flow st))"
| "next_episode_node d E_propose st =
     Inr (if es_termination st \<noteq> None then E_finish else if ws_result (es_flow st) \<noteq> None then E_record else E_shared N_validate)"
| "next_episode_node d E_record st = Inr (if es_termination st \<noteq> None then E_finish else E_clear)"
| "next_episode_node d E_clear st = Inr (E_shared N_collect)"
| "next_episode_node d E_preselection_finish st = Inr E_finish"
| "next_episode_node d E_approval_reach st = Inr E_approval"
| "next_episode_node d E_approval st = Inr (if ws_result (es_flow st) \<noteq> None then E_record else E_execute)"
| "next_episode_node d E_execute st = Inr (E_shared N_verify)"
| "next_episode_node d E_finish st = Inr E_end"
| "next_episode_node d E_end st = Inr E_end"

section \<open>Runs\<close>

text \<open>What a node does to the counters of the root.\<close>

definition counts :: "episode_node \<Rightarrow> episode_state \<Rightarrow> episode_state \<Rightarrow> bool" where
  "counts n st st' = (es_max_actions st' = es_max_actions st \<and> es_safeguards st' = es_safeguards st \<and>
     (if n = E_record then es_sequence st' = es_sequence st + 1 \<and>
        (es_termination st' = None \<longrightarrow> es_sequence st' < es_max_actions st)
      else es_sequence st' = es_sequence st))"

text \<open>What an effect can return, whatever the world.\<close>

definition returns :: "('a, 'w) effect \<Rightarrow> ('a \<Rightarrow> bool) \<Rightarrow> bool" where
  "returns m Q = (\<forall>w x w'. m w = (Returned x, w') \<longrightarrow> Q x)"

definition proc_returns :: "('a, 'w) process \<Rightarrow> ('a \<Rightarrow> bool) \<Rightarrow> bool" where
  "proc_returns m Q = (\<forall>cache w x cache' w'. m cache w = (Returned x, cache', w') \<longrightarrow> Q x)"

named_theorems returns_rules \<open>what an effect can return\<close>

lemma returns_intros [returns_rules]:
  "Q x \<Longrightarrow> returns (returning x) Q" "returns (raising e) Q"
  "returns m' (\<lambda>x. returns (f x) Q') \<Longrightarrow> returns (bind_eff m' f) Q'"
  "returns m Q \<Longrightarrow> proc_returns (plain m) Q"
  "proc_returns p (\<lambda>x. proc_returns (g x) R) \<Longrightarrow> proc_returns (bind_proc p g) R"
  "(\<And>x. S x) \<Longrightarrow> proc_returns (recall k) S" "T () \<Longrightarrow> proc_returns (remember k r) T"
  by (auto simp: returns_def proc_returns_def returning_def raising_def bind_eff_def bind_proc_def plain_def recall_def
      remember_def split: prod.splits outcome.splits) blast+

lemma returns_any [returns_rules]:
  "(\<And>x. Q x) \<Longrightarrow> returns (from_result r) Q" "(\<And>t. S t) \<Longrightarrow> returns (clock d) S"
  "(\<And>x. T x) \<Longrightarrow> returns (channel name v) T" "(\<And>x. U x) \<Longrightarrow> returns (host_call c) U"
  "(\<And>x. V x) \<Longrightarrow> returns (propose_with d b flow) V" "(\<And>x. X x) \<Longrightarrow> returns (select_requester d host leg i j) X"
  "(\<And>x. Y x) \<Longrightarrow> returns (episode_leg_index st leg) Y" "(\<And>x. Z x) \<Longrightarrow> returns (run_node d resume n flow) Z"
  "(\<And>x. V x) \<Longrightarrow> returns (bind_key d st flow) V" "(\<And>x. V x) \<Longrightarrow> returns (approval_with d a resume flow) V"
  "(\<And>x. V x) \<Longrightarrow> returns (execute_with d hook flow) V" "(\<And>x. P x) \<Longrightarrow> returns (episode_snapshot d st) P"
  "(\<And>x. N x) \<Longrightarrow> returns (ensure_safeguards d st) N"
  by (simp_all add: returns_def)

lemma returns_cases [returns_rules]:
  "(b \<Longrightarrow> returns m Q) \<Longrightarrow> (\<not> b \<Longrightarrow> returns m' Q) \<Longrightarrow> returns (if b then m else m') Q"
  "(b \<Longrightarrow> proc_returns p R) \<Longrightarrow> (\<not> b \<Longrightarrow> proc_returns p' R) \<Longrightarrow> proc_returns (if b then p else p') R"
  "(v = None \<Longrightarrow> returns m Q) \<Longrightarrow> (\<And>x. v = Some x \<Longrightarrow> returns (f x) Q) \<Longrightarrow>
     returns (case v of None \<Rightarrow> m | Some x \<Rightarrow> f x) Q"
  "(v' = None \<Longrightarrow> proc_returns p R) \<Longrightarrow> (\<And>x. v' = Some x \<Longrightarrow> proc_returns (g x) R) \<Longrightarrow>
     proc_returns (case v' of None \<Rightarrow> p | Some x \<Rightarrow> g x) R"
  "(\<And>a b. y = (a, b) \<Longrightarrow> proc_returns (h a b) R) \<Longrightarrow> proc_returns (case y of (a, b) \<Rightarrow> h a b) R"
  by (cases b; cases v; cases v'; cases y; simp)+

lemma node_counts: "proc_returns (run_episode_node d host resume n st) (counts n st)"
proof (cases n)
  case E_propose
  show ?thesis
    unfolding E_propose run_episode_node.simps episode_propose_def attempt_def Let_def
    by (intro returns_rules) (simp_all add: counts_def)
next
  case E_record
  show ?thesis
    unfolding E_record run_episode_node.simps episode_record_def Let_def
    by (intro returns_rules) (auto simp: counts_def)
next
  case E_approval
  show ?thesis
    unfolding E_approval run_episode_node.simps episode_approval_def
    by (intro returns_rules) (simp_all add: counts_def)
next
  case (E_shared m)
  show ?thesis
    unfolding E_shared run_episode_node.simps shared_node_def
    by (intro returns_rules) (simp_all add: counts_def)
qed (simp_all add: episode_approval_reach_def episode_execute_def,
     (intro returns_rules; simp add: counts_def episode_clear_def)+)

fun episode_rank :: "episode_node \<Rightarrow> nat" where
  "episode_rank (E_shared N_ingest) = 13"
| "episode_rank E_clear = 12"
| "episode_rank (E_shared N_collect) = 11"
| "episode_rank E_propose = 10"
| "episode_rank (E_shared N_validate) = 9"
| "episode_rank (E_shared N_monitor) = 8"
| "episode_rank (E_shared N_preapproval_audit) = 7"
| "episode_rank E_approval_reach = 6"
| "episode_rank E_approval = 5"
| "episode_rank E_execute = 4"
| "episode_rank (E_shared m) = (if m \<in> set NOT_SHARED then 0 else 3)"
| "episode_rank E_record = 2"
| "episode_rank E_preselection_finish = 2"
| "episode_rank E_finish = 1"
| "episode_rank E_end = 0"

lemma next_episode_rank:
  assumes "next_episode_node d n st = Inr n'" "n \<noteq> E_end" "n \<noteq> E_record" "\<And>m. n = E_shared m \<Longrightarrow> m \<notin> set NOT_SHARED"
  shows "episode_rank n' < episode_rank n"
proof (cases n)
  case (E_shared m)
  then show ?thesis
    using assms by (cases m) (auto simp: NOT_SHARED_def map_sum_def after_monitor_def split: sum.splits option.splits if_splits)
qed (use assms in \<open>auto split: if_splits\<close>)

lemma record_decreases:
  "counts E_record st st' \<Longrightarrow> next_episode_node d E_record st' = Inr n' \<Longrightarrow>
     nat (es_max_actions st' - es_sequence st') < nat (es_max_actions st - es_sequence st) \<or>
     nat (es_max_actions st' - es_sequence st') \<le> nat (es_max_actions st - es_sequence st) \<and> n' = E_finish"
  by (auto simp: counts_def split: if_splits)

lemma run_decreases:
  assumes "n \<noteq> E_end" "run_episode_node d host resume n st cache w = (Returned st', cache', w')"
    and "next_episode_node d n st' = Inr n'"
  shows "nat (es_max_actions st' - es_sequence st') < nat (es_max_actions st - es_sequence st) \<or>
    nat (es_max_actions st' - es_sequence st') = nat (es_max_actions st - es_sequence st) \<and> episode_rank n' < episode_rank n"
proof -
  have c: "counts n st st'" using node_counts assms(2) unfolding proc_returns_def by blast
  have m: "m \<notin> set NOT_SHARED" if "n = E_shared m" for m
    using assms(2) that by (auto simp: plain_def raising_def split: if_splits)
  show ?thesis
  proof (cases "n = E_record")
    case True
    then show ?thesis using record_decreases[of st st' d n'] c assms(3) by auto
  next
    case False
    then show ?thesis using next_episode_rank[OF assms(3,1) False m] c by (simp add: counts_def)
  qed
qed

text \<open>A run in one process, until it ends, is suspended at an approval, or a node raises.\<close>

datatype episode_end =
    EpisodeFinished episode_state
  | EpisodeInterrupted episode_node episode_state authorization_request
  | EpisodeFailed episode_node episode_state py_exn

function run_episode ::
  "('w, 'c) workflow_dependencies \<Rightarrow> 'w episode_host \<Rightarrow> human_decision option \<Rightarrow> episode_node \<Rightarrow> episode_state \<Rightarrow>
   'w requester_cache \<Rightarrow> 'w world \<Rightarrow> episode_end \<times> 'w requester_cache \<times> 'w world" where
  "run_episode d host resume n st cache w =
     (if n = E_end then (EpisodeFinished st, cache, w)
      else case run_episode_node d host resume n st cache w of
        (Returned st', cache', w') \<Rightarrow>
          (case next_episode_node d n st' of
             Inl e \<Rightarrow> (EpisodeFailed n st e, cache', w')
           | Inr n' \<Rightarrow> run_episode d host None n' st' cache' w')
      | (Suspended request, cache', w') \<Rightarrow> (EpisodeInterrupted n st request, cache', w')
      | (Raised e, cache', w') \<Rightarrow> (EpisodeFailed n st e, cache', w'))"
  by pat_completeness auto
termination
proof (relation "measures [\<lambda>(d, host, resume, n, st, cache, w). nat (es_max_actions st - es_sequence st),
      \<lambda>(d, host, resume, n, st, cache, w). episode_rank n]")
  fix d :: "('w, 'c) workflow_dependencies" and host :: "'w episode_host" and resume n st cache w out rest st' cache' w' n'
  assume a: "n \<noteq> E_end" "(out, rest) = run_episode_node d host resume n st cache w" "out = Returned st'"
    "(cache', w') = rest" "next_episode_node d n st' = Inr n'"
  then have "run_episode_node d host resume n st cache w = (Returned st', cache', w')" by simp
  from run_decreases[OF a(1) this a(5)]
  show "((d, host, None, n', st', cache', w'), d, host, resume, n, st, cache, w) \<in>
      measures [\<lambda>(d, host, resume, n, st, cache, w). nat (es_max_actions st - es_sequence st),
      \<lambda>(d, host, resume, n, st, cache, w). episode_rank n]"
    by (simp only: in_measures prod.case) blast
qed simp

declare run_episode.simps [simp del]

section \<open>Starting and resuming an episode\<close>

text \<open>\<open>EpisodeRuntime.start_episode\<close>: the checks and the first channels.\<close>

definition start_episode ::
  "safeguard_configuration \<Rightarrow> incident_identity \<Rightarrow> caller \<Rightarrow> tool_call_context \<Rightarrow> transcript \<Rightarrow> int \<Rightarrow> episode_state result" where
  [episode_defs]: "start_episode sg incident operator ctx t max_actions =
     (if cal_role operator \<noteq> OPERATOR
      then Inl (PermissionDenied ''episode runtime start requires an authenticated operator'')
      else if ctx_idempotency_key ctx \<noteq> None then Inl (ValueError ''caller-chosen idempotency keys are not accepted'')
      else if tr_events t \<noteq> [] then Inl (ValueError ''new episode transcripts must be empty root history'')
      else if tr_incident_id t \<noteq> idn_incident_id incident \<or> tr_thread_id t \<noteq> idn_thread_id incident
      then Inl (ValueError ''episode transcript does not bind the root incident/thread'')
      else if \<not> (1 \<le> max_actions \<and> max_actions \<le> 1000)
      then Inl (ValueError ''episode max_actions must be between 1 and 1000'')
      else Inr \<lparr>es_flow = initial_state incident ctx operator, es_transcript = t, es_max_actions = max_actions,
        es_sequence = int (length (filter (\<lambda>e. te_phase e = PHASE_TERMINAL) (tr_events t))), es_termination = None,
        es_safeguards = episode_safeguard_identity sg, es_leg = None, es_action_id = None, es_selection = None,
        es_reached = False, es_durable = False\<rparr>)"

text \<open>
  \<open>EpisodeRuntime.resume_episode\<close>: what a restarted process checks of the checkpoint and the cache
  it starts with. Here the default of the request path is told from the authorizer alone.
\<close>

definition resume_episode ::
  "('w, 'c) workflow_dependencies \<Rightarrow> 'w episode_host \<Rightarrow> episode_state \<Rightarrow> ('w requester_cache, 'w) effect" where
  [episode_defs]: "resume_episode d host st =
     bind_eff (from_result (validate_safeguard_identity (es_safeguards st))) (\<lambda>persisted.
     if persisted \<noteq> episode_safeguard_identity (dp_safeguards d)
     then raising (ValueError ''episode safeguards do not match the durable root configuration'')
     else case es_selection st of
       None \<Rightarrow> returning Map.empty
     | Some selection \<Rightarrow> bind_eff (from_result (validate_selection selection)) (\<lambda>selection.
         bind_eff (resolve_episode_authorization (dp_authorization d) (eh_selector host) (ase_leg selection)
           (ase_leg_index selection) (ase_sequence selection) None) (\<lambda>(candidate, requester).
         if candidate \<noteq> selection
         then raising (ValueError ''episode authorization selection does not match durable root'')
         else returning [ase_sequence selection \<mapsto> requester])))"

end
