(* ===== verification/Episode_Safety.thy ===== *)
theory Episode_Safety
  imports Episode Workflow_Safety
begin

text \<open>
  What every run of an episode keeps, over any number of attempts, interruptions, failures and
  process restarts. The log of a run is the concatenation of the logs of its attempts; each of them
  is a log of the one-action pipeline, whose invariants (\<open>Workflow_Safety\<close>) are carried over by the
  frame of its effects: what a node appends does not depend on what is already in the log.
\<close>

section \<open>The frame of an effect\<close>

definition after_log :: "port_call list \<Rightarrow> 'a outcome \<times> 'w world \<Rightarrow> 'a outcome \<times> 'w world" where
  "after_log l = apsnd (\<lambda>w. w\<lparr>wd_log := l @ wd_log w\<rparr>)"

definition appends :: "('a, 'w) effect \<Rightarrow> bool" where
  "appends m = (\<forall>w. m w = after_log (wd_log w) (m (w\<lparr>wd_log := []\<rparr>)))"

named_theorems appends_rules \<open>effects that only append to the log\<close>

lemma appendsD: "appends m \<Longrightarrow> m (w\<lparr>wd_log := pre @ l\<rparr>) = after_log pre (m (w\<lparr>wd_log := l\<rparr>))"
proof -
  assume m: "appends m"
  have "m (w\<lparr>wd_log := pre @ l\<rparr>) = after_log (pre @ l) (m (w\<lparr>wd_log := []\<rparr>))"
    using m[unfolded appends_def, rule_format, of "w\<lparr>wd_log := pre @ l\<rparr>"] by simp
  moreover have "m (w\<lparr>wd_log := l\<rparr>) = after_log l (m (w\<lparr>wd_log := []\<rparr>))"
    using m[unfolded appends_def, rule_format, of "w\<lparr>wd_log := l\<rparr>"] by simp
  ultimately show ?thesis by (simp add: after_log_def apsnd_compose prod_eq_iff)
qed

lemma appendsI: "(\<And>w pre. m (w\<lparr>wd_log := pre @ wd_log w\<rparr>) = after_log pre (m w)) \<Longrightarrow> appends m"
  unfolding appends_def
proof
  fix w assume a: "\<And>w pre. m (w\<lparr>wd_log := pre @ wd_log w\<rparr>) = after_log pre (m w)"
  show "m w = after_log (wd_log w) (m (w\<lparr>wd_log := []\<rparr>))"
    using a[of "wd_log w" "w\<lparr>wd_log := []\<rparr>"] by simp
qed

lemma appendsE: "appends m \<Longrightarrow> m (w\<lparr>wd_log := pre @ wd_log w\<rparr>) = after_log pre (m w)"
  using appendsD[where l = "wd_log w" and w = w] by simp

lemma appends_bind [appends_rules]:
  assumes "appends m" "\<And>x. appends (f x)"
  shows "appends (bind_eff m f)"
proof (rule appendsI)
  fix w pre
  show "bind_eff m f (w\<lparr>wd_log := pre @ wd_log w\<rparr>) = after_log pre (bind_eff m f w)"
    unfolding bind_eff_def appendsE[OF assms(1)]
    by (cases "m w"; cases "fst (m w)") (auto simp: after_log_def appendsE[OF assms(2), unfolded after_log_def])
qed

lemma appends_basic [appends_rules]:
  "appends (returning x)" "appends (raising e)" "appends (from_result r)" "appends (channel name v)" "appends (port entry f)"
  "appends (scenario_span st)"
  by (auto intro!: appendsI simp: returning_def raising_def from_result_def channel_def port_def scenario_span_def after_log_def
      Let_def split: sum.splits option.splits prod.splits)

lemma appends_cases [appends_rules]:
  "(b \<Longrightarrow> appends m) \<Longrightarrow> (\<not> b \<Longrightarrow> appends m') \<Longrightarrow> appends (if b then m else m')"
  "(v = None \<Longrightarrow> appends m) \<Longrightarrow> (\<And>x. v = Some x \<Longrightarrow> appends (f x)) \<Longrightarrow> appends (case v of None \<Rightarrow> m | Some x \<Rightarrow> f x)"
  "(\<And>a b. y = (a, b) \<Longrightarrow> appends (g a b)) \<Longrightarrow> appends (case y of (a, b) \<Rightarrow> g a b)"
  "(\<And>e. r = Inl e \<Longrightarrow> appends (h e)) \<Longrightarrow> (\<And>z. r = Inr z \<Longrightarrow> appends (k z)) \<Longrightarrow>
     appends (case r of Inl e \<Rightarrow> h e | Inr z \<Rightarrow> k z)"
  "(\<And>a. mp = MonitorV1 a \<Longrightarrow> appends (q a)) \<Longrightarrow> (\<And>b. mp = MonitorV2 b \<Longrightarrow> appends (s b)) \<Longrightarrow>
     appends (case mp of MonitorV1 a \<Rightarrow> q a | MonitorV2 b \<Rightarrow> s b)"
  by (cases b; cases v; cases y; cases r; cases mp; simp)+

lemma appends_helpers [appends_rules]:
  "appends (clock d)" "appends (read_clock t)" "appends (emit_event d a b c e f)" "appends (audit d st g h)"
  by (simp_all add: clock_def read_clock_def emit_event_def audit_def Let_def) (intro appends_rules)+

lemma appends_semantic [appends_rules]: "appends (semantic_observation b st)"
  by (rule appendsI) (auto simp: semantic_observation_def after_log_def Let_def split: option.splits prod.splits)

lemma appends_observe [appends_rules]: "appends (observe_with b f st)"
  unfolding observe_with_def by (intro appends_rules)

lemma appends_consult [appends_rules]: "appends (consult_v2 d b st action records evidence policy)"
proof (rule appendsI)
  fix w :: "'a world" and pre
  let ?assess = "\<lambda>c. bind_eff (port (\<lambda>_. [Assessed action]) (mb_assess b c)) (\<lambda>outcome.
             if mo_outcome outcome = ''error'' then
               (case mo_error_kind outcome of
                  None \<Rightarrow> raising (RuntimeError ''AssertionError'')
                | Some kind \<Rightarrow>
                    observe_with b (\<lambda>s. s\<lparr>ws_monitor_error := Some (monitor_error_kind_name kind)\<rparr>) st)
             else
               (case mo_assessment outcome of
                  None \<Rightarrow> raising (RuntimeError ''AssertionError'')
                | Some assessment \<Rightarrow>
                    (case bound_result d b assessment action of
                       Inl e \<Rightarrow> if is_value_error e
                         then observe_with b (\<lambda>s. s\<lparr>ws_monitor_error := Some ''echo_mismatch''\<rparr>) st
                         else raising e
                     | Inr r \<Rightarrow> observe_with b (\<lambda>s. s\<lparr>ws_monitor := Some r\<rparr>) st)))"
  have a: "appends (?assess c)" for c by (intro appends_rules)
  have c: "?assess c (w\<lparr>wd_log := pre @ wd_log w, wd_env := env\<rparr>) = after_log pre (?assess c (w\<lparr>wd_env := env\<rparr>))" for c env
    using appendsE[OF a, of c pre "w\<lparr>wd_env := env\<rparr>"] by (cases w) simp
  obtain built env where b: "mb_build b (ws_incident st) action records evidence policy (dp_safeguards d) (wd_env w) = (built, env)"
    by fastforce
  show "consult_v2 d b st action records evidence policy (w\<lparr>wd_log := pre @ wd_log w\<rparr>) =
      after_log pre (consult_v2 d b st action records evidence policy w)"
  proof (cases built)
    case (Inl e)
    then show ?thesis by (simp add: consult_v2_def b after_log_def Let_def)
  next
    case (Inr consultation)
    then show ?thesis by (simp add: consult_v2_def b Let_def c)
  qed
qed

lemma appends_terminal [appends_rules]:
  "appends (terminal_result st reasons m h)" "appends (finish_with st reasons m h)"
  "appends (refuse_after_policy d st g reason m)" "appends (refuse_human d st human audited reason)"
  by (simp_all add: terminal_result_def finish_with_def refuse_after_policy_def refuse_human_def) (intro appends_rules)+

lemma appends_exn [appends_rules]:
  "(\<And>reason. e = ProposalError reason \<Longrightarrow> appends (f reason)) \<Longrightarrow> appends (case e of ProposalError reason \<Rightarrow> f reason | _ \<Rightarrow> raising e)"
  by (cases e) (simp_all add: appends_rules)

lemma propose_with_eq:
  "propose_with d p st = bind_eff (channel ''records'' (ws_records st)) (\<lambda>records.
     bind_eff (port (\<lambda>_. [Proposed (ws_incident st)])
       (\<lambda>env. apfst Inr (p (ws_incident st) (ws_caller st) (ws_context st) records env))) (\<lambda>answer.
     case answer of
       Inl e \<Rightarrow> (case e of ProposalError reason \<Rightarrow> bind_eff (audit d st ''proposal'' reason)
           (\<lambda>_. returning (st\<lparr>ws_result := Some (blocked_with [reason])\<rparr>)) | _ \<Rightarrow> raising e)
     | Inr (hyp, action) \<Rightarrow> returning (st\<lparr>ws_hypothesis := Some hyp, ws_action := Some action\<rparr>)))"
  unfolding propose_with_def
proof (rule arg_cong[where f = "bind_eff _"], intro ext)
  fix records :: "evidence_record list" and w :: "'a world"
  obtain answer env where p: "p (ws_incident st) (ws_caller st) (ws_context st) records (wd_env w) = (answer, env)" by fastforce
  show "(let (answer, w') = port (\<lambda>_. [Proposed (ws_incident st)])
          (\<lambda>env. apfst Inr (p (ws_incident st) (ws_caller st) (ws_context st) records env)) w
        in case answer of
          Returned (Inr (hyp, action)) \<Rightarrow> (Returned (st\<lparr>ws_hypothesis := Some hyp, ws_action := Some action\<rparr>), w')
        | Returned (Inl (ProposalError reason)) \<Rightarrow> bind_eff (audit d st ''proposal'' reason)
            (\<lambda>_. returning (st\<lparr>ws_result := Some (blocked_with [reason])\<rparr>)) w'
        | Returned (Inl e) \<Rightarrow> (Raised e, w') | Raised e \<Rightarrow> (Raised e, w') | Suspended r \<Rightarrow> (Suspended r, w')) =
      bind_eff (port (\<lambda>_. [Proposed (ws_incident st)])
       (\<lambda>env. apfst Inr (p (ws_incident st) (ws_caller st) (ws_context st) records env))) (\<lambda>answer.
     case answer of
       Inl e \<Rightarrow> (case e of ProposalError reason \<Rightarrow> bind_eff (audit d st ''proposal'' reason)
           (\<lambda>_. returning (st\<lparr>ws_result := Some (blocked_with [reason])\<rparr>)) | _ \<Rightarrow> raising e)
     | Inr (hyp, action) \<Rightarrow> returning (st\<lparr>ws_hypothesis := Some hyp, ws_action := Some action\<rparr>)) w"
    unfolding bind_eff_def[of "port _ _"] port_def Let_def
    by (simp add: p from_result_def returning_def raising_def split: sum.splits prod.splits py_exn.splits)
qed

lemma appends_nodes [appends_rules]:
  "appends (propose_with d p st)" "appends (approval_with d a resume st)" "appends (evidence_step d action records ctx)"
  "(\<And>st operation. appends (hook st operation)) \<Longrightarrow> appends (execute_with d (Some hook) st)"
  "appends (execute_with d None st)"
proof -
  show "appends (propose_with d p st)"
    unfolding propose_with_eq by (intro appends_rules)
  show "appends (approval_with d a resume st)"
    unfolding approval_with_def request_decision_def decide_approval_def token_step_def
    by (intro appends_rules appendsI) (auto simp: after_log_def Let_def split: option.splits)
  show "appends (evidence_step d action records ctx)"
    unfolding evidence_step_def by (intro appends_rules)
  show "appends (execute_with d None st)"
    unfolding execute_with_def Let_def option.case by (intro appends_rules)
  assume "\<And>st operation. appends (hook st operation)"
  then show "appends (execute_with d (Some hook) st)"
    unfolding execute_with_def Let_def option.case by (intro appends_rules)
qed

lemma appends_run_node [appends_rules]: "appends (run_node d resume n st)"
  by (cases n; simp only: run_node.simps ingest_def collect_def propose_def validate_node_def monitor_node_def deny_def blocked_def
    monitor_mismatch_def monitor_error_terminal_def preapproval_audit_def approval_def execute_def verify_node_def Let_def;
    intro appends_rules)

lemma ensures_frame:
  assumes "appends m" "ensures m seg Q E"
  shows "ensures m (pre @ seg) (\<lambda>x l. \<exists>seg'. l = pre @ seg' \<and> Q x seg') (\<lambda>l. \<exists>seg'. l = pre @ seg' \<and> E seg')"
  unfolding ensures_def
proof (intro allI impI)
  fix w :: "'a world" assume w: "wd_log w = pre @ seg"
  have "m (w\<lparr>wd_log := pre @ seg\<rparr>) = after_log pre (m (w\<lparr>wd_log := seg\<rparr>))" by (rule appendsD[OF assms(1)])
  then have m: "m w = after_log pre (m (w\<lparr>wd_log := seg\<rparr>))" using w by (metis world.surjective world.update_convs(1))
  obtain out w' where o: "m (w\<lparr>wd_log := seg\<rparr>) = (out, w')" by fastforce
  have "wd_log (w\<lparr>wd_log := seg\<rparr>) = seg" by simp
  from ensuresD[of m "w\<lparr>wd_log := seg\<rparr>" Q E, unfolded this, OF assms(2) o]
  show "case m w of
       (Returned x, w') \<Rightarrow> \<exists>seg'. wd_log w' = pre @ seg' \<and> Q x seg'
     | (Raised e, w') \<Rightarrow> \<exists>seg'. wd_log w' = pre @ seg' \<and> E seg'
     | (Suspended r, w') \<Rightarrow> \<exists>seg'. wd_log w' = pre @ seg' \<and> E seg'"
    unfolding m o by (auto simp: after_log_def split: outcome.splits)
qed

section \<open>Reasoning about processes\<close>

definition proc_ensures ::
  "('a, 'w) process \<Rightarrow> port_call list \<Rightarrow> ('a \<Rightarrow> port_call list \<Rightarrow> bool) \<Rightarrow> (port_call list \<Rightarrow> bool) \<Rightarrow> bool" where
  "proc_ensures p l Q E = (\<forall>cache w. wd_log w = l \<longrightarrow> (case p cache w of (out, _, w') \<Rightarrow>
     (case out of Returned x \<Rightarrow> Q x (wd_log w') | _ \<Rightarrow> E (wd_log w'))))"

named_theorems proc_rules \<open>rules of the process calculus\<close>

lemma proc_ensuresD:
  assumes "proc_ensures p (wd_log w) Q E" "p cache w = (out, cache', w')"
  shows "case out of Returned x \<Rightarrow> Q x (wd_log w') | _ \<Rightarrow> E (wd_log w')"
  using assms(1)[unfolded proc_ensures_def, rule_format, OF refl, of cache] assms(2) by simp

lemma proc_ensuresI:
  assumes "\<And>cache w out cache' w'. wd_log w = l \<Longrightarrow> p cache w = (out, cache', w') \<Longrightarrow>
    (case out of Returned x \<Rightarrow> Q x (wd_log w') | _ \<Rightarrow> E (wd_log w'))"
  shows "proc_ensures p l Q E"
  unfolding proc_ensures_def using assms by (auto split: prod.split)

lemma proc_plain [proc_rules]: "ensures m l Q E \<Longrightarrow> proc_ensures (plain m) l Q E"
  by (rule proc_ensuresI) (auto simp: plain_def dest: ensuresD split: prod.splits)

lemma proc_bind [proc_rules]:
  assumes "proc_ensures p l (\<lambda>x l'. proc_ensures (f x) l' Q E) E"
  shows "proc_ensures (bind_proc p f) l Q E"
proof (rule proc_ensuresI)
  fix cache w out cache' w'
  assume l: "wd_log w = l" and r: "bind_proc p f cache w = (out, cache', w')"
  obtain o1 c1 w1 where p: "p cache w = (o1, c1, w1)" by (metis prod_cases3)
  note first = proc_ensuresD[OF assms[folded l] p]
  show "case out of Returned x \<Rightarrow> Q x (wd_log w') | _ \<Rightarrow> E (wd_log w')"
  proof (cases o1)
    case (Returned x)
    then show ?thesis using first r p proc_ensuresD[of "f x" w1 Q E c1 out cache' w'] by (simp add: bind_proc_def)
  qed (use first r p in \<open>auto simp: bind_proc_def\<close>)
qed

lemma proc_cache [proc_rules]:
  "Q () l \<Longrightarrow> proc_ensures (remember k r) l Q E" "(\<And>x. R x l) \<Longrightarrow> proc_ensures (recall k) l R E"
  by (simp_all add: proc_ensures_def remember_def recall_def)

lemma proc_cases [proc_rules]:
  "(b \<Longrightarrow> proc_ensures p l Q E) \<Longrightarrow> (\<not> b \<Longrightarrow> proc_ensures p' l Q E) \<Longrightarrow> proc_ensures (if b then p else p') l Q E"
  "(v = None \<Longrightarrow> proc_ensures p l Q E) \<Longrightarrow> (\<And>x. v = Some x \<Longrightarrow> proc_ensures (g x) l Q E) \<Longrightarrow>
     proc_ensures (case v of None \<Rightarrow> p | Some x \<Rightarrow> g x) l Q E"
  "(\<And>a b. y = (a, b) \<Longrightarrow> proc_ensures (h a b) l Q E) \<Longrightarrow> proc_ensures (case y of (a, b) \<Rightarrow> h a b) l Q E"
  by (cases b; cases v; cases y; simp)+

lemma proc_mono:
  assumes "proc_ensures p l Q E" "\<And>x l'. Q x l' \<Longrightarrow> Q' x l'" "\<And>l'. E l' \<Longrightarrow> E' l'"
  shows "proc_ensures p l Q' E'"
proof (rule proc_ensuresI)
  fix cache w out cache' w'
  assume "wd_log w = l" "p cache w = (out, cache', w')"
  then show "case out of Returned x \<Rightarrow> Q' x (wd_log w') | _ \<Rightarrow> E' (wd_log w')"
    using proc_ensuresD[of p w Q E cache out cache' w'] assms by (cases out) auto
qed

text \<open>The calls of the host write nothing to the log.\<close>

lemma ensures_host [ensures_rules]:
  "E l \<Longrightarrow> (\<And>x. Q x l) \<Longrightarrow> ensures (host_call f) l Q E"
  unfolding host_call_def by (rule ensures_port) simp_all

lemma ensures_silent [ensures_rules]:
  "E l \<Longrightarrow> (es_safeguards st = episode_safeguard_identity (dp_safeguards d) \<Longrightarrow> P () l) \<Longrightarrow> ensures (ensure_safeguards d st) l P E"
  "E l \<Longrightarrow> (\<And>i. R i l) \<Longrightarrow> ensures (episode_leg_index st leg) l R E"
  "E l \<Longrightarrow> (\<And>fact requester. S (fact, requester) l) \<Longrightarrow> ensures (select_requester d host leg i j) l S E"
  "E l \<Longrightarrow> P () l \<Longrightarrow> ensures (deliver host st operation) l P E"
  by (auto simp: ensure_safeguards_def episode_leg_index_def select_requester_def resolve_episode_authorization_def deliver_def
      intro!: ensures_rules split: option.split)

section \<open>The attempt as a run of the pipeline\<close>

definition attempt_uuid5 :: "('w, 'c) workflow_dependencies \<Rightarrow> episode_state \<Rightarrow> string \<Rightarrow> uuid" where
  "attempt_uuid5 d st name = dp_uuid5 d (name @ episode_key_suffix (tr_episode_id (es_transcript st)) (es_sequence st))"

text \<open>
  The dependencies of the pipeline an attempt is a run of. Its proposer is left open: the one here
  answers with a reason outside the vocabulary, so that nothing is assumed of the selected one.
\<close>

definition mute :: "'w proposer" where
  "mute _ _ _ _ env = (Inl (ProposalError []), env)"

definition pipeline :: "('w, 'c) workflow_dependencies \<Rightarrow> episode_state \<Rightarrow> ('w, 'c) workflow_dependencies" where
  "pipeline d st = d\<lparr>dp_propose := mute, dp_uuid5 := attempt_uuid5 d st\<rparr>"

lemma mute_unknown [simp]: "dp_propose d = mute \<Longrightarrow> \<not> known_ports d"
proof -
  have "\<not> is_known_reason []" by code_simp
  then show "dp_propose d = mute \<Longrightarrow> \<not> known_ports d" by (auto simp: known_ports_def mute_def)
qed

lemma pipeline_fields:
  "dp_sha (pipeline d st) = dp_sha d" "dp_fullmatch (pipeline d st) = dp_fullmatch d" "dp_policy (pipeline d st) = dp_policy d"
  "dp_allowed_sources (pipeline d st) = dp_allowed_sources d" "dp_evidence_clock (pipeline d st) = dp_evidence_clock d"
  "dp_collect (pipeline d st) = dp_collect d" "dp_monitor (pipeline d st) = dp_monitor d"
  "dp_validate_token (pipeline d st) = dp_validate_token d" "dp_execute (pipeline d st) = dp_execute d"
  "dp_verify (pipeline d st) = dp_verify d" "dp_emit (pipeline d st) = dp_emit d" "dp_clock (pipeline d st) = dp_clock d"
  "dp_safeguards (pipeline d st) = dp_safeguards d" "dp_authorization (pipeline d st) = dp_authorization d"
  "dp_propose (pipeline d st) = mute" "dp_uuid5 (pipeline d st) = attempt_uuid5 d st"
  by (simp_all add: pipeline_def)

lemma pipeline_simps [simp]:
  "dp_safeguards (pipeline d st) = dp_safeguards d" "dp_uuid5 (pipeline d st) = attempt_uuid5 d st"
  "\<not> known_ports (pipeline d st)" "speaks (pipeline d st) reasons"
  by (simp_all add: pipeline_fields speaks_def)

lemma pipeline_cong:
  "tr_episode_id (es_transcript st') = tr_episode_id (es_transcript st) \<Longrightarrow> es_sequence st' = es_sequence st \<Longrightarrow>
     pipeline d st' = pipeline d st"
  by (simp add: pipeline_def attempt_uuid5_def fun_eq_iff)

lemma helpers_pipeline [simp]:
  "clock (pipeline d st) = clock d" "emit_event (pipeline d st) = emit_event d" "audit (pipeline d st) = audit d"
  "evidence_step (pipeline d st) = evidence_step d" "after_monitor (pipeline d st) = after_monitor d"
  "token_step (pipeline d st) = token_step d" "refuse_human (pipeline d st) = refuse_human d"
  "decide_approval (pipeline d st) = decide_approval d" "refuse_after_policy (pipeline d st) = refuse_after_policy d"
  "consult_v2 (pipeline d st) = consult_v2 d"
  unfolding fun_eq_iff clock_def emit_event_def audit_def evidence_step_def after_monitor_def token_step_def refuse_human_def
    decide_approval_def refuse_after_policy_def consult_v2_def bound_result_def pipeline_fields by blast+

lemma next_node_pipeline [simp]: "next_node (pipeline d st) n flow = next_node d n flow"
  by (cases n) simp_all

lemma run_node_pipeline: "n \<noteq> N_propose \<Longrightarrow> n \<noteq> N_validate \<Longrightarrow> run_node (pipeline d st) resume n flow = run_node d resume n flow"
  by (cases n; simp only: run_node.simps simp_thms; unfold collect_def monitor_node_def deny_def blocked_def
    monitor_mismatch_def monitor_error_terminal_def preapproval_audit_def approval_def approval_with_def execute_def
    execute_with_def verify_node_def pipeline_fields helpers_pipeline; rule refl)

text \<open>The binding of the key makes \<open>validate\<close> the one of the attempt's pipeline.\<close>

lemma bind_eff_assoc: "bind_eff (bind_eff m f) g = bind_eff m (\<lambda>x. bind_eff (f x) g)"
  by (rule ext) (simp add: bind_eff_def split: prod.split outcome.split)

lemma bind_eff_returning [simp]: "bind_eff (returning x) f = f x"
  by (rule ext) (simp add: bind_eff_def returning_def)

lemma bind_eff_if: "bind_eff (if b then m else m') f = (if b then bind_eff m f else bind_eff m' f)"
  by simp

lemma episode_key_attempt:
  assumes "tr_thread_id (es_transcript st) = thread"
  shows "episode_idempotency_key (dp_uuid5 d) h (tr_thread_id (es_transcript st)) (tr_episode_id (es_transcript st)) (es_sequence st) =
    idempotency_key (attempt_uuid5 d st) h thread"
  by (simp add: episode_idempotency_key_def idempotency_key_def attempt_uuid5_def assms)

lemma validate_rekeyed:
  assumes "transcript_from (es_transcript st) = Inr (es_transcript st)" "ws_policy flow = None"
    and "tr_thread_id (es_transcript st) = idn_thread_id (ws_incident flow)"
  shows "bind_eff (validate_node d flow) (bind_key d st) = validate_node (pipeline d st) flow"
  unfolding validate_node_def bind_eff_assoc bind_eff_if bind_eff_returning bind_key_def helpers_pipeline pipeline_fields
    assms(1) from_result_def sum.case
  by (simp add: assms(2) episode_key_attempt[OF assms(3)] cong: if_cong)

section \<open>The invariant of an episode\<close>

fun region :: "('w, 'c) workflow_dependencies \<Rightarrow> workflow_state \<Rightarrow> episode_node \<Rightarrow> episode_state \<Rightarrow> port_call list \<Rightarrow> bool" where
  "region d st0 (E_shared m) st seg = (m \<notin> set NOT_SHARED \<and> node_inv (pipeline d st) st0 m (es_flow st) seg)"
| "region d st0 E_propose st seg = node_inv (pipeline d st) st0 N_propose (es_flow st) seg"
| "region d st0 E_approval_reach st seg = node_inv (pipeline d st) st0 N_approval (es_flow st) seg"
| "region d st0 E_approval st seg = node_inv (pipeline d st) st0 N_approval (es_flow st) seg"
| "region d st0 E_execute st seg = node_inv (pipeline d st) st0 N_execute (es_flow st) seg"
| "region d st0 E_record st seg = node_inv (pipeline d st) st0 N_end (es_flow st) seg"
| "region d st0 E_clear st seg = (seg = [] \<and> same_input st0 (es_flow st))"
| "region d st0 n st seg = quiet seg"

lemma region_of: "region d st0 (episode_node_of n) st seg = node_inv (pipeline d st) st0 n (es_flow st) seg"
  by (cases n) (simp_all add: NOT_SHARED_def)

text \<open>The log of a finished attempt.\<close>

definition sane_segment :: "workflow_state \<Rightarrow> port_call list \<Rightarrow> bool" where
  "sane_segment st0 seg = (ordered (justified st0) seg \<and> (\<exists>x. \<forall>y \<in> set seg. is_execution y \<longrightarrow> y = x))"

lemma inv_sane: "node_inv d st0 n st seg \<Longrightarrow> sane_segment st0 seg"
  using inv_ordered inv_execution unfolding sane_segment_def by (metis option.inject)

lemma quiet_sane: "quiet seg \<Longrightarrow> sane_segment st0 seg"
  using quiet_ordered quiet_no_execution by (auto simp: sane_segment_def no_execution_def)

lemma region_sane: "region d st0 n st seg \<Longrightarrow> sane_segment st0 seg"
  by (cases n; simp only: region.simps; (elim conjE)?; (erule inv_sane | erule quiet_sane | simp add: sane_segment_def))

text \<open>Where the attempt is open, and where the episode has ended.\<close>

fun attempting :: "episode_node \<Rightarrow> bool" where
  "attempting (E_shared m) = (m \<notin> {N_ingest, N_collect})"
| "attempting n = (n \<in> {E_approval_reach, E_approval, E_execute, E_record})"

fun ending :: "episode_node \<Rightarrow> bool" where
  "ending n = (n \<in> {E_preselection_finish, E_finish, E_end})"

definition events_in :: "episode_phase \<Rightarrow> transcript \<Rightarrow> int" where
  "events_in phase t = int (length (filter (\<lambda>e. te_phase e = phase) (tr_events t)))"

definition root_inv :: "('w, 'c) workflow_dependencies \<Rightarrow> workflow_state \<Rightarrow> int \<Rightarrow> episode_node \<Rightarrow> episode_state \<Rightarrow> bool" where
  "root_inv d st0 bound_actions n st =
     (es_max_actions st = bound_actions \<and> 0 \<le> es_sequence st \<and> es_sequence st \<le> bound_actions \<and>
      (\<not> ending n \<longrightarrow> es_sequence st < bound_actions) \<and>
      (\<not> ending n \<and> n \<noteq> E_shared N_ingest \<longrightarrow> bound st0) \<and>
      transcript_from (es_transcript st) = Inr (es_transcript st) \<and>
      tr_thread_id (es_transcript st) = idn_thread_id (ws_incident st0) \<and>
      tr_incident_id (es_transcript st) = idn_incident_id (ws_incident st0) \<and>
      events_in PHASE_TERMINAL (es_transcript st) = es_sequence st \<and>
      events_in PHASE_STARTED (es_transcript st) = es_sequence st + (if attempting n then 1 else 0) \<and>
      (attempting n \<longrightarrow> tr_events (es_transcript st) \<noteq> [] \<and> te_phase (last (tr_events (es_transcript st))) = PHASE_STARTED) \<and>
      (n \<in> {E_finish, E_end} \<longrightarrow> es_termination st \<noteq> None) \<and> (\<not> ending n \<longrightarrow> es_termination st = None))"

definition episode_inv ::
  "('w, 'c) workflow_dependencies \<Rightarrow> workflow_state \<Rightarrow> int \<Rightarrow> episode_node \<Rightarrow> episode_state \<Rightarrow> port_call list \<Rightarrow> bool" where
  "episode_inv d st0 bound_actions n st l = (root_inv d st0 bound_actions n st \<and>
     (\<exists>attempts seg. l = concat attempts @ seg \<and> list_all (sane_segment st0) attempts \<and>
        int (length attempts) = es_sequence st \<and> region d st0 n st seg))"

text \<open>A step that stays within the attempt, given what it does to the segment.\<close>

definition segment_step ::
  "('w, 'c) workflow_dependencies \<Rightarrow> workflow_state \<Rightarrow> int \<Rightarrow> episode_node \<Rightarrow> episode_state \<Rightarrow> (episode_state, 'w) process \<Rightarrow> bool" where
  "segment_step d st0 bound_actions n st p = (\<forall>pre seg. region d st0 n st seg \<longrightarrow>
     proc_ensures p (pre @ seg)
       (\<lambda>st' l. \<exists>n' seg'. next_episode_node d n st' = Inr n' \<and> l = pre @ seg' \<and> root_inv d st0 bound_actions n' st' \<and>
          es_sequence st' = es_sequence st \<and> region d st0 n' st' seg')
       (\<lambda>l. \<exists>seg'. l = pre @ seg' \<and> region d st0 n st seg'))"

lemma segment_step_inv:
  assumes "root_inv d st0 k n st \<Longrightarrow> segment_step d st0 k n st p" "episode_inv d st0 k n st l"
  shows "proc_ensures p l
    (\<lambda>st' l'. \<exists>n'. next_episode_node d n st' = Inr n' \<and> episode_inv d st0 k n' st' l') (episode_inv d st0 k n st)"
proof -
  obtain attempts seg where a: "root_inv d st0 k n st" "l = concat attempts @ seg" "list_all (sane_segment st0) attempts"
      "int (length attempts) = es_sequence st" "region d st0 n st seg"
    using assms(2) unfolding episode_inv_def by blast
  have "proc_ensures p (concat attempts @ seg)
       (\<lambda>st' l. \<exists>n' seg'. next_episode_node d n st' = Inr n' \<and> l = concat attempts @ seg' \<and> root_inv d st0 k n' st' \<and>
          es_sequence st' = es_sequence st \<and> region d st0 n' st' seg')
       (\<lambda>l. \<exists>seg'. l = concat attempts @ seg' \<and> region d st0 n st seg')"
    using assms(1)[OF a(1)] a(5) unfolding segment_step_def by blast
  then show ?thesis
    unfolding a(2)
  proof (rule proc_mono)
    fix st' l'
    assume "\<exists>n' seg'. next_episode_node d n st' = Inr n' \<and> l' = concat attempts @ seg' \<and> root_inv d st0 k n' st' \<and>
          es_sequence st' = es_sequence st \<and> region d st0 n' st' seg'"
    then show "\<exists>n'. next_episode_node d n st' = Inr n' \<and> episode_inv d st0 k n' st' l'"
      using a(3,4) unfolding episode_inv_def by (elim exE conjE) (intro exI conjI, assumption+, simp)
  next
    fix l' assume "\<exists>seg'. l' = concat attempts @ seg' \<and> region d st0 n st seg'"
    then show "episode_inv d st0 k n st l'"
      using a(1,3,4) unfolding episode_inv_def by blast
  qed
qed

section \<open>Every node keeps it\<close>

lemma bind_eff_right [simp]: "bind_eff m returning = m"
  by (rule ext) (simp add: bind_eff_def returning_def split: prod.split outcome.split)

lemma root_inv_flow:
  assumes "root_inv d st0 k n st" "attempting n' = attempting n" "\<not> ending n" "\<not> ending n'" "bound st0"
  shows "root_inv d st0 k n' (st\<lparr>es_flow := flow\<rparr>)"
  using assms by (auto simp: root_inv_def)

lemma next_shared:
  assumes "next_node d m flow = Inr n'" "m \<notin> set NOT_SHARED" "m \<noteq> N_ingest"
  shows "attempting (episode_node_of n') = attempting (E_shared m)" "\<not> ending (episode_node_of n')"
  using assms by (cases m; auto simp: NOT_SHARED_def after_monitor_def split: option.splits if_splits)+

lemma next_episode_shared:
  "next_node d m flow = Inr n' \<Longrightarrow> m \<noteq> N_ingest \<Longrightarrow>
     next_episode_node d (E_shared m) (st\<lparr>es_flow := flow\<rparr>) = Inr (episode_node_of n')"
  by (cases m) (simp_all add: map_sum_def)

lemma region_flow [simp]:
  "region d st0 (episode_node_of n) (st\<lparr>es_flow := flow\<rparr>) seg = node_inv (pipeline d st) st0 n flow seg"
  using pipeline_cong[of "st\<lparr>es_flow := flow\<rparr>" st d] by (simp add: region_of)

lemma node_step:
  "fresh st0 \<Longrightarrow> n \<noteq> N_end \<Longrightarrow> node_inv d st0 n st seg \<Longrightarrow>
     ensures (run_node d resume n st) (pre @ seg)
       (\<lambda>st' l. \<exists>seg'. l = pre @ seg' \<and> (\<exists>n'. next_node d n st' = Inr n' \<and> node_inv d st0 n' st' seg'))
       (\<lambda>l. \<exists>seg'. l = pre @ seg' \<and> node_inv d st0 n st seg')"
  using nodes_ok unfolding node_step_ok_def by (intro ensures_frame appends_run_node) blast

lemma shared_eq:
  assumes "m \<noteq> N_propose" "m = N_validate \<Longrightarrow> ws_policy (es_flow st) = None"
    and "transcript_from (es_transcript st) = Inr (es_transcript st)"
    and "tr_thread_id (es_transcript st) = idn_thread_id (ws_incident (es_flow st))"
  shows "shared_node d m st = bind_eff (ensure_safeguards d st) (\<lambda>_.
    bind_eff (run_node (pipeline d st) None m (es_flow st)) (\<lambda>flow. returning (st\<lparr>es_flow := flow\<rparr>)))"
proof (cases "m = N_validate")
  case True
  then show ?thesis
    using validate_rekeyed[OF assms(3) assms(2)[OF True] assms(4), of d]
    by (simp add: shared_node_def bind_eff_assoc[symmetric])
next
  case False
  then show ?thesis using assms(1) by (simp add: shared_node_def run_node_pipeline)
qed

lemma shared_step:
  assumes "fresh st0" "root_inv d st0 k (E_shared m) st"
  shows "segment_step d st0 k (E_shared m) st (plain (if m \<in> set NOT_SHARED then raising (KeyError ''node'') else shared_node d m st))"
  unfolding segment_step_def
proof (intro allI impI)
  fix pre seg assume reg: "region d st0 (E_shared m) st seg"
  let ?P = "pipeline d st"
  have m: "m \<notin> set NOT_SHARED" "m \<noteq> N_propose" "m \<noteq> N_end" and inv: "node_inv ?P st0 m (es_flow st) seg"
    using reg by (auto simp: NOT_SHARED_def)
  have same: "ws_incident (es_flow st) = ws_incident st0" using inv_same_input[OF inv] by (simp add: same_input_def)
  have none: "ws_policy (es_flow st) = None" if "m = N_validate"
    using inv that assms(1) by (auto simp: fresh_def initial_state_def elim!: gatheredE)
  have eq: "shared_node d m st = bind_eff (ensure_safeguards d st) (\<lambda>_.
      bind_eff (run_node ?P None m (es_flow st)) (\<lambda>flow. returning (st\<lparr>es_flow := flow\<rparr>)))"
    using assms(2) same by (intro shared_eq m(2) none) (simp_all add: root_inv_def)
  show "proc_ensures (plain (if m \<in> set NOT_SHARED then raising (KeyError ''node'') else shared_node d m st)) (pre @ seg)
     (\<lambda>st' l. \<exists>n' seg'. next_episode_node d (E_shared m) st' = Inr n' \<and> l = pre @ seg' \<and> root_inv d st0 k n' st' \<and>
        es_sequence st' = es_sequence st \<and> region d st0 n' st' seg')
     (\<lambda>l. \<exists>seg'. l = pre @ seg' \<and> region d st0 (E_shared m) st seg')"
  proof (cases "m = N_ingest")
    case True
    have "es_flow st = st0" "quiet seg" using inv True by simp_all
    moreover have "ws_result st0 = None" using assms(1) by (auto simp: fresh_def initial_state_def)
    ultimately show ?thesis
      using assms(2) unfolding True eq[unfolded True]
      by (auto simp: NOT_SHARED_def ingest_def Let_def bound_def root_inv_def intro!: proc_plain ensures_rules)
  next
    case False
    have b: "bound st0" "\<not> ending (E_shared m)" using assms(2) False by (simp_all add: root_inv_def)
    show ?thesis
      unfolding eq using m(1) reg
      apply (simp only: if_False)
      apply (rule proc_plain, rule ensures_bind, rule ensures_silent(1))
       apply blast
      apply (rule ensures_bind, rule ensures_mono[OF node_step[OF assms(1) m(3) inv, of None pre]])
       apply (elim exE conjE, rule ensures_returning)
      subgoal for flow l seg' n'
        using next_episode_shared[of d m flow n' st] next_shared[of d m flow n'] m(1) False b root_inv_flow[OF assms(2) _ b(2) _ b(1)]
        by (intro exI[of _ "episode_node_of n'"] exI[of _ seg']) simp
      apply (simp add: m(1))
      done
  qed
qed

text \<open>The proposal of an attempt.\<close>

lemma propose_inv:
  assumes "fresh st0" "node_inv (pipeline d st) st0 N_propose flow seg"
  shows "ensures (propose_with d p flow) (pre @ seg)
    (\<lambda>flow' l. \<exists>seg'. l = pre @ seg' \<and> quiet seg' \<and>
       (if ws_result flow' = None then node_inv (pipeline d st) st0 N_validate flow' seg'
        else node_inv (pipeline d st) st0 N_end flow' seg'))
    (\<lambda>l. \<exists>seg'. l = pre @ seg' \<and> node_inv (pipeline d st) st0 N_propose flow seg')"
proof (rule ensures_frame[OF appends_nodes(1)])
  have none: "ws_result flow = None" and facts: "quiet seg" "bound st0" "collected st0 flow" "same_input st0 flow"
    using assms inv_same_input[OF assms(2)] by (auto simp: fresh_def initial_state_def elim!: gatheredE)
  show "ensures (propose_with d p flow) seg (\<lambda>flow' seg'. quiet seg' \<and>
       (if ws_result flow' = None then node_inv (pipeline d st) st0 N_validate flow' seg'
        else node_inv (pipeline d st) st0 N_end flow' seg')) (node_inv (pipeline d st) st0 N_propose flow)"
    using none facts
    by (intro ensures_propose_with) (auto simp: closed_def refused_def quiet_ordered quiet_no_execution same_input_def
        elim!: gatheredE)
qed

lemma validators_id:
  "validate_checkpoint_identity i = Inr i' \<Longrightarrow> i' = i" "validate_snapshot s = Inr s' \<Longrightarrow> s' = s" "validate_event e = Inr e' \<Longrightarrow> e' = e"
  by (simp_all only: validate_checkpoint_identity_def validate_snapshot_def validate_event_def validated_Inr)

definition event_ok :: "transcript_event \<Rightarrow> bool" where
  "event_ok e = (validate_checkpoint_identity (te_identity e) = Inr (te_identity e) \<and>
     (\<forall>s. te_step e = Some s \<longrightarrow> validate_snapshot s = Inr s) \<and> validate_event e = Inr e)"

lemma revalidate_events_iff: "revalidate_events events = Inr () \<longleftrightarrow> (\<forall>e \<in> set events. event_ok e)"
proof (induction events)
  case (Cons e events)
  have "(case te_step e of None \<Rightarrow> Inr () | Some s \<Rightarrow> bind_res (validate_snapshot s) (\<lambda>_. Inr ())) = Inr () \<longleftrightarrow>
      (\<forall>s. te_step e = Some s \<longrightarrow> validate_snapshot s = Inr s)"
    by (cases "te_step e") (auto simp: bind_res_eq_Inr dest: validators_id)
  then show ?case
    using Cons.IH unfolding event_ok_def by (auto simp: bind_res_eq_Inr dest: validators_id)
qed simp

lemma validate_transcript_id: "validate_transcript t = Inr t' \<Longrightarrow> t' = t"
  by (auto simp: validate_transcript_def bind_res_eq_Inr validated_Inr)

lemma transcript_extended:
  assumes "transcript_from t = Inr t" "validate_transcript (with_event t e) = Inr durable"
    and "validate_checkpoint_identity (te_identity e) = Inr i" "validate_event e = Inr e'"
    and "\<And>s. te_step e = Some s \<Longrightarrow> validate_snapshot s = Inr s"
  shows "durable = with_event t e" "transcript_from durable = Inr durable"
proof -
  show d: "durable = with_event t e" by (rule validate_transcript_id[OF assms(2)])
  have "revalidate_events (tr_events (with_event t e)) = Inr ()"
    using assms(1,3-5) unfolding revalidate_events_iff
    by (auto simp: transcript_from_def bind_res_eq_Inr revalidate_events_iff with_event_def event_ok_def dest: validators_id)
  then show "transcript_from durable = Inr durable" using assms(2) d by (simp add: transcript_from_def)
qed

lemma events_in_with [simp]:
  "events_in phase (with_event t e) = events_in phase t + (if te_phase e = phase then 1 else 0)"
  by (simp add: events_in_def with_event_def)

lemma with_event_fields [simp]:
  "tr_thread_id (with_event t e) = tr_thread_id t" "tr_incident_id (with_event t e) = tr_incident_id t"
  "tr_episode_id (with_event t e) = tr_episode_id t" "tr_events (with_event t e) = tr_events t @ [e]"
  by (simp_all add: with_event_def)

lemma started_event_fields [simp]:
  "te_phase (started_event t i selection now) = PHASE_STARTED" "te_step (started_event t i selection now) = None"
  by (simp_all add: started_event_def)

lemma attempt_started:
  assumes "root_inv d st0 k E_propose st" "n' = E_record \<or> n' = E_shared N_validate"
    and "bind_res (validate_checkpoint_identity (te_identity e)) (\<lambda>_. bind_res (validate_event e)
      (\<lambda>_. validate_transcript (with_event (es_transcript st) e))) = Inr durable"
    and "te_phase e = PHASE_STARTED" "te_step e = None"
  shows "root_inv d st0 k n' (st\<lparr>es_flow := flow, es_transcript := durable, es_leg := leg, es_action_id := i, es_selection := s\<rparr>)"
    and "pipeline d (st\<lparr>es_flow := flow, es_transcript := durable, es_leg := leg, es_action_id := i, es_selection := s\<rparr>) = pipeline d st"
proof -
  obtain i e' where v: "validate_checkpoint_identity (te_identity e) = Inr i" "validate_event e = Inr e'"
      "validate_transcript (with_event (es_transcript st) e) = Inr durable"
    using assms(3) by (auto simp: bind_res_eq_Inr)
  have "transcript_from (es_transcript st) = Inr (es_transcript st)" using assms(1) by (simp add: root_inv_def)
  from transcript_extended[OF this v(3,1,2)] assms(5)
  have ext: "durable = with_event (es_transcript st) e" "transcript_from durable = Inr durable" by simp_all
  then show "root_inv d st0 k n' (st\<lparr>es_flow := flow, es_transcript := durable, es_leg := leg, es_action_id := i, es_selection := s\<rparr>)"
    for leg flow s i
    using assms(1,2,4) by (auto simp: root_inv_def)
  show "pipeline d (st\<lparr>es_flow := flow, es_transcript := durable, es_leg := leg, es_action_id := i, es_selection := s\<rparr>) = pipeline d st"
    for leg flow s i
    by (rule pipeline_cong) (simp_all add: ext(1))
qed

lemma propose_step:
  assumes "fresh st0" "root_inv d st0 k E_propose st"
  shows "segment_step d st0 k E_propose st (episode_propose d host st)"
  unfolding segment_step_def
proof (intro allI impI)
  fix pre seg assume reg: "region d st0 E_propose st seg"
  let ?E = "\<lambda>l. \<exists>seg'. l = pre @ seg' \<and> region d st0 E_propose st seg'"
  let ?Q = "\<lambda>st' l. \<exists>n' seg'. next_episode_node d E_propose st' = Inr n' \<and> l = pre @ seg' \<and> root_inv d st0 k n' st' \<and>
        es_sequence st' = es_sequence st \<and> region d st0 n' st' seg'"
  have E: "?E (pre @ seg)" using reg by blast
  have none: "ws_result (es_flow st) = None" and quiet: "quiet seg" and inv: "node_inv (pipeline d st) st0 N_propose (es_flow st) seg"
    using reg assms(1) by (auto simp: fresh_def initial_state_def elim!: gatheredE)
  have t: "transcript_from (es_transcript st) = Inr (es_transcript st)" and live: "es_termination st = None"
    using assms(2) by (simp_all add: root_inv_def)
  let ?tail = "\<lambda>t selection durable flow.
        let base = st\<lparr>es_flow := flow, es_transcript := durable, es_leg := Some (asn_leg selection),
              es_action_id := Some (asn_action_id selection)\<rparr> in
        if ws_result flow \<noteq> None then plain (returning base)
        else bind_proc (plain (channel ''action'' (ws_action flow))) (\<lambda>action.
          if act_thread_id action \<noteq> tr_thread_id t \<or> act_incident_id action \<noteq> tr_incident_id t
          then plain (raising (ValueError ''episode proposer returned an action for another business incident''))
          else bind_proc (plain (episode_leg_index st (asn_leg selection))) (\<lambda>leg_index.
            bind_proc (plain (select_requester d host (asn_leg selection) leg_index (es_sequence st))) (\<lambda>(fact, requester).
            bind_proc (remember (es_sequence st) requester) (\<lambda>_.
            plain (returning (base\<lparr>es_selection := Some fact\<rparr>))))))"
  have tail: "proc_ensures (?tail t selection durable flow) (pre @ seg') ?Q ?E"
    if v: "bind_res (validate_checkpoint_identity (te_identity e)) (\<lambda>_. bind_res (validate_event e)
        (\<lambda>_. validate_transcript (with_event (es_transcript st) e))) = Inr durable"
      "te_phase e = PHASE_STARTED" "te_step e = None"
    and q: "quiet seg'" "if ws_result flow = None then node_inv (pipeline d st) st0 N_validate flow seg'
        else node_inv (pipeline d st) st0 N_end flow seg'" for t selection durable flow seg' e
  proof -
    have E': "?E (pre @ seg')" using q(1) reg by auto
    note start = attempt_started[OF assms(2) _ v]
    show ?thesis
    proof (cases "ws_result flow = None")
      case False
      then show ?thesis
        using q(2) start[where n' = E_record and flow = flow and leg = "Some (asn_leg selection)" and
          i = "Some (asn_action_id selection)" and s = "es_selection st"] live
        by (auto intro!: proc_rules ensures_rules)
    next
      case True
      have "?Q (st\<lparr>es_flow := flow, es_transcript := durable, es_leg := Some (asn_leg selection),
              es_action_id := Some (asn_action_id selection), es_selection := Some fact\<rparr>) (pre @ seg')" for fact
        using q(2) True start[where n' = "E_shared N_validate" and flow = flow and leg = "Some (asn_leg selection)" and
          i = "Some (asn_action_id selection)" and s = "Some fact"] live
        by (auto simp: NOT_SHARED_def)
      then show ?thesis
        using True E' unfolding Let_def
        by (intro proc_rules ensures_rules) (simp_all, blast?)
    qed
  qed
  have attempted: "proc_ensures (attempt d host (es_transcript st) selection st) (pre @ seg) ?Q ?E" for selection
    unfolding attempt_def
    apply (rule proc_cases(1), rule proc_plain, rule ensures_raising, rule E)
    apply (rule proc_bind, rule proc_plain, rule ensures_clock, rule E)
    unfolding Let_def[of "started_event _ _ _ _"]
    apply (rule proc_bind, rule proc_plain, rule ensures_from_result, rule E)
    apply (rule proc_bind, rule proc_plain, rule ensures_mono[OF propose_inv[OF assms(1) inv, where pre = pre]])
     apply (elim exE conjE, simp only:, rule tail, assumption, simp, simp, assumption, assumption)
    apply (elim exE conjE, rule exI, rule conjI, assumption, simp)
    done
  show "proc_ensures (episode_propose d host st) (pre @ seg) ?Q ?E"
    unfolding episode_propose_def
    apply (rule proc_bind, rule proc_plain, rule ensures_silent(1), rule E)
    apply (rule proc_bind, rule proc_plain, rule ensures_from_result, rule E)
    apply (rule proc_cases(2), rule proc_plain, rule ensures_raising, rule E)
    apply (rule proc_bind, rule proc_plain, rule ensures_host, rule E)
    apply (rule proc_cases(2))
     apply (rule proc_plain, rule ensures_returning)
    subgoal using assms(2) quiet by (intro exI[of _ E_finish] exI[of _ seg]) (auto simp: root_inv_def)
    subgoal using attempted t by simp
    done
qed

lemma root_inv_marks:
  assumes "root_inv d st0 k n st" "attempting n' = attempting n" "\<not> ending n" "\<not> ending n'"  "n' \<noteq> E_shared N_ingest" "n \<noteq> E_shared N_ingest"
  shows "root_inv d st0 k n' (st\<lparr>es_flow := flow\<rparr>)" "root_inv d st0 k n' (st\<lparr>es_reached := b, es_durable := c\<rparr>)"
  using assms by (auto simp: root_inv_def)

lemma reach_step:
  assumes "root_inv d st0 k E_approval_reach st"
  shows "segment_step d st0 k E_approval_reach st (plain (episode_approval_reach d st))"
proof -
  have p: "pipeline d (st\<lparr>es_reached := b, es_durable := c\<rparr>) = pipeline d st" for b c
    by (rule pipeline_cong) simp_all
  show ?thesis
    unfolding segment_step_def episode_approval_reach_def
  proof (intro allI impI proc_rules ensures_rules)
    fix pre seg selection assume r: "region d st0 E_approval_reach st seg"
    then show "\<exists>n' seg'. next_episode_node d E_approval_reach (st\<lparr>es_reached := True,
          es_durable := (ase_request_path selection = DURABLE_HUMAN)\<rparr>) = Inr n' \<and> pre @ seg = pre @ seg' \<and>
        root_inv d st0 k n' (st\<lparr>es_reached := True, es_durable := (ase_request_path selection = DURABLE_HUMAN)\<rparr>) \<and>
        es_sequence (st\<lparr>es_reached := True, es_durable := (ase_request_path selection = DURABLE_HUMAN)\<rparr>) = es_sequence st \<and>
        region d st0 n' (st\<lparr>es_reached := True, es_durable := (ase_request_path selection = DURABLE_HUMAN)\<rparr>) seg'"
      using root_inv_marks(2)[OF assms, of E_approval] by (intro exI[of _ E_approval] exI[of _ seg]) (simp add: p)
  qed blast+
qed

text \<open>The requester and the executor of an attempt do not appear in the invariant of the pipeline.\<close>

lemma node_inv_ports:
  "node_inv ((pipeline d st)\<lparr>dp_authorization := a\<rparr>) st0 n flow seg = node_inv (pipeline d st) st0 n flow seg"
proof -
  let ?P = "(pipeline d st)\<lparr>dp_authorization := a\<rparr>"
  have "known_ports ?P = known_ports (pipeline d st)" unfolding known_ports_def by simp
  then have "speaks ?P = speaks (pipeline d st)" "\<not> known_ports ?P" by (simp_all add: fun_eq_iff speaks_def)
  moreover have f: "dp_safeguards ?P = dp_safeguards (pipeline d st)" "dp_sha ?P = dp_sha (pipeline d st)"
      "dp_fullmatch ?P = dp_fullmatch (pipeline d st)" "dp_policy ?P = dp_policy (pipeline d st)"
      "dp_uuid5 ?P = dp_uuid5 (pipeline d st)" by simp_all
  moreover have "routed ?P = routed (pipeline d st)" unfolding fun_eq_iff routed_def after_monitor_def f by blast
  moreover have "admitted ?P = admitted (pipeline d st)" unfolding fun_eq_iff admitted_def f calculation(1) by blast
  moreover have "refused ?P = refused (pipeline d st)" unfolding fun_eq_iff refused_def calculation(1) by blast
  ultimately show ?thesis
    by (cases n) (simp_all add: Workflow_Safety.closed_def proposed_def split: option.split)
qed

lemma approval_eq: "approval_with d a resume flow = run_node ((pipeline d st)\<lparr>dp_authorization := a\<rparr>) resume N_approval flow"
proof -
  have h: "decide_approval ((pipeline d st)\<lparr>dp_authorization := a\<rparr>) = decide_approval (pipeline d st)"
  proof -
    have f: "dp_clock ((pipeline d st)\<lparr>dp_authorization := a\<rparr>) = dp_clock (pipeline d st)"
      "dp_emit ((pipeline d st)\<lparr>dp_authorization := a\<rparr>) = dp_emit (pipeline d st)"
      "dp_validate_token ((pipeline d st)\<lparr>dp_authorization := a\<rparr>) = dp_validate_token (pipeline d st)" by simp_all
    show ?thesis
      unfolding fun_eq_iff decide_approval_def refuse_human_def audit_def emit_event_def clock_def token_step_def f by blast
  qed
  show ?thesis
    unfolding run_node.simps approval_def approval_with_def h helpers_pipeline by simp
qed

lemma next_approval: "next_node d N_approval flow = Inr n' \<Longrightarrow> n' = (if ws_result flow \<noteq> None then N_end else N_execute)"
  by simp

lemma approval_step:
  assumes "fresh st0" "root_inv d st0 k E_approval st"
  shows "segment_step d st0 k E_approval st (episode_approval d host resume st)"
  unfolding segment_step_def
proof (intro allI impI)
  fix pre seg assume reg: "region d st0 E_approval st seg"
  let ?E = "\<lambda>l. \<exists>seg'. l = pre @ seg' \<and> region d st0 E_approval st seg'"
  let ?Q = "\<lambda>st' l. \<exists>n' seg'. next_episode_node d E_approval st' = Inr n' \<and> l = pre @ seg' \<and> root_inv d st0 k n' st' \<and>
        es_sequence st' = es_sequence st \<and> region d st0 n' st' seg'"
  have E: "?E (pre @ seg)" using reg by blast
  have asked: "proc_ensures (bind_proc (plain (approval_with d a resume (es_flow st))) (\<lambda>flow. plain (returning (st\<lparr>es_flow := flow\<rparr>))))
      (pre @ seg) ?Q ?E" for a
  proof -
    let ?P = "(pipeline d st)\<lparr>dp_authorization := a\<rparr>"
    have inv: "node_inv ?P st0 N_approval (es_flow st) seg" using reg by (simp only: node_inv_ports region.simps)
    have next_P: "next_node ?P N_approval flow = next_node d N_approval flow" for flow by simp
    show ?thesis
      unfolding approval_eq[of d a resume "es_flow st" st]
      apply (rule proc_bind, rule proc_plain, rule ensures_mono[OF node_step[OF assms(1) _ inv, where pre = pre]])
        apply simp
      subgoal for flow l
        using root_inv_marks(1)[OF assms(2), of E_record flow] root_inv_marks(1)[OF assms(2), of E_execute flow]
        by (intro proc_rules ensures_rules)
          (elim exE conjE, simp only: next_P node_inv_ports, drule next_approval, cases "ws_result flow",
           (simp add: pipeline_cong[of "st\<lparr>es_flow := flow\<rparr>" st d] del: node_inv.simps)+)
      apply (simp add: node_inv_ports del: node_inv.simps)
      done
  qed
  show "proc_ensures (episode_approval d host resume st) (pre @ seg) ?Q ?E"
    unfolding episode_approval_def
    apply (rule proc_bind, rule proc_plain, rule ensures_silent(1), rule E)
    apply (rule proc_cases(2), rule proc_plain, rule ensures_raising, rule E)
    apply (rule proc_bind, rule proc_plain, rule ensures_from_result, rule E)
    apply (rule proc_bind, rule proc_cache(2), rule proc_bind, rule proc_cases(2))
     apply (rule proc_bind, rule proc_plain, rule ensures_silent(3), rule E)
     apply (simp only: prod.case, rule proc_cases(1), rule proc_plain, rule ensures_raising, rule E)
     apply (rule proc_bind, rule proc_cache(1), rule proc_plain, rule ensures_returning, rule asked)
    apply (rule proc_plain, rule ensures_returning, rule asked)
    done
qed

lemma execute_step:
  assumes "root_inv d st0 k E_execute st"
  shows "segment_step d st0 k E_execute st (plain (episode_execute d host st))"
  unfolding segment_step_def
proof (intro allI impI)
  fix pre seg assume reg: "region d st0 E_execute st seg"
  let ?P = "pipeline d st"
  let ?E = "\<lambda>l. \<exists>seg'. l = pre @ seg' \<and> region d st0 E_execute st seg'"
  have E: "?E (pre @ seg)" using reg by blast
  have "ensures (execute_with d (Some (\<lambda>_. deliver host st)) (es_flow st)) seg
      (\<lambda>flow seg'. node_inv ?P st0 N_verify flow seg') (node_inv ?P st0 N_execute (es_flow st))"
    using reg
    by (auto simp: execute_with_def Let_def emit_event_def execution_call_def execution_justified
       simp del: justified.simps(2) intro!: ensures_rules)
  moreover have "appends (deliver host st operation)" for operation
    unfolding deliver_def episode_leg_index_def host_call_def by (intro appends_rules)
  ultimately have f: "ensures (execute_with d (Some (\<lambda>_. deliver host st)) (es_flow st)) (pre @ seg)
      (\<lambda>flow l. \<exists>seg'. l = pre @ seg' \<and> node_inv ?P st0 N_verify flow seg')
      (\<lambda>l. \<exists>seg'. l = pre @ seg' \<and> node_inv ?P st0 N_execute (es_flow st) seg')"
    by (intro ensures_frame appends_nodes(4))
  show "proc_ensures (plain (episode_execute d host st)) (pre @ seg)
     (\<lambda>st' l. \<exists>n' seg'. next_episode_node d E_execute st' = Inr n' \<and> l = pre @ seg' \<and> root_inv d st0 k n' st' \<and>
        es_sequence st' = es_sequence st \<and> region d st0 n' st' seg') ?E"
    unfolding episode_execute_def
    apply (rule proc_plain, rule ensures_bind, rule ensures_silent(1), rule E)
    apply (rule ensures_bind, rule ensures_mono[OF f], rule ensures_returning)
    subgoal for flow l
      using root_inv_marks(1)[OF assms, of "E_shared N_verify" flow]
      by (auto simp: pipeline_cong[of "st\<lparr>es_flow := flow\<rparr>" st d] NOT_SHARED_def simp del: node_inv.simps)
    apply simp
    done
qed

text \<open>The record closes the segment.\<close>

lemma ensures_snapshot:
  "E l \<Longrightarrow> (\<And>s. validate_snapshot s = Inr s \<Longrightarrow> Q s l) \<Longrightarrow> ensures (episode_snapshot d st) l Q E"
  unfolding episode_snapshot_def by (intro ensures_rules) (use validators_id in blast)+

lemma recorded_root:
  assumes "root_inv d st0 k E_record st" "validate_snapshot step = Inr step"
    and "bind_res (validate_event (terminal_event (last (tr_events (es_transcript st))) now step))
      (\<lambda>_. validate_transcript (with_event (es_transcript st) (terminal_event (last (tr_events (es_transcript st))) now step))) =
      Inr durable"
    and "(case stop of None \<Rightarrow> es_sequence st + 1 < k \<and> n' = E_clear | Some t \<Rightarrow> n' = E_finish)"
  shows "root_inv d st0 k n' (st\<lparr>es_transcript := durable, es_sequence := es_sequence st + 1,
    es_termination := (case stop of None \<Rightarrow> es_termination st | Some t \<Rightarrow> Some t)\<rparr>)"
proof -
  let ?e = "terminal_event (last (tr_events (es_transcript st))) now step"
  obtain e' where v: "validate_event ?e = Inr e'" "validate_transcript (with_event (es_transcript st) ?e) = Inr durable"
    using assms(3) by (auto simp: bind_res_eq_Inr)
  have t: "transcript_from (es_transcript st) = Inr (es_transcript st)" and nonempty: "tr_events (es_transcript st) \<noteq> []"
    using assms(1) by (simp_all add: root_inv_def)
  have "event_ok (last (tr_events (es_transcript st)))"
    using t nonempty by (simp add: transcript_from_def bind_res_eq_Inr revalidate_events_iff)
  then have i: "validate_checkpoint_identity (te_identity ?e) = Inr (te_identity ?e)"
    by (simp add: event_ok_def terminal_event_def)
  have "te_step ?e = Some step" "te_phase ?e = PHASE_TERMINAL" by (simp_all add: terminal_event_def)
  with transcript_extended[OF t v(2) i v(1)] assms(2)
  have ext: "durable = with_event (es_transcript st) ?e" "transcript_from durable = Inr durable" "te_phase ?e = PHASE_TERMINAL"
    by auto
  then show ?thesis
    using assms(1,4) by (auto simp: root_inv_def split: option.splits)
qed

lemma record_step:
  assumes "episode_inv d st0 k E_record st l"
  shows "proc_ensures (plain (episode_record d host st)) l
    (\<lambda>st' l'. \<exists>n'. next_episode_node d E_record st' = Inr n' \<and> episode_inv d st0 k n' st' l') (episode_inv d st0 k E_record st)"
proof -
  obtain attempts seg where a: "root_inv d st0 k E_record st" "l = concat attempts @ seg" "list_all (sane_segment st0) attempts"
      "int (length attempts) = es_sequence st" "node_inv (pipeline d st) st0 N_end (es_flow st) seg"
    using assms unfolding episode_inv_def by auto
  have sane: "sane_segment st0 seg" and same: "same_input st0 (es_flow st)"
    using inv_sane[OF a(5)] inv_same_input[OF a(5)] by blast+
  have k: "es_max_actions st = k" "es_termination st = None" "es_sequence st < k" using a(1) by (simp_all add: root_inv_def)
  have closes: "\<exists>n'. next_episode_node d E_record st' = Inr n' \<and> episode_inv d st0 k n' st' l"
    if r: "\<And>n'. (case stop of None \<Rightarrow> es_sequence st + 1 < k \<and> n' = E_clear | Some t \<Rightarrow> n' = E_finish) \<Longrightarrow>
        root_inv d st0 k n' st'" and t: "stop = None \<Longrightarrow> es_sequence st + 1 < k"
      and st': "st' = st\<lparr>es_transcript := durable, es_sequence := es_sequence st + 1,
        es_termination := (case stop of None \<Rightarrow> es_termination st | Some t \<Rightarrow> Some t)\<rparr>" for stop st' durable
  proof -
    have inv: "episode_inv d st0 k m st' l" if "root_inv d st0 k m st'" "region d st0 m st' []" for m
      using that a(2-4) sane st' unfolding episode_inv_def
      by (intro conjI exI[of _ "attempts @ [seg]"] exI[of _ "[]"]) simp_all
    show ?thesis
    proof (cases stop)
      case None
      then have "next_episode_node d E_record st' = Inr E_clear" "region d st0 E_clear st' []"
        using st' k(2) same by simp_all
      moreover have "root_inv d st0 k E_clear st'" using r[of E_clear] None t by simp
      ultimately show ?thesis using inv by blast
    next
      case (Some x)
      then have "next_episode_node d E_record st' = Inr E_finish" "region d st0 E_finish st' []" using st' by simp_all
      moreover have "root_inv d st0 k E_finish st'" using r[of E_finish] Some by simp
      ultimately show ?thesis using inv by blast
    qed
  qed
  have root_of: "root_inv d st0 k n' (st\<lparr>es_transcript := durable, es_sequence := es_sequence st + 1,
        es_termination := (case stop of None \<Rightarrow> es_termination st | Some t \<Rightarrow> Some t)\<rparr>)"
    if "validate_snapshot step = Inr step" "bind_res (validate_event (terminal_event (last (tr_events (es_transcript st))) now step))
      (\<lambda>_. validate_transcript (with_event (es_transcript st) (terminal_event (last (tr_events (es_transcript st))) now step))) =
      Inr durable" "(case stop of None \<Rightarrow> es_sequence st + 1 < k \<and> n' = E_clear | Some t \<Rightarrow> n' = E_finish)"
    for step now durable stop n'
    using recorded_root[OF a(1) that] .
  have t: "transcript_from (es_transcript st) = Inr (es_transcript st)" using a(1) by (simp add: root_inv_def)
  show ?thesis
    unfolding episode_record_def Let_def t
    apply (rule proc_plain, rule ensures_bind, rule ensures_from_result, rule assms, simp only: sum.inject, hypsubst)
    apply (rule ensures_if, rule ensures_raising, rule assms)
    apply (rule ensures_bind, rule ensures_clock, rule assms)
    apply (rule ensures_bind, rule ensures_snapshot, rule assms)
    apply (rule ensures_bind, rule ensures_from_result, rule assms)
    apply (rule ensures_bind, rule ensures_if)
     apply (rule ensures_bind, rule ensures_host, rule assms, rule ensures_returning, rule ensures_returning)
     apply (rule closes, rule root_of, assumption, assumption, assumption, simp, rule refl)
    apply (rule ensures_returning, rule ensures_returning)
    apply (rule closes, rule root_of, assumption, assumption, assumption, simp add: k(1), rule refl)
    done
qed

lemma clear_step:
  assumes "fresh st0" "root_inv d st0 k E_clear st"
  shows "segment_step d st0 k E_clear st (plain (returning (episode_clear st)))"
proof -
  have "root_inv d st0 k (E_shared N_collect) (episode_clear st)" "bound st0"
    using assms(2) by (auto simp: root_inv_def episode_clear_def)
  moreover have "es_flow (episode_clear st) = st0" if "same_input st0 (es_flow st)"
    using that assms(1) by (auto simp: fresh_def same_input_def episode_clear_def initial_state_def)
  ultimately show ?thesis
    unfolding segment_step_def by (auto intro!: proc_rules ensures_rules simp: NOT_SHARED_def episode_clear_def)
qed

lemma finish_step:
  "root_inv d st0 k E_preselection_finish st \<Longrightarrow>
     segment_step d st0 k E_preselection_finish st (plain (returning (st\<lparr>es_termination := Some STRATEGY_COMPLETE\<rparr>)))"
  "root_inv d st0 k E_finish st \<Longrightarrow> segment_step d st0 k E_finish st (plain (returning st))"
  unfolding segment_step_def by (auto intro!: proc_rules ensures_rules simp: root_inv_def)

lemma episode_node_inv:
  assumes "fresh st0" "n \<noteq> E_end" "episode_inv d st0 k n st l"
  shows "proc_ensures (run_episode_node d host resume n st) l
    (\<lambda>st' l'. \<exists>n'. next_episode_node d n st' = Inr n' \<and> episode_inv d st0 k n' st' l') (episode_inv d st0 k n st)"
proof (cases "n = E_record")
  case True
  then show ?thesis using record_step assms(3) by (simp only: run_episode_node.simps)
next
  case False
  then have "segment_step d st0 k n st (run_episode_node d host resume n st)" if "root_inv d st0 k n st"
    using that assms(1,2)
    by (cases n) (simp_all only: run_episode_node.simps shared_step propose_step reach_step approval_step execute_step clear_step
        finish_step simp_thms)
  then show ?thesis by (rule segment_step_inv[OF _ assms(3)])
qed

section \<open>The machine of an episode\<close>

text \<open>
  A checkpoint, the cache of the process and the world. Every step may be taken with another
  strategy, selector and hook, as a resumed process may bring them; a restart leaves the cache of
  the new process (\<open>resume_episode\<close>), whatever it is, and the environment may change in between.
\<close>

inductive episode_reaches ::
  "('w, 'c) workflow_dependencies \<Rightarrow> episode_state \<Rightarrow> episode_node \<Rightarrow> episode_state \<Rightarrow> 'w requester_cache \<Rightarrow> 'w world \<Rightarrow> bool"
  for d :: "('w, 'c) workflow_dependencies" and es0 :: episode_state where
  start: "wd_log w = [] \<Longrightarrow> episode_reaches d es0 (E_shared N_ingest) es0 cache w"
| step: "episode_reaches d es0 n st cache w \<Longrightarrow> n \<noteq> E_end \<Longrightarrow>
     run_episode_node d host resume n st cache w = (Returned st', cache', w') \<Longrightarrow>
     next_episode_node d n st' = Inr n' \<Longrightarrow> episode_reaches d es0 n' st' cache' w'"
| retry: "episode_reaches d es0 n st cache w \<Longrightarrow> n \<noteq> E_end \<Longrightarrow>
     run_episode_node d host resume n st cache w = (out, cache', w') \<Longrightarrow>
     (\<forall>st' n'. out = Returned st' \<longrightarrow> next_episode_node d n st' \<noteq> Inr n') \<Longrightarrow> episode_reaches d es0 n st cache' w'"
| restart: "episode_reaches d es0 n st cache w \<Longrightarrow> episode_reaches d es0 n st cache' (w\<lparr>wd_env := env\<rparr>)"

lemma started_inv:
  assumes "start_episode sg incident operator ctx t k = Inr es0" "validate_transcript t = Inr t"
  shows "episode_inv d (initial_state incident ctx operator) k (E_shared N_ingest) es0 []"
proof -
  have "es0 = \<lparr>es_flow = initial_state incident ctx operator, es_transcript = t, es_max_actions = k, es_sequence = 0,
      es_termination = None, es_safeguards = episode_safeguard_identity sg, es_leg = None, es_action_id = None,
      es_selection = None, es_reached = False, es_durable = False\<rparr>"
    and f: "tr_events t = []" "tr_incident_id t = idn_incident_id incident" "tr_thread_id t = idn_thread_id incident" "1 \<le> k"
    using assms(1) by (auto simp: start_episode_def split: if_splits)
  moreover have "transcript_from t = Inr t" using assms(2) f(1) by (simp add: transcript_from_def)
  ultimately show ?thesis
    by (auto simp: episode_inv_def root_inv_def events_in_def initial_state_def NOT_SHARED_def)
qed

lemma episode_reachable_inv:
  assumes "start_episode sg incident operator ctx t k = Inr es0" "validate_transcript t = Inr t"
    and "episode_reaches d es0 n st cache w"
  shows "episode_inv d (initial_state incident ctx operator) k n st (wd_log w)"
  using assms(3)
proof (induction rule: episode_reaches.induct)
  case (start w cache)
  then show ?case using started_inv[OF assms(1,2)] by simp
next
  case (step n st cache w host resume st' cache' w' n')
  from proc_ensuresD[OF episode_node_inv[OF initial_fresh step(2) step.IH] step(3)] step(4) show ?case by auto
next
  case (retry n st cache w host resume out cache' w')
  from proc_ensuresD[OF episode_node_inv[OF initial_fresh retry(2) retry.IH] retry(3)] retry(4) show ?case by (cases out) auto
next
  case (restart n st cache w cache' env)
  then show ?case by simp
qed

lemma run_episode_reaches:
  assumes "episode_reaches d es0 n st cache w" "run_episode d host resume n st cache w = (res, cache', w')"
  shows "case res of EpisodeFinished st' \<Rightarrow> episode_reaches d es0 E_end st' cache' w'
    | EpisodeInterrupted n' st' r \<Rightarrow> episode_reaches d es0 n' st' cache' w'
    | EpisodeFailed n' st' e \<Rightarrow> episode_reaches d es0 n' st' cache' w'"
  using assms
proof (induction d host resume n st cache w rule: run_episode.induct)
  case (1 d host resume n st cache w)
  show ?case
  proof (cases "n = E_end")
    case True
    then show ?thesis using 1(2,3) by (auto simp: run_episode.simps)
  next
    case False
    obtain out c1 w1 where r: "run_episode_node d host resume n st cache w = (out, c1, w1)" by (metis prod_cases3)
    have again: "episode_reaches d es0 n st c1 w1" if "\<forall>st' n'. out = Returned st' \<longrightarrow> next_episode_node d n st' \<noteq> Inr n'"
      using episode_reaches.retry[OF 1(2) False r that] .
    show ?thesis
    proof (cases out)
      case (Returned st')
      show ?thesis
      proof (cases "next_episode_node d n st'")
        case (Inl e)
        then show ?thesis using 1(3) False r Returned again by (auto simp: run_episode.simps[of d host resume n])
      next
        case (Inr n')
        then have "episode_reaches d es0 n' st' c1 w1" using episode_reaches.step[OF 1(2) False] r Returned by simp
        then show ?thesis
          using 1(1)[OF False r[symmetric] Returned refl Inr] 1(3) False r Returned Inr
          by (simp add: run_episode.simps[of d host resume n])
      qed
    qed (use 1(3) False r again in \<open>auto simp: run_episode.simps[of d host resume n]\<close>)
  qed
qed

section \<open>What every reachable checkpoint of an episode satisfies\<close>

lemma sane_executions: "sane_segment st0 seg \<Longrightarrow> card {x \<in> set seg. is_execution x} \<le> 1"
proof -
  assume "sane_segment st0 seg"
  then obtain x where "{y \<in> set seg. is_execution y} \<subseteq> {x}" unfolding sane_segment_def by blast
  then show ?thesis using card_mono[of "{x}"] by fastforce
qed

lemma sane_executions_concat:
  "list_all (sane_segment st0) segs \<Longrightarrow> card {x \<in> set (concat segs). is_execution x} \<le> length segs"
proof (induction segs)
  case (Cons seg segs)
  have "{x \<in> set (concat (seg # segs)). is_execution x} =
      {x \<in> set seg. is_execution x} \<union> {x \<in> set (concat segs). is_execution x}" by auto
  then have "card {x \<in> set (concat (seg # segs)). is_execution x} \<le>
      card {x \<in> set seg. is_execution x} + card {x \<in> set (concat segs). is_execution x}"
    using card_Un_le by metis
  also have "\<dots> \<le> 1 + length segs"
    using sane_executions[of st0 seg] Cons by (intro add_mono) auto
  finally show ?case by simp
qed simp

lemma region_idle: "region d st0 n st seg \<Longrightarrow> \<not> attempting n \<Longrightarrow> no_execution seg"
  by (cases n) (auto simp: quiet_no_execution)

lemma segment_justified:
  "list_all (sane_segment st0) segs \<Longrightarrow> concat segs = before @ x # after \<Longrightarrow>
     \<exists>earlier attempt. before = earlier @ attempt \<and> justified st0 attempt x"
proof (induction segs arbitrary: before)
  case (Cons seg segs)
  have "seg @ concat segs = before @ x # after" using Cons.prems(2) by simp
  then consider us where "before = seg @ us" "concat segs = us @ x # after" | us where "seg = before @ x # us"
  proof -
    obtain us where "seg = before @ us \<and> us @ concat segs = x # after \<or> before = seg @ us \<and> concat segs = us @ x # after"
      using \<open>seg @ concat segs = before @ x # after\<close> by (auto simp: append_eq_append_conv2)
    then show ?thesis using that[of "[]"] that by (cases us) auto
  qed
  then show ?case
  proof cases
    case 1
    then show ?thesis using Cons.IH[of us] Cons.prems(1)
      by (auto simp flip: append_assoc) blast
  next
    case 2
    then show ?thesis
      using Cons.prems(1) ordered_at[of "justified st0" before x us] by (auto simp: sane_segment_def)
  qed
qed simp

text \<open>
  C5: the bound of an episode. Whatever the strategies, selectors, proposers, requesters and hooks
  do, and however often the episode is suspended, fails and is resumed, it starts at most
  \<open>max_actions\<close> attempts (one thousand at most), and the executor is asked for at most one operation
  per started attempt.
\<close>

theorem episode_attempts_bounded:
  assumes "start_episode sg incident operator ctx t max_actions = Inr es0" and "validate_transcript t = Inr t"
    and "episode_reaches d es0 n st cache w"
  shows "int (card {x \<in> set (wd_log w). is_execution x}) \<le> events_in PHASE_STARTED (es_transcript st) \<and>
    events_in PHASE_STARTED (es_transcript st) \<le> max_actions \<and> max_actions \<le> 1000"
proof -
  let ?st0 = "initial_state incident ctx operator"
  obtain attempts seg where a: "root_inv d ?st0 max_actions n st" "wd_log w = concat attempts @ seg"
      "list_all (sane_segment ?st0) attempts" "int (length attempts) = es_sequence st" "region d ?st0 n st seg"
    using episode_reachable_inv[OF assms] unfolding episode_inv_def by blast
  have "max_actions \<le> 1000" using assms(1) by (auto simp: start_episode_def split: if_splits)
  moreover have "events_in PHASE_STARTED (es_transcript st) \<le> max_actions"
    using a(1) by (cases n) (auto simp: root_inv_def)
  moreover have "int (card {x \<in> set (wd_log w). is_execution x}) \<le> events_in PHASE_STARTED (es_transcript st)"
  proof (cases "attempting n")
    case True
    have "list_all (sane_segment ?st0) (attempts @ [seg])" using a(3) region_sane[OF a(5)] by simp
    from sane_executions_concat[OF this] show ?thesis using a(1,2,4) True by (simp add: root_inv_def)
  next
    case False
    then have "{x \<in> set (wd_log w). is_execution x} = {x \<in> set (concat attempts). is_execution x}"
      using region_idle[OF a(5)] a(2) by (auto simp: no_execution_def)
    then show ?thesis using sane_executions_concat[OF a(3)] a(1,4) False by (simp add: root_inv_def)
  qed
  ultimately show ?thesis by blast
qed

text \<open>
  C20: the transcript is a history. At every checkpoint it validates again, with all its events and
  snapshots; its terminal events are counted by the durable sequence; at most one attempt is open,
  and none when the episode has ended, whose reason is then recorded.
\<close>

theorem episode_transcript_valid:
  assumes "start_episode sg incident operator ctx t max_actions = Inr es0" and "validate_transcript t = Inr t"
    and "episode_reaches d es0 n st cache w"
  shows "transcript_from (es_transcript st) = Inr (es_transcript st) \<and>
    events_in PHASE_TERMINAL (es_transcript st) = es_sequence st \<and>
    events_in PHASE_STARTED (es_transcript st) \<in> {es_sequence st, es_sequence st + 1} \<and>
    (n = E_end \<longrightarrow> events_in PHASE_STARTED (es_transcript st) = es_sequence st \<and> es_termination st \<noteq> None)"
  using episode_reachable_inv[OF assms] unfolding episode_inv_def root_inv_def by auto


section \<open>An attempt refines the pipeline\<close>

text \<open>
  The dependencies an attempt of the pipeline runs with: the proposer the strategy selected, the
  requester resolved for it, the key of the attempt, and the executor followed by the delivery hook.
\<close>

definition hooked ::
  "('w, 'c) workflow_dependencies \<Rightarrow> 'w episode_host \<Rightarrow> episode_state \<Rightarrow> canonical_action \<Rightarrow> tool_call_context \<Rightarrow>
   approval_token \<Rightarrow> string \<Rightarrow> uuid \<Rightarrow> 'w \<Rightarrow> ledger_result result \<times> 'w" where
  "hooked d host st action ctx token h key env =
     (case dp_execute d action ctx token h key env of
        (Inl e, env') \<Rightarrow> (Inl e, env')
      | (Inr operation, env') \<Rightarrow>
          (case deliver host st operation \<lparr>wd_log = [], wd_env = env'\<rparr> of
             (Returned _, w) \<Rightarrow> (Inr operation, wd_env w) | (Raised e, w) \<Rightarrow> (Inl e, wd_env w)
           | (Suspended _, w) \<Rightarrow> (Inl (RuntimeError []), wd_env w)))"

definition attempt_deps ::
  "('w, 'c) workflow_dependencies \<Rightarrow> 'w episode_host \<Rightarrow> episode_state \<Rightarrow> 'w proposer \<Rightarrow> 'w authorizer option \<Rightarrow>
   ('w, 'c) workflow_dependencies" where
  "attempt_deps d host st p a = d\<lparr>dp_propose := p, dp_authorization := a, dp_uuid5 := attempt_uuid5 d st,
     dp_execute := hooked d host st\<rparr>"

text \<open>The node of the pipeline a node of the episode stands for.\<close>

fun pipeline_node :: "episode_node \<Rightarrow> graph_node option" where
  "pipeline_node (E_shared m) = (if m \<in> set NOT_SHARED then None else Some m)"
| "pipeline_node E_propose = Some N_propose"
| "pipeline_node E_approval_reach = Some N_approval"
| "pipeline_node E_approval = Some N_approval"
| "pipeline_node E_execute = Some N_execute"
| "pipeline_node E_record = Some N_end"
| "pipeline_node E_preselection_finish = Some N_end"
| "pipeline_node _ = None"

lemma attempt_fields:
  "dp_sha (attempt_deps d host st p a) = dp_sha d" "dp_fullmatch (attempt_deps d host st p a) = dp_fullmatch d"
  "dp_policy (attempt_deps d host st p a) = dp_policy d" "dp_allowed_sources (attempt_deps d host st p a) = dp_allowed_sources d"
  "dp_evidence_clock (attempt_deps d host st p a) = dp_evidence_clock d" "dp_collect (attempt_deps d host st p a) = dp_collect d"
  "dp_monitor (attempt_deps d host st p a) = dp_monitor d" "dp_validate_token (attempt_deps d host st p a) = dp_validate_token d"
  "dp_execute (attempt_deps d host st p a) = hooked d host st" "dp_verify (attempt_deps d host st p a) = dp_verify d"
  "dp_emit (attempt_deps d host st p a) = dp_emit d" "dp_clock (attempt_deps d host st p a) = dp_clock d"
  "dp_safeguards (attempt_deps d host st p a) = dp_safeguards d" "dp_authorization (attempt_deps d host st p a) = a"
  "dp_propose (attempt_deps d host st p a) = p" "dp_uuid5 (attempt_deps d host st p a) = attempt_uuid5 d st"
  by (simp_all add: attempt_deps_def)

lemma attempt_helpers:
  "clock (attempt_deps d host st p a) = clock d" "emit_event (attempt_deps d host st p a) = emit_event d"
  "audit (attempt_deps d host st p a) = audit d" "evidence_step (attempt_deps d host st p a) = evidence_step d"
  "after_monitor (attempt_deps d host st p a) = after_monitor d" "token_step (attempt_deps d host st p a) = token_step d"
  "refuse_human (attempt_deps d host st p a) = refuse_human d" "decide_approval (attempt_deps d host st p a) = decide_approval d"
  "refuse_after_policy (attempt_deps d host st p a) = refuse_after_policy d" "consult_v2 (attempt_deps d host st p a) = consult_v2 d"
  unfolding fun_eq_iff clock_def emit_event_def audit_def evidence_step_def after_monitor_def token_step_def refuse_human_def
    decide_approval_def refuse_after_policy_def consult_v2_def bound_result_def attempt_fields by blast+

lemma attempt_next [simp]: "next_node (attempt_deps d host st p a) n flow = next_node d n flow"
  by (cases n) (simp_all add: attempt_helpers)

lemma attempt_run_shared:
  "n \<notin> {N_propose, N_execute, N_approval} \<Longrightarrow>
     run_node (attempt_deps d host st p a) resume n flow = run_node (pipeline d st) resume n flow"
  by (cases n; simp only: run_node.simps simp_thms insert_iff empty_iff; unfold collect_def validate_node_def monitor_node_def
    deny_def blocked_def monitor_mismatch_def monitor_error_terminal_def preapproval_audit_def verify_node_def pipeline_fields
    helpers_pipeline attempt_fields attempt_helpers; rule refl)

lemma attempt_run_own:
  "run_node (attempt_deps d host st p a) resume N_propose flow = propose_with d p flow"
  "run_node (attempt_deps d host st p a) resume N_approval flow = approval_with d a resume flow"
  unfolding run_node.simps propose_def approval_def propose_with_def approval_with_def attempt_fields attempt_helpers by (rule refl)+

text \<open>What a run that returned went through.\<close>

lemma bind_proc_Returned:
  "bind_proc p f cache w = (Returned y, cache', w') \<longleftrightarrow>
     (\<exists>x c1 w1. p cache w = (Returned x, c1, w1) \<and> f x c1 w1 = (Returned y, cache', w'))"
  by (auto simp: bind_proc_def split: prod.splits outcome.splits)

lemma bind_eff_Returned:
  "bind_eff m f w = (Returned y, w') \<longleftrightarrow> (\<exists>x w1. m w = (Returned x, w1) \<and> f x w1 = (Returned y, w'))"
  by (auto simp: bind_eff_def split: prod.splits outcome.splits)

lemma plain_Returned: "plain m cache w = (Returned x, cache', w') \<longleftrightarrow> cache' = cache \<and> m w = (Returned x, w')"
  by (auto simp: plain_def split: prod.splits)

lemma effect_Returned:
  "returning y w = (Returned x, w') \<longleftrightarrow> x = y \<and> w' = w" "raising e w = (Returned x, w') \<longleftrightarrow> False"
  by (auto simp: returning_def raising_def)

lemma from_result_Returned: "from_result r w = (Returned x, w') \<longleftrightarrow> r = Inr x \<and> w' = w"
  by (auto simp: from_result_def effect_Returned split: sum.splits)

lemma channel_Returned: "channel name v w = (Returned x, w') \<longleftrightarrow> v = Some x \<and> w' = w"
  by (auto simp: channel_def effect_Returned split: option.splits)

lemma cache_Returned:
  "recall k cache w = (Returned u, cache', w') \<longleftrightarrow> u = cache k \<and> cache' = cache \<and> w' = w"
  "remember k r cache w = (Returned z, cache', w') \<longleftrightarrow> cache' = cache(k \<mapsto> r) \<and> w' = w"
  by (auto simp: recall_def remember_def)

lemmas Returned_simps = plain_Returned effect_Returned from_result_Returned channel_Returned cache_Returned bind_proc_Returned
  bind_eff_Returned

lemma silent:
  assumes "ensures m (wd_log w) (\<lambda>_ l. l = wd_log w) (\<lambda>l. l = wd_log w)" "m w = (Returned x, w')"
  shows "wd_log w' = wd_log w"
  using ensuresD[OF assms] by simp

lemma silent_log:
  "clock d w = (Returned now, w') \<Longrightarrow> wd_log w' = wd_log w" "host_call f w = (Returned y, w') \<Longrightarrow> wd_log w' = wd_log w"
  "episode_leg_index st leg w = (Returned i, w') \<Longrightarrow> wd_log w' = wd_log w"
  "select_requester d host leg i j w = (Returned fr, w') \<Longrightarrow> wd_log w' = wd_log w"
  "ensure_safeguards d st w = (Returned z, w') \<Longrightarrow> w' = w"
  subgoal by (erule silent[rotated], rule ensures_clock) simp_all
  subgoal by (erule silent[rotated], rule ensures_host) simp_all
  subgoal by (erule silent[rotated], rule ensures_silent(2)) simp_all
  subgoal by (erule silent[rotated], rule ensures_silent(3)) simp_all
  subgoal by (simp add: ensure_safeguards_def effect_Returned split: if_splits)
  done

lemma deliver_silent:
  assumes "deliver host st operation w = (Returned z, w')"
  shows "w' = w\<lparr>wd_env := wd_env w'\<rparr>"
    and "deliver host st operation \<lparr>wd_log = [], wd_env = wd_env w\<rparr> = (Returned z, \<lparr>wd_log = [], wd_env = wd_env w'\<rparr>)"
proof -
  have e: "ensures (deliver host st operation) l (\<lambda>_ l'. l' = l) (\<lambda>l'. l' = l)" for l
    by (rule ensures_silent(4)) simp_all
  show 1: "w' = w\<lparr>wd_env := wd_env w'\<rparr>" using silent[OF e assms] by (cases w; cases w') simp
  have "appends (deliver host st operation)"
    unfolding deliver_def episode_leg_index_def host_call_def by (intro appends_rules)
  then have "deliver host st operation w = after_log (wd_log w) (deliver host st operation (w\<lparr>wd_log := []\<rparr>))"
    unfolding appends_def by blast
  moreover obtain out w2 where o: "deliver host st operation (w\<lparr>wd_log := []\<rparr>) = (out, w2)" by fastforce
  ultimately have "out = Returned z" "wd_env w2 = wd_env w'" using assms by (auto simp: after_log_def)
  moreover have "wd_log w2 = []"
    using silent[of "deliver host st operation" "w\<lparr>wd_log := []\<rparr>", OF e] o calculation(1) by simp
  moreover have w: "w\<lparr>wd_log := []\<rparr> = \<lparr>wd_log = [], wd_env = wd_env w\<rparr>" by (cases w) simp
  ultimately show "deliver host st operation \<lparr>wd_log = [], wd_env = wd_env w\<rparr> =
      (Returned z, \<lparr>wd_log = [], wd_env = wd_env w'\<rparr>)"
    using o unfolding w by (cases w2) simp
qed

lemma port_Returned:
  "port entry f w = (Returned x, w') \<longleftrightarrow> fst (f (wd_env w)) = Inr x \<and>
     w' = \<lparr>wd_log = wd_log w @ entry (Inr x), wd_env = snd (f (wd_env w))\<rparr>"
  by (cases w) (auto simp: port_def from_result_def returning_def raising_def Let_def split: prod.splits sum.splits)

lemma execute_refines:
  assumes "execute_with d (Some (\<lambda>_. deliver host st)) flow w = (Returned flow', w')"
  shows "run_node (attempt_deps d host st p a) r N_execute flow w = (Returned flow', w')"
proof -
  obtain action policy human key where c: "ws_action flow = Some action" "ws_policy flow = Some policy"
      "ws_human flow = Some human" "ws_idempotency_key flow = Some key"
    using assms unfolding execute_with_def Returned_simps by auto
  obtain token where t: "hd_token human = Some token"
    using assms c unfolding execute_with_def Returned_simps by (auto simp: Let_def effect_Returned split: option.splits)
  let ?ctx = "(ws_context flow)\<lparr>ctx_idempotency_key := Some key\<rparr>"
  let ?call = "Executed action ?ctx token (po_action_hash policy) key"
  let ?emit = "emit_event d ''execution'' (act_incident_id action) (act_thread_id action) (Some (po_action_hash policy)) (Some AUDIT_EXECUTED)"
  obtain operation env1 w1 w2 where e: "fst (dp_execute d action ?ctx token (po_action_hash policy) key (wd_env w)) = Inr operation \<and>
        snd (dp_execute d action ?ctx token (po_action_hash policy) key (wd_env w)) = env1"
      "deliver host st operation \<lparr>wd_log = wd_log w @ [?call], wd_env = env1\<rparr> = (Returned (), w1)"
      "?emit w1 = (Returned (), w2)" "flow' = flow\<lparr>ws_operation := Some operation\<rparr>" "w' = w2"
    using assms c t unfolding execute_with_def Returned_simps
    by (auto simp: Let_def Returned_simps port_Returned)
  have d: "w1 = \<lparr>wd_log = wd_log w @ [?call], wd_env = wd_env w1\<rparr>"
      "deliver host st operation \<lparr>wd_log = [], wd_env = env1\<rparr> = (Returned (), \<lparr>wd_log = [], wd_env = wd_env w1\<rparr>)"
    using deliver_silent[OF e(2)] by simp_all
  have "hooked d host st action ?ctx token (po_action_hash policy) key (wd_env w) = (Inr operation, wd_env w1)"
    using e(1) by (auto simp: hooked_def d(2) split: prod.split)
  then have "port (\<lambda>_. [?call]) (hooked d host st action ?ctx token (po_action_hash policy) key) w = (Returned operation, w1)"
    using d(1) by (simp add: port_Returned)
  then show ?thesis
    unfolding run_node.simps execute_def execute_with_def attempt_fields attempt_helpers Returned_simps
    using c t e(3-5) by (auto simp: Let_def Returned_simps)
qed

lemma propose_refines:
  assumes "episode_propose d host st cache w = (Returned st', cache', w')" "es_termination st' = None"
  shows "\<exists>t records env selection w1 w2. fst (eh_strategy host (observe_episode t (es_flow st) records) env) = Inr (Some selection) \<and>
    run_node (attempt_deps d host st (asn_proposer selection) a) r N_propose (es_flow st) w1 = (Returned (es_flow st'), w2) \<and>
    wd_log w1 = wd_log w \<and> wd_log w2 = wd_log w'"
proof -
  obtain t records w0 choice where 0: "ws_records (es_flow st) = Some records"
      "host_call (eh_strategy host (observe_episode t (es_flow st) records)) w = (Returned choice, w0)"
      "(case choice of None \<Rightarrow> plain (returning (st\<lparr>es_termination := Some STRATEGY_COMPLETE\<rparr>))
         | Some selection \<Rightarrow> attempt d host t selection st) cache w0 = (Returned st', cache', w')"
    using assms(1) unfolding episode_propose_def
    by (auto simp: Returned_simps split: option.splits dest!: silent_log(5))
  then obtain selection where s: "choice = Some selection" "attempt d host t selection st cache w0 = (Returned st', cache', w')"
    using assms(2) by (auto simp: Returned_simps split: option.splits)
  obtain now w1 flow w2 where p: "clock d w0 = (Returned now, w1)"
      "propose_with d (asn_proposer selection) (es_flow st) w1 = (Returned flow, w2)" "es_flow st' = flow" "wd_log w' = wd_log w2"
    using s(2) unfolding attempt_def Let_def
    by (auto simp: Returned_simps split: if_splits prod.splits dest!: silent_log(3,4))
  have "fst (eh_strategy host (observe_episode t (es_flow st) records) (wd_env w)) = Inr (Some selection)"
    using 0(2) s(1) by (simp add: host_call_def port_Returned)
  then show ?thesis
    using p silent_log(2)[OF 0(2)] silent_log(1)[OF p(1)] unfolding attempt_run_own by metis
qed

lemma approval_refines:
  assumes "episode_approval d host resume st cache w = (Returned st', cache', w')"
  shows "\<exists>a selection w1. es_selection st = Some selection \<and> cache' (ase_sequence selection) = Some a \<and>
    run_node (attempt_deps d host st p a) resume N_approval (es_flow st) w1 = (Returned (es_flow st'), w') \<and> wd_log w1 = wd_log w"
  using assms unfolding episode_approval_def attempt_run_own
  by (auto simp: Returned_simps validate_selection_def validated_Inr split: option.splits if_splits prod.splits dest!: silent_log(4,5))

lemma shared_refines:
  assumes "fresh st0" "root_inv d st0 k (E_shared m) st" "region d st0 (E_shared m) st seg"
    and "shared_node d m st w = (Returned st', w')"
  shows "run_node (attempt_deps d host st p a) None m (es_flow st) w = (Returned (es_flow st'), w')"
proof -
  have m: "m \<notin> set NOT_SHARED" and inv: "node_inv (pipeline d st) st0 m (es_flow st) seg" using assms(3) by auto
  have same: "ws_incident (es_flow st) = ws_incident st0" using inv_same_input[OF inv] by (simp add: same_input_def)
  have none: "ws_policy (es_flow st) = None" if "m = N_validate"
    using inv that assms(1) by (auto simp: fresh_def initial_state_def elim!: gatheredE)
  have "shared_node d m st = bind_eff (ensure_safeguards d st) (\<lambda>_.
      bind_eff (run_node (pipeline d st) None m (es_flow st)) (\<lambda>flow. returning (st\<lparr>es_flow := flow\<rparr>)))"
    using assms(2) same m by (intro shared_eq none) (auto simp: root_inv_def NOT_SHARED_def)
  then have "run_node (pipeline d st) None m (es_flow st) w = (Returned (es_flow st'), w')"
    using assms(4) by (auto simp: Returned_simps dest!: silent_log(5))
  moreover have "m \<notin> {N_propose, N_execute, N_approval}" using m by (auto simp: NOT_SHARED_def)
  from attempt_run_shared[OF this, of d host st p a None "es_flow st"] calculation show ?thesis by simp
qed

lemma next_refines:
  assumes "next_episode_node d n st = Inr n'" "pipeline_node n = Some m" "pipeline_node n' = Some m'" "n \<noteq> E_approval_reach"
    "n \<notin> {E_record, E_preselection_finish}"
  shows "next_node d m (es_flow st) = Inr m'"
proof (cases n)
  case (E_shared x)
  then have x: "x = m" "m \<notin> set NOT_SHARED" using assms(2) by (simp_all split: if_splits)
  show ?thesis
  proof (cases "m = N_ingest")
    case True
    then show ?thesis using assms(1,3) E_shared x by (auto simp: NOT_SHARED_def split: if_splits)
  next
    case False
    then obtain y where y: "next_node d m (es_flow st) = Inr y" "n' = episode_node_of y"
      using assms(1) E_shared x by (cases m) (auto simp: map_sum_def NOT_SHARED_def split: sum.splits)
    then show ?thesis using assms(3) by (cases y) (auto simp: NOT_SHARED_def)
  qed
qed (use assms in \<open>auto simp: NOT_SHARED_def split: if_splits\<close>)

text \<open>
  C6: an attempt refines the one-action pipeline. From every reachable checkpoint, a step between two
  nodes of an attempt is the step of the pipeline between the nodes they stand for, on the same
  channels and with the same calls, run with the dependencies of this attempt: the proposer the
  strategy selected, the requester in the cache, the key of the sequence, and the hook after the
  executor. The mark before the approval is the only stuttering step.
\<close>

theorem episode_refines_pipeline:
  assumes "start_episode sg incident operator ctx t max_actions = Inr es0" and "validate_transcript t = Inr t"
    and "episode_reaches d es0 n st cache w" and "run_episode_node d host resume n st cache w = (Returned st', cache', w')"
    and "next_episode_node d n st' = Inr n'" and "pipeline_node n = Some m" and "pipeline_node n' = Some m'"
  shows "(n = E_approval_reach \<and> es_flow st' = es_flow st \<and> wd_log w' = wd_log w) \<or>
    (\<exists>p a r w1 w2. wd_log w1 = wd_log w \<and> wd_log w2 = wd_log w' \<and>
       run_node (attempt_deps d host st p a) r m (es_flow st) w1 = (Returned (es_flow st'), w2) \<and>
       next_node (attempt_deps d host st p a) m (es_flow st') = Inr m' \<and>
       (n = E_propose \<longrightarrow> (\<exists>observation env selection. fst (eh_strategy host observation env) = Inr (Some selection) \<and>
          p = asn_proposer selection)) \<and>
       (n = E_approval \<longrightarrow> (\<exists>selection. es_selection st = Some selection \<and> cache' (ase_sequence selection) = Some a)))"
proof -
  let ?st0 = "initial_state incident ctx operator"
  obtain seg where i: "root_inv d ?st0 max_actions n st" "region d ?st0 n st seg"
    using episode_reachable_inv[OF assms(1-3)] unfolding episode_inv_def by blast
  have ended: "n \<notin> {E_record, E_preselection_finish}"
    using assms(5,7) by (auto split: if_splits)
  show ?thesis
  proof (cases "n = E_approval_reach")
    case True
    then show ?thesis
      using assms(4) by (auto simp: episode_approval_reach_def Returned_simps split: option.splits dest!: silent_log(5))
  next
    case False
    note nx = next_refines[OF assms(5-7) False ended]
    show ?thesis
    proof (cases n)
      case (E_shared x)
      have x: "x = m" using assms(6) E_shared by (simp split: if_splits)
      have "shared_node d m st w = (Returned st', w')"
        using assms(4) E_shared x by (auto simp: Returned_simps split: if_splits)
      from shared_refines[OF initial_fresh i(1)[unfolded E_shared x] i(2)[unfolded E_shared x] this]
      have "run_node (attempt_deps d host st mute None) None m (es_flow st) w = (Returned (es_flow st'), w')" .
      then show ?thesis
        using nx E_shared
        by (intro disjI2) (rule exI[of _ mute], rule exI[of _ None], rule exI[of _ None], rule exI[of _ w], rule exI[of _ w'], simp)
    next
      case E_propose
      have "es_termination st' = None" using assms(5,7) E_propose by (auto split: if_splits)
      moreover have "episode_propose d host st cache w = (Returned st', cache', w')" using assms(4) E_propose by simp
      ultimately show ?thesis
        using propose_refines[of d host st cache w st' cache' w'] assms(6) nx E_propose by simp metis
    next
      case E_approval
      have "episode_approval d host resume st cache w = (Returned st', cache', w')" using assms(4) E_approval by simp
      from approval_refines[OF this] show ?thesis using assms(6) nx E_approval by simp metis
    next
      case E_execute
      obtain flow where "execute_with d (Some (\<lambda>_. deliver host st)) (es_flow st) w = (Returned flow, w')"
          "st' = st\<lparr>es_flow := flow\<rparr>"
        using assms(4) E_execute by (auto simp: episode_execute_def Returned_simps dest!: silent_log(5))
      then have e: "run_node (attempt_deps d host st mute None) None N_execute (es_flow st) w = (Returned (es_flow st'), w')"
        using execute_refines by simp
      have "m = N_execute" using assms(6) E_execute by simp
      then show ?thesis
        using nx E_execute e
        by (intro disjI2) (rule exI[of _ mute], rule exI[of _ None], rule exI[of _ None], rule exI[of _ w], rule exI[of _ w'],
            simp del: run_node.simps)
    qed (use assms(6) False ended in simp_all)
  qed
qed


section \<open>An attempt that cannot be recorded\<close>

lemma unknown_citations:
  assumes "dict_get (pc_tools cfg) (act_tool_name action) = Some rule"
  shows "length (filter (\<lambda>i. by_id records i = None) (act_evidence_ids action)) \<le>
    length (evv_reasons (evidence_validate cfg sources now action records ctx))"
proof -
  have "length (filter (\<lambda>i. by_id records i = None) is) \<le>
      length (concat (map (\<lambda>i. fst (cite sources now rule action ctx records i)) is))" for "is"
    by (induction "is") (auto simp: cite_def)
  from this[of "act_evidence_ids action"]
  have "length (filter (\<lambda>i. by_id records i = None) (act_evidence_ids action)) \<le>
      length (collected_reasons sources now rule action ctx records)"
    by (simp add: collected_reasons_def)
  then show ?thesis using assms by (auto simp: evidence_validate_def Let_def)
qed

lemma overlong_snapshot:
  assumes "ws_action (es_flow st) = Some action" "ws_evidence (es_flow st) = Some evidence" "8 < length (evv_reasons evidence)"
  shows "\<exists>e. fst (episode_snapshot d st w) = Raised e"
proof -
  have invalid: "\<exists>e. validate_snapshot (produced_snapshot d st action r) = Inl e" for r
  proof -
    have "first_failure (snapshot_bounds s @ rest) \<noteq> None" if "8 < length (ss_evidence_reasons s)" for s rest
      using that by (simp add: snapshot_bounds_def)
    moreover have "ss_evidence_reasons (produced_snapshot d st action r) = evv_reasons evidence"
      using assms(2) by (simp add: produced_snapshot_def Let_def)
    ultimately have "validate_snapshot (produced_snapshot d st action r) \<noteq> Inr y" for y
      using assms(3) unfolding validate_snapshot_def validated_Inr by metis
    then show ?thesis by (cases "validate_snapshot (produced_snapshot d st action r)") auto
  qed
  show ?thesis
  proof (cases "ws_result (es_flow st)")
    case (Some r)
    obtain e where "validate_snapshot (produced_snapshot d st action r) = Inl e" using invalid by blast
    then show ?thesis
      using assms(1) Some by (simp add: episode_snapshot_def bind_eff_def channel_def from_result_def raising_def returning_def)
  qed (simp add: episode_snapshot_def bind_eff_def channel_def raising_def)
qed

text \<open>
  C21: the bound of the recorded reasons. An action that cites more than eight records which were not
  collected is refused by the evidence gate, but its refusal cannot be recorded: a snapshot holds eight
  reasons, the validator returns one for every citation, and the record node raises, again at every retry.
\<close>

theorem overlong_refusal_unrecorded:
  assumes "ws_action (es_flow st) = Some action" and "dict_get (pc_tools cfg) (act_tool_name action) = Some rule"
    and "ws_evidence (es_flow st) = Some (evidence_validate cfg sources now action records ctx)"
    and "8 < length (filter (\<lambda>i. by_id records i = None) (act_evidence_ids action))"
  shows "\<exists>e w'. episode_record d host st w = (Raised e, w')"
proof -
  have "8 < length (evv_reasons (evidence_validate cfg sources now action records ctx))"
    using unknown_citations[OF assms(2), of records sources now ctx] assms(4) by linarith
  from overlong_snapshot[OF assms(1,3) this, of d]
  have s: "\<exists>e w'. episode_snapshot d st w = (Raised e, w')" for w by (metis prod.collapse)
  show ?thesis
  proof (cases "transcript_from (es_transcript st)")
    case (Inr t)
    have "\<exists>now w1. clock d w = (Returned now, w1)" by (auto simp: clock_def read_clock_def port_def Let_def from_result_def returning_def split: prod.splits)
    then obtain now w1 where "clock d w = (Returned now, w1)" by blast
    moreover obtain e w2 where "episode_snapshot d st w1 = (Raised e, w2)" using s by blast
    ultimately show ?thesis
      using Inr by (simp add: episode_record_def bind_eff_def from_result_def returning_def raising_def)
  qed (simp add: episode_record_def bind_eff_def from_result_def raising_def)
qed

section \<open>An episode that runs\<close>

text \<open>One attempt with the dependencies of the pipeline's example; its executor loses the response.\<close>

definition episode_start_transcript :: transcript where
  "episode_start_transcript = \<lparr>tr_incident_id = ''INC-1'', tr_thread_id = ''t'', tr_episode_id = ''e'', tr_events = []\<rparr>"

definition example_choice :: "nat action_selection" where
  "example_choice = \<lparr>asn_leg = INCIDENT_LEG, asn_action_id = ''a1'', asn_proposer = dp_propose example_dependencies\<rparr>"

definition example_host :: "nat episode_host" where
  "example_host = \<lparr>eh_strategy = (\<lambda>observation. Pair (Inr (if tr_events (sob_transcript observation) = []
       then Some example_choice else None))), eh_selector = None, eh_hook = None\<rparr>"

definition example_attempt :: transcript_event where
  "example_attempt = started_event episode_start_transcript 0 example_choice 5"

definition example_root :: episode_state where
  "example_root = \<lparr>es_flow = example_start, es_transcript = episode_start_transcript, es_max_actions = 1,
     es_sequence = 0, es_termination = None, es_safeguards = episode_safeguard_identity PRODUCTION_SAFEGUARDS,
     es_leg = None, es_action_id = None, es_selection = None, es_reached = False, es_durable = False\<rparr>"

definition example_episode :: "episode_end \<times> nat requester_cache \<times> nat world" where
  "example_episode = run_episode example_dependencies example_host None (E_shared N_ingest) example_root Map.empty example_world"

lemma example_root_started:
  "start_episode PRODUCTION_SAFEGUARDS example_incident example_caller example_call_context episode_start_transcript 1 =
     Inr example_root"
  by (simp add: start_episode_def example_root_def example_caller_def example_call_context_def example_incident_def
      episode_start_transcript_def example_start_def)

lemma example_transcript_facts:
  "validate_transcript episode_start_transcript = Inr episode_start_transcript"
  "transcript_from episode_start_transcript = Inr episode_start_transcript"
  "validate_checkpoint_identity (te_identity example_attempt) = Inr (te_identity example_attempt)"
  "validate_event example_attempt = Inr example_attempt"
  "validate_transcript (with_event episode_start_transcript example_attempt) = Inr (with_event episode_start_transcript example_attempt)"
  "transcript_from (with_event episode_start_transcript example_attempt) = Inr (with_event episode_start_transcript example_attempt)"
  "tr_thread_id episode_start_transcript = ''t''" "tr_incident_id episode_start_transcript = ''INC-1''"
  "tr_events episode_start_transcript = []" "act_thread_id example_action = ''t''" "act_incident_id example_action = ''INC-1''"
  by code_simp+

lemma example_choice_facts:
  "started_event episode_start_transcript 0 example_choice 5 = example_attempt"
  "asn_leg example_choice = INCIDENT_LEG" "asn_action_id example_choice = ''a1''"
  "asn_proposer example_choice = dp_propose example_dependencies"
  by (simp_all add: example_attempt_def example_choice_def)

lemma example_selection_valid:
  "validate_selection \<lparr>ase_leg = INCIDENT_LEG, ase_leg_index = 0, ase_sequence = 0, ase_selection_id = ''safeguard_default'',
       ase_request_path = DURABLE_HUMAN\<rparr> =
     Inr \<lparr>ase_leg = INCIDENT_LEG, ase_leg_index = 0, ase_sequence = 0, ase_selection_id = ''safeguard_default'',
       ase_request_path = DURABLE_HUMAN\<rparr>"
  by code_simp

lemmas example_episode_defs = episode_defs effect_defs node_defs example_defs evidence_step_def after_monitor_def
  decide_approval_def request_decision_def validate_human_def validated_def token_step_def Let_def
  example_call_context_def example_approval_def example_grant_def NOT_SHARED_def plain_def bind_proc_def remember_def
  recall_def ensure_safeguards_def map_sum_def observe_episode_def host_call_def select_requester_def
  resolve_episode_authorization_def episode_leg_index_def leg_terminals_def default_path_def example_host_def
  example_transcript_facts example_choice_facts example_selection_valid

lemma example_episode_facts:
  "\<exists>st e cache w. example_episode = (EpisodeFailed E_execute st e, cache, w) \<and> length (filter is_execution (wd_log w)) = 1"
  using example_gates unfolding example_episode_def example_root_def
  by (subst run_episode.simps, simp add: example_episode_defs)+

lemma example_episode_reached:
  "\<exists>st e cache w x. example_episode = (EpisodeFailed E_execute st e, cache, w) \<and>
     episode_reaches example_dependencies example_root E_execute st cache w \<and> x \<in> set (wd_log w) \<and> is_execution x"
proof -
  obtain st e cache w where c: "example_episode = (EpisodeFailed E_execute st e, cache, w)"
      "length (filter is_execution (wd_log w)) = 1"
    using example_episode_facts by blast
  have "episode_reaches example_dependencies example_root (E_shared N_ingest) example_root Map.empty example_world"
    by (rule episode_reaches.start) (simp add: example_world_def)
  from run_episode_reaches[OF this c(1)[unfolded example_episode_def]]
  have "episode_reaches example_dependencies example_root E_execute st cache w" by simp
  moreover obtain x where "x \<in> set (wd_log w)" "is_execution x"
    using c(2) by (metis filter_False list.size(3) zero_neq_one)
  ultimately show ?thesis using c(1) by blast
qed

theorem episode_attempts_bounded_witness:
  "\<exists>st e cache w. example_episode = (EpisodeFailed E_execute st e, cache, w) \<and>
     card {x \<in> set (wd_log w). is_execution x} = 1 \<and> events_in PHASE_STARTED (es_transcript st) = 1"
proof -
  obtain st e cache w x where c: "example_episode = (EpisodeFailed E_execute st e, cache, w)"
      "episode_reaches example_dependencies example_root E_execute st cache w" "x \<in> set (wd_log w)" "is_execution x"
    using example_episode_reached by blast
  have "card {x \<in> set (wd_log w). is_execution x} \<noteq> 0" using c(3,4) by auto
  with episode_attempts_bounded[OF example_root_started example_transcript_facts(1) c(2)] c(1) show ?thesis by force
qed

theorem episode_transcript_valid_witness:
  "\<exists>st e cache w. example_episode = (EpisodeFailed E_execute st e, cache, w) \<and>
     transcript_from (es_transcript st) = Inr (es_transcript st) \<and> events_in PHASE_TERMINAL (es_transcript st) = es_sequence st"
  using example_episode_reached episode_transcript_valid[OF example_root_started example_transcript_facts(1)] by blast


theorem episode_refines_pipeline_witness:
  "\<exists>st' cache' w' p a r w1 w2. run_episode_node example_dependencies example_host None (E_shared N_ingest) example_root Map.empty
       example_world = (Returned st', cache', w') \<and>
     run_node (attempt_deps example_dependencies example_host example_root p a) r N_ingest example_start w1 =
       (Returned (es_flow st'), w2)"
proof -
  have s: "episode_reaches example_dependencies example_root (E_shared N_ingest) example_root Map.empty example_world"
    by (rule episode_reaches.start) (simp add: example_world_def)
  obtain st' cache' w' where r: "run_episode_node example_dependencies example_host None (E_shared N_ingest) example_root Map.empty
      example_world = (Returned st', cache', w')" "next_episode_node example_dependencies (E_shared N_ingest) st' = Inr (E_shared N_collect)"
    using example_gates by (simp add: example_root_def example_episode_defs)
  have "pipeline_node (E_shared N_ingest) = Some N_ingest" "pipeline_node (E_shared N_collect) = Some N_collect"
    by (simp_all add: NOT_SHARED_def)
  from episode_refines_pipeline[OF example_root_started example_transcript_facts(1) s r this]
  obtain p a q w1 w2 where "run_node (attempt_deps example_dependencies example_host example_root p a) q N_ingest
      (es_flow example_root) w1 = (Returned (es_flow st'), w2)"
    by blast
  moreover have "es_flow example_root = example_start" by (simp add: example_root_def)
  ultimately show ?thesis using r(1) by metis
qed

definition fabricating_action :: canonical_action where
  "fabricating_action = example_action\<lparr>act_evidence_ids := map (\<lambda>n. ''e'' @ dec_int n) [2..10]\<rparr>"

theorem overlong_refusal_unrecorded_witness:
  "\<exists>e w'. episode_record example_dependencies example_host (example_root\<lparr>
       es_transcript := with_event episode_start_transcript example_attempt,
       es_flow := example_start\<lparr>ws_action := Some fabricating_action, ws_result := Some (blocked_with [''refused'']),
         ws_evidence := Some (evidence_validate example_configuration [''metrics''] 5 fabricating_action
           [example_record ''ok''] (Some example_call_context))\<rparr>\<rparr>) example_world = (Raised e, w')"
proof (rule overlong_refusal_unrecorded[where cfg = example_configuration and sources = "[''metrics'']" and now = 5
      and records = "[example_record ''ok'']" and ctx = "Some example_call_context"])
  show "dict_get (pc_tools example_configuration) (act_tool_name fabricating_action) = Some example_rule" by code_simp
  show "8 < length (filter (\<lambda>i. by_id [example_record ''ok''] i = None) (act_evidence_ids fabricating_action))" by code_simp
qed simp_all

end
