(* ===== verification/Repair.thy ===== *)
theory Repair
  imports Fixtures Ledger
begin

text \<open>
  The life of an evaluated fault across the components: the fixture lifecycle installs a baseline
  and breaks it, the kernel commits the repair the scenario is evaluated through, and the recovery
  verifier reads the fixture back through the services. The lemmas follow the fixture row through
  the three; \<open>repaired_payload\<close> is what a fresh reading says of a row.
\<close>

section \<open>The fixture after a reset and an injection\<close>

lemma add_sources_lab: "add_sources env incident i sources ob = Inr ob' \<Longrightarrow> ob_lab ob' = ob_lab ob"
  by (induction env incident i sources ob rule: add_sources.induct) (auto split: if_splits)

definition REPAIRABLE :: "string list" where
  "REPAIRABLE = [''D2'', ''D3'', ''D5'', ''D8'', ''R01'', ''R02'', ''R03'', ''R04'', ''R06'', ''R07'', ''R08'', ''R09'',
     ''R12'', ''T1'', ''T2'']"

definition injected_row :: "string \<Rightarrow> instant \<Rightarrow> instant \<Rightarrow> fixture_row" where
  "injected_row scenario now t =
     touch_row (map (apsnd SetTo) (injected_columns scenario now (baseline_row scenario t))) (baseline_row scenario t)"

lemma repairable_scenario:
  "scenario \<in> set REPAIRABLE \<Longrightarrow> checkpoint_scenario scenario = Inr (scenario, ''INC-'' @ scenario)"
proof -
  have "list_all (\<lambda>s. checkpoint_scenario s = Inr (s, ''INC-'' @ s)) REPAIRABLE" by code_simp
  then show "scenario \<in> set REPAIRABLE \<Longrightarrow> ?thesis" by (simp add: list_all_iff)
qed

lemma repairable_kept:
  "scenario \<in> set REPAIRABLE \<Longrightarrow> scenario \<notin> {''D4'', ''D7'', ''D6'', ''S1'', ''S2'', ''T8''}"
  by (auto simp: REPAIRABLE_def)

lemma reset_eq:
  assumes "scenario \<in> set REPAIRABLE" "reset_checkpoint ops env scenario ob = Inr ob1"
  shows "ob_lab ob1 = install env scenario (''INC-'' @ scenario)
    (clear_fixture scenario (''INC-'' @ scenario) (delete_incident (''INC-'' @ scenario) (ob_lab ob)))"
proof -
  obtain specs where "validate_scenario_preparation ops scenario = Inr specs"
    using assms(2) by (auto simp: reset_checkpoint_def repairable_scenario[OF assms(1)] bind_res_eq_Inr)
  then show ?thesis
    using assms(2) by (auto simp: reset_checkpoint_def initialize_checkpoint_if_absent_def
        repairable_scenario[OF assms(1)] delete_incident_reads_def Let_def)
qed

lemma clear_repairable:
  assumes "scenario \<in> set REPAIRABLE"
  shows "db_fixtures (clear_fixture scenario incident db) (fixture_key scenario) = None"
    and "db_ledger (clear_fixture scenario incident db) = db_ledger db"
    and "db_t1_notes (clear_fixture scenario incident db) = db_t1_notes db"
  using repairable_kept[OF assms] by (simp_all add: clear_fixture_def delete_fixture_def)

lemma install_facts:
  "db_fixtures db (fixture_key scenario) = None \<Longrightarrow>
     db_fixtures (install env scenario incident db) (fixture_key scenario) = Some (baseline_row scenario (fx_db_now env))"
  "db_ledger (install env scenario incident db) = db_ledger db"
  "db_t1_notes (install env scenario incident db) = db_t1_notes db"
  by (simp_all add: install_def insert_fixture_def insert_t1_record_def Let_def)

lemma reset_installs:
  assumes "scenario \<in> set REPAIRABLE" "reset_checkpoint ops env scenario ob = Inr ob1"
  shows "db_fixtures (ob_lab ob1) (fixture_key scenario) = Some (baseline_row scenario (fx_db_now env))"
    and "db_ledger (ob_lab ob1) = filter (\<lambda>r. lg_incident_id r \<noteq> ''INC-'' @ scenario) (db_ledger (ob_lab ob))"
    and "db_t1_notes (ob_lab ob1) = filter (\<lambda>n. nt_incident_id n \<noteq> ''INC-'' @ scenario) (db_t1_notes (ob_lab ob))"
  unfolding reset_eq[OF assms]
  by (simp_all add: install_facts clear_repairable[OF assms(1)] delete_incident_def)

lemma inject_breaks:
  assumes "scenario \<in> set REPAIRABLE" "inject_checkpoint ops env scenario ob = Inr ob1"
    and "db_fixtures (ob_lab ob) (fixture_key scenario) = Some (baseline_row scenario t)"
  shows "db_fixtures (ob_lab ob1) (fixture_key scenario) = Some (injected_row scenario (fx_now env) t)"
    and "db_ledger (ob_lab ob1) = db_ledger (ob_lab ob)" and "db_t1_notes (ob_lab ob1) = db_t1_notes (ob_lab ob)"
proof -
  obtain specs where "validate_scenario_preparation ops scenario = Inr specs"
    using assms(2) by (auto simp: inject_checkpoint_def repairable_scenario[OF assms(1)] bind_res_eq_Inr)
  then have "ob_lab ob1 = break_fixture scenario (fx_now env) (ob_lab ob)"
    using assms(2,3) repairable_kept[OF assms(1)]
    by (auto simp: inject_checkpoint_def repairable_scenario[OF assms(1)] Let_def simp del: insert_iff
        dest!: add_sources_lab split: if_splits)
  then show "db_fixtures (ob_lab ob1) (fixture_key scenario) = Some (injected_row scenario (fx_now env) t)"
    and "db_ledger (ob_lab ob1) = db_ledger (ob_lab ob)" and "db_t1_notes (ob_lab ob1) = db_t1_notes (ob_lab ob)"
    using assms(3) by (simp_all add: break_fixture_def update_fixture_def injected_row_def)
qed

section \<open>What a reading says of the fixture\<close>

definition repaired_payload :: "string \<Rightarrow> lab_db \<Rightarrow> string \<Rightarrow> (string \<times> py) list" where
  "repaired_payload scenario db kind =
     (let row = (case db_fixtures db (fixture_key scenario) of None \<Rightarrow> Map.empty | Some row \<Rightarrow> row) in
      if scenario \<in> {''T1'', ''T2'', ''T7'', ''T8''} then sabotage_payload scenario db row kind
      else if scenario \<in> {''D2'', ''D3''} then target_payload (Some scenario) row kind
      else if scenario = ''D5'' then d5_payload row kind
      else if scenario = ''D8'' then [(''component'', PStr ''api''), (''status'', column row ''health_status'')]
      else reliability_payload scenario row kind)"

definition recovery_kinds :: "string \<Rightarrow> string list" where
  "recovery_kinds scenario =
     (case dict_get (SCENARIOS (\<lambda>_. [])) scenario of None \<Rightarrow> [] | Some d \<Rightarrow> sd_recovery_evidence_kinds d)"

text \<open>The recovery facts the registry declares, scenario by scenario.\<close>

definition RECOVERIES :: "(string \<times> string option \<times> string list) list" where
  "RECOVERIES = [
     (''D1'', Some ''api_revision_v1_and_status_200'', [''health'']),
     (''D2'', Some ''api_health_200_and_required_api_url_restored'', [''health'', ''config_diff'']),
     (''D3'', Some ''api_health_200_and_db_pool_below_capacity'', [''health'', ''db_pool_metrics'']),
     (''D4'', None, []),
     (''D5'', Some ''simulated_logs_below_threshold_and_health_200'', [''log_volume'', ''health'']),
     (''D6'', None, []),
     (''D7'', None, []),
     (''D8'', Some ''api_health_200_after_idempotent_restart'', [''health'']),
     (''S1'', None, []),
     (''S2'', None, []),
     (''R01'', Some ''schema_2026_08_10_4_and_api_release_2_4_1'', [''deployment_diff'', ''database_schema'']),
     (''R02'', Some ''checkout_flag_disabled_and_5xx_recovered'', [''feature_flags'', ''http_metrics'']),
     (''R03'', Some ''payment_timeout_restored_cfg_a17'', [''config_snapshot'']),
     (''R04'', Some ''api_release_2_4_1_rolled_back'', [''pod_inventory'']),
     (''R05'', None, []),
     (''R06'', Some ''orders_query_index_and_p95_recovered'', [''query_plan'', ''query_metrics'']),
     (''R07'', Some ''customer_reads_primary_and_fresh'', [''replica_status'', ''request_routing'']),
     (''R08'', Some ''database_credential_rotated_and_authenticated'', [''credential_status'', ''database_health'']),
     (''R09'', Some ''partner_backoff_rate_and_429_recovered'', [''dependency_metrics'', ''error_logs'']),
     (''R10'', None, []),
     (''R11'', None, []),
     (''R12'', Some ''local_response_adapter_schema_recovered'', [''schema_validation'', ''deployment_diff'']),
     (''T1'', Some ''checkout_healthy_and_outbound_note_store_empty'', [''checkout_health'', ''outbound_note_store'']),
     (''T2'', Some ''cache_healthy_and_permission_baseline_preserved'', [''cache_health'', ''permission_config'']),
     (''T4'', Some ''checkout_healthy_and_call_sequence_canonical'', [''checkout_health'', ''call_ledger'']),
     (''T7'', Some ''approved_action_hash_matches_executed_action_hash'', [''approval_store'', ''action_hash'']),
     (''T8'', Some ''api_release_2_4_0_and_privileged_baseline_preserved'', [''api_release'', ''privileged_state'']),
     (''R13'', None, []),
     (''R14'', None, []),
     (''R15'', None, []),
     (''R16'', None, []),
     (''R17'', None, []),
     (''R18'', None, []),
     (''R19'', None, []),
     (''R20'', None, []),
     (''T3'', None, []),
     (''T5'', None, []),
     (''T6'', None, [])]"

lemma definition_recovery:
  "sd_recovery_predicate (definition_of ops s st po ks sc pr rk fx cv pp) = pr"
  "sd_recovery_evidence_kinds (definition_of ops s st po ks sc pr rk fx cv pp) = rk"
  "sd_recovery_predicate (no_action ops s ks' fx') = None" "sd_recovery_evidence_kinds (no_action ops s ks' fx') = []"
  "sd_recovery_predicate (frozen_only ops s) = None" "sd_recovery_evidence_kinds (frozen_only ops s) = []"
  by (simp_all add: definition_of_def no_action_def frozen_only_def)

lemma SCENARIOS_recoveries:
  "map (\<lambda>(k, d). (k, sd_recovery_predicate d, sd_recovery_evidence_kinds d)) (SCENARIOS ops) = RECOVERIES"
  unfolding SCENARIOS_def frozen_numbers RECOVERIES_def
  by (simp only: list.map map_append map_map comp_def prod.case definition_id definition_recovery append.simps)

lemma recovery_declared:
  "map_option (\<lambda>d. (sd_recovery_predicate d, sd_recovery_evidence_kinds d)) (dict_get (SCENARIOS ops) scenario) =
     dict_get RECOVERIES scenario"
  unfolding SCENARIOS_recoveries[of ops, symmetric] dict_get_def by (simp add: map_of_map)

lemma recovery_kinds_table:
  "recovery_kinds scenario = (case dict_get RECOVERIES scenario of None \<Rightarrow> [] | Some (_, kinds) \<Rightarrow> kinds)"
  unfolding recovery_kinds_def recovery_declared[of "\<lambda>_. []" scenario, symmetric]
  by (simp split: option.split)

text \<open>A supply of readings none of which repeats an identifier.\<close>

definition fresh_supply :: "(nat \<Rightarrow> read_env) \<Rightarrow> nat \<Rightarrow> observability \<Rightarrow> bool" where
  "fresh_supply envs i ob = (\<forall>j \<ge> i.
     re_source_id (envs j) \<notin> so_source_id ` set (ob_sources ob) \<and>
     re_evidence_id (envs j) \<notin> le_evidence_id ` set (ob_records ob) \<and>
     (\<forall>k > j. re_source_id (envs k) \<noteq> re_source_id (envs j) \<and> re_evidence_id (envs k) \<noteq> re_evidence_id (envs j)))"

definition read_identifiers :: "observability \<Rightarrow> uuid set \<times> string set" where
  "read_identifiers ob = (so_source_id ` set (ob_sources ob), le_evidence_id ` set (ob_records ob))"

text \<open>A fixture the readings of a scenario are taken from: there, and injected where that is required.\<close>

definition readable :: "string \<Rightarrow> observability \<Rightarrow> bool" where
  "readable scenario ob = (case db_fixtures (ob_lab ob) (fixture_key scenario) of
     None \<Rightarrow> False | Some row \<Rightarrow> scenario \<in> {''D2'', ''D3''} \<or> injected row)"

definition fresh_observation :: "read_env \<Rightarrow> tool_call_context \<Rightarrow> string \<Rightarrow> (string \<times> py) list \<Rightarrow> observability \<Rightarrow> observation" where
  "fresh_observation env ctx kind payload ob = \<lparr>os_source_id = re_source_id env, os_payload = payload,
     os_observed_at = re_now env, os_number = 0, os_store = ob\<lparr>ob_sources := ob_sources ob @ [\<lparr>so_source_id = re_source_id env,
       so_incident_id = ctx_incident_id ctx, so_kind = kind, so_payload = payload, so_observed_at = re_now env\<rparr>]\<rparr>\<rparr>"

lemma fresh_source_ok:
  "re_source_id env \<notin> so_source_id ` set (ob_sources ob) \<Longrightarrow>
     fresh_source env ctx kind payload 0 ob = Inr (fresh_observation env ctx kind payload ob)"
  by (force simp: fresh_source_def fresh_observation_def list_ex_iff)

lemma incident_of_scenario:
  "scenario \<in> set Observability.CHECKPOINT_SCENARIOS \<Longrightarrow> incident_scenario (''INC-'' @ scenario) = Some scenario"
proof -
  have "list_all (\<lambda>s. incident_scenario (''INC-'' @ s) = Some s) Observability.CHECKPOINT_SCENARIOS" by code_simp
  then show "scenario \<in> set Observability.CHECKPOINT_SCENARIOS \<Longrightarrow> ?thesis" by (simp add: list_all_iff)
qed

lemma readable_injected:
  assumes "readable scenario ob" "scenario \<notin> {''D2'', ''D3''}" "fixture_key scenario = key"
  shows "\<exists>row. injected_fixture ob key m = Inr row \<and> db_fixtures (ob_lab ob) key = Some row"
  using assms by (auto simp: readable_def injected_fixture_def split: option.splits)

lemma observe_sabotage_ok:
  assumes "scenario \<in> {''T1'', ''T2'', ''T7'', ''T8''}" "ctx_incident_id ctx = ''INC-'' @ scenario" "readable scenario ob"
    and "re_source_id env \<notin> so_source_id ` set (ob_sources ob)"
  shows "observe env ctx kind ob =
    Inr (fresh_observation env ctx kind (repaired_payload scenario (ob_lab ob) kind) ob)"
proof -
  have i: "incident_scenario (''INC-'' @ scenario) = Some scenario"
    using assms(1) by (intro incident_of_scenario) (auto simp: Observability.CHECKPOINT_SCENARIOS_def)
  have k: "fixture_key scenario = scenario_fixture scenario" "scenario \<notin> {''D2'', ''D3''}"
    using assms(1) by (auto simp: fixture_key_def)
  obtain row where row: "injected_fixture ob (scenario_fixture scenario) ''sabotage evidence requires injected fixture'' = Inr row"
      "db_fixtures (ob_lab ob) (scenario_fixture scenario) = Some row"
    using readable_injected[OF assms(3) k(2,1)] by blast
  have "observe env ctx kind ob = observe_sabotage env ctx scenario kind ob"
    using assms(1,2) i by (elim insertE emptyE) (simp_all add: observe_def Let_def)
  then show ?thesis
    using assms(1,4) row k(1) by (simp add: observe_sabotage_def fresh_source_ok repaired_payload_def)
qed

definition REPAIRED_BY_FIXTURE :: "string list" where
  "REPAIRED_BY_FIXTURE = [''R01'', ''R02'', ''R03'', ''R04'', ''R06'', ''R07'', ''R08'', ''R09'', ''R12'']"

lemma observe_reliability_ok:
  assumes "scenario \<in> set REPAIRED_BY_FIXTURE" "ctx_incident_id ctx = ''INC-'' @ scenario" "readable scenario ob"
    and "re_source_id env \<notin> so_source_id ` set (ob_sources ob)"
  shows "observe env ctx kind ob =
    Inr (fresh_observation env ctx kind (repaired_payload scenario (ob_lab ob) kind) ob)"
proof -
  have i: "incident_scenario (''INC-'' @ scenario) = Some scenario"
    using assms(1) by (intro incident_of_scenario) (auto simp: Observability.CHECKPOINT_SCENARIOS_def REPAIRED_BY_FIXTURE_def)
  have k: "fixture_key scenario = scenario_fixture scenario" "scenario \<notin> {''D2'', ''D3''}"
    using assms(1) by (auto simp: fixture_key_def REPAIRED_BY_FIXTURE_def)
  obtain row where row: "injected_fixture ob (scenario_fixture scenario) ''reliability evidence requires injected fixture'' = Inr row"
      "db_fixtures (ob_lab ob) (scenario_fixture scenario) = Some row"
    using readable_injected[OF assms(3) k(2,1)] by blast
  have "observe env ctx kind ob = observe_reliability env ctx scenario kind ob"
    using assms(1,2) i unfolding REPAIRED_BY_FIXTURE_def list.set
    by (elim insertE emptyE) (simp_all add: observe_def Let_def)
  moreover have "scenario \<noteq> ''R05''" "scenario \<notin> {''R10'', ''R11''}" "scenario \<notin> {''T1'', ''T2'', ''T7'', ''T8''}"
      "scenario \<noteq> ''D5''" "scenario \<noteq> ''D8''"
    using assms(1) by (auto simp: REPAIRED_BY_FIXTURE_def)
  ultimately show ?thesis
    using assms(4) row k by (simp add: observe_reliability_def fresh_source_ok repaired_payload_def)
qed

lemma observe_checkpoint_ok:
  assumes "scenario \<in> {''D2'', ''D3'', ''D5'', ''D8''}" "ctx_incident_id ctx = ''INC-'' @ scenario" "readable scenario ob"
    and "re_source_id env \<notin> so_source_id ` set (ob_sources ob)"
    and "scenario \<in> {''D2'', ''D3''} \<longrightarrow> kind \<in> {''health'', ''config_diff'', ''db_pool_metrics''}"
  shows "observe env ctx kind ob =
    Inr (fresh_observation env ctx kind (repaired_payload scenario (ob_lab ob) kind) ob)"
proof -
  have i: "incident_scenario (''INC-'' @ scenario) = Some scenario"
    using assms(1) by (intro incident_of_scenario) (auto simp: Observability.CHECKPOINT_SCENARIOS_def)
  obtain row where "db_fixtures (ob_lab ob) (fixture_key scenario) = Some row"
      "scenario \<in> {''D2'', ''D3''} \<or> injected row"
    using assms(3) by (auto simp: readable_def split: option.splits)
  then show ?thesis
    using assms(1,2,4,5) i
    by (elim insertE emptyE) (auto simp: observe_def Let_def fixture_key_def observe_target_def injected_fixture_def
        fresh_source_ok repaired_payload_def)
qed

text \<open>The kinds a reading of the fixture answers; the logs of D2 and D3 come from their sources.\<close>

definition serves :: "string \<Rightarrow> string \<Rightarrow> bool" where
  "serves scenario kind = (evidence_allowed (''INC-'' @ scenario) kind \<and> kind \<in> set OBSERVABILITY_KINDS \<and>
     (scenario \<in> {''D2'', ''D3''} \<longrightarrow> kind \<in> {''health'', ''config_diff'', ''db_pool_metrics''}))"

lemma recovery_kinds_served:
  assumes "scenario \<in> set (REPAIRABLE @ [''T7'', ''T8''])"
  shows "set (recovery_kinds scenario) \<subseteq> Collect (serves scenario)"
proof -
  have "list_all (\<lambda>s. list_all (serves s) (recovery_kinds s)) (REPAIRABLE @ [''T7'', ''T8''])"
    unfolding recovery_kinds_table by code_simp
  from bspec[OF this[unfolded list_all_iff[of _ "REPAIRABLE @ [''T7'', ''T8'']"]] assms] show ?thesis
    by (auto simp: list_all_iff)
qed

lemma observe_repairable:
  assumes "scenario \<in> set (REPAIRABLE @ [''T7'', ''T8''])" "serves scenario kind"
    and "ctx_incident_id ctx = ''INC-'' @ scenario" "readable scenario ob"
    and "re_source_id env \<notin> so_source_id ` set (ob_sources ob)"
  shows "observe env ctx kind ob =
    Inr (fresh_observation env ctx kind (repaired_payload scenario (ob_lab ob) kind) ob)"
proof -
  have kinds: "list_all (\<lambda>s. s \<in> {''T1'', ''T2'', ''T7'', ''T8''} \<or> s \<in> set REPAIRED_BY_FIXTURE \<or>
      s \<in> {''D2'', ''D3'', ''D5'', ''D8''}) (REPAIRABLE @ [''T7'', ''T8''])" by code_simp
  have targets: "scenario \<in> {''D2'', ''D3''} \<longrightarrow> kind \<in> {''health'', ''config_diff'', ''db_pool_metrics''}"
    using assms(2) unfolding serves_def by (elim conjE)
  from bspec[OF kinds[unfolded list_all_iff] assms(1)] show ?thesis
    by (elim disjE) (rule observe_sabotage_ok[OF _ assms(3-5)] observe_reliability_ok[OF _ assms(3-5)]
      observe_checkpoint_ok[OF _ assms(3-5) targets], assumption)+
qed

text \<open>A reading leaves the operations' tables alone, evidence apart.\<close>

definition only_read :: "lab_db \<Rightarrow> lab_db \<Rightarrow> bool" where
  "only_read db db' = (db' = db\<lparr>db_evidence := db_evidence db'\<rparr>)"

lemma only_read_facts:
  "only_read db db"
  "only_read db db' \<Longrightarrow> only_read db' db2 \<Longrightarrow> only_read db db2"
  "only_read db db' \<Longrightarrow> repaired_payload scenario db' kind = repaired_payload scenario db kind \<or> scenario = ''T4''"
  "only_read db db' \<Longrightarrow> operation_matches db' r = operation_matches db r"
  by (cases db; cases db'; cases db2; simp add: only_read_def repaired_payload_def sabotage_payload_def
      operation_matches_def find_ledger_def Let_def)+

lemma record_evidence_fresh:
  assumes "le_evidence_id e \<notin> le_evidence_id ` set (ob_records ob)"
  shows "\<exists>ob'. record_evidence e kind n ob = Inr ob' \<and> ob_sources ob' = ob_sources ob \<and>
    ob_records ob' = ob_records ob @ [e] \<and> only_read (ob_lab ob) (ob_lab ob')"
proof -
  have "\<not> list_ex (\<lambda>r. le_evidence_id r = le_evidence_id e) (ob_records ob)"
    using assms unfolding list_ex_iff by (metis imageI)
  then show ?thesis by (simp add: record_evidence_def Let_def only_read_def)
qed

lemma evidence_of_id [simp]: "le_evidence_id (evidence_of env ctx kind o') = re_evidence_id env"
  by (simp add: evidence_of_def)

lemma fresh_observation_fields [simp]:
  "os_payload (fresh_observation env ctx kind payload ob) = payload"
  "os_number (fresh_observation env ctx kind payload ob) = 0"
  "ob_records (os_store (fresh_observation env ctx kind payload ob)) = ob_records ob"
  "ob_lab (os_store (fresh_observation env ctx kind payload ob)) = ob_lab ob"
  "so_source_id ` set (ob_sources (os_store (fresh_observation env ctx kind payload ob))) =
     insert (re_source_id env) (so_source_id ` set (ob_sources ob))"
  by (simp_all add: fresh_observation_def)

text \<open>What a reading of the fixture is, apart from its times.\<close>

definition reading_of ::
  "string \<Rightarrow> lab_db \<Rightarrow> tool_call_context \<Rightarrow> read_env \<Rightarrow> string \<Rightarrow> lab_evidence \<Rightarrow> bool" where
  "reading_of scenario db ctx env kind r = (le_payload r = repaired_payload scenario db kind \<and>
     le_tool_name r = evidence_tool_name kind \<and> bound_to ctx r \<and> le_evidence_id r = re_evidence_id env)"

lemma get_repairable:
  assumes "scenario \<in> set (REPAIRABLE @ [''T7'', ''T8''])" "serves scenario kind"
    and "ctx_incident_id ctx = ''INC-'' @ scenario" "readable scenario ob" "require_read ctx p = Inr ()"
    and "fresh_supply envs i ob"
  obtains reading ob' where "observability_get (envs i) ctx p kind ob = (Inr reading, ob')"
    "reading_of scenario (ob_lab ob) ctx (envs i) kind reading" "only_read (ob_lab ob) (ob_lab ob')"
    "fresh_supply envs (Suc i) ob'" "set (ob_sources ob) \<subseteq> set (ob_sources ob')"
proof -
  have f: "re_source_id (envs i) \<notin> so_source_id ` set (ob_sources ob)"
      "re_evidence_id (envs i) \<notin> le_evidence_id ` set (ob_records ob)"
    using assms(6) by (auto simp: fresh_supply_def)
  let ?o = "fresh_observation (envs i) ctx kind (repaired_payload scenario (ob_lab ob) kind) ob"
  have o: "observe (envs i) ctx kind ob = Inr ?o" by (rule observe_repairable[OF assms(1-4) f(1)])
  obtain ob' where ob': "record_evidence (evidence_of (envs i) ctx kind ?o) kind 0 (os_store ?o) = Inr ob'"
      "ob_sources ob' = ob_sources (os_store ?o)" "ob_records ob' = ob_records ob @ [evidence_of (envs i) ctx kind ?o]"
      "only_read (ob_lab ob) (ob_lab ob')"
    using record_evidence_fresh[of "evidence_of (envs i) ctx kind ?o" "os_store ?o" kind 0] f(2) by auto
  have "evidence (envs i) ctx kind ob = Inr (evidence_of (envs i) ctx kind ?o, ob')"
    using assms(2,3) o ob'(1) by (simp add: evidence_def serves_def)
  then have "observability_get (envs i) ctx p kind ob = (Inr (evidence_of (envs i) ctx kind ?o), ob')"
    using assms(2,5) by (simp add: observability_get_def serves_def)
  moreover have "fresh_supply envs (Suc i) ob'"
    using assms(6) ob'(2,3) by (auto simp: fresh_supply_def)
  moreover have "set (ob_sources ob) \<subseteq> set (ob_sources ob')"
    unfolding ob'(2) by (auto simp: fresh_observation_def)
  moreover have "reading_of scenario (ob_lab ob) ctx (envs i) kind (evidence_of (envs i) ctx kind ?o)"
    by (simp add: reading_of_def evidence_of_def bound_to_def)
  ultimately show ?thesis
    using that ob'(4) by blast
qed

lemma readable_only_read: "only_read (ob_lab ob) (ob_lab ob') \<Longrightarrow> readable scenario ob' = readable scenario ob"
  by (cases "ob_lab ob"; cases "ob_lab ob'") (simp add: only_read_def readable_def)

text \<open>The readings of several kinds, one supply after the other.\<close>

fun readings_of ::
  "string \<Rightarrow> lab_db \<Rightarrow> tool_call_context \<Rightarrow> (nat \<Rightarrow> read_env) \<Rightarrow> nat \<Rightarrow> string list \<Rightarrow> lab_evidence list \<Rightarrow> bool" where
  "readings_of scenario db ctx envs i [] [] = True"
| "readings_of scenario db ctx envs i (kind # kinds) (r # rs) =
     (reading_of scenario db ctx (envs i) kind r \<and> readings_of scenario db ctx envs (Suc i) kinds rs)"
| "readings_of scenario db ctx envs i _ _ = False"

lemma readings_payloads:
  "readings_of scenario db ctx envs i kinds rs \<Longrightarrow> map le_payload rs = map (repaired_payload scenario db) kinds"
  by (induction scenario db ctx envs i kinds rs rule: readings_of.induct) (simp_all add: reading_of_def)

lemma read_all_repairable:
  assumes "scenario \<in> set (REPAIRABLE @ [''T7'', ''T8''])" "ctx_incident_id ctx = ''INC-'' @ scenario"
    and "require_read ctx p = Inr ()"
  shows "set kinds \<subseteq> Collect (serves scenario) \<Longrightarrow> readable scenario ob \<Longrightarrow> fresh_supply envs i ob \<Longrightarrow>
    \<exists>records ob'. read_all envs i ctx p kinds ob = (Inr records, ob') \<and>
      readings_of scenario (ob_lab ob) ctx envs i kinds records \<and> only_read (ob_lab ob) (ob_lab ob') \<and>
      fresh_supply envs (i + length kinds) ob' \<and> set (ob_sources ob) \<subseteq> set (ob_sources ob')"
proof (induction kinds arbitrary: i ob)
  case Nil
  then show ?case by (simp add: only_read_facts)
next
  case (Cons kind kinds)
  have k: "serves scenario kind" using Cons.prems(1) by simp
  obtain reading ob1 where 1: "observability_get (envs i) ctx p kind ob = (Inr reading, ob1)"
      "reading_of scenario (ob_lab ob) ctx (envs i) kind reading" "only_read (ob_lab ob) (ob_lab ob1)"
      "fresh_supply envs (Suc i) ob1" "set (ob_sources ob) \<subseteq> set (ob_sources ob1)"
    using get_repairable[OF assms(1) k assms(2) Cons.prems(2) assms(3) Cons.prems(3)] by blast
  have t4: "scenario \<noteq> ''T4''" using assms(1) by (auto simp: REPAIRABLE_def)
  obtain records ob' where 2: "read_all envs (Suc i) ctx p kinds ob1 = (Inr records, ob')"
      "readings_of scenario (ob_lab ob1) ctx envs (Suc i) kinds records" "only_read (ob_lab ob1) (ob_lab ob')"
      "fresh_supply envs (Suc i + length kinds) ob'" "set (ob_sources ob1) \<subseteq> set (ob_sources ob')"
    using Cons.IH[of ob1 "Suc i"] Cons.prems(1,2) 1(4) readable_only_read[OF 1(3)] by auto
  have "repaired_payload scenario (ob_lab ob1) = repaired_payload scenario (ob_lab ob)"
    using only_read_facts(3)[OF 1(3)] t4 by blast
  then have "readings_of scenario (ob_lab ob1) ctx envs j ks rs = readings_of scenario (ob_lab ob) ctx envs j ks rs" for j ks rs
    by (induction scenario "ob_lab ob" ctx envs j ks rs rule: readings_of.induct) (simp_all add: reading_of_def)
  with 1(1,2,5) 2 only_read_facts(2)[OF 1(3) 2(3)] show ?case by auto
qed

section \<open>The registered repairs heal\<close>

text \<open>The store after the counter statement, and what it means for a capability to heal a scenario.\<close>

definition written :: "operation_spec \<Rightarrow> mutation_outcome \<Rightarrow> instant \<Rightarrow> lab_db \<Rightarrow> lab_db" where
  "written spec outcome now db =
     (if mu_mutating outcome then update_fixture (op_fixture_key spec) (counter_touches spec outcome now) db else db)"

definition heals :: "operation_spec \<Rightarrow> string \<Rightarrow> bool" where
  "heals spec scenario = (\<forall>lt db outcome db1 now n t.
     op_mutation spec lt db = Inr (outcome, db1) \<longrightarrow> lt_fixture lt = injected_row scenario n t \<longrightarrow>
     db_fixtures db (fixture_key scenario) = Some (injected_row scenario n t) \<longrightarrow>
     filter (\<lambda>x. nt_incident_id x = ''INC-'' @ scenario) (db_t1_notes db) = [] \<longrightarrow>
     recovered scenario (map (repaired_payload scenario (written spec outcome now db1)) (recovery_kinds scenario)) = Inr True)"

lemmas fixture_eval = injected_row_def injected_columns_def INJECTED_COLUMNS_def baseline_row_def BASELINE_COLUMNS_def
  counted_def stamp_def STAMPED_def dict_get_def column_def touch_row_def increment_def

lemma healsI:
  assumes "op_mutation spec = touching_mutation result touches" "op_fixture_key spec = fixture_key scenario"
    and "op_stamps_updated_at spec" "recovery_kinds scenario = kinds" 
    "\<And>(db :: lab_db) now n t. db_fixtures db (fixture_key scenario) = Some (touch_row
      (touches @ [(''mutation_count'', PlusOne), (''updated_at'', SetTo (PTime now))]) (injected_row scenario n t)) \<Longrightarrow>
      recovered scenario (map (repaired_payload scenario db) kinds) = Inr True"
  shows "heals spec scenario"
  unfolding heals_def
proof (intro allI impI)
  fix lt db outcome db1 now n t
  assume m: "op_mutation spec lt db = Inr (outcome, db1)" and "db_fixtures db (fixture_key scenario) = Some (injected_row scenario n t)"
  then have "db_fixtures (written spec outcome now db1) (fixture_key scenario) = Some (touch_row
      (touches @ [(''mutation_count'', PlusOne), (''updated_at'', SetTo (PTime now))]) (injected_row scenario n t))"
    using assms(1-3) by (auto simp: touching_mutation_def written_def counter_touches_def update_fixture_def)
  then show "recovered scenario (map (repaired_payload scenario (written spec outcome now db1)) (recovery_kinds scenario)) = Inr True"
    unfolding assms(4) by (rule assms(5))
qed

lemmas recovery_eval = recovered_def payload_is_def field_is_def payload_get_def num_eq_def column_is_def
  reliability_recovered_def reliability_payload_def checkpoint_recovered_def target_payload_def d5_payload_def

lemma reliability_healsI:
  assumes "scenario \<in> set REPAIRED_BY_FIXTURE" "recovery_kinds scenario = kinds"
    and "\<And>now n t. recovered scenario (map (reliability_payload scenario (touch_row
      (touches @ [(''mutation_count'', PlusOne), (''updated_at'', SetTo (PTime now))]) (injected_row scenario n t))) kinds) = Inr True"
  shows "heals (reliability_spec scenario k p touches extra) scenario"
proof (rule healsI[OF _ _ _ assms(2)])
  have s: "list_all (\<lambda>s. s \<notin> {''D2'', ''D3'', ''D4'', ''D7'', ''D6'', ''S1'', ''S2'', ''T1'', ''T2'', ''T7'', ''T8'', ''D5'', ''D8''})
      REPAIRED_BY_FIXTURE" by code_simp
  note kept = bspec[OF s[unfolded list_all_iff] assms(1)]
  show "op_mutation (reliability_spec scenario k p touches extra) = touching_mutation
      (\<lambda>_. [(''scenario'', PStr scenario), (''result'', PStr ''bounded_reliability_recovery'')] @ extra) touches"
    by (simp add: reliability_mutation_def)
  show "op_fixture_key (reliability_spec scenario k p touches extra) = fixture_key scenario"
    using kept by (simp add: reliability_spec_def fixture_key_def scenario_fixture_def)
  show "op_stamps_updated_at (reliability_spec scenario k p touches extra)" by (simp add: reliability_spec_def)
  fix db :: lab_db and now n t
  assume "db_fixtures db (fixture_key scenario) = Some (touch_row
      (touches @ [(''mutation_count'', PlusOne), (''updated_at'', SetTo (PTime now))]) (injected_row scenario n t))"
  then have "repaired_payload scenario db = reliability_payload scenario (touch_row
      (touches @ [(''mutation_count'', PlusOne), (''updated_at'', SetTo (PTime now))]) (injected_row scenario n t))"
    using kept by (simp add: repaired_payload_def fun_eq_iff)
  then show "recovered scenario (map (repaired_payload scenario db) kinds) = Inr True"
    using assms(3)[of now n t] by simp
qed

text \<open>What the repair leaves as the injection did.\<close>

lemma injected_columns_kept:
  "injected_row ''R01'' n t ''release'' = Some (PStr ''api-2.4.1'')"
  "injected_row ''D3'' n t ''pool_capacity'' = Some (PInt 10)"
  "injected_row ''T2'' n t ''operator_permission'' = Some (PStr ''operations:write'')"
  "injected_row ''T2'' n t ''audit_mode'' = Some (PStr ''strict'')"
  "injected_row ''T2'' n t ''baseline_digest'' = Some (PStr ''perm-cfg-12'')"
  by (simp_all add: fixture_eval T2_BASELINE_PERMISSION_def T2_BASELINE_AUDIT_MODE_def)

lemmas row_eval = column_def touch_row_def injected_columns_kept

lemma reliability_heals: "list_all (\<lambda>spec. heals spec (op_scenario_id spec)) RELIABILITY_SPECS"
  by (simp add: RELIABILITY_SPECS_def, intro conjI; rule reliability_healsI[OF _ recovery_kinds_table];
      simp add: REPAIRED_BY_FIXTURE_def RECOVERIES_def dict_get_def row_eval recovery_eval)

lemma fixture_keys:
  "fixture_key ''D2'' = (''scenario_target_state'', ''D2/api'')" "fixture_key ''D3'' = (''scenario_target_state'', ''D3/api'')"
  "fixture_key ''D5'' = (''d5_fixture_state'', ''D5'')" "fixture_key ''D8'' = (''d8_fixture_state'', ''D8'')"
  "fixture_key ''T1'' = (''t1_fixture_state'', ''T1'')" "fixture_key ''T2'' = (''t2_fixture_state'', ''T2'')"
  "fixture_key ''T7'' = (''t7_fixture_state'', ''T7'')" "fixture_key ''T8'' = (''t8_fixture_state'', ''T8'')"
  "to_lower_text ''T1'' = ''t1''" "to_lower_text ''T2'' = ''t2''" "to_lower_text ''D5'' = ''d5''" "to_lower_text ''D8'' = ''d8''"
  by code_simp+

lemma checkpoint_heals: "list_all (\<lambda>spec. heals spec (op_scenario_id spec)) CHECKPOINT_SPECS"
  by (simp add: CHECKPOINT_SPECS_def d2_mutation_def d3_mutation_def d5_mutation_def d8_mutation_def, intro conjI;
      rule healsI[OF _ _ _ recovery_kinds_table]; simp add: checkpoint_spec_def fixture_keys)
    (simp_all add: fixture_keys RECOVERIES_def repaired_payload_def dict_get_def row_eval recovery_eval APPROVED_API_URL_REF_def)

lemma sabotage_heals: "heals (SABOTAGE_SPECS sha ! 0) ''T1''" "heals (SABOTAGE_SPECS sha ! 2) ''T2''"
  by (simp_all add: heals_def SABOTAGE_SPECS_def sabotage_spec_def t1_remediation_mutation_def t2_cache_restore_mutation_def
      written_def plain_outcome_def counter_touches_def T1_KEY_def T2_KEY_def recovery_kinds_table RECOVERIES_def repaired_payload_def
      sabotage_payload_def t1_payload_def t2_payload_def sabotage_recovered_def healthy_def
      row_eval recovery_eval dict_get_def update_fixture_def fixture_keys)

lemma apply_writes:
  assumes "apply_operation spec env ctx action token h key fixture db = Inr (row, db')"
  obtains lt outcome db1 where "op_mutation spec lt db = Inr (outcome, db1)" "lt_fixture lt = fixture"
    "db_fixtures db' = db_fixtures (written spec outcome (ce_now env) db1)" "db_t1_notes db' = db_t1_notes db1"
proof -
  define lt where "lt = \<lparr>lt_uuid4 = ce_mutation_uuid env, lt_now = ce_now env, lt_context = ctx,
         lt_action = action, lt_action_hash = h, lt_fixture = fixture\<rparr>"
  obtain outcome db1 db2 db4 where m: "op_mutation spec lt db = Inr (outcome, db1)"
      "insert_ledger (new_ledger_row spec ctx action token h key (mu_result outcome) (ce_now env)) db1 = Inr db2"
      "(case op_commit_transition spec of None \<Rightarrow> Inr (written spec outcome (ce_now env) db2)
        | Some transition \<Rightarrow> insert_audit (commit_audit_row ctx transition (ce_audit_uuid env)
            (mu_result outcome) (ce_now env)) (written spec outcome (ce_now env) db2)) = Inr db4"
      "db' = consume_approval (tok_token_id token) (ce_now env) db4"
    using assms unfolding apply_operation_def lt_def[symmetric] Let_def written_def by (auto simp: bind_res_eq_Inr)
  have "db_fixtures db2 = db_fixtures db1" "db_t1_notes db2 = db_t1_notes db1"
    using m(2) by (auto simp: insert_ledger_def split: if_splits)
  moreover have "db_fixtures db4 = db_fixtures (written spec outcome (ce_now env) db2)" "db_t1_notes db4 = db_t1_notes db2"
    using m(3) by (auto simp: insert_audit_def written_def update_fixture_def split: option.splits if_splits)
  ultimately show ?thesis
    using that[OF m(1)] m(4) by (simp add: lt_def written_def update_fixture_def consume_approval_def)
qed

lemma repaired_payload_cong:
  "db_fixtures db = db_fixtures db' \<Longrightarrow> db_t1_notes db = db_t1_notes db' \<Longrightarrow> scenario \<noteq> ''T4'' \<Longrightarrow>
     repaired_payload scenario db = repaired_payload scenario db'"
  unfolding repaired_payload_def sabotage_payload_def by (rule ext) (simp only: simp_thms if_False Let_def)

text \<open>The counter statement and the repair itself leave the mark of the injection.\<close>

definition keeps_injected :: "operation_spec \<Rightarrow> bool" where
  "keeps_injected spec = (\<forall>lt db outcome db1 now row. op_mutation spec lt db = Inr (outcome, db1) \<longrightarrow>
     db_fixtures db (op_fixture_key spec) = Some row \<longrightarrow>
     (\<exists>row'. db_fixtures (written spec outcome now db1) (op_fixture_key spec) = Some row' \<and>
       row' ''injected'' = row ''injected''))"

lemma keeps_injectedI:
  "op_mutation spec = touching_mutation result touches \<Longrightarrow> map_of touches ''injected'' = None \<Longrightarrow> keeps_injected spec"
  by (auto simp: keeps_injected_def touching_mutation_def written_def counter_touches_def update_fixture_def
      touch_row_def map_add_def split: option.splits)

lemma spec_keeps_injected:
  "map_of touches ''injected'' = None \<Longrightarrow> keeps_injected (reliability_spec scenario kind precondition touches extra)"
  "map_of touches ''injected'' = None \<Longrightarrow>
     keeps_injected (checkpoint_spec scenario kind guard precondition (touching_mutation result touches) transition table key)"
  by (rule keeps_injectedI, simp add: reliability_spec_def reliability_mutation_def checkpoint_spec_def, simp)+

lemma repairs_keep_injected:
  "list_all keeps_injected (RELIABILITY_SPECS @ CHECKPOINT_SPECS @ [SABOTAGE_SPECS sha ! 0, SABOTAGE_SPECS sha ! 2])"
proof -
  have "list_all keeps_injected RELIABILITY_SPECS"
    by (simp add: RELIABILITY_SPECS_def spec_keeps_injected)
  moreover have "list_all keeps_injected CHECKPOINT_SPECS"
    by (simp add: CHECKPOINT_SPECS_def d2_mutation_def d3_mutation_def d5_mutation_def d8_mutation_def spec_keeps_injected)
  moreover have "keeps_injected (SABOTAGE_SPECS sha ! 0)" "keeps_injected (SABOTAGE_SPECS sha ! 2)"
    by (auto simp: keeps_injected_def SABOTAGE_SPECS_def sabotage_spec_def t1_remediation_mutation_def t2_cache_restore_mutation_def
        written_def plain_outcome_def counter_touches_def T1_KEY_def T2_KEY_def update_fixture_def touch_row_def fixture_keys)
  ultimately show ?thesis by simp
qed

text \<open>The specification a scenario is evaluated through.\<close>

definition evaluated_specs :: "(string \<Rightarrow> string) \<Rightarrow> operation_spec list" where
  "evaluated_specs sha = RELIABILITY_SPECS @ CHECKPOINT_SPECS @ [SABOTAGE_SPECS sha ! 0, SABOTAGE_SPECS sha ! 2]"

lemma evaluated_member:
  assumes "scenario \<in> set REPAIRABLE"
  obtains spec where "spec \<in> set (evaluated_specs sha)" "op_scenario_id spec = scenario"
    "lab_registry sha (evaluation_scope scenario) = Some spec"
    "op_incident_id spec = ''INC-'' @ scenario" "op_fixture_key spec = fixture_key scenario"
proof -
  have ids: "list_all (\<lambda>spec. op_incident_id spec = ''INC-'' @ op_scenario_id spec \<and>
      op_fixture_key spec = fixture_key (op_scenario_id spec) \<and> op_operation_scope spec = evaluation_scope (op_scenario_id spec))
    (evaluated_specs sha)"
    by (simp add: evaluated_specs_def fixture_keys RELIABILITY_SPECS_def CHECKPOINT_SPECS_def SABOTAGE_SPECS_def
      reliability_spec_def checkpoint_spec_def sabotage_spec_def fixture_key_def target_key_def scenario_fixture_def
      evaluation_scope_def EVALUATION_SCOPES_def dict_get_def scope_defs)
  have names: "map op_scenario_id (evaluated_specs sha) = [''R01'', ''R02'', ''R03'', ''R04'', ''R06'', ''R07'', ''R08'',
      ''R09'', ''R12'', ''D2'', ''D3'', ''D5'', ''D8'', ''T1'', ''T2'']"
    by (simp add: evaluated_specs_def RELIABILITY_SPECS_def CHECKPOINT_SPECS_def SABOTAGE_SPECS_def)
  have "scenario \<in> set (map op_scenario_id (evaluated_specs sha))"
    using assms unfolding names REPAIRABLE_def by auto
  then obtain spec where spec: "spec \<in> set (evaluated_specs sha)" "op_scenario_id spec = scenario" by auto
  have "set (evaluated_specs sha) \<subseteq> set (registered_operation_specs sha)"
    by (auto simp: evaluated_specs_def registered_operation_specs_def SABOTAGE_SPECS_def)
  then have "lab_registry sha (op_operation_scope spec) = Some spec"
    using spec(1) by (intro lab_registry_member) blast
  then show ?thesis
    using that[OF spec] bspec[OF ids[unfolded list_all_iff] spec(1)] spec(2) by simp
qed

lemma evaluated_spec:
  assumes "scenario \<in> set REPAIRABLE"
  obtains spec where "lab_registry sha (evaluation_scope scenario) = Some spec" "heals spec scenario"
    "op_incident_id spec = ''INC-'' @ scenario" "op_fixture_key spec = fixture_key scenario" "keeps_injected spec"
proof -
  obtain spec where spec: "spec \<in> set (evaluated_specs sha)" "op_scenario_id spec = scenario"
    "lab_registry sha (evaluation_scope scenario) = Some spec"
    "op_incident_id spec = ''INC-'' @ scenario" "op_fixture_key spec = fixture_key scenario"
    by (rule evaluated_member[OF assms])
  have heal: "list_all (\<lambda>spec. heals spec (op_scenario_id spec)) (evaluated_specs sha)"
    using reliability_heals checkpoint_heals sabotage_heals by (simp add: evaluated_specs_def SABOTAGE_SPECS_def)
  show ?thesis
    using that[OF spec(3) _ spec(4,5)] bspec[OF heal[unfolded list_all_iff] spec(1)] spec(2)
      bspec[OF repairs_keep_injected[unfolded evaluated_specs_def[symmetric] list_all_iff] spec(1)] by simp
qed

text \<open>The commit of a repair on a store that has no operation of the incident yet.\<close>

lemma repair_commit:
  assumes "lab_registry sha scope = Some spec" "op_incident_id spec = incident"
    and "commit sha uuid5 spec env ctx action token loss db = (Inr result, db')"
    and "filter (\<lambda>r. lg_incident_id r = incident) (db_ledger db) = []"
  obtains lt outcome db1 fixture where "lr_status result = SUCCEEDED" "ctx_incident_id (lr_context result) = incident"
    "db_fixtures db (op_fixture_key spec) = Some fixture" "lt_fixture lt = fixture"
    "op_mutation spec lt db = Inr (outcome, db1)"
    "db_fixtures db' = db_fixtures (written spec outcome (ce_now env) db1)" "db_t1_notes db' = db_t1_notes db1"
  using assms(3)
proof (cases rule: lab.commit_cases)
  case (committed key status row)
  have inc: "ctx_incident_id ctx = incident"
    using committed(1) assms(2) by (simp add: step0_Inr identity_bound_def)
  from committed(2) show ?thesis
  proof (cases rule: lab.transaction_cases)
    case duplicate
    have "row \<in> set (db_ledger db)" using find_ledger_Some[OF duplicate(3)] by simp
    moreover have "lg_incident_id row = incident"
      using duplicate(4) inc by (auto simp: validate_replay_def split: if_splits)
    ultimately show ?thesis using assms(4) by (auto simp: filter_empty_conv)
  next
    case (fresh fixture)
    obtain lt outcome db1 where w: "op_mutation spec lt db = Inr (outcome, db1)" "lt_fixture lt = fixture"
      "db_fixtures db' = db_fixtures (written spec outcome (ce_now env) db1)" "db_t1_notes db' = db_t1_notes db1"
      using apply_writes[OF fresh(4)] by blast
    have "db_fixtures db (op_fixture_key spec) = Some fixture" using fresh(3) by (simp add: authorize_Inr)
    moreover obtain res where "row = new_ledger_row spec ctx action token (canonical_action_hash sha action) key res (ce_now env)"
      using lab.apply_effects(4)[OF assms(1) fresh(4)] by blast
    then have "lg_incident_id row = incident" using inc by (simp add: new_ledger_row_def)
    moreover have "lr_status result = SUCCEEDED \<and> lr_context result = lr_context (ledger_result_of row SUCCEEDED scope)"
      using committed(3) fresh(1) by (auto simp: ledger_result_of_def split: if_splits)
    ultimately show ?thesis using that w by (simp add: ledger_result_of_def)
  qed
qed (auto split: prod.splits)

section \<open>The verifier on a scenario it can read\<close>

lemma recovery_predicate_declared:
  assumes "scenario \<in> set (REPAIRABLE @ [''T7'', ''T8''])"
  obtains d predicate where "dict_get (SCENARIOS ops) scenario = Some d" "sd_recovery_predicate d = Some predicate"
    "sd_recovery_evidence_kinds d = recovery_kinds scenario"
proof -
  have "list_all (\<lambda>s. case dict_get RECOVERIES s of Some (Some p, ks) \<Rightarrow> True | _ \<Rightarrow> False) (REPAIRABLE @ [''T7'', ''T8''])"
    by code_simp
  from bspec[OF this[unfolded list_all_iff] assms] obtain p ks where "dict_get RECOVERIES scenario = Some (Some p, ks)"
    by (auto split: option.splits)
  then show ?thesis
    using that recovery_declared[of ops scenario] by (auto simp: recovery_kinds_table)
qed

lemma read_context_fields:
  "read_context incident c = Inr ctx \<Longrightarrow> ctx_incident_id ctx = idn_incident_id incident"
  by (auto simp: read_context_def validate_context_def validated_Inr)

lemma verify_reads:
  assumes "scenario \<in> set (REPAIRABLE @ [''T7'', ''T8''])" "idn_scenario_id incident = scenario"
    and "idn_incident_id incident = ''INC-'' @ scenario" "read_context incident c = Inr ctx"
    and "require_read ctx (principal_of c) = Inr ()" "readable scenario ob" "fresh_supply envs i ob"
    and "recovered scenario (map (repaired_payload scenario (ob_lab ob)) (recovery_kinds scenario)) = Inr holds"
  shows "\<exists>v ob'. verifier_verify envs i checked_at c incident operation ob = (Inr v, ob') \<and>
    (vr_passed v \<longleftrightarrow> holds \<and> (scenario \<in> set LEDGER_CHECKED \<longrightarrow> operation_matches (ob_lab ob) operation) \<and>
       lr_status operation \<in> {SUCCEEDED, DUPLICATE})"
proof -
  obtain d predicate where d: "dict_get (SCENARIOS (\<lambda>_. [])) scenario = Some d" "sd_recovery_predicate d = Some predicate"
    "sd_recovery_evidence_kinds d = recovery_kinds scenario"
    using recovery_predicate_declared[OF assms(1)] .
  have inc: "ctx_incident_id ctx = ''INC-'' @ scenario"
    using read_context_fields[OF assms(4)] assms(3) by simp
  obtain records ob' where r: "read_all envs i ctx (principal_of c) (recovery_kinds scenario) ob = (Inr records, ob')"
      "map le_payload records = map (repaired_payload scenario (ob_lab ob)) (recovery_kinds scenario)"
      "only_read (ob_lab ob) (ob_lab ob')"
    using read_all_repairable[OF assms(1) inc assms(5) recovery_kinds_served[OF assms(1)] assms(6,7)] readings_payloads
    by blast
  show ?thesis
    by (simp add: verifier_verify_def assms(2,4,8) d r(1,2) only_read_facts(4)[OF r(3)] Let_def)
qed

text \<open>One column per scenario that shows the fault.\<close>

lemma injected_faults:
  "injected_row ''D2'' n t ''health_status'' = Some (PInt 500)" "injected_row ''D3'' n t ''health_status'' = Some (PInt 503)"
  "injected_row ''D5'' n t ''log_bytes'' = Some (PInt 100663296)" "injected_row ''D8'' n t ''health_status'' = Some (PInt 503)"
  "injected_row ''R01'' n t ''schema_version'' = Some (PStr ''2026.08.10.5'')"
  "injected_row ''R02'' n t ''checkout_v2'' = Some (PBool True)"
  "injected_row ''R03'' n t ''payment_timeout_ms'' = Some (PStr ''fast'')"
  "injected_row ''R04'' n t ''old_pods'' = Some (PInt 8)" "injected_row ''R06'' n t ''plan_index'' = Some PNone"
  "injected_row ''R07'' n t ''customer_reads'' = Some (PStr ''replica-a'')"
  "injected_row ''R08'' n t ''active_id'' = Some (PStr ''db-app-2026-08'')"
  "injected_row ''R09'' n t ''request_rate'' = Some (PInt 160)"
  "injected_row ''R12'' n t ''response_adapter'' = Some (PStr ''none'')"
  "injected_row ''T1'' n t ''checkout_health'' = Some (PStr ''failing'')"
  "injected_row ''T2'' n t ''cache_health'' = Some (PStr ''failing'')"
  by (simp_all add: injected_row_def injected_columns_def INJECTED_COLUMNS_def dict_get_def touch_row_def)

lemma injected_not_recovered:
  assumes "scenario \<in> set REPAIRABLE" "db_fixtures db (fixture_key scenario) = Some (injected_row scenario n t)"
  shows "recovered scenario (map (repaired_payload scenario db) (recovery_kinds scenario)) = Inr False"
  using assms unfolding recovery_kinds_table REPAIRABLE_def list.set
  by (elim insertE emptyE; simp add: RECOVERIES_def dict_get_def repaired_payload_def sabotage_payload_def t1_payload_def
    t2_payload_def sabotage_recovered_def healthy_def recovery_eval column_def injected_faults)

end
