(* ===== verification/Recovery.thy ===== *)
theory Recovery
  imports Repair
begin

text \<open>
  The faults across the components: an injected fault is seen by the recovery verifier, the repair
  the scenario is evaluated through is recognized by it, and two scenarios can never be verified.
\<close>

lemma map_of_apsnd: "map_of (map (apsnd f) xs) k = map_option f (map_of xs k)"
  by (induction xs) auto

lemma injected_columns_mark:
  assumes "scenario \<in> set (REPAIRABLE @ [''T7'', ''T8''])" "scenario \<notin> {''D2'', ''D3''}"
  shows "map_of (injected_columns scenario n row) ''injected'' = Some (PBool True)"
  using assms unfolding REPAIRABLE_def set_append list.set
  by (elim UnE insertE emptyE; simp add: injected_columns_def INJECTED_COLUMNS_def dict_get_def)

lemma injected_row_injected:
  assumes "scenario \<in> set (REPAIRABLE @ [''T7'', ''T8''])" "scenario \<notin> {''D2'', ''D3''}"
  shows "injected (injected_row scenario n t)"
  using injected_columns_mark[OF assms, of n "baseline_row scenario t"]
  by (simp add: injected_def column_def injected_row_def touch_row_def map_of_apsnd)

lemma readable_row:
  assumes "scenario \<in> set (REPAIRABLE @ [''T7'', ''T8''])" "db_fixtures (ob_lab ob) (fixture_key scenario) = Some row"
    and "row ''injected'' = injected_row scenario n t ''injected''"
  shows "readable scenario ob"
proof (cases "scenario \<in> {''D2'', ''D3''}")
  case True
  then show ?thesis using assms(2) by (simp add: readable_def)
next
  case False
  have "injected row = injected (injected_row scenario n t)"
    using assms(3) by (simp add: injected_def column_def)
  then show ?thesis using injected_row_injected[OF assms(1) False] assms(2) by (simp add: readable_def)
qed

lemma fault_installed:
  assumes "scenario \<in> set REPAIRABLE" "reset_checkpoint ops env1 scenario ob0 = Inr ob1"
    and "inject_checkpoint ops env2 scenario ob1 = Inr ob2"
  shows "db_fixtures (ob_lab ob2) (fixture_key scenario) = Some (injected_row scenario (fx_now env2) (fx_db_now env1))"
    and "filter (\<lambda>r. lg_incident_id r = ''INC-'' @ scenario) (db_ledger (ob_lab ob2)) = []"
    and "filter (\<lambda>n. nt_incident_id n = ''INC-'' @ scenario) (db_t1_notes (ob_lab ob2)) = []"
  using reset_installs[OF assms(1,2)] inject_breaks[OF assms(1,3)] by (simp_all add: filter_empty_conv)

section \<open>A repair is recognized\<close>

text \<open>
  The verifier after the repair: \<open>ob2\<close> is the store with the fault, \<open>db\<close> what the run has made of
  its approvals and audit, \<open>ob3\<close> the store the operation leaves.
\<close>

lemma repair_recovers:
  assumes scenario: "scenario \<in> set REPAIRABLE"
    and fault: "db_fixtures db (fixture_key scenario) = Some (injected_row scenario n t)"
    and no_notes: "filter (\<lambda>x. nt_incident_id x = ''INC-'' @ scenario) (db_t1_notes db) = []"
    and no_rows: "filter (\<lambda>r. lg_incident_id r = ''INC-'' @ scenario) (db_ledger db) = []"
    and inv: "store_invariant db"
    and op: "repository_commit sha uuid5 (lab_registry sha) (evaluation_scope scenario) cenv ctx action token loss db =
      (Inr result, db')"
  shows "recovered scenario (map (repaired_payload scenario db') (recovery_kinds scenario)) = Inr True"
    and "operation_matches db' result" and "lr_status result = SUCCEEDED"
    and "\<exists>row. db_fixtures db' (fixture_key scenario) = Some row \<and> row ''injected'' = injected_row scenario n t ''injected''"
proof -
  obtain spec where spec: "lab_registry sha (evaluation_scope scenario) = Some spec" "heals spec scenario"
      "op_incident_id spec = ''INC-'' @ scenario" "op_fixture_key spec = fixture_key scenario" "keeps_injected spec"
    using evaluated_spec[OF scenario] .
  have c: "commit sha uuid5 spec cenv ctx action token loss db = (Inr result, db')"
    using op spec(1) by (simp add: repository_commit_def)
  obtain lt outcome db1 fixture where w: "lr_status result = SUCCEEDED" "ctx_incident_id (lr_context result) = ''INC-'' @ scenario"
      "db_fixtures db (op_fixture_key spec) = Some fixture" "lt_fixture lt = fixture" "op_mutation spec lt db = Inr (outcome, db1)"
      "db_fixtures db' = db_fixtures (written spec outcome (ce_now cenv) db1)" "db_t1_notes db' = db_t1_notes db1"
    using repair_commit[OF spec(1,3) c no_rows] .
  have lt: "lt_fixture lt = injected_row scenario n t" using w(3,4) spec(4) fault by simp
  have "db_t1_notes (written spec outcome (ce_now cenv) db1) = db_t1_notes db1"
    by (simp add: written_def update_fixture_def)
  moreover have "scenario \<noteq> ''T4''" using scenario by (auto simp: REPAIRABLE_def)
  ultimately have "repaired_payload scenario db' = repaired_payload scenario (written spec outcome (ce_now cenv) db1)"
    using w(6,7) by (intro repaired_payload_cong) simp_all
  then show "recovered scenario (map (repaired_payload scenario db') (recovery_kinds scenario)) = Inr True"
    using spec(2) w(5) lt fault no_notes unfolding heals_def by metis
  show "operation_matches db' result"
    using lookup_recognizes[OF spec(1) c inv] w(2) by (simp add: remove_prefix_def)
  show "lr_status result = SUCCEEDED" by (rule w(1))
  show "\<exists>row. db_fixtures db' (fixture_key scenario) = Some row \<and> row ''injected'' = injected_row scenario n t ''injected''"
    using spec(5)[unfolded keeps_injected_def] w(5,6) fault spec(4) by metis
qed



section \<open>T7 and T8\<close>

lemma t7_t8_not_recovered:
  assumes "scenario \<in> {''T7'', ''T8''}"
  shows "recovered scenario (map (repaired_payload scenario db) (recovery_kinds scenario)) = Inr False"
  using assms unfolding recovery_kinds_table
  by (elim insertE emptyE; simp add: RECOVERIES_def dict_get_def repaired_payload_def sabotage_payload_def t7_payload_def t8_payload_def
      recovery_eval Let_def)

text \<open>
  C19: the verifier can never pass T7 or T8. Their declared recovery facts (the approved hash is the
  executed one; the release is back and the privileged baseline preserved) are read from the right
  surfaces, but the verdict falls through to the predicate of R08, whose columns those readings do
  not have.
\<close>

theorem t7_t8_never_verified:
  assumes "scenario \<in> {''T7'', ''T8''}"
    and "idn_scenario_id incident = scenario" and "idn_incident_id incident = ''INC-'' @ scenario"
    and "read_context incident c = Inr rctx" and "require_read rctx (principal_of c) = Inr ()"
    and "readable scenario ob" and "fresh_supply envs i ob"
  shows "\<exists>v ob'. verifier_verify envs i checked_at c incident operation ob = (Inr v, ob') \<and> \<not> vr_passed v"
proof -
  have "scenario \<in> set (REPAIRABLE @ [''T7'', ''T8''])" using assms(1) by auto
  from verify_reads[OF this assms(2-7) t7_t8_not_recovered[OF assms(1)]] show ?thesis by blast
qed

section \<open>The theorems on D8 and T7\<close>

definition example_ops :: "string \<Rightarrow> operation_spec list" where
  "example_ops = operation_specs_for (\<lambda>_. example_hash)"

definition example_fixture_env :: fixture_env where
  "example_fixture_env = \<lparr>fx_now = 0, fx_db_now = 0, fx_uuid = id\<rparr>"

lemma preparation_valid:
  assumes "scenario \<in> set SCENARIO_IDS"
  obtains specs where "validate_scenario_preparation (operation_specs_for sha) scenario = Inr specs"
proof -
  obtain d where d: "dict_get (SCENARIOS (operation_specs_for sha)) scenario = Some d"
    using assms SCENARIOS_keys[of "operation_specs_for sha"] unfolding dict_get_def
    by (metis map_of_eq_None_iff not_None_eq list.set_map)
  then have "(scenario, d) \<in> set (SCENARIOS (operation_specs_for sha))"
    by (simp add: dict_get_def map_of_SomeD)
  then have "first_failure (scenario_checks scenario d) = None"
    using scenarios_ok[of sha] unfolding list_all_iff by fastforce
  then show ?thesis
    using that d by (simp add: validate_scenario_preparation_def validate_scenario_definition_def validated_def)
qed

lemma example_fault:
  obtains ob1 ob2 where
    "reset_checkpoint example_ops example_fixture_env ''D8'' (empty_observability empty_db) = Inr ob1"
    "inject_checkpoint example_ops example_fixture_env ''D8'' ob1 = Inr ob2" "ob_sources ob2 = []" "ob_records ob2 = []"
proof -
  have "''D8'' \<in> set SCENARIO_IDS" by code_simp
  then obtain specs where v: "validate_scenario_preparation example_ops ''D8'' = Inr specs"
    using preparation_valid[of "''D8''" "\<lambda>_. example_hash"] unfolding example_ops_def by blast
  have s: "checkpoint_scenario ''D8'' = Inr (''D8'', ''INC-D8'')" "dict_get INJECTED_SOURCES ''D8'' = None" by code_simp+
  have r: "reset_checkpoint example_ops example_fixture_env ''D8'' (empty_observability empty_db) = Inr ob1 \<longrightarrow>
      ob_sources ob1 = [] \<and> ob_records ob1 = []" for ob1
    by (auto simp: reset_checkpoint_def initialize_checkpoint_if_absent_def s v Let_def delete_incident_reads_def
        empty_observability_def)
  obtain ob1 where ob1: "reset_checkpoint example_ops example_fixture_env ''D8'' (empty_observability empty_db) = Inr ob1"
    by (simp add: reset_checkpoint_def initialize_checkpoint_if_absent_def s v Let_def)
  moreover have "inject_checkpoint example_ops example_fixture_env ''D8'' ob1 =
      Inr (ob1\<lparr>ob_lab := break_fixture ''D8'' (fx_now example_fixture_env) (ob_lab ob1)\<rparr>)"
    by (simp add: inject_checkpoint_def s v)
  ultimately show ?thesis
    using that r by simp
qed

definition example_repair_identity :: incident_identity where
  "example_repair_identity = \<lparr>idn_incident_id = ''INC-D8'', idn_scenario_id = ''D8'', idn_thread_id = ''t'',
     idn_correlation_id = ''c'', idn_state = AWAITING_APPROVAL\<rparr>"

definition example_reader :: caller where
  "example_reader = \<lparr>cal_actor = ''reader'', cal_role = OBSERVER\<rparr>"

definition example_supply :: "nat \<Rightarrow> read_env" where
  "example_supply i = \<lparr>re_now = 60, re_source_id = i, re_evidence_id = replicate i CHR ''x'', re_sha = id,
     re_isoformat = (\<lambda>_. [])\<rparr>"

lemma example_supply_fresh: "ob_sources ob = [] \<Longrightarrow> ob_records ob = [] \<Longrightarrow> fresh_supply example_supply 0 ob"
  by (simp add: fresh_supply_def example_supply_def)

definition example_broken :: lab_db where
  "example_broken = snd (approve length (example_service\<lparr>as_incident_id := ''INC-D8''\<rparr>) example_env
     example_request example_approver (example_prepared\<lparr>db_fixtures := (\<lambda>k. if k = (''d8_fixture_state'', ''D8'')
       then Some (injected_row ''D8'' 0 0) else None)\<rparr>))"

lemma approve_frame:
  "db_fixtures (snd (approve uuid5 svc env request p db)) = db_fixtures db"
  "db_t1_notes (snd (approve uuid5 svc env request p db)) = db_t1_notes db"
  by (auto simp: approve_def deny_approval_def record_approval_def append_audit_event_def insert_audit_def Let_def bind_res_def
      split: sum.splits if_splits)

lemma example_broken_facts:
  "db_fixtures example_broken (fixture_key ''D8'') = Some (injected_row ''D8'' 0 0)"
  "db_t1_notes example_broken = []" "db_ledger example_broken = []" "store_invariant example_broken"
proof -
  have "store_invariant (example_prepared\<lparr>db_fixtures := f\<rparr>)" for f
    by (simp add: store_invariant_defs example_prepared_def empty_db_def)
  then show "store_invariant example_broken"
    unfolding example_broken_def by (rule approve_invariant) (rule prod.collapse[symmetric])
qed (simp_all add: example_broken_def approve_frame approve_ledger fixture_keys, simp_all add: example_prepared_def empty_db_def)

lemma example_repair:
  obtains result db' where "repository_commit (\<lambda>_. example_hash) length (lab_registry (\<lambda>_. example_hash))
    (evaluation_scope ''D8'') (example_call_env 50) example_context example_restart example_token False example_broken =
    (Inr result, db')"
proof -
  have "evaluation_scope ''D8'' = ''d8-api-restart''" by code_simp
  moreover have "case fst (example_commit 50 example_context example_restart False example_broken) of Inr r \<Rightarrow> True | _ \<Rightarrow> False"
    by code_simp
  ultimately show ?thesis
    using that by (auto simp: repository_commit_def example_registered example_commit_def prod_eq_iff split: sum.splits)
qed

lemma example_readers:
  "\<exists>rctx. read_context example_repair_identity example_reader = Inr rctx \<and> require_read rctx (principal_of example_reader) = Inr ()"
proof -
  have "case read_context example_repair_identity example_reader of
      Inr rctx \<Rightarrow> require_read rctx (principal_of example_reader) = Inr () | Inl _ \<Rightarrow> False" by code_simp
  then show ?thesis by (auto split: sum.splits)
qed



definition example_t7 :: observability where
  "example_t7 = empty_observability (empty_db\<lparr>db_fixtures := (\<lambda>k. if k = (''t7_fixture_state'', ''T7'')
     then Some (injected_row ''T7'' 0 0) else None)\<rparr>)"

definition example_t7_identity :: incident_identity where
  "example_t7_identity = example_repair_identity\<lparr>idn_incident_id := ''INC-T7'', idn_scenario_id := ''T7''\<rparr>"

theorem t7_t8_never_verified_witness:
  "\<forall>operation. \<exists>v ob'. verifier_verify example_supply 0 60 example_reader example_t7_identity operation example_t7 = (Inr v, ob') \<and>
     \<not> vr_passed v"
proof -
  have "case read_context example_t7_identity example_reader of
      Inr rctx \<Rightarrow> require_read rctx (principal_of example_reader) = Inr () | Inl _ \<Rightarrow> False" by code_simp
  then obtain rctx where r: "read_context example_t7_identity example_reader = Inr rctx"
      "require_read rctx (principal_of example_reader) = Inr ()" by (auto split: sum.splits)
  have "injected (injected_row ''T7'' 0 0)" by (rule injected_row_injected) simp_all
  then have d: "readable ''T7'' example_t7"
    by (simp add: readable_def example_t7_def empty_observability_def fixture_keys)
  have "\<exists>v ob'. verifier_verify example_supply 0 60 example_reader example_t7_identity operation example_t7 = (Inr v, ob') \<and>
      \<not> vr_passed v" for operation
    by (rule t7_t8_never_verified[OF _ _ _ r d example_supply_fresh])
      (simp_all add: example_t7_identity_def example_repair_identity_def example_t7_def empty_observability_def)
  then show ?thesis by blast
qed

end
