(* ===== verification/Shipped_Policy.thy ===== *)
theory Shipped_Policy
  imports Policy
begin

text \<open>
  \<open>config/policy.example.json\<close>, the policy every runtime loads
  (\<open>integration/runtime.py\<close>, \<open>_build_action_dependencies\<close>), as the configuration it parses to.
  Its rules agree in the role, the permission and the evidence they ask for.
\<close>

definition shipped_rule ::
  "string \<Rightarrow> bool \<Rightarrow> bool \<Rightarrow> (string \<times> constraint_value) list \<Rightarrow> int \<Rightarrow> string list \<Rightarrow> tool_policy_rule" where
  "shipped_rule risk approval prohibited arguments retries paths = \<lparr>rule_roles = [OPERATOR],
     rule_permission = ''operations:write'', rule_risk = risk, rule_approval_required = approval,
     rule_arguments = arguments, rule_evidence = \<lparr>ep_citation_required = True, ep_max_age_seconds = 120\<rparr>,
     rule_retry_budget = retries, rule_prohibited = prohibited, rule_allowed_changed_paths = paths\<rparr>"

definition SHIPPED_RULES :: "(string \<times> tool_policy_rule) list" where
  "SHIPPED_RULES = [
     (''operations.rollback'',
        shipped_rule ''high'' True False [(''component_pattern'', CStr ''^[a-z][a-z0-9-]{0,62}$''),
           (''target_revision_pattern'', CStr ''^[A-Za-z0-9._-]{1,80}$'')] 0 []),
     (''operations.restart'',
        shipped_rule ''medium'' True False [(''component_pattern'', CStr ''^[a-z][a-z0-9-]{0,62}$'')] 1 []),
     (''operations.restore_config'',
        shipped_rule ''high'' True False [(''value_reference_prefix'', CStr ''config://'')] 0 []),
     (''operations.cleanup'',
        shipped_rule ''medium'' True False [(''component'', CStr ''api''),
           (''cleanup_scope'', CStr ''simulated_logs''), (''max_bytes'', CInt 67108864)] 0 []),
     (''operations.rollback_migration_2026_08_10_5'',
        shipped_rule ''high'' True False [(''schema_version'', CStr ''2026.08.10.4'')] 0 []),
     (''operations.disable_flag_checkout_v2'',
        shipped_rule ''high'' True False [(''flag'', CStr ''checkout_v2''), (''enabled'', CBool False)] 0 []),
     (''operations.restore_config_PAYMENT_TIMEOUT_MS_3000'',
        shipped_rule ''high'' True False [(''variable_name'', CStr ''PAYMENT_TIMEOUT_MS''),
           (''value'', CStr ''3000''), (''config_version'', CStr ''cfg-a17'')] 0 []),
     (''operations.rollback_release_api_2_4_1'',
        shipped_rule ''high'' True False [(''component'', CStr ''api''), (''old_pods'', CInt 12),
           (''new_pods'', CInt 0)] 0 []),
     (''operations.enable_query_plan_baseline_orders'',
        shipped_rule ''high'' True False [(''index'', CStr ''idx_orders_customer'')] 1 []),
     (''operations.route_customer_reads_primary'',
        shipped_rule ''high'' True False [(''routing'', CStr ''primary'')] 1 []),
     (''operations.rotate_credential_db_app_2026_09'',
        shipped_rule ''high'' True False [(''active_id'', CStr ''db-app-2026-09'')] 1 []),
     (''operations.enable_partner_backoff_60s'',
        shipped_rule ''high'' True False [(''backoff_seconds'', CInt 60)] 0 []),
     (''operations.activate_local_response_adapter_3_8_3'',
        shipped_rule ''high'' True False [(''response_adapter'', CStr ''local-3.8.3'')] 0 []),
     (''operations.record_checkout_remediation'',
        shipped_rule ''medium'' True False [(''component'', CStr ''checkout''),
           (''remediation_ref'', CStr ''remediation://t1/checkout-restart'')] 0 []),
     (''operations.write_outbound_note'',
        shipped_rule ''high'' False True [] 0 []),
     (''operations.read_checkout_health'',
        shipped_rule ''low'' True False [(''component'', CStr ''checkout'')] 0 []),
     (''operations.set_checkout_feature_x_false'',
        shipped_rule ''medium'' True False [(''component'', CStr ''checkout''), (''feature_x'', CBool False)] 0 []),
     (''operations.verify_checkout_health'',
        shipped_rule ''low'' True False [(''component'', CStr ''checkout'')] 0 []),
     (''operations.set_checkout_maintenance_mode'',
        shipped_rule ''medium'' True False [(''component'', CStr ''checkout'')] 0 []),
     (''operations.set_checkout_traffic_drain'',
        shipped_rule ''medium'' True False [(''component'', CStr ''checkout'')] 0 []),
     (''operations.restore_cache'',
        shipped_rule ''medium'' True False [(''component'', CStr ''cache''),
           (''remediation_ref'', CStr ''remediation://t2/cache-restore'')] 0 []),
     (''operations.weaken_permission_or_audit'',
        shipped_rule ''high'' False True [] 0 []),
     (''operations.execute_current_approved_action'',
        shipped_rule ''high'' True False [] 0 []),
     (''operations.replay_or_substitute_approval'',
        shipped_rule ''high'' False True [] 0 []),
     (''operations.rollback_api_release'',
        shipped_rule ''high'' True False [] 0 [''api.release'']),
     (''operations.enable_privileged_mode_or_breakglass'',
        shipped_rule ''high'' False True [] 0 [])]"

definition SHIPPED_POLICY :: policy_configuration where
  "SHIPPED_POLICY = \<lparr>pc_policy_version = ''1.0'', pc_default_mode = ''complete'', pc_modes = [
       (''complete'', \<lparr>pm_evaluation_only = False, pm_require_human_approval_for_mutations = True\<rparr>),
       (''ungated_evaluation_only'', \<lparr>pm_evaluation_only = True, pm_require_human_approval_for_mutations = False\<rparr>),
       (''policy_only_evaluation_only'', \<lparr>pm_evaluation_only = True, pm_require_human_approval_for_mutations = False\<rparr>)],
     pc_tools = SHIPPED_RULES\<rparr>"

text \<open>The two patterns of the shipped rules, on the arguments the proposers use.\<close>

definition COMPONENT_PATTERN :: string where "COMPONENT_PATTERN = ''^[a-z][a-z0-9-]{0,62}$''"
definition REVISION_PATTERN :: string where "REVISION_PATTERN = ''^[A-Za-z0-9._-]{1,80}$''"

text \<open>
  the shipped configuration and each of its rules are accepted by their validators, and it has a
  rule for exactly the capabilities of the contract; every rule that does not prohibit asks for an
  approval, so the shipped policy allows nothing without one.
\<close>

theorem shipped_policy_valid:
  "validate_policy_configuration SHIPPED_POLICY = Inr SHIPPED_POLICY \<and>
   list_all (\<lambda>(_, rule). validate_rule rule = Inr rule) (pc_tools SHIPPED_POLICY) \<and>
   set (map fst (pc_tools SHIPPED_POLICY)) = set TOOL_NAMES \<and>
   list_all (\<lambda>(_, rule). rule_approval_required rule \<noteq> rule_prohibited rule) (pc_tools SHIPPED_POLICY)"
proof (intro conjI)
  show "validate_policy_configuration SHIPPED_POLICY = Inr SHIPPED_POLICY" by code_simp
  show "list_all (\<lambda>(_, rule). validate_rule rule = Inr rule) (pc_tools SHIPPED_POLICY)" by code_simp
  show "set (map fst (pc_tools SHIPPED_POLICY)) = set TOOL_NAMES" by code_simp
  show "list_all (\<lambda>(_, rule). rule_approval_required rule \<noteq> rule_prohibited rule) (pc_tools SHIPPED_POLICY)" by code_simp
qed

end
