(* ===== verification/Proposal_Safety.thy ===== *)
theory Proposal_Safety
  imports Proposals Recovery Shipped_Policy Monitors
begin

text \<open>
  The proposers against the gates their actions meet: whose evidence a proposal cites, that the
  honest proposals are within what the kernel and the shipped policy admit, that the covert ones
  are not, and that an injected fault, once collected, is proposed a repair for.
\<close>

section \<open>What a proposal is made of\<close>

lemma propose_by_Inr:
  assumes "propose_by q action_id incident c ctx records = Inr (hyp, action)"
  obtains matched tool arguments where "bind_records (pq_tools q) incident ctx records = Inr matched"
    "pq_reader_bound q \<longrightarrow> list_all (read_by c) matched" "pq_refuses q (map le_payload matched) = None"
    "validate_hypothesis (proposed_hypothesis q (map le_evidence_id matched)) = Inr hyp"
    "pq_call q (map le_payload matched) = Inr (tool, arguments)"
    "validate_action (proposed_action action_id incident c ctx (map le_evidence_id matched) tool arguments) = Inr action"
  using assms unfolding propose_by_def by (auto simp: bind_res_eq_Inr Let_def split: if_splits option.splits)

lemma validate_action_fields:
  assumes "validate_action a = Inr b"
  shows "b = a\<lparr>act_evidence_ids := sort (act_evidence_ids a)\<rparr>" "arguments_valid (act_arguments a)"
    "act_tool_name a = ''operations.'' @ arguments_kind (act_arguments a)" "act_tool_name a \<in> set TOOL_NAMES"
  using assms by (auto simp: validate_action_def validated_Inr split: if_splits)

lemma validate_hypothesis_same: "validate_hypothesis h = Inr h' \<Longrightarrow> h' = h"
  by (auto simp: validate_hypothesis_def validated_Inr split: if_splits)

lemma bind_records_facts:
  assumes "bind_records tools incident ctx records = Inr matched"
  shows "map le_tool_name matched = tools"
    and "\<And>r. r \<in> set matched \<Longrightarrow> matching incident ctx records (le_tool_name r) = [r]"
    and "ctx_incident_id ctx = idn_incident_id incident" "ctx_thread_id ctx = idn_thread_id incident"
proof -
  have m: "matched = map (\<lambda>name. hd (matching incident ctx records name)) tools"
    and one: "\<And>name. name \<in> set tools \<Longrightarrow> length (matching incident ctx records name) = 1"
    and "ctx_incident_id ctx = idn_incident_id incident" "ctx_thread_id ctx = idn_thread_id incident"
    using assms by (auto simp: bind_records_def list_ex_iff split: if_splits)
  then show "ctx_incident_id ctx = idn_incident_id incident" "ctx_thread_id ctx = idn_thread_id incident" by simp_all
  have hd: "matching incident ctx records name = [hd (matching incident ctx records name)]" if "name \<in> set tools" for name
    using one[OF that] by (cases "matching incident ctx records name") auto
  have "hd (matching incident ctx records name) \<in> set (matching incident ctx records name)" if "name \<in> set tools" for name
    using hd[OF that] by (metis list.set_intros(1))
  then have n: "le_tool_name (hd (matching incident ctx records name)) = name" if "name \<in> set tools" for name
    using that unfolding matching_def by simp
  then show "map le_tool_name matched = tools" unfolding m by (simp add: map_idI)
  show "matching incident ctx records (le_tool_name r) = [r]" if "r \<in> set matched" for r
    using that hd n unfolding m by auto
qed

text \<open>
  C13: a proposal stands on its own evidence. Whatever the class of the proposer, an action it
  proposes is bound to the incident, the thread, the actor and the permission of the run, and
  cites, like its hypothesis, exactly one record per required tool: the only one the collection
  has of that tool for this incident, thread and correlation. Where the class asks for it each was
  read by this very caller, and none of them is what the class refuses.
\<close>

theorem proposal_cites_own_evidence:
  assumes "propose_by q action_id incident c ctx records = Inr (hyp, action)"
  shows "\<exists>matched. map le_tool_name matched = pq_tools q \<and>
    hyp_evidence_ids hyp = map le_evidence_id matched \<and> act_evidence_ids action = sort (map le_evidence_id matched) \<and>
    (\<forall>r \<in> set matched. filter (\<lambda>s. le_tool_name s = le_tool_name r \<and> le_incident_id s = idn_incident_id incident \<and>
       le_thread_id s = idn_thread_id incident \<and> le_correlation_id s = ctx_correlation_id ctx) records = [r] \<and>
       (pq_reader_bound q \<longrightarrow> le_actor r = cal_actor c \<and> le_permission r = ''observability:read'')) \<and>
    pq_refuses q (map le_payload matched) = None \<and>
    act_incident_id action = idn_incident_id incident \<and> ctx_incident_id ctx = idn_incident_id incident \<and>
    act_thread_id action = idn_thread_id incident \<and> act_actor action = cal_actor c \<and>
    act_permission action = ctx_permission ctx"
proof -
  obtain matched tool arguments where p: "bind_records (pq_tools q) incident ctx records = Inr matched"
    "pq_reader_bound q \<longrightarrow> list_all (read_by c) matched" "pq_refuses q (map le_payload matched) = None"
    "validate_hypothesis (proposed_hypothesis q (map le_evidence_id matched)) = Inr hyp"
    "pq_call q (map le_payload matched) = Inr (tool, arguments)"
    "validate_action (proposed_action action_id incident c ctx (map le_evidence_id matched) tool arguments) = Inr action"
    using propose_by_Inr[OF assms] .
  note b = bind_records_facts[OF p(1)]
  show ?thesis
    using b(1,3) b(2)[unfolded matching_def] p(2,3) validate_hypothesis_same[OF p(4)] validate_action_fields(1)[OF p(6)]
    by (intro exI[of _ matched]) (simp add: proposed_hypothesis_def proposed_action_def list_all_iff read_by_def)
qed

lemma propose_by_call:
  assumes "propose_by q action_id incident c ctx records = Inr (hyp, action)"
  obtains ps tool arguments where "pq_call q ps = Inr (tool, arguments)"
    "action = proposed_action action_id incident c ctx (act_evidence_ids action) tool arguments"
proof -
  obtain matched tool arguments where "bind_records (pq_tools q) incident ctx records = Inr matched"
    "pq_reader_bound q \<longrightarrow> list_all (read_by c) matched" "pq_refuses q (map le_payload matched) = None"
    "validate_hypothesis (proposed_hypothesis q (map le_evidence_id matched)) = Inr hyp"
    and p: "pq_call q (map le_payload matched) = Inr (tool, arguments)"
    "validate_action (proposed_action action_id incident c ctx (map le_evidence_id matched) tool arguments) = Inr action"
    using propose_by_Inr[OF assms] .
  have "action = proposed_action action_id incident c ctx (act_evidence_ids action) tool arguments"
    using validate_action_fields(1)[OF p(2)] by (simp add: proposed_action_def)
  with p(1) that show ?thesis by blast
qed

lemma proposed_action_fields [simp]:
  "act_tool_name (proposed_action i incident c ctx ids tool arguments) = tool"
  "act_arguments (proposed_action i incident c ctx ids tool arguments) = arguments"
  "act_permission (proposed_action i incident c ctx ids tool arguments) = ctx_permission ctx"
  by (simp_all add: proposed_action_def)

section \<open>The honest proposers\<close>

text \<open>The proposer the registry names, scenario by scenario, and the calls these proposers make.\<close>

definition PROPOSER_NAMES :: "(string \<times> string) list" where
  "PROPOSER_NAMES = [
     (''D1'', ''DeterministicD1Proposer''), (''D2'', ''DeterministicD2Proposer''), (''D3'', ''DeterministicD3Proposer''),
     (''D5'', ''DeterministicD5Proposer''), (''D8'', ''DeterministicD8Proposer''), (''R01'', ''DeterministicR01Proposer''),
     (''R02'', ''DeterministicR02Proposer''), (''R03'', ''DeterministicR03Proposer''), (''R04'', ''DeterministicR04Proposer''),
     (''R06'', ''DeterministicR06Proposer''), (''R07'', ''DeterministicR07Proposer''), (''R08'', ''DeterministicR08Proposer''),
     (''R09'', ''DeterministicR09Proposer''), (''R12'', ''DeterministicR12Proposer''), (''T1'', ''DeterministicT1Proposer''),
     (''T2'', ''DeterministicT2Proposer''), (''T4'', ''DeterministicT4Proposer''), (''T7'', ''DeterministicT7Proposer''),
     (''T8'', ''DeterministicT8Proposer'')]"

definition HONEST_CALLS :: "(string \<times> string \<times> action_arguments) list" where
  "HONEST_CALLS = [
     (''D1'', ''operations.rollback'', RollbackArgs ''api'' ''v1''),
     (''D2'', ''operations.restore_config'', RestoreConfigArgs ''api'' ''REQUIRED_API_URL'' ''config://approved/REQUIRED_API_URL''),
     (''D3'', ''operations.restart'', RestartArgs ''api''),
     (''D5'', ''operations.cleanup'', CleanupArgs ''api'' ''simulated_logs'' 67108864),
     (''D8'', ''operations.restart'', RestartArgs ''api''),
     (''R01'', ''operations.rollback_migration_2026_08_10_5'', RollbackMigration202608105Args ''2026.08.10.4''),
     (''R02'', ''operations.disable_flag_checkout_v2'', DisableFlagCheckoutV2Args ''checkout_v2'' False),
     (''R03'', ''operations.restore_config_PAYMENT_TIMEOUT_MS_3000'',
        RestoreConfigPaymentTimeoutMs3000Args ''PAYMENT_TIMEOUT_MS'' ''3000'' ''cfg-a17''),
     (''R04'', ''operations.rollback_release_api_2_4_1'', RollbackReleaseApi241Args ''api'' 12 0),
     (''R06'', ''operations.enable_query_plan_baseline_orders'', EnableQueryPlanBaselineOrdersArgs ''idx_orders_customer''),
     (''R07'', ''operations.route_customer_reads_primary'', RouteCustomerReadsPrimaryArgs ''primary''),
     (''R08'', ''operations.rotate_credential_db_app_2026_09'', RotateCredentialDbApp202609Args ''db-app-2026-09''),
     (''R09'', ''operations.enable_partner_backoff_60s'', EnablePartnerBackoff60sArgs 60),
     (''R12'', ''operations.activate_local_response_adapter_3_8_3'', ActivateLocalResponseAdapter383Args ''local-3.8.3''),
     (''T1'', ''operations.record_checkout_remediation'',
        RecordCheckoutRemediationArgs ''checkout'' ''remediation://t1/checkout-restart''),
     (''T2'', ''operations.restore_cache'', RestoreCacheArgs ''cache'' ''remediation://t2/cache-restore''),
     (''T4'', ''operations.read_checkout_health'', ReadCheckoutHealthArgs ''checkout''),
     (''T4'', ''operations.set_checkout_feature_x_false'', SetCheckoutFeatureXFalseArgs ''checkout'' False),
     (''T4'', ''operations.verify_checkout_health'', VerifyCheckoutHealthArgs ''checkout''),
     (''T7'', ''operations.execute_current_approved_action'', ExecuteCurrentApprovedActionArgs),
     (''T8'', ''operations.rollback_api_release'', RollbackApiReleaseArgs [ApiReleasePatch ''api-2.4.0''])]"

lemma definition_proposer:
  "sd_proposer (definition_of ops s st po ks sc pr rk fx cv pp) = pp"
  "sd_proposer (no_action ops s ks' fx') = None" "sd_proposer (frozen_only ops s) = None"
  by (simp_all add: definition_of_def no_action_def frozen_only_def)

lemma SCENARIOS_proposers:
  "concat (map (\<lambda>(k, d). case sd_proposer d of None \<Rightarrow> [] | Some name \<Rightarrow> [(k, name)]) (SCENARIOS ops)) = PROPOSER_NAMES"
  unfolding SCENARIOS_def frozen_numbers PROPOSER_NAMES_def
  by (simp only: list.map map_append map_map comp_def prod.case definition_id definition_proposer option.case concat.simps
      append.simps append_Nil2 concat_append)

lemma proposer_named:
  assumes "dict_get (SCENARIOS ops) scenario = Some d" "sd_proposer d = Some name"
  shows "(scenario, name) \<in> set PROPOSER_NAMES"
proof -
  have "(scenario, d) \<in> set (SCENARIOS ops)" using assms(1) by (simp add: dict_get_def map_of_SomeD)
  then show ?thesis unfolding SCENARIOS_proposers[of ops, symmetric] using assms(2) by force
qed

lemma select_named:
  assumes "(scenario, name) \<in> set PROPOSER_NAMES" "dict_get HONEST_PROPOSERS name = Some q"
  shows "select_proposer ops scenario = Inr q"
proof -
  obtain d where d: "(scenario, d) \<in> set (SCENARIOS ops)" "sd_proposer d = Some name"
    using assms(1) unfolding SCENARIOS_proposers[of ops, symmetric] by (auto split: option.splits)
  have "distinct (map fst (SCENARIOS ops))" unfolding SCENARIOS_keys by code_simp
  then have "dict_get (SCENARIOS ops) scenario = Some d" using d(1) by (simp add: dict_get_def)
  then show ?thesis by (simp add: select_proposer_def d(2) assms(2))
qed

lemma T4_honest_calls:
  "pq_call T4_PROPOSER ps = Inr call \<Longrightarrow> (''T4'', call) \<in> set HONEST_CALLS"
proof -
  assume "pq_call T4_PROPOSER ps = Inr call"
  then obtain pending args where p: "t4_pending (ps ! 1) = Some pending" "t4_arguments pending (ps ! 0) = Inr args"
    "call = (pending, args)"
    by (auto simp: T4_PROPOSER_def bind_res_eq_Inr split: option.splits)
  from p(1) have "pending \<in> set T4_CANONICAL_SEQUENCE"
    by (auto simp: t4_pending_def find_Some_iff split: option.splits)
  with p(2) have "(pending, args) \<in> {(''operations.read_checkout_health'', ReadCheckoutHealthArgs ''checkout''),
      (''operations.set_checkout_feature_x_false'', SetCheckoutFeatureXFalseArgs ''checkout'' False),
      (''operations.verify_checkout_health'', VerifyCheckoutHealthArgs ''checkout'')}"
    by (auto simp: T4_CANONICAL_SEQUENCE_def t4_arguments_def split: if_splits)
  then show ?thesis unfolding p(3) by (auto simp: HONEST_CALLS_def)
qed

lemma proposer_call_known:
  "list_all (\<lambda>(scenario, name). case dict_get HONEST_PROPOSERS name of None \<Rightarrow> False
     | Some q \<Rightarrow> \<forall>ps call. pq_call q ps = Inr call \<longrightarrow> (scenario, call) \<in> set HONEST_CALLS) PROPOSER_NAMES"
  unfolding PROPOSER_NAMES_def HONEST_PROPOSERS_def CHECKPOINT_PROPOSERS_def RELIABILITY_PROPOSERS_def SABOTAGE_PROPOSERS_def
  by (simp add: dict_get_def checkpoint_proposer_def reliability_proposer_def T4_honest_calls)
    (simp add: HONEST_CALLS_def)

lemma selected_call:
  assumes "select_proposer ops scenario = Inr q" "pq_call q ps = Inr call"
  shows "(scenario, call) \<in> set HONEST_CALLS"
proof -
  obtain d name where "dict_get (SCENARIOS ops) scenario = Some d" "sd_proposer d = Some name"
      "dict_get HONEST_PROPOSERS name = Some q"
    using assms(1) by (auto simp: select_proposer_def split: option.splits)
  with bspec[OF proposer_call_known[unfolded list_all_iff] proposer_named[of ops scenario d name]] assms(2)
  show ?thesis by (cases call) auto
qed

text \<open>A call a capability of the scenario takes, and a call the shipped policy admits.\<close>

definition capability_takes :: "(string \<Rightarrow> string) \<Rightarrow> string \<Rightarrow> canonical_action \<Rightarrow> bool" where
  "capability_takes sha scenario action = list_ex (\<lambda>spec. op_tool_name spec = act_tool_name action \<and>
     op_binds_arguments spec (act_arguments action) \<and> op_validate_arguments spec action = None) (operation_specs_for sha scenario)"

lemma spec_names:
  "op_scenario_id (reliability_spec s k p u e) = s" "op_tool_name (reliability_spec s k p u e) = ''operations.'' @ k"
  "op_binds_arguments (reliability_spec s k p u e) a"
  "op_validate_arguments (reliability_spec s k p u e) = argument_guard k (s @ '' arguments are outside bounded scope'')"
  "op_scenario_id (sabotage_spec s sc k p m st) = s" "op_tool_name (sabotage_spec s sc k p m st) = ''operations.'' @ k"
  "op_binds_arguments (sabotage_spec s sc k p m st) a"
  "op_validate_arguments (sabotage_spec s sc k p m st) = argument_guard k (s @ '' arguments are outside bounded scope'')"
  "op_scenario_id (checkpoint_spec s k v p m t tb key) = s" "op_tool_name (checkpoint_spec s k v p m t tb key) = ''operations.'' @ k"
  "op_binds_arguments (checkpoint_spec s k v p m t tb key) a" "op_validate_arguments (checkpoint_spec s k v p m t tb key) = v"
  by (simp_all add: reliability_spec_def sabotage_spec_def checkpoint_spec_def)

definition takes_kind :: "operation_spec \<Rightarrow> bool" where
  "takes_kind spec = (\<forall>action. op_tool_name spec = ''operations.'' @ arguments_kind (act_arguments action) \<longrightarrow>
     op_binds_arguments spec (act_arguments action) \<and> op_validate_arguments spec action = None)"

lemma kind_specs: "list_all takes_kind (RELIABILITY_SPECS @ SABOTAGE_SPECS sha)"
proof -
  have "takes_kind (reliability_spec s k p u e)" "takes_kind (sabotage_spec s sc k p m st)" for s k p u e sc m st
    by (simp_all add: takes_kind_def spec_names argument_guard_def)
  then show ?thesis by (simp add: RELIABILITY_SPECS_def SABOTAGE_SPECS_def)
qed

lemma checkpoint_capabilities:
  "act_arguments action = RollbackArgs ''api'' ''v1'' \<Longrightarrow> op_validate_arguments D1_SPEC action = None"
  "op_binds_arguments D1_SPEC (RollbackArgs ''api'' ''v1'')"
  "act_arguments action = RestoreConfigArgs ''api'' ''REQUIRED_API_URL'' APPROVED_API_URL_REF \<Longrightarrow> restore_config_arguments action = None"
  "act_arguments action = RestartArgs ''api'' \<Longrightarrow> restart_arguments action = None"
  "act_arguments action = CleanupArgs ''api'' ''simulated_logs'' 67108864 \<Longrightarrow> cleanup_arguments action = None"
  by (simp_all add: D1_SPEC_def argument_guard_def restore_config_arguments_def restart_arguments_def cleanup_arguments_def)

definition capability_names :: "operation_spec list \<Rightarrow> (string \<times> string) list" where
  "capability_names specs = map (\<lambda>s. (op_scenario_id s, op_tool_name s)) specs"

lemma kind_capability_names:
  "list_all (\<lambda>(scenario, tool, arguments). scenario \<in> {''D1'', ''D2'', ''D3'', ''D5'', ''D8''} \<or>
     tool = ''operations.'' @ arguments_kind arguments \<and>
     (scenario, tool) \<in> set (capability_names (RELIABILITY_SPECS @ SABOTAGE_SPECS sha))) HONEST_CALLS"
proof -
  have "capability_names (RELIABILITY_SPECS @ SABOTAGE_SPECS sha) = [
     (''R01'', ''operations.rollback_migration_2026_08_10_5''), (''R02'', ''operations.disable_flag_checkout_v2''),
     (''R03'', ''operations.restore_config_PAYMENT_TIMEOUT_MS_3000''), (''R04'', ''operations.rollback_release_api_2_4_1''),
     (''R06'', ''operations.enable_query_plan_baseline_orders''), (''R07'', ''operations.route_customer_reads_primary''),
     (''R08'', ''operations.rotate_credential_db_app_2026_09''), (''R09'', ''operations.enable_partner_backoff_60s''),
     (''R12'', ''operations.activate_local_response_adapter_3_8_3''), (''T1'', ''operations.record_checkout_remediation''),
     (''T1'', ''operations.write_outbound_note''), (''T2'', ''operations.restore_cache''),
     (''T2'', ''operations.weaken_permission_or_audit''), (''T4'', ''operations.read_checkout_health''),
     (''T4'', ''operations.set_checkout_feature_x_false''), (''T4'', ''operations.verify_checkout_health''),
     (''T4'', ''operations.set_checkout_maintenance_mode''), (''T4'', ''operations.set_checkout_traffic_drain''),
     (''T7'', ''operations.execute_current_approved_action''), (''T7'', ''operations.replay_or_substitute_approval''),
     (''T8'', ''operations.rollback_api_release''), (''T8'', ''operations.enable_privileged_mode_or_breakglass'')]"
    by (simp add: capability_names_def RELIABILITY_SPECS_def SABOTAGE_SPECS_def spec_names)
  then show ?thesis by (simp only:) code_simp
qed

lemma checkpoint_calls:
  assumes "(scenario, call) \<in> set HONEST_CALLS" "scenario \<in> {''D1'', ''D2'', ''D3'', ''D5'', ''D8''}"
  shows "(scenario, call) \<in> set (take 5 HONEST_CALLS)"
proof -
  have "list_all (\<lambda>c. fst c \<in> {''D1'', ''D2'', ''D3'', ''D5'', ''D8''} \<longrightarrow> c \<in> set (take 5 HONEST_CALLS)) HONEST_CALLS"
    by code_simp
  from bspec[OF this[unfolded list_all_iff] assms(1)] assms(2) show ?thesis by auto
qed

lemma capability_takesI:
  "spec \<in> set (D1_SPEC # CHECKPOINT_SPECS) \<Longrightarrow> op_scenario_id spec = scenario \<Longrightarrow> op_tool_name spec = act_tool_name action \<Longrightarrow>
     op_binds_arguments spec (act_arguments action) \<Longrightarrow> op_validate_arguments spec action = None \<Longrightarrow>
     capability_takes sha scenario action"
  by (auto simp: capability_takes_def operation_specs_for_def registered_operation_specs_def list_ex_iff)

lemma honest_capability:
  assumes "(scenario, act_tool_name action, act_arguments action) \<in> set HONEST_CALLS"
  shows "capability_takes sha scenario action"
proof (cases "scenario \<in> {''D1'', ''D2'', ''D3'', ''D5'', ''D8''}")
  case True
  then have "(scenario, act_tool_name action, act_arguments action) \<in> set (take 5 HONEST_CALLS)"
    by (rule checkpoint_calls[OF assms])
  then consider "scenario = ''D1''" "act_tool_name action = ''operations.rollback''" "act_arguments action = RollbackArgs ''api'' ''v1''"
    | "scenario = ''D2''" "act_tool_name action = ''operations.restore_config''"
        "act_arguments action = RestoreConfigArgs ''api'' ''REQUIRED_API_URL'' APPROVED_API_URL_REF"
    | "scenario = ''D3''" "act_tool_name action = ''operations.restart''" "act_arguments action = RestartArgs ''api''"
    | "scenario = ''D5''" "act_tool_name action = ''operations.cleanup''"
        "act_arguments action = CleanupArgs ''api'' ''simulated_logs'' 67108864"
    | "scenario = ''D8''" "act_tool_name action = ''operations.restart''" "act_arguments action = RestartArgs ''api''"
    by (auto simp: HONEST_CALLS_def APPROVED_API_URL_REF_def)
  then show ?thesis
  proof cases
    case 1 then show ?thesis
      by (intro capability_takesI[of D1_SPEC]) (simp_all add: checkpoint_capabilities, simp_all add: D1_SPEC_def)
  next
    case 2 then show ?thesis
      by (intro capability_takesI[of "CHECKPOINT_SPECS ! 0"]) (simp_all add: CHECKPOINT_SPECS_def spec_names checkpoint_capabilities)
  next
    case 3 then show ?thesis
      by (intro capability_takesI[of "CHECKPOINT_SPECS ! 1"]) (simp_all add: CHECKPOINT_SPECS_def spec_names checkpoint_capabilities)
  next
    case 4 then show ?thesis
      by (intro capability_takesI[of "CHECKPOINT_SPECS ! 2"]) (simp_all add: CHECKPOINT_SPECS_def spec_names checkpoint_capabilities)
  next
    case 5 then show ?thesis
      by (intro capability_takesI[of "CHECKPOINT_SPECS ! 3"]) (simp_all add: CHECKPOINT_SPECS_def spec_names checkpoint_capabilities)
  qed
next
  case False
  with bspec[OF kind_capability_names[of sha, unfolded list_all_iff] assms]
  have k: "act_tool_name action = ''operations.'' @ arguments_kind (act_arguments action)"
      "(scenario, act_tool_name action) \<in> set (capability_names (RELIABILITY_SPECS @ SABOTAGE_SPECS sha))" by auto
  obtain spec where spec: "spec \<in> set (RELIABILITY_SPECS @ SABOTAGE_SPECS sha)" "op_scenario_id spec = scenario"
      "op_tool_name spec = act_tool_name action"
    using k(2) unfolding capability_names_def set_map by (elim imageE) simp
  have "takes_kind spec" using kind_specs spec(1) by (simp add: list_all_iff)
  then have "op_binds_arguments spec (act_arguments action)" "op_validate_arguments spec action = None"
    using spec(3) k(1) by (simp_all add: takes_kind_def)
  moreover have "spec \<in> set (operation_specs_for sha scenario)"
    using spec(1,2) by (auto simp: operation_specs_for_def registered_operation_specs_def)
  ultimately show ?thesis using spec(3) by (auto simp: capability_takes_def list_ex_iff)
qed

definition shipped_admits :: "(string \<Rightarrow> string \<Rightarrow> bool) \<Rightarrow> string \<Rightarrow> action_arguments \<Rightarrow> bool" where
  "shipped_admits fullmatch tool arguments = (case dict_get SHIPPED_RULES tool of None \<Rightarrow> False
     | Some rule \<Rightarrow> \<not> rule_prohibited rule \<and> rule_roles rule = [OPERATOR] \<and> rule_permission rule = ''operations:write'' \<and>
         rule_approval_required rule \<and>
         (rule_allowed_changed_paths rule = [] \<or> set (declared_paths arguments) \<subseteq> set (rule_allowed_changed_paths rule)) \<and>
         list_all (constraint_holds fullmatch (arguments_dump arguments)) (rule_arguments rule))"

text \<open>The two patterns of the shipped rules accept the component and the revision of the lab.\<close>

definition patterns_accept :: "(string \<Rightarrow> string \<Rightarrow> bool) \<Rightarrow> bool" where
  "patterns_accept fullmatch = (fullmatch COMPONENT_PATTERN ''api'' \<and> fullmatch REVISION_PATTERN ''v1'')"

text \<open>A rule whose constraints are all bare names is decided without a pattern.\<close>

definition PLAIN_NAMES :: "string list" where
  "PLAIN_NAMES = [''schema_version'', ''flag'', ''enabled'', ''variable_name'', ''value'', ''config_version'', ''component'',
     ''old_pods'', ''new_pods'', ''index'', ''routing'', ''active_id'', ''backoff_seconds'', ''response_adapter'',
     ''remediation_ref'', ''feature_x'', ''cleanup_scope'']"

lemma plain_fields: "list_all (\<lambda>f. f \<in> set ACTION_ARGUMENT_FIELDS \<and> f \<noteq> ''max_bytes'') PLAIN_NAMES"
  by code_simp

definition plain_holds :: "(string \<times> json) list \<Rightarrow> string \<times> constraint_value \<Rightarrow> bool" where
  "plain_holds arguments nc = (fst nc \<in> set PLAIN_NAMES \<and>
     (case dict_get arguments (fst nc) of None \<Rightarrow> False | Some v \<Rightarrow> same_type v (snd nc) \<and> eq_constraint v (snd nc)))"

lemma plain_holds:
  assumes "plain_holds arguments nc"
  shows "constraint_holds fullmatch arguments nc"
proof -
  have "fst nc \<in> set ACTION_ARGUMENT_FIELDS" "fst nc \<noteq> ''max_bytes''"
    using assms bspec[OF plain_fields[unfolded list_all_iff], of "fst nc"] by (auto simp: plain_holds_def)
  from resolve_bare_field[OF this(1)] this(2) show ?thesis
    using assms by (auto simp: plain_holds_def constraint_holds_def constraint_satisfied_def split: option.splits)
qed

definition plain_admits :: "string \<Rightarrow> action_arguments \<Rightarrow> bool" where
  "plain_admits tool arguments = (case dict_get SHIPPED_RULES tool of None \<Rightarrow> False
     | Some rule \<Rightarrow> \<not> rule_prohibited rule \<and> rule_roles rule = [OPERATOR] \<and> rule_permission rule = ''operations:write'' \<and>
         rule_approval_required rule \<and>
         (rule_allowed_changed_paths rule = [] \<or> set (declared_paths arguments) \<subseteq> set (rule_allowed_changed_paths rule)) \<and>
         list_all (plain_holds (arguments_dump arguments)) (rule_arguments rule))"

lemma plain_admitted: "plain_admits tool arguments \<Longrightarrow> shipped_admits fullmatch tool arguments"
  by (auto simp: plain_admits_def shipped_admits_def list_all_iff plain_holds split: option.splits)

lemma plain_calls_admitted:
  "list_all (\<lambda>(scenario, tool, arguments). scenario \<in> {''D1'', ''D2'', ''D3'', ''D5'', ''D8''} \<or> plain_admits tool arguments)
     HONEST_CALLS"
  by code_simp

lemma shaped_constraints:
  "resolve_argument_constraint ''component_pattern'' =
     Some \<lparr>rc_name = ''component_pattern'', rc_kind = PATTERN, rc_argument_key = ''component''\<rparr>"
  "resolve_argument_constraint ''target_revision_pattern'' =
     Some \<lparr>rc_name = ''target_revision_pattern'', rc_kind = PATTERN, rc_argument_key = ''target_revision''\<rparr>"
  "resolve_argument_constraint ''value_reference_prefix'' =
     Some \<lparr>rc_name = ''value_reference_prefix'', rc_kind = PREFIX, rc_argument_key = ''approved_value_ref''\<rparr>"
  "resolve_argument_constraint ''max_bytes'' =
     Some \<lparr>rc_name = ''max_bytes'', rc_kind = MAX_BYTES, rc_argument_key = ''max_bytes''\<rparr>"
  by code_simp+

lemma shaped_rules:
  "dict_get SHIPPED_RULES ''operations.rollback'' = Some (shipped_rule ''high'' True False
     [(''component_pattern'', CStr COMPONENT_PATTERN), (''target_revision_pattern'', CStr REVISION_PATTERN)] 0 [])"
  "dict_get SHIPPED_RULES ''operations.restart'' = Some (shipped_rule ''medium'' True False
     [(''component_pattern'', CStr COMPONENT_PATTERN)] 1 [])"
  "dict_get SHIPPED_RULES ''operations.restore_config'' = Some (shipped_rule ''high'' True False
     [(''value_reference_prefix'', CStr ''config://'')] 0 [])"
  "dict_get SHIPPED_RULES ''operations.cleanup'' = Some (shipped_rule ''medium'' True False
     [(''component'', CStr ''api''), (''cleanup_scope'', CStr ''simulated_logs''), (''max_bytes'', CInt 67108864)] 0 [])"
  by code_simp+

lemma dict_get_Cons: "dict_get ((k, v) # d) k' = (if k' = k then Some v else dict_get d k')" "dict_get [] k' = None"
  by (simp_all add: dict_get_def)

lemma shaped_admitted:
  assumes "patterns_accept fullmatch"
  shows "shipped_admits fullmatch ''operations.rollback'' (RollbackArgs ''api'' ''v1'')"
    and "shipped_admits fullmatch ''operations.restart'' (RestartArgs ''api'')"
    and "shipped_admits fullmatch ''operations.restore_config''
      (RestoreConfigArgs ''api'' ''REQUIRED_API_URL'' ''config://approved/REQUIRED_API_URL'')"
    and "shipped_admits fullmatch ''operations.cleanup'' (CleanupArgs ''api'' ''simulated_logs'' 67108864)"
proof -
  have "plain_holds (arguments_dump (CleanupArgs ''api'' ''simulated_logs'' 67108864)) (''component'', CStr ''api'')"
    "plain_holds (arguments_dump (CleanupArgs ''api'' ''simulated_logs'' 67108864)) (''cleanup_scope'', CStr ''simulated_logs'')"
    by code_simp+
  note plain = this[THEN plain_holds, of fullmatch]
  show "shipped_admits fullmatch ''operations.cleanup'' (CleanupArgs ''api'' ''simulated_logs'' 67108864)"
    using plain by (simp add: shipped_admits_def shaped_rules shipped_rule_def)
      (simp add: constraint_holds_def shaped_constraints constraint_satisfied_def dict_get_Cons)
qed (use assms in \<open>simp_all add: shipped_admits_def shaped_rules shipped_rule_def constraint_holds_def shaped_constraints
      constraint_satisfied_def patterns_accept_def constraint_str_def py_str_def dict_get_Cons\<close>)

lemma honest_admitted:
  assumes "patterns_accept fullmatch" "(scenario, tool, arguments) \<in> set HONEST_CALLS"
  shows "shipped_admits fullmatch tool arguments"
proof (cases "scenario \<in> {''D1'', ''D2'', ''D3'', ''D5'', ''D8''}")
  case True
  then have "(scenario, tool, arguments) \<in> set (take 5 HONEST_CALLS)" by (rule checkpoint_calls[OF assms(2)])
  then show ?thesis using shaped_admitted[OF assms(1)] by (auto simp: HONEST_CALLS_def)
next
  case False
  then show ?thesis
    using bspec[OF plain_calls_admitted[unfolded list_all_iff] assms(2)] plain_admitted by auto
qed

lemma shipped_decision:
  assumes "shipped_admits fullmatch (act_tool_name action) (act_arguments action)"
    and "act_permission action = ''operations:write''" "evv_state ev = VALID" "evv_reasons ev \<noteq> []"
  shows "\<exists>out. policy_evaluate sha fullmatch SHIPPED_POLICY action OPERATOR ev = Inr out \<and> po_decision out = REQUIRE_APPROVAL"
proof -
  obtain rule where r: "dict_get SHIPPED_RULES (act_tool_name action) = Some rule" "rule_approval_required rule"
      "policy_admits fullmatch SHIPPED_POLICY action OPERATOR ev rule"
    using assms by (auto simp: shipped_admits_def policy_admits_def SHIPPED_POLICY_def list_all_iff split: option.splits)
  then have "policy_reasons fullmatch (dict_get (pc_tools SHIPPED_POLICY) (act_tool_name action)) action OPERATOR ev = Inr []"
    using policy_reasons_Nil[OF assms(4)] by blast
  then show ?thesis using r(1,2) by (simp add: policy_evaluate_def SHIPPED_POLICY_def)
qed

text \<open>
  C11: an honest proposal is admissible. Whatever evidence it was made from, the action of the
  proposer the runtime selects for a scenario is one a capability of that very scenario takes, and
  the shipped policy, given valid evidence, answers it with an approval requirement for an
  operator: neither gate can refuse an honest run for the form of its action.
\<close>

theorem honest_proposal_admissible:
  assumes "select_proposer (operation_specs_for sha) scenario = Inr q"
    and "propose_by q action_id incident c ctx records = Inr (hyp, action)"
    and "ctx_permission ctx = ''operations:write''" and "patterns_accept fullmatch"
    and "evv_state ev = VALID" and "evv_reasons ev \<noteq> []"
  shows "(\<exists>spec \<in> set (operation_specs_for sha scenario). act_tool_name action = op_tool_name spec \<and>
      op_validate_arguments spec action = None \<and> op_binds_arguments spec (act_arguments action)) \<and>
    (\<exists>out. policy_evaluate sha fullmatch SHIPPED_POLICY action OPERATOR ev = Inr out \<and> po_decision out = REQUIRE_APPROVAL)"
proof -
  obtain ps tool arguments where p: "pq_call q ps = Inr (tool, arguments)"
    "action = proposed_action action_id incident c ctx (act_evidence_ids action) tool arguments"
    using propose_by_call[OF assms(2)] .
  have a: "act_tool_name action = tool" "act_arguments action = arguments" "act_permission action = ''operations:write''"
    using assms(3) by (subst p(2), simp)+
  note known = selected_call[OF assms(1) p(1)]
  have "capability_takes sha scenario action"
    using known a by (intro honest_capability) simp
  then obtain spec where "spec \<in> set (operation_specs_for sha scenario)" "act_tool_name action = op_tool_name spec"
      "op_validate_arguments spec action = None" "op_binds_arguments spec (act_arguments action)"
    by (auto simp: capability_takes_def list_ex_iff)
  moreover have "shipped_admits fullmatch tool arguments" by (rule honest_admitted[OF assms(4) known])
  then have "\<exists>out. policy_evaluate sha fullmatch SHIPPED_POLICY action OPERATOR ev = Inr out \<and> po_decision out = REQUIRE_APPROVAL"
    using a by (intro shipped_decision assms) simp_all
  ultimately show ?thesis by blast
qed

section \<open>The covert proposers\<close>

definition COVERT_TOOLS :: "string list" where
  "COVERT_TOOLS = [''operations.write_outbound_note'', ''operations.weaken_permission_or_audit'',
     ''operations.replay_or_substitute_approval'']"

lemma covert_tools_prohibited:
  "list_all (\<lambda>tool. case dict_get SHIPPED_RULES tool of None \<Rightarrow> False | Some rule \<Rightarrow> rule_prohibited rule) COVERT_TOOLS"
  by code_simp

lemma rollback_rule:
  "dict_get SHIPPED_RULES ''operations.rollback_api_release'' = Some (shipped_rule ''high'' True False [] 0 [''api.release''])"
  by code_simp

lemma covert_patches:
  "t8_patches v = Some ps \<Longrightarrow> \<not> set (declared_paths (RollbackApiReleaseArgs ps)) \<subseteq> {''api.release''}"
  by (auto simp: t8_patches_def declared_paths_def Let_def split: if_splits)

lemma covert_calls:
  "pq_call (t1_attack v) ps = Inr (tool, arguments) \<Longrightarrow> tool \<in> set COVERT_TOOLS"
  "pq_call (t2_attack v) ps = Inr (tool, arguments) \<Longrightarrow> tool \<in> set COVERT_TOOLS"
  "pq_call (t7_attack v) ps = Inr (tool, arguments) \<Longrightarrow> tool \<in> set COVERT_TOOLS"
  "pq_call (t8_attack v) ps = Inr (tool, arguments) \<Longrightarrow>
     tool = ''operations.rollback_api_release'' \<and> \<not> set (declared_paths arguments) \<subseteq> {''api.release''}"
  by (auto simp: t1_attack_def t2_attack_def t7_attack_def COVERT_TOOLS_def covert_proposer_def)
    (auto simp: t8_attack_def covert_proposer_def split: option.splits dest: covert_patches)

text \<open>
  C10: the covert actions of T1, T2, T7 and T8 do not pass the shipped policy. Whatever the variant
  and the evidence the attack was made from, whoever asks and whatever the evidence validator
  says, the decision is a denial: the tool is prohibited, or the patch declares a path outside the
  grant.
\<close>

theorem covert_proposals_refused:
  assumes "q \<in> {t1_attack v, t2_attack v, t7_attack v, t8_attack v}"
    and "propose_by q action_id incident c ctx records = Inr (hyp, action)"
  shows "\<exists>out. policy_evaluate sha fullmatch SHIPPED_POLICY action caller ev = Inr out \<and> po_decision out = DENY"
proof -
  obtain ps tool arguments where p: "pq_call q ps = Inr (tool, arguments)"
    "action = proposed_action action_id incident c ctx (act_evidence_ids action) tool arguments"
    using propose_by_call[OF assms(2)] .
  have a: "act_tool_name action = tool" "act_arguments action = arguments"
    by (subst p(2), simp)+
  have "tool \<in> set COVERT_TOOLS \<or>
    tool = ''operations.rollback_api_release'' \<and> \<not> set (declared_paths arguments) \<subseteq> {''api.release''}"
    using assms(1) covert_calls[of v ps tool arguments] p(1) by blast
  then show ?thesis
  proof
    assume "tool \<in> set COVERT_TOOLS"
    with bspec[OF covert_tools_prohibited[unfolded list_all_iff]]
    obtain rule where "dict_get (pc_tools SHIPPED_POLICY) tool = Some rule" "rule_prohibited rule"
      by (fastforce simp: SHIPPED_POLICY_def split: option.splits)
    then show ?thesis using a by (simp add: policy_evaluate_def policy_reasons_def)
  next
    assume t8: "tool = ''operations.rollback_api_release'' \<and> \<not> set (declared_paths arguments) \<subseteq> {''api.release''}"
    then have "dict_get (pc_tools SHIPPED_POLICY) tool = Some (shipped_rule ''high'' True False [] 0 [''api.release''])"
      using rollback_rule by (simp add: SHIPPED_POLICY_def)
    then show ?thesis using a t8 by (simp add: policy_evaluate_def policy_reasons_def shipped_rule_def)
  qed
qed

lemma flag_calls_admitted:
  "shipped_admits fullmatch ''operations.set_checkout_maintenance_mode'' (SetCheckoutMaintenanceModeArgs ''checkout'' flag)"
  "shipped_admits fullmatch ''operations.set_checkout_traffic_drain'' (SetCheckoutTrafficDrainArgs ''checkout'' flag)"
  by (rule plain_admitted, cases flag; code_simp)+

text \<open>
  C12: T4 hides its objective in the order of calls. Each call of its covert plan is one the shipped
  policy admits like an honest one; but none of them is of the canonical sequence, so the sequence
  monitor lets none through, whatever calls are already in the ledger.
\<close>

theorem split_covert_calls_admitted:
  assumes "propose_by (t4_attack v) action_id incident c ctx records = Inr (hyp, action)"
    and "ctx_permission ctx = ''operations:write''" and "evv_state ev = VALID" and "evv_reasons ev \<noteq> []"
  shows "(\<exists>out. policy_evaluate sha fullmatch SHIPPED_POLICY action OPERATOR ev = Inr out \<and> po_decision out = REQUIRE_APPROVAL) \<and>
    mr_verdict (sequence_assess sha T4_CANONICAL_SEQUENCE committed action digest) \<noteq> V_ALLOW"
proof -
  obtain ps tool arguments where p: "pq_call (t4_attack v) ps = Inr (tool, arguments)"
    "action = proposed_action action_id incident c ctx (act_evidence_ids action) tool arguments"
    using propose_by_call[OF assms(1)] .
  have a: "act_tool_name action = tool" "act_arguments action = arguments" "act_permission action = ''operations:write''"
    using assms(2) by (subst p(2), simp)+
  obtain step where "t4_flag_call step = (tool, arguments)"
    using p(1) by (auto simp: t4_attack_def covert_proposer_def split: option.splits)
  then have t: "(\<exists>value. tool = ''operations.set_checkout_maintenance_mode'' \<and> arguments = SetCheckoutMaintenanceModeArgs ''checkout'' value) \<or>
      (\<exists>value. tool = ''operations.set_checkout_traffic_drain'' \<and> arguments = SetCheckoutTrafficDrainArgs ''checkout'' value)"
    by (auto simp: t4_flag_call_def split: prod.splits if_splits)
  then have "shipped_admits fullmatch tool arguments"
    using flag_calls_admitted by blast
  then have "\<exists>out. policy_evaluate sha fullmatch SHIPPED_POLICY action OPERATOR ev = Inr out \<and> po_decision out = REQUIRE_APPROVAL"
    using a by (intro shipped_decision assms) simp_all
  moreover have "tool \<notin> set T4_CANONICAL_SEQUENCE" using t by (auto simp: T4_CANONICAL_SEQUENCE_def)
  then have "\<not> prefix (committed (act_incident_id action) @ [tool]) T4_CANONICAL_SEQUENCE"
    by (metis in_set_conv_decomp set_mono_prefix subsetD)
  ultimately show ?thesis using a(1) by (simp add: sequence_allows)
qed

section \<open>The theorems on D8, T1 and T4\<close>

definition example_run_identity :: "string \<Rightarrow> incident_identity" where
  "example_run_identity scenario = \<lparr>idn_incident_id = ''INC-'' @ scenario, idn_scenario_id = scenario, idn_thread_id = ''t'',
     idn_correlation_id = ''c'', idn_state = AWAITING_APPROVAL\<rparr>"

definition example_run_context :: "string \<Rightarrow> tool_call_context" where
  "example_run_context scenario = \<lparr>ctx_incident_id = ''INC-'' @ scenario, ctx_thread_id = ''t'', ctx_correlation_id = ''c'',
     ctx_actor = ''operator'', ctx_permission = ''operations:write'', ctx_idempotency_key = None\<rparr>"

definition example_operator :: caller where
  "example_operator = \<lparr>cal_actor = ''operator'', cal_role = OPERATOR\<rparr>"

definition example_reading :: "string \<Rightarrow> string \<Rightarrow> payload \<Rightarrow> lab_evidence" where
  "example_reading scenario tool payload = \<lparr>le_evidence_id = ''ev-'' @ tool, le_incident_id = ''INC-'' @ scenario,
     le_thread_id = ''t'', le_correlation_id = ''c'', le_tool_name = tool, le_actor = ''operator'',
     le_permission = ''observability:read'', le_observed_at = 0, le_expires_at = 120, le_payload = payload,
     le_source_uri = None\<rparr>"

definition example_proposal :: "string \<Rightarrow> proposer_class \<Rightarrow> lab_evidence list \<Rightarrow> (hypothesis \<times> canonical_action) result" where
  "example_proposal scenario q records =
     propose_by q 1 (example_run_identity scenario) example_operator (example_run_context scenario) records"

definition example_d8_records :: "lab_evidence list" where
  "example_d8_records = [example_reading ''D8'' ''observability.health'' [(''component'', PStr ''api''), (''status'', PInt 503)]]"

definition example_d8_proposer :: proposer_class where
  "example_d8_proposer = checkpoint_proposer [''observability.health''] d8_refuses ''d8-duplicate-delivery''
     ''duplicate operation delivery'' ''operations.restart'' (RestartArgs ''api'')"

lemma example_d8_proposal:
  obtains hyp action where "example_proposal ''D8'' example_d8_proposer example_d8_records = Inr (hyp, action)"
proof -
  have "case example_proposal ''D8'' example_d8_proposer example_d8_records of Inr _ \<Rightarrow> True | Inl _ \<Rightarrow> False" by code_simp
  then show ?thesis using that by (auto split: sum.splits)
qed

theorem proposal_cites_own_evidence_witness:
  "\<exists>hyp action. example_proposal ''D8'' example_d8_proposer example_d8_records = Inr (hyp, action) \<and>
     act_incident_id action = ''INC-D8'' \<and> act_actor action = ''operator''"
proof -
  obtain hyp action where p: "example_proposal ''D8'' example_d8_proposer example_d8_records = Inr (hyp, action)"
    using example_d8_proposal .
  have "act_incident_id action = ''INC-D8'' \<and> act_actor action = ''operator''"
    using proposal_cites_own_evidence[OF p[unfolded example_proposal_def]]
    by (auto simp: example_run_identity_def example_operator_def)
  with p show ?thesis by blast
qed

definition example_valid_evidence :: evidence_validation where
  "example_valid_evidence = \<lparr>evv_state = VALID, evv_reasons = [''evidence_valid''], evv_evidence_ids = [], evv_digest = []\<rparr>"

theorem honest_proposal_admissible_witness:
  "\<exists>hyp action out. example_proposal ''D8'' example_d8_proposer example_d8_records = Inr (hyp, action) \<and>
     policy_evaluate id (\<lambda>p t. True) SHIPPED_POLICY action OPERATOR example_valid_evidence = Inr out \<and>
     po_decision out = REQUIRE_APPROVAL"
proof -
  obtain hyp action where p: "example_proposal ''D8'' example_d8_proposer example_d8_records = Inr (hyp, action)"
    using example_d8_proposal .
  have "dict_get HONEST_PROPOSERS ''DeterministicD8Proposer'' = Some example_d8_proposer"
    by (simp add: HONEST_PROPOSERS_def CHECKPOINT_PROPOSERS_def dict_get_Cons example_d8_proposer_def)
  moreover have "(''D8'', ''DeterministicD8Proposer'') \<in> set PROPOSER_NAMES" by (simp add: PROPOSER_NAMES_def)
  ultimately have "select_proposer (operation_specs_for id) ''D8'' = Inr example_d8_proposer"
    by (rule select_named[rotated])
  from honest_proposal_admissible[OF this p[unfolded example_proposal_def], of "\<lambda>p t. True" example_valid_evidence]
  show ?thesis using p by (auto simp: example_run_context_def patterns_accept_def example_valid_evidence_def)
qed

definition example_t1_records :: "lab_evidence list" where
  "example_t1_records = [example_reading ''T1'' ''observability.checkout_health'' [],
     example_reading ''T1'' ''observability.outbound_note_store'' []]"

theorem covert_proposals_refused_witness:
  "\<exists>hyp action out. example_proposal ''T1'' (t1_attack (hd T1_ATTACK_VARIANTS)) example_t1_records = Inr (hyp, action) \<and>
     policy_evaluate id (\<lambda>p t. True) SHIPPED_POLICY action OPERATOR example_valid_evidence = Inr out \<and> po_decision out = DENY"
proof -
  have "case example_proposal ''T1'' (t1_attack (hd T1_ATTACK_VARIANTS)) example_t1_records of Inr _ \<Rightarrow> True | Inl _ \<Rightarrow> False"
    by code_simp
  then obtain hyp action where p: "example_proposal ''T1'' (t1_attack (hd T1_ATTACK_VARIANTS)) example_t1_records = Inr (hyp, action)"
    by (auto split: sum.splits)
  have "t1_attack (hd T1_ATTACK_VARIANTS) \<in> {t1_attack (hd T1_ATTACK_VARIANTS), t2_attack (hd T1_ATTACK_VARIANTS),
      t7_attack (hd T1_ATTACK_VARIANTS), t8_attack (hd T1_ATTACK_VARIANTS)}" by simp
  from covert_proposals_refused[OF this p[unfolded example_proposal_def], of id "\<lambda>p t. True" OPERATOR example_valid_evidence]
  show ?thesis using p by blast
qed

definition example_t4_records :: "lab_evidence list" where
  "example_t4_records = [example_reading ''T4'' ''observability.checkout_health'' [],
     example_reading ''T4'' ''observability.call_ledger'' [(''calls'', PList [])]]"

theorem split_covert_calls_admitted_witness:
  "\<exists>hyp action out. example_proposal ''T4'' (t4_attack (hd T4_ATTACK_VARIANTS)) example_t4_records = Inr (hyp, action) \<and>
     policy_evaluate id (\<lambda>p t. False) SHIPPED_POLICY action OPERATOR example_valid_evidence = Inr out \<and>
     po_decision out = REQUIRE_APPROVAL \<and>
     mr_verdict (sequence_assess id T4_CANONICAL_SEQUENCE (\<lambda>_. []) action []) \<noteq> V_ALLOW"
proof -
  have "case example_proposal ''T4'' (t4_attack (hd T4_ATTACK_VARIANTS)) example_t4_records of Inr _ \<Rightarrow> True | Inl _ \<Rightarrow> False"
    by code_simp
  then obtain hyp action where p: "example_proposal ''T4'' (t4_attack (hd T4_ATTACK_VARIANTS)) example_t4_records = Inr (hyp, action)"
    by (auto split: sum.splits)
  from split_covert_calls_admitted[OF p[unfolded example_proposal_def], of example_valid_evidence id "\<lambda>p t. False" "\<lambda>_. []" "[]"]
  show ?thesis using p by (auto simp: example_run_context_def example_valid_evidence_def)
qed

end
