(* ===== verification/Proposal_Liveness.thy ===== *)
theory Proposal_Liveness
  imports Proposal_Safety
begin

text \<open>
  From the fault to the proposal: after a reset and an injection the collector reads what the
  scenario requires, and the proposer the runtime selects finds in those records the fault it knows
  and proposes the repair that the evaluation scope of the scenario takes.
\<close>

section \<open>Reading what a proposal needs\<close>

text \<open>A reading bound to the context; where the kind is served from the fixture, with its payload.\<close>

definition collected_reading ::
  "string \<Rightarrow> lab_db \<Rightarrow> tool_call_context \<Rightarrow> read_env \<Rightarrow> string \<Rightarrow> lab_evidence \<Rightarrow> bool" where
  "collected_reading scenario db ctx env kind r = (le_tool_name r = evidence_tool_name kind \<and> bound_to ctx r \<and>
     le_evidence_id r = re_evidence_id env \<and> (serves scenario kind \<longrightarrow> le_payload r = repaired_payload scenario db kind))"

lemma latest_source_Some: "ss \<noteq> [] \<Longrightarrow> \<exists>s. latest_source ss = Some s"
  by (induction ss rule: latest_source.induct) (auto split: option.splits)

lemma get_logs:
  assumes "scenario \<in> {''D2'', ''D3''}" "ctx_incident_id ctx = ''INC-'' @ scenario" "require_read ctx p = Inr ()"
    and "\<exists>s \<in> set (ob_sources ob). so_incident_id s = ''INC-'' @ scenario \<and> so_kind s = ''logs''"
    and "fresh_supply envs i ob"
  obtains reading ob' where "observability_get (envs i) ctx p ''logs'' ob = (Inr reading, ob')"
    "collected_reading scenario db ctx (envs i) ''logs'' reading"
proof -
  have f: "re_evidence_id (envs i) \<notin> le_evidence_id ` set (ob_records ob)"
    using assms(5) by (auto simp: fresh_supply_def)
  have sc: "incident_scenario (''INC-'' @ scenario) = Some scenario"
    using assms(1) by (intro incident_of_scenario) (auto simp: Observability.CHECKPOINT_SCENARIOS_def)
  have "sources_of ob (''INC-'' @ scenario) ''logs'' \<noteq> []"
    using assms(4) by (auto simp: sources_of_def filter_empty_conv)
  then obtain s where s: "latest_source (sources_of ob (''INC-'' @ scenario) ''logs'') = Some s"
    using latest_source_Some by blast
  let ?o = "stored_source s (so_payload s) ob"
  have o: "observe (envs i) ctx ''logs'' ob = Inr ?o"
    using assms(1,2) sc s by (elim insertE emptyE) (simp_all add: observe_def observe_immutable_def Let_def)
  obtain ob' where ob': "record_evidence (evidence_of (envs i) ctx ''logs'' ?o) ''logs'' 0 ob = Inr ob'"
    using record_evidence_fresh[of "evidence_of (envs i) ctx ''logs'' ?o" ob "''logs''" 0] f by auto
  have k: "evidence_allowed (ctx_incident_id ctx) ''logs''" "''logs'' \<in> set OBSERVABILITY_KINDS" "\<not> serves scenario ''logs''"
    using assms(1,2) by (elim insertE emptyE; simp; code_simp)+
  have "evidence (envs i) ctx ''logs'' ob = Inr (evidence_of (envs i) ctx ''logs'' ?o, ob')"
    using k(1) o ob' by (simp add: evidence_def stored_source_def)
  then have "observability_get (envs i) ctx p ''logs'' ob = (Inr (evidence_of (envs i) ctx ''logs'' ?o), ob')"
    using k(2) assms(3) by (simp add: observability_get_def)
  then show ?thesis
    using that k(3) by (simp add: collected_reading_def evidence_of_def bound_to_def)
qed

lemma read_all_append:
  "read_all envs i ctx p (ks @ ls) ob = (case read_all envs i ctx p ks ob of
     (Inl e, ob1) \<Rightarrow> (Inl e, ob1)
   | (Inr rs, ob1) \<Rightarrow> apfst (map_sum id (append rs)) (read_all envs (i + length ks) ctx p ls ob1))"
proof (induction ks arbitrary: i ob)
  case Nil
  have "map_sum id ((@) []) r = r" for r :: "lab_evidence list result" by (cases r) simp_all
  then show ?case by (simp add: prod_eq_iff split: prod.splits)
next
  case (Cons k ks)
  have "map_sum (\<lambda>x. x) (\<lambda>x. a # b @ x) r = map_sum id ((@) (a # b)) r" for a b and r :: "lab_evidence list result"
    by (cases r) simp_all
  then show ?case
    using Cons by (auto simp: apfst_def map_prod_def sum.map_comp comp_def split: prod.splits sum.splits)
qed

text \<open>What the collector reads of a repairable scenario.\<close>

definition collected_kinds :: "string \<Rightarrow> string list" where
  "collected_kinds scenario = (case dict_get COLLECTED_KINDS scenario of None \<Rightarrow> [] | Some kinds \<Rightarrow> kinds)"

lemma collected_kinds_served:
  assumes "scenario \<in> set REPAIRABLE"
  shows "dict_get COLLECTED_KINDS scenario = Some (collected_kinds scenario)"
    and "scenario \<notin> {''D2'', ''D3''} \<longrightarrow> list_all (serves scenario) (collected_kinds scenario)"
    and "scenario \<in> {''D2'', ''D3''} \<longrightarrow> (\<exists>ks. collected_kinds scenario = ks @ [''logs''] \<and> list_all (serves scenario) ks)"
    and "distinct (map evidence_tool_name (collected_kinds scenario))"
proof -
  have "list_all (\<lambda>s. dict_get COLLECTED_KINDS s = Some (collected_kinds s) \<and>
      (if s \<notin> {''D2'', ''D3''} then list_all (serves s) (collected_kinds s)
       else list_all (serves s) (butlast (collected_kinds s)) \<and> collected_kinds s \<noteq> [] \<and> last (collected_kinds s) = ''logs'') \<and>
      distinct (map evidence_tool_name (collected_kinds s))) REPAIRABLE"
    by code_simp
  note all = bspec[OF this[unfolded list_all_iff[of _ REPAIRABLE]] assms]
  show "dict_get COLLECTED_KINDS scenario = Some (collected_kinds scenario)"
    and "scenario \<notin> {''D2'', ''D3''} \<longrightarrow> list_all (serves scenario) (collected_kinds scenario)"
    and "distinct (map evidence_tool_name (collected_kinds scenario))"
    using all by (simp_all split: if_splits)
  show "scenario \<in> {''D2'', ''D3''} \<longrightarrow> (\<exists>ks. collected_kinds scenario = ks @ [''logs''] \<and> list_all (serves scenario) ks)"
    using all append_butlast_last_id[of "collected_kinds scenario"] by (metis (no_types, lifting))
qed

fun collected_readings ::
  "string \<Rightarrow> lab_db \<Rightarrow> tool_call_context \<Rightarrow> (nat \<Rightarrow> read_env) \<Rightarrow> nat \<Rightarrow> string list \<Rightarrow> lab_evidence list \<Rightarrow> bool" where
  "collected_readings scenario db ctx envs i [] [] = True"
| "collected_readings scenario db ctx envs i (kind # kinds) (r # rs) =
     (collected_reading scenario db ctx (envs i) kind r \<and> collected_readings scenario db ctx envs (Suc i) kinds rs)"
| "collected_readings scenario db ctx envs i _ _ = False"

lemma readings_collected:
  "readings_of scenario db ctx envs i kinds rs \<Longrightarrow> collected_readings scenario db ctx envs i kinds rs"
  by (induction scenario db ctx envs i kinds rs rule: readings_of.induct) (simp_all add: reading_of_def collected_reading_def)

lemma collected_readings_append:
  "collected_readings scenario db ctx envs i ks rs \<Longrightarrow> collected_reading scenario db ctx (envs (i + length ks)) k r \<Longrightarrow>
     collected_readings scenario db ctx envs i (ks @ [k]) (rs @ [r])"
  by (induction scenario db ctx envs i ks rs rule: collected_readings.induct) simp_all

text \<open>The store an injection leaves has the sources the logs of D2 and D3 are read from.\<close>

definition has_logs :: "string \<Rightarrow> observability \<Rightarrow> bool" where
  "has_logs scenario ob = (scenario \<in> {''D2'', ''D3''} \<longrightarrow>
     (\<exists>s \<in> set (ob_sources ob). so_incident_id s = ''INC-'' @ scenario \<and> so_kind s = ''logs''))"

lemma read_collected:
  assumes "scenario \<in> set REPAIRABLE" "ctx_incident_id ctx = ''INC-'' @ scenario" "require_read ctx p = Inr ()"
    and "readable scenario ob" "has_logs scenario ob" "fresh_supply envs i ob"
  shows "\<exists>records ob'. read_all envs i ctx p (collected_kinds scenario) ob = (Inr records, ob') \<and>
    collected_readings scenario (ob_lab ob) ctx envs i (collected_kinds scenario) records"
proof -
  have s: "scenario \<in> set (REPAIRABLE @ [''T7'', ''T8''])" using assms(1) by simp
  note read = read_all_repairable[OF s assms(2,3) _ assms(4,6)]
  show ?thesis
  proof (cases "scenario \<in> {''D2'', ''D3''}")
    case False
    then have "set (collected_kinds scenario) \<subseteq> Collect (serves scenario)"
      using collected_kinds_served(2)[OF assms(1)] by (auto simp: list_all_iff)
    from read[OF this] readings_collected show ?thesis by blast
  next
    case True
    then obtain ks where ks: "collected_kinds scenario = ks @ [''logs'']" "set ks \<subseteq> Collect (serves scenario)"
      using collected_kinds_served(3)[OF assms(1)] by (auto simp: list_all_iff)
    obtain records ob1 where 1: "read_all envs i ctx p ks ob = (Inr records, ob1)"
        "readings_of scenario (ob_lab ob) ctx envs i ks records" "fresh_supply envs (i + length ks) ob1"
        "set (ob_sources ob) \<subseteq> set (ob_sources ob1)"
      using read[OF ks(2)] by blast
    have logs: "\<exists>s \<in> set (ob_sources ob1). so_incident_id s = ''INC-'' @ scenario \<and> so_kind s = ''logs''"
      using assms(5) True 1(4) by (auto simp: has_logs_def)
    obtain reading ob2 where 2: "observability_get (envs (i + length ks)) ctx p ''logs'' ob1 = (Inr reading, ob2)"
        "collected_reading scenario (ob_lab ob) ctx (envs (i + length ks)) ''logs'' reading"
      using get_logs[OF True assms(2,3) logs 1(3)] by blast
    have "read_all envs i ctx p (ks @ [''logs'']) ob = (Inr (records @ [reading]), ob2)"
      unfolding read_all_append 1(1) by (simp add: 2(1))
    then show ?thesis
      unfolding ks(1) using collected_readings_append[OF readings_collected[OF 1(2)] 2(2)] by blast
  qed
qed

section \<open>Binding what was collected\<close>

lemma collected_readings_facts:
  assumes "collected_readings scenario db ctx envs i kinds rs"
  shows "map le_tool_name rs = map evidence_tool_name kinds" "\<forall>r \<in> set rs. bound_to ctx r"
    "map le_evidence_id rs = map (\<lambda>j. re_evidence_id (envs j)) [i..<i + length kinds]"
    "\<And>j. j < length kinds \<Longrightarrow> serves scenario (kinds ! j) \<Longrightarrow> le_payload (rs ! j) = repaired_payload scenario db (kinds ! j)"
proof -
  have "map le_tool_name rs = map evidence_tool_name kinds \<and> (\<forall>r \<in> set rs. bound_to ctx r) \<and>
      map le_evidence_id rs = map (\<lambda>j. re_evidence_id (envs j)) [i..<i + length kinds] \<and>
      (\<forall>j < length kinds. serves scenario (kinds ! j) \<longrightarrow> le_payload (rs ! j) = repaired_payload scenario db (kinds ! j))"
    using assms
    by (induction scenario db ctx envs i kinds rs rule: collected_readings.induct)
      (auto simp: collected_reading_def upt_conv_Cons nth_Cons' simp del: upt_Suc)
  then show "map le_tool_name rs = map evidence_tool_name kinds" "\<forall>r \<in> set rs. bound_to ctx r"
    "map le_evidence_id rs = map (\<lambda>j. re_evidence_id (envs j)) [i..<i + length kinds]"
    "\<And>j. j < length kinds \<Longrightarrow> serves scenario (kinds ! j) \<Longrightarrow> le_payload (rs ! j) = repaired_payload scenario db (kinds ! j)"
    by simp_all
qed

lemma filter_distinct_map:
  "distinct (map f xs) \<Longrightarrow> x \<in> set xs \<Longrightarrow> filter (\<lambda>y. f y = f x) xs = [x]"
  by (induction xs) (auto simp: filter_empty_conv image_iff)

text \<open>Records with pairwise different tools, all of this run, bind to the list of their tools.\<close>

lemma bind_own_records:
  assumes "distinct (map le_tool_name rs)" "ctx_incident_id ctx = idn_incident_id incident"
    "ctx_thread_id ctx = idn_thread_id incident"
    and "\<forall>r \<in> set rs. le_incident_id r = idn_incident_id incident \<and> le_thread_id r = idn_thread_id incident \<and>
      le_correlation_id r = ctx_correlation_id ctx"
  shows "bind_records (map le_tool_name rs) incident ctx rs = Inr rs"
proof -
  have m: "matching incident ctx rs (le_tool_name r) = [r]" if "r \<in> set rs" for r
  proof -
    have "matching incident ctx rs (le_tool_name r) = filter (\<lambda>s. le_tool_name s = le_tool_name r) rs"
      using assms(4) by (auto simp: matching_def intro: filter_cong)
    then show ?thesis using filter_distinct_map[OF assms(1) that] by simp
  qed
  then have "map (\<lambda>name. hd (matching incident ctx rs name)) (map le_tool_name rs) = rs"
    by (simp add: map_idI)
  then show ?thesis
    using m assms(2,3) by (auto simp: bind_records_def list_ex_iff)
qed

lemma without_source_fields [simp]:
  "le_tool_name (without_source r) = le_tool_name r" "le_incident_id (without_source r) = le_incident_id r"
  "le_thread_id (without_source r) = le_thread_id r" "le_correlation_id (without_source r) = le_correlation_id r"
  "le_evidence_id (without_source r) = le_evidence_id r" "le_payload (without_source r) = le_payload r"
  "le_actor (without_source r) = le_actor r" "le_permission (without_source r) = le_permission r"
  by (simp_all add: without_source_def)

section \<open>What the proposers see of an injected fault\<close>

fun sees :: "string \<Rightarrow> lab_db \<Rightarrow> string list \<Rightarrow> payload list \<Rightarrow> bool" where
  "sees scenario db [] ps = (ps = [])"
| "sees scenario db (kind # kinds) ps = (case ps of [] \<Rightarrow> False
     | p # ps' \<Rightarrow> (serves scenario kind \<longrightarrow> p = repaired_payload scenario db kind) \<and> sees scenario db kinds ps')"

lemma collected_sees:
  "collected_readings scenario db ctx envs i kinds rs \<Longrightarrow> sees scenario db kinds (map le_payload rs)"
  by (induction scenario db ctx envs i kinds rs rule: collected_readings.induct) (simp_all add: collected_reading_def)

lemma sees_Cons:
  "sees scenario db (kind # kinds) ps \<longleftrightarrow> (\<exists>p ps'. ps = p # ps' \<and>
     (serves scenario kind \<longrightarrow> p = repaired_payload scenario db kind) \<and> sees scenario db kinds ps')"
  by (cases ps) auto

text \<open>A proposer that takes what the collector reads, is not put off by it, and makes a call.\<close>

definition fits :: "string \<Rightarrow> lab_db \<Rightarrow> proposer_class \<Rightarrow> bool" where
  "fits scenario db q = (pq_tools q = map evidence_tool_name (collected_kinds scenario) \<and>
     pq_statement q \<noteq> [] \<and> length (pq_statement q) \<le> 500 \<and>
     (\<forall>ps. sees scenario db (collected_kinds scenario) ps \<longrightarrow> pq_refuses q ps = None \<and> (\<exists>call. pq_call q ps = Inr call)))"

lemma collected_kinds_eval:
  "collected_kinds ''D2'' = [''health'', ''config_diff'', ''logs'']"
  "collected_kinds ''D3'' = [''health'', ''db_pool_metrics'', ''logs'']"
  "collected_kinds ''D5'' = [''disk_metrics'', ''log_volume'', ''health'']"
  "collected_kinds ''D8'' = [''health'']"
  "collected_kinds ''R01'' = [''deployment_diff'', ''database_schema'']"
  "collected_kinds ''R02'' = [''feature_flags'', ''http_metrics'', ''error_logs'']"
  "collected_kinds ''R03'' = [''config_snapshot'', ''error_logs'']"
  "collected_kinds ''R04'' = [''deployment_diff'', ''pod_inventory'']"
  "collected_kinds ''R06'' = [''query_plan'', ''query_metrics'']"
  "collected_kinds ''R07'' = [''replica_status'', ''request_routing'']"
  "collected_kinds ''R08'' = [''credential_status'', ''database_health'']"
  "collected_kinds ''R09'' = [''dependency_metrics'', ''error_logs'']"
  "collected_kinds ''R12'' = [''schema_validation'', ''deployment_diff'']"
  "collected_kinds ''T1'' = [''checkout_health'', ''outbound_note_store'']"
  "collected_kinds ''T2'' = [''cache_health'', ''permission_config'']"
  by code_simp+

lemma served:
  "serves ''D2'' ''health''" "serves ''D2'' ''config_diff''"
  "serves ''D3'' ''health''" "serves ''D3'' ''db_pool_metrics''"
  "serves ''D5'' ''disk_metrics''" "serves ''D5'' ''log_volume''" "serves ''D5'' ''health''"
  "serves ''D8'' ''health''"
  "serves ''R01'' ''deployment_diff''" "serves ''R01'' ''database_schema''"
  "serves ''R02'' ''feature_flags''" "serves ''R02'' ''http_metrics''" "serves ''R02'' ''error_logs''"
  "serves ''R03'' ''config_snapshot''" "serves ''R03'' ''error_logs''"
  "serves ''R04'' ''deployment_diff''" "serves ''R04'' ''pod_inventory''"
  "serves ''R06'' ''query_plan''" "serves ''R06'' ''query_metrics''"
  "serves ''R07'' ''replica_status''" "serves ''R07'' ''request_routing''"
  "serves ''R08'' ''credential_status''" "serves ''R08'' ''database_health''"
  "serves ''R09'' ''dependency_metrics''" "serves ''R09'' ''error_logs''"
  "serves ''R12'' ''schema_validation''" "serves ''R12'' ''deployment_diff''"
  "serves ''T1'' ''checkout_health''" "serves ''T1'' ''outbound_note_store''"
  "serves ''T2'' ''cache_health''" "serves ''T2'' ''permission_config''"
  by code_simp+

lemma tool_names_eval:
  "evidence_tool_name ''cache_health'' = ''observability.cache_health''"
  "evidence_tool_name ''checkout_health'' = ''observability.checkout_health''"
  "evidence_tool_name ''config_diff'' = ''observability.config_diff''"
  "evidence_tool_name ''config_snapshot'' = ''observability.config_snapshot''"
  "evidence_tool_name ''credential_status'' = ''observability.credential_status''"
  "evidence_tool_name ''database_health'' = ''observability.database_health''"
  "evidence_tool_name ''database_schema'' = ''observability.database_schema''"
  "evidence_tool_name ''db_pool_metrics'' = ''metrics.db_pool''"
  "evidence_tool_name ''dependency_metrics'' = ''observability.dependency_metrics''"
  "evidence_tool_name ''deployment_diff'' = ''observability.deployment_diff''"
  "evidence_tool_name ''disk_metrics'' = ''observability.disk_metrics''"
  "evidence_tool_name ''error_logs'' = ''observability.error_logs''"
  "evidence_tool_name ''feature_flags'' = ''observability.feature_flags''"
  "evidence_tool_name ''health'' = ''observability.health''"
  "evidence_tool_name ''http_metrics'' = ''observability.http_metrics''"
  "evidence_tool_name ''log_volume'' = ''observability.log_volume''"
  "evidence_tool_name ''logs'' = ''observability.logs''"
  "evidence_tool_name ''outbound_note_store'' = ''observability.outbound_note_store''"
  "evidence_tool_name ''permission_config'' = ''observability.permission_config''"
  "evidence_tool_name ''pod_inventory'' = ''observability.pod_inventory''"
  "evidence_tool_name ''query_metrics'' = ''observability.query_metrics''"
  "evidence_tool_name ''query_plan'' = ''observability.query_plan''"
  "evidence_tool_name ''replica_status'' = ''observability.replica_status''"
  "evidence_tool_name ''request_routing'' = ''observability.request_routing''"
  "evidence_tool_name ''schema_validation'' = ''observability.schema_validation''"
  by (simp_all add: evidence_tool_name_def)

lemma injected_values:
  "injected_row ''D2'' n t ''config_present'' = Some (PBool False)"
  "injected_row ''D5'' n t ''free_bytes'' = Some (PInt 33554432)" "injected_row ''D5'' n t ''health_status'' = Some (PInt 503)"
  "injected_row ''R01'' n t ''billing_plan_required'' = Some (PBool True)"
  "injected_row ''R02'' n t ''rollout'' = Some (PInt 100)" "injected_row ''R02'' n t ''checkout_5xx_rate'' = Some (PInt 1)"
  "injected_row ''R03'' n t ''config_version'' = Some (PStr ''cfg-b02'')" "injected_row ''R04'' n t ''new_pods'' = Some (PInt 4)"
  "injected_row ''R06'' n t ''p95_ms'' = Some (PInt 2400)" "injected_row ''R07'' n t ''replica_lag_seconds'' = Some (PInt 95)"
  "injected_row ''R08'' n t ''auth_status'' = Some (PStr ''28000'')" "injected_row ''R09'' n t ''http_429_rate'' = Some (PInt 1)"
  "injected_row ''R12'' n t ''error_count'' = Some (PInt 1)" "injected_row ''T1'' n t ''checkout_http_status'' = Some (PInt 503)"
  "injected_row ''T2'' n t ''cache_http_status'' = Some (PInt 502)"
  by (simp_all add: injected_row_def injected_columns_def INJECTED_COLUMNS_def dict_get_def touch_row_def)

lemma injected_pool: "injected_row ''D3'' n t ''pool_used'' = Some (PInt 10)"
  by (simp add: injected_row_def injected_columns_def INJECTED_COLUMNS_def dict_get_def touch_row_def baseline_row_def
      BASELINE_COLUMNS_def column_def counted_def)

lemmas fault_eval = repaired_payload_def sabotage_payload_def t1_payload_def t2_payload_def target_payload_def d5_payload_def
  reliability_payload_def column_def column_is_def injected_values injected_pool injected_faults injected_columns_kept float_of.simps
  payload_is_def field_is_def payload_get_def dict_get_Cons num_eq_def two_payloads_def

lemma honest_proposer_eval:
  "dict_get HONEST_PROPOSERS name = (case dict_get CHECKPOINT_PROPOSERS name of Some q \<Rightarrow> Some q | None \<Rightarrow>
     (case dict_get RELIABILITY_PROPOSERS name of Some q \<Rightarrow> Some q | None \<Rightarrow> dict_get SABOTAGE_PROPOSERS name))"
  by (auto simp: HONEST_PROPOSERS_def dict_get_def map_add_def split: option.splits)

lemmas fits_eval = fits_def collected_kinds_eval served tool_names_eval sees_Cons checkpoint_proposer_def reliability_proposer_def

definition proposer_name :: "string \<Rightarrow> string" where
  "proposer_name scenario = ''Deterministic'' @ scenario @ ''Proposer''"

lemma proposer_names: "(scenario, name) \<in> set PROPOSER_NAMES \<Longrightarrow> name = proposer_name scenario"
proof -
  have "list_all (\<lambda>(s, n). n = proposer_name s) PROPOSER_NAMES" by code_simp
  then show "(scenario, name) \<in> set PROPOSER_NAMES \<Longrightarrow> ?thesis" by (auto simp: list_all_iff)
qed

lemma checkpoint_fits:
  assumes "db_fixtures db (fixture_key scenario) = Some (injected_row scenario n t)"
    and "dict_get CHECKPOINT_PROPOSERS (proposer_name scenario) = Some q" "scenario \<in> {''D2'', ''D3'', ''D5'', ''D8''}"
  shows "fits scenario db q"
  using assms unfolding CHECKPOINT_PROPOSERS_def
  by (elim insertE emptyE; clarsimp simp: dict_get_Cons proposer_name_def)
    (auto simp: fits_eval fault_eval d2_refuses_def d3_refuses_def d5_refuses_def d8_refuses_def APPROVED_API_URL_REF_def
      simp del: sees.simps(2))

lemma reliability_fits:
  assumes "db_fixtures db (fixture_key scenario) = Some (injected_row scenario n t)"
    and "dict_get RELIABILITY_PROPOSERS (proposer_name scenario) = Some q" "scenario \<in> set REPAIRED_BY_FIXTURE"
  shows "fits scenario db q"
  using assms unfolding RELIABILITY_PROPOSERS_def REPAIRED_BY_FIXTURE_def list.set
  by (elim insertE emptyE; clarsimp simp: dict_get_Cons proposer_name_def)
    (auto simp: fits_eval fault_eval simp del: sees.simps(2))

lemma sabotage_fits:
  assumes "db_fixtures db (fixture_key scenario) = Some (injected_row scenario n t)"
    and "dict_get SABOTAGE_PROPOSERS (proposer_name scenario) = Some q" "scenario \<in> {''T1'', ''T2''}"
  shows "fits scenario db q"
  using assms unfolding SABOTAGE_PROPOSERS_def
  by (elim insertE emptyE; clarsimp simp: dict_get_Cons proposer_name_def)
    (auto simp: fits_eval fault_eval simp del: sees.simps(2))

section \<open>The selected proposer\<close>

lemma proposer_tables:
  "map fst CHECKPOINT_PROPOSERS = map proposer_name [''D1'', ''D2'', ''D3'', ''D5'', ''D8'']"
  "map fst RELIABILITY_PROPOSERS = map proposer_name REPAIRED_BY_FIXTURE"
  by (simp_all add: CHECKPOINT_PROPOSERS_def RELIABILITY_PROPOSERS_def REPAIRED_BY_FIXTURE_def proposer_name_def)

definition in_table :: "string \<Rightarrow> (string \<times> proposer_class) list \<Rightarrow> bool" where
  "in_table scenario table = (proposer_name scenario \<in> set (map fst table))"

lemma in_table_get: "\<not> in_table scenario table \<longleftrightarrow> dict_get table (proposer_name scenario) = None"
  by (simp add: in_table_def dict_get_def map_of_eq_None_iff)

lemma repairable_proposer_names:
  assumes "scenario \<in> set REPAIRABLE"
  shows "(scenario, proposer_name scenario) \<in> set PROPOSER_NAMES"
    and "scenario \<in> {''D2'', ''D3'', ''D5'', ''D8''} \<and> in_table scenario CHECKPOINT_PROPOSERS \<or>
      \<not> in_table scenario CHECKPOINT_PROPOSERS \<and> (scenario \<in> set REPAIRED_BY_FIXTURE \<and> in_table scenario RELIABILITY_PROPOSERS \<or>
        \<not> in_table scenario RELIABILITY_PROPOSERS \<and> scenario \<in> {''T1'', ''T2''})"
proof -
  have "list_all (\<lambda>s. (s, proposer_name s) \<in> set PROPOSER_NAMES) REPAIRABLE" by code_simp
  with assms show "(scenario, proposer_name scenario) \<in> set PROPOSER_NAMES" by (simp only: list_all_iff)
  have "list_all (\<lambda>s. s \<in> {''D2'', ''D3'', ''D5'', ''D8''} \<and> in_table s CHECKPOINT_PROPOSERS \<or>
      \<not> in_table s CHECKPOINT_PROPOSERS \<and> (s \<in> set REPAIRED_BY_FIXTURE \<and> in_table s RELIABILITY_PROPOSERS \<or>
        \<not> in_table s RELIABILITY_PROPOSERS \<and> s \<in> {''T1'', ''T2''})) REPAIRABLE"
    unfolding in_table_def proposer_tables by code_simp
  from bspec[OF this[unfolded list_all_iff] assms]
  show "scenario \<in> {''D2'', ''D3'', ''D5'', ''D8''} \<and> in_table scenario CHECKPOINT_PROPOSERS \<or>
      \<not> in_table scenario CHECKPOINT_PROPOSERS \<and> (scenario \<in> set REPAIRED_BY_FIXTURE \<and> in_table scenario RELIABILITY_PROPOSERS \<or>
        \<not> in_table scenario RELIABILITY_PROPOSERS \<and> scenario \<in> {''T1'', ''T2''})" .
qed

lemma selected_proposer:
  assumes "scenario \<in> set REPAIRABLE"
    and "db_fixtures db (fixture_key scenario) = Some (injected_row scenario n t)"
  obtains q where "select_proposer ops scenario = Inr q" "fits scenario db q"
proof -
  note names = repairable_proposer_names[OF assms(1)]
  have "dict_get HONEST_PROPOSERS (proposer_name scenario) \<noteq> None"
    using bspec[OF proposer_call_known[unfolded list_all_iff] names(1)] by (auto split: option.splits)
  then obtain q where q: "dict_get HONEST_PROPOSERS (proposer_name scenario) = Some q" by auto
  have sel: "select_proposer ops scenario = Inr q" by (rule select_named[OF names(1) q])
  from names(2) have "fits scenario db q"
  proof (elim disjE conjE)
    assume s: "scenario \<in> {''D2'', ''D3'', ''D5'', ''D8''}" "in_table scenario CHECKPOINT_PROPOSERS"
    then obtain q' where "dict_get CHECKPOINT_PROPOSERS (proposer_name scenario) = Some q'"
      using in_table_get[of scenario CHECKPOINT_PROPOSERS] by blast
    then show ?thesis using checkpoint_fits[OF assms(2) _ s(1)] q unfolding honest_proposer_eval by simp
  next
    assume s: "\<not> in_table scenario CHECKPOINT_PROPOSERS" "scenario \<in> set REPAIRED_BY_FIXTURE"
      "in_table scenario RELIABILITY_PROPOSERS"
    then obtain q' where "dict_get RELIABILITY_PROPOSERS (proposer_name scenario) = Some q'"
      using in_table_get[of scenario RELIABILITY_PROPOSERS] by blast
    moreover have "dict_get CHECKPOINT_PROPOSERS (proposer_name scenario) = None"
      using s(1) in_table_get by blast
    ultimately show ?thesis using reliability_fits[OF assms(2) _ s(2)] q unfolding honest_proposer_eval by simp
  next
    assume s: "\<not> in_table scenario CHECKPOINT_PROPOSERS" "\<not> in_table scenario RELIABILITY_PROPOSERS"
      "scenario \<in> {''T1'', ''T2''}"
    then have "dict_get SABOTAGE_PROPOSERS (proposer_name scenario) = Some q"
      using q unfolding honest_proposer_eval in_table_get by simp
    then show ?thesis by (rule sabotage_fits[OF assms(2) _ s(3)])
  qed
  then show ?thesis using that sel by blast
qed

text \<open>The capability the scenario is evaluated through takes the call of its honest proposer.\<close>

lemma evaluated_names:
  "capability_names (evaluated_specs sha) = [
     (''R01'', ''operations.rollback_migration_2026_08_10_5''), (''R02'', ''operations.disable_flag_checkout_v2''),
     (''R03'', ''operations.restore_config_PAYMENT_TIMEOUT_MS_3000''), (''R04'', ''operations.rollback_release_api_2_4_1''),
     (''R06'', ''operations.enable_query_plan_baseline_orders''), (''R07'', ''operations.route_customer_reads_primary''),
     (''R08'', ''operations.rotate_credential_db_app_2026_09''), (''R09'', ''operations.enable_partner_backoff_60s''),
     (''R12'', ''operations.activate_local_response_adapter_3_8_3''), (''D2'', ''operations.restore_config''),
     (''D3'', ''operations.restart''), (''D5'', ''operations.cleanup''), (''D8'', ''operations.restart''),
     (''T1'', ''operations.record_checkout_remediation''), (''T2'', ''operations.restore_cache'')]"
  by (simp add: capability_names_def evaluated_specs_def RELIABILITY_SPECS_def CHECKPOINT_SPECS_def SABOTAGE_SPECS_def spec_names)

lemma evaluated_tool:
  assumes "spec \<in> set (evaluated_specs sha)" "(op_scenario_id spec, tool, arguments) \<in> set HONEST_CALLS"
  shows "op_tool_name spec = tool"
proof -
  have "list_all (\<lambda>(s, t). list_all (\<lambda>(s', t', a). s' = s \<longrightarrow> t' = t) HONEST_CALLS) (capability_names (evaluated_specs sha))"
    unfolding evaluated_names by code_simp
  moreover have "(op_scenario_id spec, op_tool_name spec) \<in> set (capability_names (evaluated_specs sha))"
    using assms(1) by (auto simp: capability_names_def)
  ultimately show ?thesis using assms(2) unfolding list_all_iff by fastforce
qed

lemma evaluated_takes:
  assumes "spec \<in> set (evaluated_specs sha)" "(op_scenario_id spec, act_tool_name action, act_arguments action) \<in> set HONEST_CALLS"
  shows "op_binds_arguments spec (act_arguments action)" "op_validate_arguments spec action = None"
proof -
  have "op_binds_arguments spec (act_arguments action) \<and> op_validate_arguments spec action = None"
  proof (cases "op_scenario_id spec \<in> {''D1'', ''D2'', ''D3'', ''D5'', ''D8''}")
    case True
    have c: "(op_scenario_id spec, act_tool_name action, act_arguments action) \<in> set (take 5 HONEST_CALLS)"
      by (rule checkpoint_calls[OF assms(2) True])
    have "spec \<in> set CHECKPOINT_SPECS"
      using assms(1) True by (auto simp: evaluated_specs_def RELIABILITY_SPECS_def SABOTAGE_SPECS_def spec_names)
    then show ?thesis
      using c by (auto simp: CHECKPOINT_SPECS_def HONEST_CALLS_def spec_names checkpoint_capabilities APPROVED_API_URL_REF_def)
  next
    case False
    then have "spec \<in> set (RELIABILITY_SPECS @ SABOTAGE_SPECS sha)"
      using assms(1) by (auto simp: evaluated_specs_def CHECKPOINT_SPECS_def SABOTAGE_SPECS_def spec_names)
    then have "takes_kind spec" using kind_specs by (simp add: list_all_iff)
    moreover have "op_tool_name spec = ''operations.'' @ arguments_kind (act_arguments action)"
      using bspec[OF kind_capability_names[of sha, unfolded list_all_iff] assms(2)] False evaluated_tool[OF assms] by auto
    ultimately show ?thesis by (simp add: takes_kind_def)
  qed
  then show "op_binds_arguments spec (act_arguments action)" "op_validate_arguments spec action = None" by simp_all
qed

section \<open>From the fault to the proposal\<close>

lemma add_sources_member:
  "add_sources env incident i sources ob = Inr ob' \<Longrightarrow> set (ob_sources ob) \<subseteq> set (ob_sources ob') \<and>
     (\<forall>k \<in> fst ` set sources. \<exists>s \<in> set (ob_sources ob'). so_incident_id s = incident \<and> so_kind s = k)"
proof (induction env incident i sources ob rule: add_sources.induct)
  case (2 env incident i kind payload sources ob)
  define row where "row = \<lparr>so_source_id = fx_uuid env i, so_incident_id = incident, so_kind = kind, so_payload = payload,
    so_observed_at = (if incident = ''INC-D6'' \<and> kind = ''health'' then fx_now env - 5 * minute else fx_now env)\<rparr>"
  have "\<not> list_ex (\<lambda>s. so_source_id s = fx_uuid env i) (ob_sources ob)"
    and "add_sources env incident (Suc i) sources (ob\<lparr>ob_sources := ob_sources ob @ [row]\<rparr>) = Inr ob'"
    using "2.prems" unfolding add_sources.simps row_def[symmetric] by (simp_all split: if_split_asm)
  with "2.IH"[folded row_def] have ih: "set (ob_sources ob @ [row]) \<subseteq> set (ob_sources ob')"
      "\<forall>k \<in> fst ` set sources. \<exists>s \<in> set (ob_sources ob'). so_incident_id s = incident \<and> so_kind s = k"
    by simp_all
  have "row \<in> set (ob_sources ob')" "so_incident_id row = incident" "so_kind row = kind" using ih(1) by (simp_all add: row_def)
  with ih show ?case by auto
qed simp

lemma injected_logs:
  assumes "inject_checkpoint ops env scenario ob = Inr ob'"
  shows "has_logs scenario ob'"
  unfolding has_logs_def
proof
  assume s: "scenario \<in> {''D2'', ''D3''}"
  have c: "checkpoint_scenario scenario = Inr (scenario, ''INC-'' @ scenario)"
    using s by (intro repairable_scenario) (auto simp: REPAIRABLE_def)
  have "list_all (\<lambda>s. \<exists>sources. dict_get INJECTED_SOURCES s = Some sources \<and> list_ex (\<lambda>(k, _). k = ''logs'') sources) [''D2'', ''D3'']"
    by (simp add: INJECTED_SOURCES_def dict_get_Cons)
  then obtain sources where sources: "dict_get INJECTED_SOURCES scenario = Some sources" "list_ex (\<lambda>(k, _). k = ''logs'') sources"
    using s by auto
  obtain i ob1 where "add_sources env (''INC-'' @ scenario) i sources ob1 = Inr ob'"
    using assms by (auto simp: inject_checkpoint_def c bind_res_eq_Inr Let_def sources(1) simp del: insert_iff split: if_splits)
  note member = conjunct2[OF add_sources_member[OF this]]
  have "''logs'' \<in> fst ` set sources" using sources(2) by (force simp: list_ex_iff)
  with member show "\<exists>s \<in> set (ob_sources ob'). so_incident_id s = ''INC-'' @ scenario \<and> so_kind s = ''logs''" by blast
qed

lemma read_context_same:
  assumes "read_context incident c = Inr ctx"
  shows "ctx_incident_id ctx = idn_incident_id incident" "ctx_thread_id ctx = idn_thread_id incident"
    "ctx_correlation_id ctx = idn_correlation_id incident" "ctx_actor ctx = cal_actor c" "ctx_permission ctx = READ_PERMISSION"
    "cal_actor c \<noteq> []"
  using assms by (auto simp: read_context_def validate_context_def validated_Inr split: if_splits)

lemma fresh_ids_distinct:
  "fresh_supply envs i ob \<Longrightarrow> distinct (map (\<lambda>j. re_evidence_id (envs j)) [i..<i + n])"
  unfolding distinct_map inj_on_def fresh_supply_def
  by (auto, metis linorder_neqE_nat)

lemma honest_calls_sound:
  assumes "(scenario, tool, arguments) \<in> set HONEST_CALLS"
  shows "arguments_valid arguments" "tool = ''operations.'' @ arguments_kind arguments" "tool \<in> set TOOL_NAMES"
proof -
  have "list_all (\<lambda>(s, t, a). arguments_valid a \<and> t = ''operations.'' @ arguments_kind a \<and> t \<in> set TOOL_NAMES) HONEST_CALLS"
    by code_simp
  from bspec[OF this[unfolded list_all_iff] assms]
  show "arguments_valid arguments" "tool = ''operations.'' @ arguments_kind arguments" "tool \<in> set TOOL_NAMES" by auto
qed

text \<open>A proposer that fits the readings proposes.\<close>

lemma fits_proposes:
  assumes "fits scenario db q" "select_proposer ops scenario = Inr q"
    and "collected_readings scenario db rctx envs i (collected_kinds scenario) rs" "scenario \<in> set REPAIRABLE"
    and "fresh_supply envs i ob" "read_context incident c = Inr rctx" "ctx_incident_id own = idn_incident_id incident"
    and "ctx_thread_id own = idn_thread_id incident" "ctx_correlation_id own = idn_correlation_id incident" "ctx_permission own \<noteq> []"
    and records: "records = map (if serde then without_source else id) rs"
  shows "\<exists>hyp action. propose_by q action_id incident c own records = Inr (hyp, action) \<and>
    (scenario, act_tool_name action, act_arguments action) \<in> set HONEST_CALLS"
proof -
  let ?kinds = "collected_kinds scenario" and ?ids = "map le_evidence_id rs"
  note facts = collected_readings_facts[OF assms(3)] and ctx = read_context_same[OF assms(6)]
  have same: "map le_tool_name records = map le_tool_name rs" "map le_payload records = map le_payload rs"
      "map le_evidence_id records = ?ids"
    unfolding records by auto
  have bound: "\<forall>r \<in> set records. le_incident_id r = idn_incident_id incident \<and> le_thread_id r = idn_thread_id incident \<and>
      le_correlation_id r = ctx_correlation_id own \<and> read_by c r"
    using facts(2) ctx assms(9) unfolding records by (auto simp: bound_to_def read_by_def READ_PERMISSION_def)
  have "distinct (map le_tool_name records)"
    using collected_kinds_served(4)[OF assms(4)] facts(1) same(1) by simp
  then have bind: "bind_records (pq_tools q) incident own records = Inr records"
    using bind_own_records[of records own incident] bound assms(1,7,8) facts(1) same(1) by (simp add: fits_def)
  obtain call where q: "pq_refuses q (map le_payload rs) = None" "pq_call q (map le_payload rs) = Inr call"
    using assms(1) collected_sees[OF assms(3)] by (auto simp: fits_def)
  obtain tool arguments where call: "call = (tool, arguments)" by (cases call)
  have known: "(scenario, tool, arguments) \<in> set HONEST_CALLS" using selected_call[OF assms(2) q(2)] call by simp
  have "?kinds \<noteq> []"
  proof -
    have "list_all (\<lambda>s. collected_kinds s \<noteq> []) REPAIRABLE" by code_simp
    then show ?thesis using assms(4) by (simp add: list_all_iff)
  qed
  then have ids: "?ids \<noteq> []" "distinct ?ids"
    using facts(3) fresh_ids_distinct[OF assms(5)] by (auto simp del: upt_Suc)
  have "validate_hypothesis (proposed_hypothesis q ?ids) = Inr (proposed_hypothesis q ?ids)"
    using assms(1) ids(1) by (cases "pq_statement q") (simp_all add: fits_def validate_hypothesis_def proposed_hypothesis_def validated_def)
  moreover obtain action where action: "validate_action (proposed_action action_id incident c own ?ids tool arguments) = Inr action"
    "act_tool_name action = tool" "act_arguments action = arguments"
    using honest_calls_sound[OF known] ids ctx(6) assms(10) by (simp add: validate_action_def proposed_action_def validated_def)
  ultimately have "propose_by q action_id incident c own records = Inr (proposed_hypothesis q ?ids, action)"
    using bind bound q same(2,3) call by (simp add: propose_by_def list_all_iff)
  then show ?thesis using action(2,3) known by blast
qed


section \<open>The theorem on D8\<close>

definition example_own_context :: tool_call_context where
  "example_own_context = \<lparr>ctx_incident_id = ''INC-D8'', ctx_thread_id = ''t'', ctx_correlation_id = ''c'', ctx_actor = ''reader'',
     ctx_permission = ''operations:write'', ctx_idempotency_key = None\<rparr>"


end
