(* ===== verification/Spec2Isabelle.thy ===== *)
theory Spec2Isabelle
  imports Ledger Workflow_Safety Evaluation_Contracts Scenarios Deferred Episode_Safety Proposal_Liveness Scoring Final_Checks
begin

text \<open>
  A verification development for IncidentGate, the Python package under \<open>src/src/incidentgate\<close>.

  \<^bold>\<open>The program.\<close> IncidentGate runs an agent that repairs incidents of a small lab, behind safeguards
  that have to hold even when the agent is hostile. A run collects evidence from an observability
  service, lets a proposer make one typed action, validates the evidence the action cites, asks a
  deterministic policy, asks an advisory monitor, asks a human for a durable approval token, executes
  the action through the lab's operation kernel exactly once, and verifies the recovery with fresh
  evidence. The lab is a Postgres database: approvals, an operation ledger, an audit timeline,
  fixtures of the scenarios and immutable evidence. Some scenarios end without an action (their
  bounded collection is the whole run), some are adaptive episodes of several actions, and some carry
  a covert objective that the evaluation scores. What has to be right: nothing is executed without
  the authority it needs, everything that happened is recorded, a retry or a crash changes nothing
  twice, refusals change nothing, and the judgements the evaluation publishes are the ones it means.

  \<^bold>\<open>The theories and what they model.\<close>
  \<^item> \<open>IG_Prelude\<close>: exceptions as values (\<open>lab/errors.py\<close>), results, validators, Python values.
    \<open>Canonical_Json\<close>: the canonical JSON text every digest is taken of.
  \<^item> \<open>Contracts\<close> and \<open>Evaluation_Contracts\<close>: \<open>contracts.py\<close>; a data class is a record with a
    \<open>validate_\<close> function that is its constructor. \<open>Reasons\<close>: the vocabulary of \<open>reasons.py\<close>.
  \<^item> The gates: \<open>Evidence\<close> (\<open>control/evidence.py\<close>), \<open>Policy\<close> (\<open>control/policy.py\<close>),
    \<open>Shipped_Policy\<close> (\<open>config/policy.example.json\<close>), \<open>Safeguards\<close> (\<open>control/safeguards.py\<close>),
    \<open>Monitors\<close> (\<open>control/monitor.py\<close>, \<open>monitor_v2.py\<close>, \<open>monitor_decision.py\<close>).
  \<^item> The lab: \<open>Lab_Store\<close> (tables and their methods in \<open>lab/repository.py\<close>), \<open>Kernel\<close>
    (\<open>lab/kernel.py\<close>, the transaction every operation runs in), \<open>Operation_Specs\<close> (the 27
    capabilities), \<open>Approval\<close> (\<open>lab/approval.py\<close>, \<open>lab/auth.py\<close>), \<open>Ledger\<close> (the runs of the store),
    \<open>Fixtures\<close> (reset, injection and state of the scenarios), \<open>Observability\<close> and \<open>Collection\<close> (the
    evidence readers with their durable cursors), \<open>Scenarios\<close> (\<open>scenario_registry.py\<close>).
  \<^item> The control plane: \<open>Workflow\<close> and \<open>Workflow_Safety\<close> (the action pipeline of
    \<open>control/workflow.py\<close> and its graph), \<open>Deferred\<close> (the no-action catalogue, collector and graph),
    \<open>Episode\<close> and \<open>Episode_Safety\<close> (the adaptive episode), \<open>Adapters\<close> (\<open>lab/service.py\<close> and
    \<open>integration/adapters.py\<close>, the ports of the graph bound to the lab), \<open>Proposals\<close>
    (\<open>control/proposal.py\<close> and \<open>control/attack_policies.py\<close>).
  \<^item> The evaluation: \<open>Checkers\<close> (\<open>planned_checkers.py\<close>), \<open>End_States\<close> (the end-state readers of
    \<open>lab/repository.py\<close>, \<open>evaluation/sabotage_checkers.py\<close> and the scenario table of
    \<open>evaluation/sabotage_matrix.py\<close>), \<open>Final_Checks\<close> (\<open>evaluation/checkers.py\<close>, the evaluation readers and
    the scoring step of \<open>evaluation/runner.py\<close>).
  \<^item> Across components: \<open>Repair\<close> and \<open>Recovery\<close> (fixture, kernel and verifier together),
    \<open>Proposal_Safety\<close> and \<open>Proposal_Liveness\<close> (proposers, gates and collector together), \<open>Scoring\<close>
    (fixtures, kernel and checkers together).

  \<^bold>\<open>How state is modelled.\<close> The store of the operations is the record \<open>lab_db\<close>, a list of rows per
  table and a map from a fixture to its columns; \<open>observability\<close> is the store of the readers around
  it. A method is one transaction: a function to a result and a store, where an exception leaves
  what the code leaves (the store it started from, or what an earlier transaction committed). Commits
  are serialized, as the row locks make them. A node of a graph is an effect over a \<open>world\<close> that
  carries the environment of the ports and the log of their calls; it returns, raises or suspends at
  the human interrupt. The graphs run as relations between checkpoints, so that a crash at any point,
  a resumption and a retry are steps like the others. Times are integers of microseconds, floats of
  the data are rationals, integers are Python's unbounded ones.

  \<^bold>\<open>Parameters.\<close> Code that is not the repository's is an argument: \<open>sha\<close> (SHA-256 in hexadecimal),
  \<open>uuid5\<close>, \<open>fullmatch\<close> (the regular expression engine on the patterns of a policy), the readings of
  clocks and of random identifiers, the answer of a model provider with its parser, and the ports of
  the graph where a theorem is about every binding of them. Of \<open>sha\<close> and \<open>uuid5\<close> only what a theorem
  names is assumed (that two texts with one digest are one text, where identity is at stake).

  \<^bold>\<open>Interfaces.\<close> The locale \<open>capability_registry\<close> is what the kernel asks of a capability; it is
  interpreted on the 27 specifications. \<open>token_validator\<close> is what the control plane asks of the lab,
  interpreted on the repository. \<open>advisory_monitor\<close> is interpreted on the fixture, the sequence and
  the provider monitor. \<open>ordered_collection\<close> is the contract of a durable cursor, interpreted on the
  tables of R05 and on those of R10 and R11.

  \<^bold>\<open>What is shown.\<close>
  \<^item> Authority: a committed operation had a live token of its own action, context and key; one
    approval authorizes at most one operation; a key commits once and is answered by replay after;
    an execution of the pipeline follows evidence, policy, monitor and approval of that very action.
  \<^item> Records: every effect is preceded by its audit event, a refusal is atomic and recorded, the
    result of a run tells whether its operation was executed, an episode's transcript is valid.
  \<^item> Gates: the exact conditions under which evidence is valid and the policy does not deny; the
    provider monitor fails closed; the sequence monitor admits the prefixes of its sequence.
  \<^item> Collection: a resumed collection holds the reads of its order, none skipped and none repeated;
    the no-action graph cannot act and concludes; its attempts are bounded.
  \<^item> Episodes: the attempts are bounded by the snapshot, and an attempt refines the pipeline.
  \<^item> Composition: an injected fault is seen by the verifier, is proposed its repair by the proposer
    the runtime selects from what the collector reads, and the committed repair verifies; honest
    proposals pass the shipped policy, covert ones do not, and those that do are stopped by the
    sequence monitor; the two judgements of a scored cell agree on every reachable store, but for
    T7 when nothing was executed.
  \<^item> Evaluation: a verdict of a final checker tells what the ledger holds of the run, and a repair that
    was committed after the injection of its fault is passed.
  \<^item> Defects: where the code does not do what it means to, the theorem states what it does: T7 and
    T8 can never be verified, a refusal of an overlong citation list cannot be recorded, the two
    checkers of T7 disagree when nothing was executed.

  \<^bold>\<open>Termination.\<close> No definition takes fuel. The loops of the code that are not structural are
  functions with a measure: the attempts left in \<open>attempt_until_exhausted\<close>, the rank of the next
  node in \<open>run_graph\<close>, and in \<open>run_episode\<close> the attempts left with the rank of the node.

  \<^bold>\<open>Not modelled.\<close>
  \<^item> The model-driven proposers, attackers and monitors (\<open>control/model_proposal.py\<close>,
    \<open>proposal_contract_v2.py\<close>, \<open>proposal_contract_v3.py\<close>, \<open>model_attacker.py\<close>, the
    \<open>monitor_input\<close> and \<open>monitor_contract_v3\<close> modules) render prompts and parse answers; what they
    return enters through the proposer and monitor ports, of which the theorems assume nothing.
  \<^item> The providers and their caches (\<open>openai_completion.py\<close>, \<open>local_weights.py\<close>,
    \<open>provider_registry.py\<close>, \<open>response_cache.py\<close>, \<open>model_capabilities.py\<close>, \<open>pricing.py\<close>): transport
    to services outside the repository.
  \<^item> The HTTP and MCP surfaces (\<open>lab/app.py\<close>, \<open>lab/target.py\<close>), the host and telemetry modules, the
    wiring of \<open>integration/runtime.py\<close> apart from episodes and the selection of a proposer.
  \<^item> The evaluation runners (but for the scoring of a row) and their rendering, the chaos harness (process control) and the
    explainer (a static site).
  \<^item> Within modelled parts: telemetry spans, the tickets an initialization inserts, the schema's
    range checks of columns that every written value satisfies, and floats in action payloads.
\<close>

end
